(* ===== verification/PyPrelude.thy ===== *)
theory PyPrelude
  imports Main "HOL-Library.Sublist"
begin

text \<open>
  Shared vocabulary of the development: the exceptions the Python sources raise, a
  result type with its sequencing operator, Python's list insertion and deletion, and
  the string methods the sources use (\<open>find\<close>, \<open>replace\<close>, \<open>split\<close>, \<open>strip\<close>, \<open>join\<close>).
  A Python string is a \<^typ>\<open>string\<close>, one \<^typ>\<open>char\<close> per byte of a Python 2 \<open>str\<close> or
  per code point below 256 of a Python 3 \<open>str\<close>.
  The lemmas that carry proofs in several components are collected in \<open>py_list\<close>
  (list surgery) and \<open>py_str\<close> (strings).
\<close>

named_theorems py_list \<open>lengths and contents of lists after insertions and deletions\<close>
named_theorems py_str \<open>facts on the string methods\<close>

section \<open>Exceptions and results\<close>

text \<open>
  The severity levels of the documentation tools' system messages, in increasing order.
\<close>

datatype severity = Info | Warning | Error | Severe

instantiation severity :: linorder
begin

fun severity_level :: "severity \<Rightarrow> nat" where
  "severity_level Info = 1"
| "severity_level Warning = 2"
| "severity_level Error = 3"
| "severity_level Severe = 4"

definition less_eq_severity :: "severity \<Rightarrow> severity \<Rightarrow> bool" where
  "less_eq_severity a b \<longleftrightarrow> severity_level a \<le> severity_level b"

definition less_severity :: "severity \<Rightarrow> severity \<Rightarrow> bool" where
  "less_severity a b \<longleftrightarrow> severity_level a < severity_level b"

instance
proof
  fix a b :: severity
  show "a \<le> b \<Longrightarrow> b \<le> a \<Longrightarrow> a = b"
    by (cases a; cases b) (simp_all add: less_eq_severity_def)
qed (auto simp: less_eq_severity_def less_severity_def)

end

text \<open>
  What a piece of the sources can raise. \<open>UnicodeEncodeError\<close> is a case of Python's \<open>UnicodeError\<close>, so code that
  catches the latter catches both, and \<open>UnicodeError\<close> here stands for the other cases. \<open>DocMessage\<close> is a message of the
  documentation tools raised as an exception (\<open>self.severe\<close>, \<open>self.warning\<close>,
  \<open>SystemMessagePropagation\<close>), with its text.
\<close>

datatype exn =
    ValueError
  | IndexError
  | AttributeError
  | KeyError string
  | IOError string
  | UnicodeError string
  | UnicodeEncodeError string
  | DocMessage severity string
  | OtherError string

type_synonym 'a res = "exn + 'a"

fun rbind :: "'a res \<Rightarrow> ('a \<Rightarrow> 'b res) \<Rightarrow> 'b res" where
  "rbind (Inl e) f = Inl e"
| "rbind (Inr a) f = f a"

fun rmap_list :: "('a \<Rightarrow> 'b res) \<Rightarrow> 'a list \<Rightarrow> 'b list res" where
  "rmap_list f [] = Inr []"
| "rmap_list f (x # xs) = rbind (f x) (\<lambda>y. rbind (rmap_list f xs) (\<lambda>ys. Inr (y # ys)))"

lemma rbind_Inr_iff: "rbind r f = Inr b \<longleftrightarrow> (\<exists>a. r = Inr a \<and> f a = Inr b)"
  by (cases r) auto

lemma rbind_Inl_iff: "rbind r f = Inl e \<longleftrightarrow> r = Inl e \<or> (\<exists>a. r = Inr a \<and> f a = Inl e)"
  by (cases r) auto

lemma rmap_list_Inr_iff:
  "rmap_list f xs = Inr ys \<longleftrightarrow> list_all2 (\<lambda>x y. f x = Inr y) xs ys"
  by (induction xs arbitrary: ys) (auto simp: rbind_Inr_iff list_all2_Cons1)

lemma rmap_list_total:
  "(\<And>x. x \<in> set xs \<Longrightarrow> f x = Inr (g x)) \<Longrightarrow> rmap_list f xs = Inr (map g xs)"
  by (induction xs) auto

lemma rmap_list_Inl:
  "rmap_list f xs = Inl e \<Longrightarrow> \<exists>x \<in> set xs. f x = Inl e"
  by (induction xs) (auto simp: rbind_Inl_iff)

lemma rmap_list_Inl_iff_single:
  assumes "\<And>x e. x \<in> set xs \<Longrightarrow> f x = Inl e \<longleftrightarrow> e = e0 \<and> P x"
  shows "rmap_list f xs = Inl e \<longleftrightarrow> e = e0 \<and> (\<exists>x \<in> set xs. P x)"
  using assms
proof (induction xs)
  case Nil
  then show ?case by simp
next
  case (Cons x xs)
  then have IH: "rmap_list f xs = Inl e \<longleftrightarrow> e = e0 \<and> (\<exists>x \<in> set xs. P x)" by simp
  show ?case
  proof (cases "P x")
    case True
    with Cons.prems [of x e0] have "f x = Inl e0" by simp
    with True show ?thesis by auto
  next
    case False
    with Cons.prems [of x] obtain y where "f x = Inr y" by (cases "f x") auto
    with False IH show ?thesis by (simp add: rbind_Inl_iff)
  qed
qed

lemma ex_less_cong:
  fixes n :: nat
  shows "(\<And>y. y < n \<Longrightarrow> P y \<longleftrightarrow> Q y) \<Longrightarrow> (\<exists>y < n. P y) \<longleftrightarrow> (\<exists>y < n. Q y)"
  by blast

section \<open>List surgery\<close>

text \<open>
  \<open>xs.insert(i, v)\<close> for \<open>0 \<le> i\<close>: an index past the end appends, it never raises.
  \<open>remove_at\<close> is \<open>del xs[i]\<close> for an index in range.
\<close>

definition py_insert :: "nat \<Rightarrow> 'a \<Rightarrow> 'a list \<Rightarrow> 'a list" where
  "py_insert i v xs = take i xs @ v # drop i xs"

definition remove_at :: "nat \<Rightarrow> 'a list \<Rightarrow> 'a list" where
  "remove_at i xs = take i xs @ drop (Suc i) xs"

text \<open>
  \<open>xs[a:b]\<close>: missing bounds are the ends, negative ones count from the end, and bounds out
  of range are clipped.
\<close>

definition slice_index :: "nat \<Rightarrow> int \<Rightarrow> nat" where
  "slice_index n i = nat (if i < 0 then max 0 (i + int n) else min i (int n))"

definition py_slice :: "int option \<Rightarrow> int option \<Rightarrow> 'a list \<Rightarrow> 'a list" where
  "py_slice a b xs =
     (let n = length xs;
          i = (case a of None \<Rightarrow> 0 | Some k \<Rightarrow> slice_index n k);
          j = (case b of None \<Rightarrow> n | Some k \<Rightarrow> slice_index n k)
      in take (j - i) (drop i xs))"

lemma slice_index_le [simp, py_list]: "slice_index n i \<le> n"
  by (auto simp: slice_index_def)

lemma py_slice_all [simp, py_list]: "py_slice None None xs = xs"
  by (simp add: py_slice_def)

lemma py_slice_split [py_list]: "py_slice None (Some k) xs @ py_slice (Some k) None xs = xs"
  by (simp add: py_slice_def Let_def)

lemma length_py_insert [simp, py_list]: "length (py_insert i v xs) = Suc (length xs)"
  by (simp add: py_insert_def)

lemma length_remove_at [simp, py_list]:
  "i < length xs \<Longrightarrow> length (remove_at i xs) = length xs - 1"
  by (simp add: remove_at_def)

lemma py_insert_past_end [py_list]: "length xs \<le> i \<Longrightarrow> py_insert i v xs = xs @ [v]"
  by (simp add: py_insert_def)

lemma set_py_insert [py_list]: "set (py_insert i v xs) = insert v (set xs)"
proof -
  have "set (take i xs) \<union> set (drop i xs) = set xs"
    by (metis append_take_drop_id set_append)
  then show ?thesis by (auto simp: py_insert_def)
qed

lemma filter_py_insert [py_list]: "\<not> P v \<Longrightarrow> filter P (py_insert i v xs) = filter P xs"
  by (metis py_insert_def append_take_drop_id filter.simps(2) filter_append)

lemma remove_at_append [py_list]: "remove_at (length xs) (xs @ y # ys) = xs @ ys"
  by (simp add: remove_at_def)

lemma butlast_snoc_last: "xs \<noteq> [] \<Longrightarrow> butlast xs @ [last xs] = xs"
  by simp

section \<open>Strings\<close>

text \<open>
  White space: the six characters of a Python 2 byte string's \<open>isspace\<close> (also the class
  \<open>\s\<close> of \<open>re\<close> there), and for text strings the further ones below 256.
\<close>

definition is_space :: "char \<Rightarrow> bool" where
  "is_space c \<longleftrightarrow> (of_char c :: nat) \<in> {9, 10, 11, 12, 13, 32}"

text \<open>
  The print statement of Python 2 remembers, after a text that does not end in white space other than a
  blank, that a blank has to come before the next one.
\<close>

definition blank_after :: "string \<Rightarrow> bool" where
  "blank_after s \<longleftrightarrow> s = [] \<or> \<not> is_space (last s) \<or> last s = CHR '' ''"

definition is_space_text :: "char \<Rightarrow> bool" where
  "is_space_text c \<longleftrightarrow> is_space c \<or> (of_char c :: nat) \<in> {28, 29, 30, 31, 133, 160}"

definition is_digit :: "char \<Rightarrow> bool" where
  "is_digit c \<longleftrightarrow> 48 \<le> (of_char c :: nat) \<and> (of_char c :: nat) \<le> 57"

definition is_word_char :: "char \<Rightarrow> bool" where
  \<comment> \<open>the class \<open>\w\<close> on byte strings\<close>
  "is_word_char c \<longleftrightarrow> (let n = (of_char c :: nat) in
     is_digit c \<or> 65 \<le> n \<and> n \<le> 90 \<or> 97 \<le> n \<and> n \<le> 122 \<or> n = 95)"

definition startswith :: "string \<Rightarrow> string \<Rightarrow> bool" where
  "startswith s p \<longleftrightarrow> prefix p s"

definition endswith :: "string \<Rightarrow> string \<Rightarrow> bool" where
  "endswith s p \<longleftrightarrow> suffix p s"

text \<open>\<open>lstrip\<close>, \<open>rstrip\<close> and \<open>strip\<close> over a class of characters.\<close>

definition lstrip_by :: "(char \<Rightarrow> bool) \<Rightarrow> string \<Rightarrow> string" where
  "lstrip_by P s = dropWhile P s"

definition rstrip_by :: "(char \<Rightarrow> bool) \<Rightarrow> string \<Rightarrow> string" where
  "rstrip_by P s = rev (dropWhile P (rev s))"

definition strip_by :: "(char \<Rightarrow> bool) \<Rightarrow> string \<Rightarrow> string" where
  "strip_by P s = rstrip_by P (lstrip_by P s)"

text \<open>\<open>s.find(p)\<close>: \<open>None\<close> stands for \<open>-1\<close>.\<close>

fun py_find :: "string \<Rightarrow> string \<Rightarrow> nat option" where
  "py_find p [] = (if p = [] then Some 0 else None)"
| "py_find p (c # s) = (if prefix p (c # s) then Some 0 else map_option Suc (py_find p s))"

text \<open>\<open>s.replace(p, q)\<close> for a non-empty \<open>p\<close>: every occurrence, from the left, none overlapping.\<close>

function py_replace :: "string \<Rightarrow> string \<Rightarrow> string \<Rightarrow> string" where
  "py_replace p q s =
     (case s of
        [] \<Rightarrow> []
      | c # s' \<Rightarrow>
          if p \<noteq> [] \<and> prefix p s then q @ py_replace p q (drop (length p) s)
          else c # py_replace p q s')"
  by pat_completeness auto
termination
  by (relation "measure (\<lambda>(p, q, s). length s)") auto

declare py_replace.simps [simp del]

text \<open>\<open>s.split(sep)\<close> for a one-character separator, and \<open>sep.join(xs)\<close>.\<close>

fun py_split :: "char \<Rightarrow> string \<Rightarrow> string list" where
  "py_split c [] = [[]]"
| "py_split c (x # xs) =
     (if x = c then [] # py_split c xs
      else (case py_split c xs of [] \<Rightarrow> [[x]] | w # ws \<Rightarrow> (x # w) # ws))"

text \<open>The lines of a file, each with its line break, as \<open>readline\<close> returns them.\<close>

definition file_lines :: "string \<Rightarrow> string list" where
  "file_lines s =
     (let ws = py_split (CHR 0x0A) s in
      List.map (\<lambda>w. w @ [CHR 0x0A]) (butlast ws) @ (if last ws = [] then [] else [last ws]))"

text \<open>\<open>s.split()\<close>: the maximal runs of characters that are not white space.\<close>

fun words_acc :: "(char \<Rightarrow> bool) \<Rightarrow> string \<Rightarrow> string \<Rightarrow> string list" where
  "words_acc P acc [] = (if acc = [] then [] else [rev acc])"
| "words_acc P acc (x # xs) =
     (if P x then (if acc = [] then [] else [rev acc]) @ words_acc P [] xs
      else words_acc P (x # acc) xs)"

definition py_words :: "(char \<Rightarrow> bool) \<Rightarrow> string \<Rightarrow> string list" where
  "py_words P s = words_acc P [] s"

fun py_join :: "string \<Rightarrow> string list \<Rightarrow> string" where
  "py_join sep [] = []"
| "py_join sep [w] = w"
| "py_join sep (w # v # ws) = w @ sep @ py_join sep (v # ws)"

subsection \<open>Laws\<close>

lemma startswith_append [simp, py_str]: "startswith (p @ s) p"
  by (simp add: startswith_def)

lemma strip_by_id:
  assumes "s \<noteq> []" and "\<not> P (hd s)" and "\<not> P (last s)"
  shows "strip_by P s = s"
proof -
  from assms(1,2) have "dropWhile P s = s" by (cases s) auto
  moreover from assms(1,3) have "dropWhile P (rev s) = rev s"
    by (cases "rev s") (auto simp: last_rev [symmetric] hd_rev)
  ultimately show ?thesis
    by (simp add: strip_by_def lstrip_by_def rstrip_by_def)
qed

lemma py_find_Some_split:
  "py_find p s = Some i \<Longrightarrow> s = take i s @ p @ drop (i + length p) s"
proof (induction s arbitrary: i)
  case Nil
  then show ?case by (simp split: if_splits)
next
  case (Cons c s)
  show ?case
  proof (cases "prefix p (c # s)")
    case True
    with Cons.prems have "i = 0" by simp
    with True show ?thesis by (auto simp: prefix_def)
  next
    case False
    with Cons.prems obtain j where "py_find p s = Some j" and i: "i = Suc j" by auto
    then have "s = take j s @ p @ drop (j + length p) s" using Cons.IH by blast
    with i show ?thesis by simp
  qed
qed

lemma py_find_first:
  assumes "py_find p s = Some i"
  obtains (split) u v where "s = u @ p @ v" and "length u = i"
    and "py_find p (u @ p @ v) = Some (length u)"
proof -
  have s: "s = take i s @ p @ drop (i + length p) s" by (rule py_find_Some_split [OF assms])
  have "i \<le> length s" using assms by (induction s arbitrary: i) (auto split: if_splits)
  with s assms split [of "take i s" "drop (i + length p) s"] show thesis by simp
qed

lemma py_find_Some_least:
  "py_find p s = Some i \<Longrightarrow> j < i \<Longrightarrow> \<not> prefix p (drop j s)"
proof (induction s arbitrary: i j)
  case Nil
  then show ?case by (simp split: if_splits)
next
  case (Cons c s)
  then show ?case by (cases j) (auto split: if_splits)
qed

lemma py_find_None_iff: "py_find p s = None \<longleftrightarrow> \<not> sublist p s"
proof (induction s)
  case Nil
  then show ?case by simp
next
  case (Cons c s)
  then show ?case by (auto simp: sublist_Cons_right)
qed

lemma py_find_at:
  assumes "p \<noteq> []" and "\<And>j. j < length u \<Longrightarrow> \<not> prefix p (drop j (u @ p @ v))"
  shows "py_find p (u @ p @ v) = Some (length u)"
  using assms
proof (induction u)
  case Nil
  then show ?case by (cases p) auto
next
  case (Cons c u)
  have "\<not> prefix p (drop 0 ((c # u) @ p @ v))"
    using Cons.prems(2) [of 0] by auto
  moreover have "py_find p (u @ p @ v) = Some (length u)"
  proof (rule Cons.IH [OF Cons.prems(1)])
    fix j assume "j < length u"
    then show "\<not> prefix p (drop j (u @ p @ v))"
      using Cons.prems(2) [of "Suc j"] by simp
  qed
  ultimately show ?case by simp
qed

lemma py_replace_Nil [simp]: "py_replace p q [] = []"
  by (subst py_replace.simps) simp

lemma py_replace_absent:
  "py_find p s = None \<Longrightarrow> py_replace p q s = s"
proof (induction s)
  case Nil
  then show ?case by simp
next
  case (Cons c s)
  then show ?case
    by (subst py_replace.simps) (auto split: if_splits)
qed

lemma py_replace_skip:
  "\<not> prefix p (c # s) \<Longrightarrow> py_replace p q (c # s) = c # py_replace p q s"
  by (subst py_replace.simps) simp

lemma py_replace_hit:
  "p \<noteq> [] \<Longrightarrow> py_replace p q (p @ s) = q @ py_replace p q s"
  by (cases p) (subst py_replace.simps, simp)+

lemma py_replace_once:
  assumes "p \<noteq> []" and "py_find p (u @ p @ v) = Some (length u)" and "py_find p v = None"
  shows "py_replace p q (u @ p @ v) = u @ q @ v"
  using assms(2)
proof (induction u)
  case Nil
  with assms show ?case by (simp add: py_replace_hit py_replace_absent)
next
  case (Cons c u)
  then show ?case by (auto simp: py_replace_skip split: if_splits)
qed

lemma py_split_nonempty [simp]: "py_split c s \<noteq> []"
  by (induction s) (auto split: list.splits)

lemma py_join_Cons: "ws \<noteq> [] \<Longrightarrow> py_join sep (w # ws) = w @ sep @ py_join sep ws"
  by (cases ws) auto

lemma py_join_map_Cons:
  "py_join [c] ((x # w) # ws) = x # py_join [c] (w # ws)"
  by (cases ws) auto

lemma py_join_split [py_str]: "py_join [c] (py_split c s) = s"
proof (induction s)
  case Nil
  then show ?case by simp
next
  case (Cons x s)
  then show ?case
    by (cases "py_split c s") (auto simp: py_join_Cons py_join_map_Cons)
qed

lemma py_split_no_sep: "w \<in> set (py_split c s) \<Longrightarrow> c \<notin> set w"
proof (induction s arbitrary: w)
  case Nil
  then show ?case by simp
next
  case (Cons x s)
  obtain v ws where vs: "py_split c s = v # ws"
    by (cases "py_split c s") auto
  with Cons show ?case by (auto split: if_splits)
qed

lemma py_split_word: "c \<notin> set w \<Longrightarrow> py_split c w = [w]"
  by (induction w) auto

lemma py_split_append:
  "c \<notin> set w \<Longrightarrow> py_split c (w @ c # s) = w # py_split c s"
  by (induction w) auto

lemma py_split_join [py_str]:
  "ws \<noteq> [] \<Longrightarrow> (\<And>w. w \<in> set ws \<Longrightarrow> c \<notin> set w) \<Longrightarrow> py_split c (py_join [c] ws) = ws"
proof (induction ws)
  case Nil
  then show ?case by simp
next
  case (Cons w ws)
  then show ?case
    by (cases ws) (auto simp: py_split_word py_split_append)
qed

lemma words_acc_no_space:
  "w \<in> set (words_acc P acc s) \<Longrightarrow> (\<And>c. c \<in> set acc \<Longrightarrow> \<not> P c) \<Longrightarrow> w \<noteq> [] \<and> (\<forall>c \<in> set w. \<not> P c)"
proof (induction s arbitrary: acc)
  case Nil
  then show ?case by (auto split: if_splits)
next
  case (Cons x s)
  show ?case
  proof (cases "P x")
    case True
    with Cons.prems consider "w = rev acc" "acc \<noteq> []" | "w \<in> set (words_acc P [] s)"
      by (auto split: if_splits)
    then show ?thesis
    proof cases
      case 1
      with Cons.prems show ?thesis by auto
    next
      case 2
      then show ?thesis by (rule Cons.IH) simp
    qed
  next
    case False
    show ?thesis
      by (rule Cons.IH [of "x # acc"]) (use False Cons.prems in auto)
  qed
qed

lemma py_words_no_space:
  "w \<in> set (py_words P s) \<Longrightarrow> w \<noteq> [] \<and> (\<forall>c \<in> set w. \<not> P c)"
  unfolding py_words_def by (rule words_acc_no_space) auto

end
