(* ===== verification/DocTree.thy ===== *)
theory DocTree
  imports PyPrelude
begin

text \<open>
  The documentation trees the directives build and take apart: a node has a kind (its
  class together with the attributes the sources read or write) and its children in
  order. The kinds are a type parameter, each component gives its own.
\<close>

datatype 'k tree = Nd (kind: 'k) (kids: "'k tree list")

text \<open>The nodes of a tree, parents first, children left to right.\<close>

fun preorder :: "'k tree \<Rightarrow> 'k tree list" where
  "preorder (Nd k ts) = Nd k ts # concat (map preorder ts)"

text \<open>\<open>node += child\<close> and \<open>node.insert(0, child)\<close>.\<close>

definition add_kid :: "'k tree \<Rightarrow> 'k tree \<Rightarrow> 'k tree" where
  "add_kid t c = Nd (kind t) (kids t @ [c])"

definition push_kid :: "'k tree \<Rightarrow> 'k tree \<Rightarrow> 'k tree" where
  "push_kid t c = Nd (kind t) (c # kids t)"

lemma kind_add_kid [simp]: "kind (add_kid t c) = kind t"
  by (simp add: add_kid_def)

lemma kids_add_kid [simp]: "kids (add_kid t c) = kids t @ [c]"
  by (simp add: add_kid_def)

lemma kind_push_kid [simp]: "kind (push_kid t c) = kind t"
  by (simp add: push_kid_def)

lemma kids_push_kid [simp]: "kids (push_kid t c) = c # kids t"
  by (simp add: push_kid_def)

lemma preorder_self [simp]: "t \<in> set (preorder t)"
  by (cases t) simp

lemma preorder_kid: "c \<in> set (kids t) \<Longrightarrow> c \<in> set (preorder t)"
  by (cases t) (auto intro: bexI [where x = c])

end
