(* ===== verification/PyNumbers.thy ===== *)
theory PyNumbers
  imports PyPrelude
begin

text \<open>
  Python's conversions between numbers and text: \<open>str(n)\<close>, the format codes \<open>x\<close> and
  \<open>d\<close>, \<open>int(s)\<close> and \<open>int(s, 16)\<close>. The positional notation is stated once, as a
  \<open>locale\<close> over a base and its digit characters; the decimal and the hexadecimal
  conversions of the sources are its two interpretations.
\<close>

section \<open>Positional notation\<close>

text \<open>
  \<open>show_pos\<close> writes a number in base \<open>b\<close>, most significant digit first;
  \<open>read_pos\<close> reads a digit string into an accumulator and fails on any other character.
\<close>

function show_pos :: "nat \<Rightarrow> (nat \<Rightarrow> char) \<Rightarrow> nat \<Rightarrow> string" where
  "show_pos b enc n =
     (if b < 2 \<or> n < b then [enc n] else show_pos b enc (n div b) @ [enc (n mod b)])"
  by pat_completeness auto
termination
  by (relation "measure (\<lambda>(b, enc, n). n)") auto

declare show_pos.simps [simp del]

fun read_pos :: "nat \<Rightarrow> (char \<Rightarrow> nat option) \<Rightarrow> nat \<Rightarrow> string \<Rightarrow> nat option" where
  "read_pos b dec acc [] = Some acc"
| "read_pos b dec acc (c # cs) =
     (case dec c of None \<Rightarrow> None | Some d \<Rightarrow> read_pos b dec (acc * b + d) cs)"

lemma read_pos_append:
  "read_pos b dec acc (xs @ ys) = Option.bind (read_pos b dec acc xs) (\<lambda>a. read_pos b dec a ys)"
  by (induction xs arbitrary: acc) (auto split: option.split)

lemma read_pos_Some_digits:
  "read_pos b dec acc s = Some n \<Longrightarrow> c \<in> set s \<Longrightarrow> dec c \<noteq> None"
  by (induction s arbitrary: acc) (auto split: option.splits)

locale positional =
  fixes base :: nat
    and enc :: "nat \<Rightarrow> char"
    and dec :: "char \<Rightarrow> nat option"
  assumes base_ge_2: "2 \<le> base"
    and dec_enc: "d < base \<Longrightarrow> dec (enc d) = Some d"
begin

lemma read_show: "read_pos base dec 0 (show_pos base enc n) = Some n"
proof (induction n rule: less_induct)
  case (less n)
  show ?case
  proof (cases "n < base")
    case True
    then show ?thesis by (simp add: show_pos.simps [of base enc n] dec_enc)
  next
    case False
    then have "n div base < n" using base_ge_2 by simp
    then have "read_pos base dec 0 (show_pos base enc (n div base)) = Some (n div base)"
      by (rule less.IH)
    moreover have "dec (enc (n mod base)) = Some (n mod base)"
      using base_ge_2 by (intro dec_enc) simp
    ultimately show ?thesis
      using False base_ge_2
      by (simp add: show_pos.simps [of base enc n] read_pos_append)
  qed
qed

lemma show_nonempty: "show_pos base enc n \<noteq> []"
  by (simp add: show_pos.simps [of base enc n])

lemma show_digits: "c \<in> set (show_pos base enc n) \<Longrightarrow> dec c \<noteq> None"
  by (rule read_pos_Some_digits [OF read_show])

lemma show_inj: "show_pos base enc m = show_pos base enc n \<longleftrightarrow> m = n"
  by (metis read_show option.inject)

end

section \<open>The digit characters\<close>

definition digit_char :: "nat \<Rightarrow> char" where
  "digit_char d = ''0123456789abcdef'' ! d"

definition dec_val :: "char \<Rightarrow> nat option" where
  "dec_val c = (let n = of_char c in if 48 \<le> n \<and> n \<le> 57 then Some (n - 48) else None)"

text \<open>The digits of \<open>int(s, 16)\<close>: both cases.\<close>

definition hex_val :: "char \<Rightarrow> nat option" where
  "hex_val c = (let n = of_char c in
     if 48 \<le> n \<and> n \<le> 57 then Some (n - 48)
     else if 97 \<le> n \<and> n \<le> 102 then Some (n - 87)
     else if 65 \<le> n \<and> n \<le> 70 then Some (n - 55)
     else None)"

lemma dec_val_digit_char: "d < 10 \<Longrightarrow> dec_val (digit_char d) = Some d"
  by (simp add: numeral_eq_Suc less_Suc_eq) (auto simp: dec_val_def digit_char_def)

lemma hex_val_digit_char: "d < 16 \<Longrightarrow> hex_val (digit_char d) = Some d"
  by (simp add: numeral_eq_Suc less_Suc_eq) (auto simp: hex_val_def digit_char_def)

text \<open>\<open>str(n)\<close> and \<open>"\{:x\}".format(n)\<close> for a natural number, \<open>str(i)\<close> for an integer.\<close>

definition str_nat :: "nat \<Rightarrow> string" where
  "str_nat n = show_pos 10 digit_char n"

definition hex_nat :: "nat \<Rightarrow> string" where
  "hex_nat n = show_pos 16 digit_char n"

definition str_int :: "int \<Rightarrow> string" where
  "str_int i = (if i < 0 then CHR ''-'' # str_nat (nat (- i)) else str_nat (nat i))"

interpretation decimal: positional 10 digit_char dec_val
  by unfold_locales (auto simp: dec_val_digit_char)

interpretation hexadecimal: positional 16 digit_char hex_val
  by unfold_locales (auto simp: hex_val_digit_char)

lemma read_str_nat: "read_pos 10 dec_val 0 (str_nat n) = Some n"
  unfolding str_nat_def by (rule decimal.read_show)

lemma read_hex_nat: "read_pos 16 hex_val 0 (hex_nat n) = Some n"
  unfolding hex_nat_def by (rule hexadecimal.read_show)

lemma str_nat_digits: "c \<in> set (str_nat n) \<Longrightarrow> dec_val c \<noteq> None"
  unfolding str_nat_def by (rule decimal.show_digits)

lemma hex_nat_digits: "c \<in> set (hex_nat n) \<Longrightarrow> hex_val c \<noteq> None"
  unfolding hex_nat_def by (rule hexadecimal.show_digits)

lemma str_nat_nonempty [simp]: "str_nat n \<noteq> []"
  unfolding str_nat_def by (rule decimal.show_nonempty)

lemma hex_nat_nonempty [simp]: "hex_nat n \<noteq> []"
  unfolding hex_nat_def by (rule hexadecimal.show_nonempty)

section \<open>Reading integers\<close>

text \<open>
  \<open>int(s)\<close>: white space around, one optional sign, then decimal digits with single
  underscores allowed between them; everything else raises \<open>ValueError\<close>.
\<close>

fun read_digits :: "nat \<Rightarrow> string \<Rightarrow> nat option" where
  "read_digits acc [] = Some acc"
| "read_digits acc (c # cs) =
     (case dec_val c of
        Some d \<Rightarrow> read_digits (acc * 10 + d) cs
      | None \<Rightarrow>
          if c = CHR ''_'' then
            (case cs of
               [] \<Rightarrow> None
             | x # xs \<Rightarrow> if dec_val x = None then None else read_digits acc cs)
          else None)"

fun read_unsigned :: "string \<Rightarrow> nat option" where
  "read_unsigned [] = None"
| "read_unsigned (c # cs) = (if dec_val c = None then None else read_digits 0 (c # cs))"

definition py_int :: "string \<Rightarrow> int res" where
  "py_int s =
     (let t = strip_by is_space_text s;
          r = (case t of
                 [] \<Rightarrow> None
               | c # cs \<Rightarrow>
                   if c = CHR ''-'' then map_option (\<lambda>n. - int n) (read_unsigned cs)
                   else if c = CHR ''+'' then map_option int (read_unsigned cs)
                   else map_option int (read_unsigned t))
      in case r of None \<Rightarrow> Inl ValueError | Some i \<Rightarrow> Inr i)"

lemma read_digits_plain:
  "\<forall>c \<in> set s. dec_val c \<noteq> None \<Longrightarrow> read_digits acc s = read_pos 10 dec_val acc s"
  by (induction s arbitrary: acc) (auto split: option.split)

lemma dec_val_not_space: "dec_val c \<noteq> None \<Longrightarrow> \<not> is_space_text c"
  by (auto simp: dec_val_def is_space_text_def is_space_def Let_def split: if_splits)

lemma dec_val_not_sign: "dec_val c \<noteq> None \<Longrightarrow> c \<noteq> CHR ''-'' \<and> c \<noteq> CHR ''+''"
  by (auto simp: dec_val_def)

lemma read_unsigned_str_nat: "read_unsigned (str_nat n) = Some n"
proof -
  have all: "\<forall>c \<in> set (str_nat n). dec_val c \<noteq> None"
    using str_nat_digits by blast
  obtain c cs where s: "str_nat n = c # cs" by (cases "str_nat n") auto
  then have "read_unsigned (str_nat n) = read_digits 0 (str_nat n)"
    using all by auto
  also have "\<dots> = Some n"
    using all by (simp add: read_digits_plain read_str_nat)
  finally show ?thesis .
qed

lemma py_int_str_int: "py_int (str_int i) = Inr i"
proof -
  let ?s = "str_nat (nat \<bar>i\<bar>)"
  have dig: "dec_val (hd ?s) \<noteq> None" "dec_val (last ?s) \<noteq> None"
    using str_nat_digits [of _ "nat \<bar>i\<bar>"] by simp_all
  obtain c cs where s: "?s = c # cs" by (cases ?s) auto
  show ?thesis
  proof (cases "i < 0")
    case True
    then have str: "str_int i = CHR ''-'' # ?s" by (simp add: str_int_def)
    have "strip_by is_space_text (str_int i) = str_int i"
      using dig dec_val_not_space unfolding str
      by (intro strip_by_id) (auto simp: is_space_text_def is_space_def)
    with str True show ?thesis
      by (simp add: py_int_def read_unsigned_str_nat)
  next
    case False
    then have str: "str_int i = ?s" by (simp add: str_int_def)
    have "strip_by is_space_text (str_int i) = str_int i"
      using dig dec_val_not_space unfolding str by (intro strip_by_id) auto
    moreover have "c \<noteq> CHR ''-'' \<and> c \<noteq> CHR ''+''"
      using dig s dec_val_not_sign by simp
    ultimately show ?thesis
      using str False read_unsigned_str_nat [of "nat \<bar>i\<bar>"]
      unfolding s by (simp add: py_int_def)
  qed
qed

end
