(* ===== verification/FlatTable.thy ===== *)
theory FlatTable
  imports DocTree PyNumbers
begin

text \<open>
  The \<open>flat-table\<close> directive, \<open>Documentation/sphinx/rstFlatTable.py\<close>: the roles
  \<open>cspan\<close> and \<open>rspan\<close>, the parser of the two-level bullet list, the rounding off of the
  table definition (reserved slots of spanning cells, automatic span or fill of short
  rows), and the builder of the output table.
  The services of docutils the directive inherits (\<open>make_title\<close>, \<open>nested_parse\<close>,
  \<open>get_column_widths\<close>) are parameters of \<open>ft_run\<close>.
\<close>

section \<open>Data\<close>

text \<open>
  The node classes the source distinguishes or creates. \<open>KEntry\<close> holds the attributes
  \<open>classes\<close>, \<open>morerows\<close> and \<open>morecols\<close> (\<open>None\<close>: the attribute is not set), \<open>KColspec\<close> the
  column width and whether \<open>stub\<close> is set.
\<close>

datatype tkind =
    KText string
  | KParagraph
  | KComment
  | KSystemMessage severity string int
  | KLiteralBlock string
  | KTarget string
  | KBulletList
  | KListItem
  | KColSpan int
  | KRowSpan int
  | KTitle
  | KTable
  | KTgroup nat
  | KColspec int bool
  | KThead
  | KTbody
  | KRow
  | KEntry "string list" "int option" "int option"
  | KElement string

type_synonym tnode = "tkind tree"

text \<open>
  The third component of a cell is a list of nodes, or (for the cells that \<open>fill-cells\<close>
  inserts) a single node; \<open>entry.extend\<close> iterates over either.
\<close>

datatype cell_content = Elements "tnode list" | ANode tnode

fun content_items :: "cell_content \<Rightarrow> tnode list" where
  "content_items (Elements ns) = ns"
| "content_items (ANode n) = kids n"

type_synonym cell = "int \<times> int \<times> cell_content"
type_synonym trow = "cell option list"

record ft_options =
  header_rows :: "nat option"
  stub_columns :: "nat option"
  fill_cells :: bool

record ft_directive =
  dname :: string
  block_text :: string
  lineno :: int
  content :: "string list"
  options :: ft_options

record table_builder =
  rows :: "trow list"
  max_cols :: nat

definition new_builder :: table_builder where
  "new_builder = \<lparr>rows = [], max_cols = 0\<rparr>"

section \<open>The roles \<open>cspan\<close> and \<open>rspan\<close>\<close>

text \<open>A role returns its nodes and its messages, or raises what \<open>int(text)\<close> raises.\<close>

definition c_span :: "string \<Rightarrow> (tnode list \<times> tnode list) res" where
  "c_span txt = rbind (py_int txt) (\<lambda>n. Inr ([Nd (KColSpan n) []], []))"

definition r_span :: "string \<Rightarrow> (tnode list \<times> tnode list) res" where
  "r_span txt = rbind (py_int txt) (\<lambda>n. Inr ([Nd (KRowSpan n) []], []))"

section \<open>Parsing\<close>

definition raise_error :: "string \<Rightarrow> 'a res" where
  "raise_error msg = Inl (DocMessage Error msg)"

text \<open>
  The loop over the children of the first element of a cell. It deletes the span nodes
  from the list it iterates over; the iteration goes by position, so the element that
  follows a deleted one moves into its place and is not looked at.
\<close>

function scan_spans :: "nat \<Rightarrow> tnode list \<Rightarrow> int \<Rightarrow> int \<Rightarrow> int \<times> int \<times> tnode list" where
  "scan_spans i es cspan rspan =
     (if i < length es then
        (case kind (es ! i) of
           KColSpan n \<Rightarrow> scan_spans (Suc i) (remove_at i es) n rspan
         | KRowSpan n \<Rightarrow> scan_spans (Suc i) (remove_at i es) cspan n
         | _ \<Rightarrow> scan_spans (Suc i) es cspan rspan)
      else (cspan, rspan, es))"
  by pat_completeness auto
termination
  by (relation "measure (\<lambda>(i, es, c, r). length es - i)") auto

declare scan_spans.simps [simp del]

definition parse_cell_item :: "tnode \<Rightarrow> int \<times> int \<times> tnode list" where
  "parse_cell_item item =
     (case kids item of
        [] \<Rightarrow> (0, 0, [])
      | e # es \<Rightarrow>
          (let (cspan, rspan, es') = scan_spans 0 (kids e) 0 0
           in (cspan, rspan, Nd (kind e) es' # es)))"

text \<open>
  The loop over the children of a row item: \<open>(error, childNo, cell, target)\<close>, left at the
  first child of another class.
\<close>

fun scan_row :: "tnode list \<Rightarrow> nat \<Rightarrow> tnode option \<Rightarrow> tnode option
    \<Rightarrow> bool \<times> nat \<times> tnode option \<times> tnode option" where
  "scan_row [] childNo cell target = (False, childNo, cell, target)"
| "scan_row (child # rest) childNo cell target =
     (case kind child of
        KComment \<Rightarrow> scan_row rest childNo cell target
      | KSystemMessage _ _ _ \<Rightarrow> scan_row rest childNo cell target
      | KTarget _ \<Rightarrow> scan_row rest childNo cell (Some child)
      | KBulletList \<Rightarrow> scan_row rest (childNo + 1) (Some child) target
      | _ \<Rightarrow> (True, childNo, cell, target))"

definition two_level_msg :: "string \<Rightarrow> nat \<Rightarrow> string" where
  "two_level_msg name rowNum =
     ''Error parsing content block for the \"'' @ name @ ''\" directive: ''
     @ ''two-level bullet list expected, but row '' @ str_nat (rowNum + 1)
     @ '' does not contain a second-level bullet list.''"

definition row_cell :: "tnode option \<Rightarrow> tnode \<Rightarrow> cell" where
  "row_cell target cellItem =
     (let (cspan, rspan, cellElements) = parse_cell_item cellItem;
          cellElements' = (case target of None \<Rightarrow> cellElements | Some t \<Rightarrow> t # cellElements)
      in (cspan, rspan, Elements cellElements'))"

definition parse_row_item :: "string \<Rightarrow> tnode \<Rightarrow> nat \<Rightarrow> trow res" where
  "parse_row_item name rowItem rowNum =
     (let (error, childNo, cell, target) = scan_row (kids rowItem) 0 None None
      in if childNo \<noteq> 1 \<or> error then raise_error (two_level_msg name rowNum)
         else (case cell of
                 None \<Rightarrow> Inl (OtherError ''TypeError'')
               | Some bl \<Rightarrow> Inr (map (Some \<circ> row_cell target) (kids bl))))"

fun parse_row_items :: "string \<Rightarrow> nat \<Rightarrow> tnode list \<Rightarrow> trow list res" where
  "parse_row_items name rowNum [] = Inr []"
| "parse_row_items name rowNum (rowItem # rest) =
     rbind (parse_row_item name rowItem rowNum) (\<lambda>row.
     rbind (parse_row_items name (rowNum + 1) rest) (\<lambda>more.
     Inr (row # more)))"

definition one_list_msg :: "string \<Rightarrow> string" where
  "one_list_msg name =
     ''Error parsing content block for the \"'' @ name @ ''\" directive: ''
     @ ''exactly one bullet list expected.''"

section \<open>Rounding off the table definition\<close>

text \<open>
  \<open>self.rows[y].insert(x, None)\<close> under \<open>try\<close>: no such row is passed over, a position past
  the end of the row appends.
\<close>

definition row_insert :: "nat \<Rightarrow> nat \<Rightarrow> trow list \<Rightarrow> trow list" where
  "row_insert y x rs = (if y < length rs then rs[y := py_insert x None (rs ! y)] else rs)"

text \<open>The two span loops for the cell at row \<open>y\<close>, position \<open>x\<close>.\<close>

definition span_right :: "nat \<Rightarrow> nat \<Rightarrow> int \<Rightarrow> trow list \<Rightarrow> trow list" where
  "span_right y x cspan rs = fold (\<lambda>c. row_insert y (x + c + 1)) [0..<nat cspan] rs"

definition span_below :: "nat \<Rightarrow> nat \<Rightarrow> int \<Rightarrow> int \<Rightarrow> trow list \<Rightarrow> trow list" where
  "span_below y x cspan rspan rs =
     fold (\<lambda>r. fold (\<lambda>c. row_insert (y + r + 1) (x + c)) [0..<nat (cspan + 1)])
       [0..<nat rspan] rs"

definition span_cell :: "nat \<Rightarrow> nat \<Rightarrow> int \<Rightarrow> int \<Rightarrow> trow list \<Rightarrow> trow list" where
  "span_cell y x cspan rspan rs = span_below y x cspan rspan (span_right y x cspan rs)"


text \<open>
  A reserved slot is put into a row without touching the cells of the row. The facts
  about repeated insertion are stated over any insertion with that contract.
\<close>

fun row_cells :: "'a option list \<Rightarrow> 'a list" where
  "row_cells [] = []"
| "row_cells (None # r) = row_cells r"
| "row_cells (Some c # r) = c # row_cells r"

locale slot_inserter =
  fixes ins :: "'i \<Rightarrow> 'r \<Rightarrow> 'r"
    and len :: "'r \<Rightarrow> nat"
    and cells :: "'r \<Rightarrow> 'c list"
  assumes len_ins: "len (ins i r) = Suc (len r)"
    and cells_ins: "cells (ins i r) = cells r"
begin

lemma len_fold_ins: "len (fold ins is r) = len r + length is"
  by (induction "is" arbitrary: r) (auto simp: len_ins)

lemma cells_fold_ins: "cells (fold ins is r) = cells r"
  by (induction "is" arbitrary: r) (auto simp: cells_ins)

end

lemma row_cells_append [simp]: "row_cells (xs @ ys) = row_cells xs @ row_cells ys"
  by (induction xs rule: row_cells.induct) auto

lemma row_cells_py_insert_None [simp]: "row_cells (py_insert i None r) = row_cells r"
  by (metis append_take_drop_id py_insert_def row_cells.simps(2) row_cells_append)

lemma row_cells_replicate_None [simp]: "row_cells (replicate n None) = []"
  by (induction n) auto

lemma row_cells_map_Some [simp]: "row_cells (map Some cs) = cs"
  by (induction cs) auto

lemma set_row_cells: "set (row_cells r) = {c. Some c \<in> set r}"
  by (induction r rule: row_cells.induct) auto

interpretation slot: slot_inserter "\<lambda>i. py_insert i None" length "row_cells :: 'a option list \<Rightarrow> 'a list"
  by unfold_locales auto

lemma length_row_insert [simp]: "length (row_insert y x rs) = length rs"
  by (simp add: row_insert_def)

lemma nth_row_insert:
  "z < length rs \<Longrightarrow> row_insert y x rs ! z = (if z = y then py_insert x None (rs ! z) else rs ! z)"
  by (simp add: row_insert_def)

text \<open>A run of insertions into row \<open>y\<close> is a run of insertions into that row alone.\<close>

lemma length_fold_row_insert [simp]:
  "length (fold (\<lambda>c. row_insert y (f c)) cs rs) = length rs"
  by (induction cs arbitrary: rs) auto

lemma nth_fold_row_insert:
  "z < length rs \<Longrightarrow> fold (\<lambda>c. row_insert y (f c)) cs rs ! z
     = (if z = y then fold (\<lambda>i. py_insert i None) (map f cs) (rs ! z) else rs ! z)"
  by (induction cs arbitrary: rs) (auto simp: nth_row_insert)

lemma fold_insert_run:
  "x < length r \<Longrightarrow> fold (\<lambda>i. py_insert i None) (map (\<lambda>c. x + c + 1) [0..<n]) r
     = take (Suc x) r @ replicate n None @ drop (Suc x) r"
proof (induction n)
  case 0
  then show ?case by simp
next
  case (Suc n)
  then show ?case
    by (simp add: py_insert_def replicate_append_same)
qed

lemma length_span_right [simp]: "length (span_right y x cs rs) = length rs"
  by (simp add: span_right_def)

lemma nth_span_right:
  assumes "z < length rs" and "x < length (rs ! y)"
  shows "span_right y x cs rs ! z =
    (if z = y then take (Suc x) (rs ! y) @ replicate (nat cs) None @ drop (Suc x) (rs ! y)
     else rs ! z)"
  using assms fold_insert_run [OF assms(2), of "nat cs"]
  by (simp add: span_right_def nth_fold_row_insert)

text \<open>Row \<open>z\<close> below a cell gets \<open>cspan + 1\<close> slots if the cell's row span reaches it.\<close>

definition below_slots :: "nat \<Rightarrow> nat \<Rightarrow> int \<Rightarrow> int \<Rightarrow> nat \<Rightarrow> trow \<Rightarrow> trow" where
  "below_slots y x cs rs z r =
     (if y < z \<and> z \<le> y + nat rs
      then fold (\<lambda>i. py_insert i None) (map (\<lambda>c. x + c) [0..<nat (cs + 1)]) r else r)"

lemma length_span_below [simp]: "length (span_below y x cs rs rws) = length rws"
proof -
  have "length (fold (\<lambda>r. fold (\<lambda>c. row_insert (y + r + 1) (x + c)) [0..<m]) ns rws) = length rws"
    for ns m
    by (induction ns arbitrary: rws) auto
  then show ?thesis by (simp add: span_below_def)
qed

lemma nth_span_below:
  assumes "z < length rws"
  shows "span_below y x cs rs rws ! z = below_slots y x cs rs z (rws ! z)"
proof -
  define m where "m = nat (cs + 1)"
  have "fold (\<lambda>r. fold (\<lambda>c. row_insert (y + r + 1) (x + c)) [0..<m]) [0..<n] rws ! z =
      (if y < z \<and> z \<le> y + n
       then fold (\<lambda>i. py_insert i None) (map (\<lambda>c. x + c) [0..<m]) (rws ! z) else rws ! z)" for n
  proof (induction n)
    case 0
    then show ?case by simp
  next
    case (Suc n)
    have "length (fold (\<lambda>r. fold (\<lambda>c. row_insert (y + r + 1) (x + c)) [0..<m]) [0..<n] rws)
        = length rws"
      by (induction n) auto
    with Suc assms show ?case
      by (auto simp: nth_fold_row_insert)
  qed
  from this [of "nat rs"] show ?thesis
    by (simp add: span_below_def below_slots_def m_def)
qed

lemma length_span_cell [simp]: "length (span_cell y x cs rs rws) = length rws"
  by (simp add: span_cell_def)

lemma nth_span_cell:
  assumes "z < length rws" and "x < length (rws ! y)"
  shows "span_cell y x cs rs rws ! z =
    (if z = y then take (Suc x) (rws ! y) @ replicate (nat cs) None @ drop (Suc x) (rws ! y)
     else below_slots y x cs rs z (rws ! z))"
  using assms by (auto simp: span_cell_def nth_span_below nth_span_right below_slots_def)

lemma row_cells_below_slots [simp]: "row_cells (below_slots y x cs rs z r) = row_cells r"
  by (simp add: below_slots_def slot.cells_fold_ins)

lemma length_below_slots:
  "length (below_slots y x cs rs z r)
     = length r + (if y < z \<and> z \<le> y + nat rs then nat (cs + 1) else 0)"
  by (simp add: below_slots_def slot.len_fold_ins)

text \<open>
  The inner loop over the positions of row \<open>y\<close>. A cell leaves one cell fewer ahead, a
  reserved slot leaves the row one position shorter, so the loop ends although the rows
  grow under it.
\<close>

function ro_row :: "nat \<Rightarrow> nat \<Rightarrow> trow list \<Rightarrow> trow list" where
  "ro_row y x rs =
     (if y < length rs \<and> x < length (rs ! y) then
        (case rs ! y ! x of
           None \<Rightarrow> ro_row y (x + 1) rs
         | Some (cspan, rspan, _) \<Rightarrow> ro_row y (x + 1) (span_cell y x cspan rspan rs))
      else rs)"
  by pat_completeness auto
termination
proof (relation "measures [\<lambda>(y, x, rs). length (row_cells (drop x (rs ! y))),
                           \<lambda>(y, x, rs). length (rs ! y) - x]", goal_cases)
  case 1
  show ?case by simp
next
  case (2 y x rs)
  then have "drop x (rs ! y) = None # drop (Suc x) (rs ! y)"
    by (metis Cons_nth_drop_Suc)
  with 2 show ?case by (auto intro: diff_less_mono2)
next
  case (3 y x rs c cspan p rspan ct)
  then have "drop x (rs ! y) = Some c # drop (Suc x) (rs ! y)"
    by (metis Cons_nth_drop_Suc)
  with 3 show ?case by (auto simp: nth_span_cell)
qed

declare ro_row.simps [simp del]

lemma length_ro_row [simp]: "length (ro_row y x rs) = length rs"
proof (induction y x rs rule: ro_row.induct)
  case (1 y x rs)
  then show ?case by (subst ro_row.simps) (auto split: option.split)
qed

text \<open>The outer loop over the rows.\<close>

function ro_rows :: "nat \<Rightarrow> trow list \<Rightarrow> trow list" where
  "ro_rows y rs = (if y < length rs then ro_rows (y + 1) (ro_row y 0 rs) else rs)"
  by pat_completeness auto
termination
  by (relation "measure (\<lambda>(y, rs). length rs - y)") auto

declare ro_rows.simps [simp del]

text \<open>The loop that recounts \<open>max_cols\<close>, from the value it holds.\<close>

fun count_max_cols :: "nat \<Rightarrow> trow list \<Rightarrow> nat" where
  "count_max_cols m [] = m"
| "count_max_cols m (row # rest) = count_max_cols (if m < length row then length row else m) rest"

text \<open>
  The missing cells on the right of one row. The number of missing columns is a natural
  number here because \<open>max_cols\<close> is at least the length of every row. \<open>row[-1]\<close> raises
  on an empty row.
\<close>

definition fill_row :: "bool \<Rightarrow> nat \<Rightarrow> trow \<Rightarrow> trow res" where
  "fill_row fill mcols row =
     (let x = mcols - length row
      in if x \<noteq> 0 \<and> \<not> fill then
           (if row = [] then Inl IndexError
            else (case last row of
                    None \<Rightarrow> Inr (row @ [Some (int x - 1, 0, Elements [])])
                  | Some (cspan, rspan, ct) \<Rightarrow>
                      Inr (row[length row - 1 := Some (cspan + int x, rspan, ct)])))
         else if x \<noteq> 0 \<and> fill then
           Inr (row @ replicate x (Some (0, 0, ANode (Nd KComment []))))
         else Inr row)"

definition roundOffTableDefinition :: "bool \<Rightarrow> table_builder \<Rightarrow> table_builder res" where
  "roundOffTableDefinition fill b =
     (let rs = ro_rows 0 (rows b);
          mcols = count_max_cols (max_cols b) rs
      in rbind (rmap_list (fill_row fill mcols) rs) (\<lambda>rs'.
         Inr (b\<lparr>rows := rs', max_cols := mcols\<rparr>)))"

definition parseFlatTableNode :: "string \<Rightarrow> bool \<Rightarrow> tnode \<Rightarrow> table_builder \<Rightarrow> table_builder res" where
  "parseFlatTableNode name fill node b =
     (case kids node of
        [bl] \<Rightarrow>
          if kind bl \<noteq> KBulletList then raise_error (one_list_msg name)
          else rbind (parse_row_items name 0 (kids bl)) (\<lambda>rs.
               roundOffTableDefinition fill (b\<lparr>rows := rows b @ rs\<rparr>))
      | _ \<Rightarrow> raise_error (one_list_msg name))"

section \<open>Building the table\<close>

text \<open>\<open>get_column_widths\<close> returns a list, or since docutils 0.13 a pair with the list second.\<close>

datatype colwidths = Widths "int list" | WidthsPair string "int list"

fun plain_widths :: "colwidths \<Rightarrow> int list" where
  "plain_widths (Widths ws) = ws"
| "plain_widths (WidthsPair _ ws) = ws"

text \<open>The column loop: \<open>stub\<close> counts down while it is not zero.\<close>

fun build_colspecs :: "nat \<Rightarrow> int list \<Rightarrow> tnode list" where
  "build_colspecs stub [] = []"
| "build_colspecs stub (w # ws) =
     Nd (KColspec w (stub \<noteq> 0)) [] # build_colspecs (if stub \<noteq> 0 then stub - 1 else stub) ws"

fun build_entries :: "string list \<Rightarrow> trow \<Rightarrow> tnode list" where
  "build_entries classes [] = []"
| "build_entries classes (None # r) = build_entries classes r"
| "build_entries classes (Some (cspan, rspan, cellElements) # r) =
     Nd (KEntry classes (if rspan \<noteq> 0 then Some rspan else None)
                        (if cspan \<noteq> 0 then Some cspan else None))
        (content_items cellElements)
     # build_entries classes r"

definition buildTableRowNode :: "trow \<Rightarrow> tnode" where
  "buildTableRowNode row_data = Nd KRow (build_entries [] row_data)"

definition opt_get :: "nat option \<Rightarrow> nat" where
  "opt_get v = (case v of None \<Rightarrow> 0 | Some n \<Rightarrow> n)"

definition buildTableNode :: "(nat \<Rightarrow> colwidths res) \<Rightarrow> ft_options \<Rightarrow> table_builder \<Rightarrow> tnode res" where
  "buildTableNode get_column_widths opts b =
     rbind (get_column_widths (max_cols b)) (\<lambda>cw.
       let ws = plain_widths cw;
           stub = opt_get (stub_columns opts);
           hdr = opt_get (header_rows opts);
           thead = (if hdr \<noteq> 0 then [Nd KThead (map buildTableRowNode (take hdr (rows b)))] else []);
           tbody = Nd KTbody (map buildTableRowNode (drop hdr (rows b)))
       in Inr (Nd KTable [Nd (KTgroup (length ws)) (build_colspecs stub ws @ thead @ [tbody])]))"

section \<open>The directive\<close>

definition empty_msg :: "string \<Rightarrow> string" where
  "empty_msg name = ''The \"'' @ name @ ''\" directive is empty; content required.''"

text \<open>
  \<open>FlatTable.run\<close>: the result is the list of nodes the directive returns, or the message
  it raises. The first three parameters are the inherited services of docutils.
\<close>

definition ft_run :: "(ft_directive \<Rightarrow> tnode option \<times> tnode list) \<Rightarrow> (string list \<Rightarrow> tnode list)
    \<Rightarrow> (nat \<Rightarrow> colwidths res) \<Rightarrow> ft_directive \<Rightarrow> tnode list res" where
  "ft_run make_title nested_parse get_column_widths d =
     (if content d = [] then
        Inr [Nd (KSystemMessage Error (empty_msg (dname d)) (lineno d))
               [Nd (KLiteralBlock (block_text d)) []]]
      else
        (let (title, messages) = make_title d;
             node = Nd (KElement ''Element'') (nested_parse (content d))
         in rbind (parseFlatTableNode (dname d) (fill_cells (options d)) node new_builder) (\<lambda>b.
            rbind (buildTableNode get_column_widths (options d) b) (\<lambda>tableNode.
            Inr ((case title of None \<Rightarrow> tableNode | Some t \<Rightarrow> push_kid tableNode t) # messages)))))"

end
