(* ===== verification/FlatTableGrid.thy ===== *)
theory FlatTableGrid
  imports FlatTable
begin

text \<open>
  What the rounding off of a \<open>flat-table\<close> guarantees. The abstract view of a table is
  its count of columns row by row: the columns a row's own cells cover and the columns
  reserved in it by cells of rows above whose row span reaches it.
\<close>

section \<open>The column count of a row\<close>

definition cspan_of :: "cell \<Rightarrow> int" where
  "cspan_of c = fst c"

definition rspan_of :: "cell \<Rightarrow> int" where
  "rspan_of c = fst (snd c)"

definition own_width :: "trow \<Rightarrow> nat" where
  "own_width r = (\<Sum>c\<leftarrow>row_cells r. 1 + nat (cspan_of c))"

text \<open>The columns a cell reserves in the row \<open>d\<close> rows further down.\<close>

definition slots_into :: "nat \<Rightarrow> cell \<Rightarrow> nat" where
  "slots_into d c = (if d \<le> nat (rspan_of c) then nat (cspan_of c + 1) else 0)"

definition slots_row :: "nat \<Rightarrow> trow \<Rightarrow> nat" where
  "slots_row d r = (\<Sum>c\<leftarrow>row_cells r. slots_into d c)"

definition reserved :: "trow list \<Rightarrow> nat \<Rightarrow> nat" where
  "reserved rs z = (\<Sum>y\<leftarrow>[0..<z]. slots_row (z - y) (rs ! y))"

definition all_cells :: "trow \<Rightarrow> bool" where
  "all_cells r \<longleftrightarrow> None \<notin> set r"

definition spans_ok :: "trow \<Rightarrow> bool" where
  "spans_ok r \<longleftrightarrow> (\<forall>c \<in> set (row_cells r). 0 \<le> cspan_of c \<and> 0 \<le> rspan_of c)"

lemmas width_defs = own_width_def slots_row_def slots_into_def cspan_of_def rspan_of_def

lemma own_width_append [simp]: "own_width (r @ r') = own_width r + own_width r'"
  by (simp add: own_width_def)

lemma length_all_cells: "all_cells r \<Longrightarrow> length r = length (row_cells r)"
  unfolding all_cells_def by (induction r rule: row_cells.induct) auto

lemma own_width_split: "own_width r = length (row_cells r) + (\<Sum>c\<leftarrow>row_cells r. nat (cspan_of c))"
proof -
  have "(\<Sum>c\<leftarrow>cs. 1 + nat (cspan_of c)) = length cs + (\<Sum>c\<leftarrow>cs. nat (cspan_of c))" for cs
    by (induction cs) auto
  then show ?thesis by (simp add: own_width_def)
qed

section \<open>One row of the loop\<close>

lemma ro_row_None:
  "y < length rs \<Longrightarrow> x < length (rs ! y) \<Longrightarrow> rs ! y ! x = None \<Longrightarrow>
   ro_row y x rs = ro_row y (x + 1) rs"
  by (subst ro_row.simps) simp

lemma ro_row_Some:
  "y < length rs \<Longrightarrow> x < length (rs ! y) \<Longrightarrow> rs ! y ! x = Some c \<Longrightarrow>
   ro_row y x rs = ro_row y (x + 1) (span_cell y x (cspan_of c) (rspan_of c) rs)"
  by (subst ro_row.simps) (simp add: cspan_of_def rspan_of_def split: prod.split)

lemma ro_row_end: "\<not> (y < length rs \<and> x < length (rs ! y)) \<Longrightarrow> ro_row y x rs = rs"
  by (subst ro_row.simps) auto

text \<open>
  What a cell of row \<open>y\<close> adds to the length of row \<open>z\<close>, and what the loop along row \<open>y\<close>
  does to every row: the cells stay, the length grows by what the cells ahead add.
\<close>

definition gain :: "nat \<Rightarrow> nat \<Rightarrow> cell \<Rightarrow> nat" where
  "gain y z c = (if z < y then 0 else if z = y then nat (cspan_of c) else slots_into (z - y) c)"

lemma span_cell_effect:
  assumes "z < length rs" and "x < length (rs ! y)"
  shows "row_cells (span_cell y x (cspan_of c) (rspan_of c) rs ! z) = row_cells (rs ! z)"
    and "length (span_cell y x (cspan_of c) (rspan_of c) rs ! z) = length (rs ! z) + gain y z c"
proof -
  have "row_cells (take (Suc x) r @ drop (Suc x) r) = row_cells r" for r :: trow by simp
  then show "row_cells (span_cell y x (cspan_of c) (rspan_of c) rs ! z) = row_cells (rs ! z)"
    using assms by (simp add: nth_span_cell del: append_take_drop_id)
  show "length (span_cell y x (cspan_of c) (rspan_of c) rs ! z) = length (rs ! z) + gain y z c"
    using assms by (auto simp: nth_span_cell length_below_slots gain_def slots_into_def)
qed

lemma ro_row_effect:
  assumes "y < length rs" and "z < length rs"
  shows "row_cells (ro_row y x rs ! z) = row_cells (rs ! z)
    \<and> length (ro_row y x rs ! z) = length (rs ! z) + (\<Sum>c\<leftarrow>row_cells (drop x (rs ! y)). gain y z c)"
  using assms
proof (induction y x rs rule: ro_row.induct)
  case (1 y x rs)
  show ?case
  proof (cases "x < length (rs ! y)")
    case False
    then show ?thesis by (simp add: ro_row_end)
  next
    case True
    then have tl: "drop x (rs ! y) = rs ! y ! x # drop (Suc x) (rs ! y)"
      by (rule Cons_nth_drop_Suc [symmetric])
    show ?thesis
    proof (cases "rs ! y ! x")
      case None
      with 1 True tl show ?thesis by (simp add: ro_row_None)
    next
      case (Some c)
      define rs' where "rs' = span_cell y x (cspan_of c) (rspan_of c) rs"
      have "drop (Suc x) (rs' ! y) = replicate (nat (cspan_of c)) None @ drop (Suc x) (rs ! y)"
        using True 1 by (simp add: rs'_def nth_span_cell)
      moreover have "row_cells (ro_row y (x + 1) rs' ! z) = row_cells (rs' ! z)
          \<and> length (ro_row y (x + 1) rs' ! z)
            = length (rs' ! z) + (\<Sum>c\<leftarrow>row_cells (drop (x + 1) (rs' ! y)). gain y z c)"
        using 1 True Some
        by (cases c) (simp add: rs'_def cspan_of_def rspan_of_def)
      ultimately show ?thesis
        using 1 True Some tl
        by (simp add: ro_row_Some rs'_def [symmetric])
          (simp add: rs'_def span_cell_effect)
    qed
  qed
qed

section \<open>All rows\<close>

lemma ro_rows_step: "y < length rs \<Longrightarrow> ro_rows y rs = ro_rows (y + 1) (ro_row y 0 rs)"
  by (subst ro_rows.simps) simp

lemma ro_rows_end: "length rs \<le> y \<Longrightarrow> ro_rows y rs = rs"
  by (subst ro_rows.simps) simp

lemma length_ro_rows [simp]: "length (ro_rows y rs) = length rs"
proof (induction y rs rule: ro_rows.induct)
  case (1 y rs)
  then show ?case by (subst ro_rows.simps) simp
qed

lemma ro_rows_effect:
  assumes "z < length rs"
  shows "row_cells (ro_rows y rs ! z) = row_cells (rs ! z)
    \<and> length (ro_rows y rs ! z) = length (rs ! z)
        + (\<Sum>y'\<leftarrow>[y..<length rs]. \<Sum>c\<leftarrow>row_cells (rs ! y'). gain y' z c)"
  using assms
proof (induction y rs rule: ro_rows.induct)
  case (1 y rs)
  show ?case
  proof (cases "y < length rs")
    case False
    then show ?thesis by (simp add: ro_rows_end)
  next
    case True
    let ?rs = "ro_row y 0 rs"
    have cells: "row_cells (?rs ! y') = row_cells (rs ! y')" if "y' < length rs" for y'
      using ro_row_effect [OF True that] by blast
    have "(\<Sum>y'\<leftarrow>[y + 1..<length rs]. \<Sum>c\<leftarrow>row_cells (?rs ! y'). gain y' z c)
        = (\<Sum>y'\<leftarrow>[y + 1..<length rs]. \<Sum>c\<leftarrow>row_cells (rs ! y'). gain y' z c)"
      by (intro arg_cong [where f = sum_list] map_cong refl) (simp add: cells)
    moreover have "[y..<length rs] = y # [y + 1..<length rs]"
      using True by (simp add: upt_rec)
    ultimately show ?thesis
      using 1 True ro_row_effect [OF True "1.prems", of 0]
      by (simp add: ro_rows_step del: upt_Suc)
  qed
qed

lemma sum_gain_own: "(\<Sum>c\<leftarrow>cs. gain z z c) = (\<Sum>c\<leftarrow>cs. nat (cspan_of c))"
  by (simp add: gain_def)

lemma sum_gain_above: "y < z \<Longrightarrow> (\<Sum>c\<leftarrow>row_cells r. gain y z c) = slots_row (z - y) r"
  by (simp add: gain_def slots_row_def)

lemma sum_gain_below: "z < y \<Longrightarrow> (\<Sum>c\<leftarrow>cs. gain y z c) = 0"
  by (simp add: gain_def)

text \<open>
  After the two loops the length of every row of cells is its count of columns.
\<close>

lemma length_ro_rows_width:
  assumes z: "z < length rs" and "all_cells (rs ! z)"
  shows "length (ro_rows 0 rs ! z) = own_width (rs ! z) + reserved rs z"
proof -
  let ?g = "\<lambda>y. \<Sum>c\<leftarrow>row_cells (rs ! y). gain y z c"
  have "[0..<length rs] = [0..<z] @ z # [Suc z..<length rs]"
    using z by (metis le_add_diff_inverse less_imp_le_nat upt_add_eq_append upt_conv_Cons zero_le)
  then have "(\<Sum>y\<leftarrow>[0..<length rs]. ?g y)
      = (\<Sum>y\<leftarrow>[0..<z]. ?g y) + ?g z + (\<Sum>y\<leftarrow>[Suc z..<length rs]. ?g y)"
    by simp
  also have "(\<Sum>y\<leftarrow>[0..<z]. ?g y) = reserved rs z"
    unfolding reserved_def
    by (intro arg_cong [where f = sum_list] map_cong refl) (simp add: sum_gain_above)
  also have "(\<Sum>y\<leftarrow>[Suc z..<length rs]. ?g y) = 0"
    by (simp add: sum_gain_below)
  finally show ?thesis
    using ro_rows_effect [OF z, of 0] length_all_cells [OF assms(2)]
    by (simp add: sum_gain_own own_width_split)
qed

lemma row_cells_ro_rows: "z < length rs \<Longrightarrow> row_cells (ro_rows y rs ! z) = row_cells (rs ! z)"
  using ro_rows_effect by blast

section \<open>The recount of the columns\<close>

lemma count_max_cols_fold: "count_max_cols m rs = fold max (map length rs) m"
  by (induction m rs rule: count_max_cols.induct) (auto simp: max_def)

lemma count_max_cols_ge: "m \<le> count_max_cols m rs \<and> (\<forall>r \<in> set rs. length r \<le> count_max_cols m rs)"
proof (induction m rs rule: count_max_cols.induct)
  case (2 m r rs)
  then show ?case by (cases "m < length r") auto
qed simp

lemma count_max_cols_attained:
  "count_max_cols m rs = m \<or> (\<exists>r \<in> set rs. count_max_cols m rs = length r)"
proof (induction m rs rule: count_max_cols.induct)
  case (2 m r rs)
  then show ?case by (cases "m < length r") auto
qed simp

section \<open>Filling one row\<close>

lemma row_cells_snoc_Some: "row_cells (r @ [Some c]) = row_cells r @ [c]"
  by simp

lemma update_last: "r \<noteq> [] \<Longrightarrow> r[length r - 1 := v] = butlast r @ [v]"
  by (cases r rule: rev_cases) auto

lemma own_width_replicate_fill:
  "own_width (replicate x (Some (0, 0, ct))) = x"
  by (induction x) (auto simp: own_width_def cspan_of_def)

text \<open>
  The three ways a short row is completed, and the row that is long enough.
\<close>

lemma fill_row_cases:
  assumes "fill_row fill mc r = Inr r'"
  obtains (full) "mc \<le> length r" "r' = r"
    | (filled) "length r < mc" "fill"
        "r' = r @ replicate (mc - length r) (Some (0, 0, ANode (Nd KComment [])))"
    | (spanned) c where "length r < mc" "\<not> fill" "r = butlast r @ [Some c]" "r \<noteq> []"
        "r' = butlast r @ [Some (cspan_of c + int (mc - length r), rspan_of c, snd (snd c))]"
    | (appended) "length r < mc" "\<not> fill" "r \<noteq> []" "last r = None"
        "r' = r @ [Some (int (mc - length r) - 1, 0, Elements [])]"
proof (cases "mc \<le> length r")
  case True
  with assms show ?thesis by (intro full) (auto simp: fill_row_def)
next
  case short: False
  show ?thesis
  proof (cases fill)
    case True
    with short assms show ?thesis by (intro filled) (auto simp: fill_row_def)
  next
    case False
    with short assms have ne: "r \<noteq> []" by (auto simp: fill_row_def)
    show ?thesis
    proof (cases "last r")
      case None
      with short False ne assms show ?thesis by (intro appended) (auto simp: fill_row_def)
    next
      case (Some c)
      moreover from Some ne have "r = butlast r @ [Some c]" by (metis append_butlast_last_id)
      ultimately show ?thesis
        using short False ne assms
        by (intro spanned [of c])
          (auto simp: fill_row_def update_last [simplified] cspan_of_def rspan_of_def split: prod.splits)
    qed
  qed
qed

lemma fill_row_width:
  assumes "fill_row fill mc r = Inr r'" and "spans_ok r"
  shows "own_width r' = own_width r + (mc - length r)"
  using assms(1)
proof (cases rule: fill_row_cases)
  case full
  then show ?thesis by simp
next
  case filled
  then show ?thesis by (simp add: own_width_replicate_fill)
next
  case (spanned c)
  then have "own_width r = own_width (butlast r) + own_width [Some c]"
    by (metis own_width_append)
  moreover have "c \<in> set (row_cells r)"
    using spanned by (metis in_set_conv_decomp row_cells_snoc_Some)
  with assms(2) have "0 \<le> cspan_of c" by (auto simp: spans_ok_def)
  ultimately show ?thesis
    using spanned by (simp add: own_width_def cspan_of_def nat_add_distrib)
next
  case appended
  then show ?thesis by (simp add: own_width_def cspan_of_def nat_diff_distrib)
qed

lemma fill_row_total: "r \<noteq> [] \<Longrightarrow> \<exists>r'. fill_row fill mc r = Inr r'"
  by (auto simp: fill_row_def Let_def split: option.split prod.split)

lemma fill_row_error_iff:
  "fill_row fill mc r = Inl e \<longleftrightarrow> e = IndexError \<and> r = [] \<and> \<not> fill \<and> 0 < mc"
  by (auto simp: fill_row_def Let_def split: option.split prod.split)

section \<open>The whole rounding off\<close>

lemma roundOff_Inr:
  assumes "roundOffTableDefinition fill b = Inr b'"
  shows "max_cols b' = count_max_cols (max_cols b) (ro_rows 0 (rows b))"
    and "length (rows b') = length (rows b)"
    and "y < length (rows b) \<Longrightarrow>
      fill_row fill (max_cols b') (ro_rows 0 (rows b) ! y) = Inr (rows b' ! y)"
  using assms
  by (auto simp: roundOffTableDefinition_def Let_def rbind_Inr_iff rmap_list_Inr_iff
      list_all2_conv_all_nth)

lemma length_le_max_cols:
  assumes "roundOffTableDefinition fill b = Inr b'" and "y < length (rows b)"
  shows "length (ro_rows 0 (rows b) ! y) \<le> max_cols b'"
  using assms count_max_cols_ge [of "max_cols b" "ro_rows 0 (rows b)"]
  by (simp add: roundOff_Inr(1))

definition parsed_rows :: "trow list \<Rightarrow> bool" where
  "parsed_rows rs \<longleftrightarrow> (\<forall>r \<in> set rs. all_cells r \<and> spans_ok r)"

lemma spans_ok_ro_rows:
  "parsed_rows rs \<Longrightarrow> y < length rs \<Longrightarrow> spans_ok (ro_rows 0 rs ! y)"
  by (auto simp: spans_ok_def parsed_rows_def row_cells_ro_rows)

lemma roundOff_width:
  assumes "roundOffTableDefinition fill b = Inr b'" and "parsed_rows (rows b)"
    and y: "y < length (rows b)"
  shows "own_width (rows b' ! y) + reserved (rows b) y = max_cols b'"
proof -
  have "own_width (rows b' ! y)
      = own_width (ro_rows 0 (rows b) ! y) + (max_cols b' - length (ro_rows 0 (rows b) ! y))"
    using fill_row_width roundOff_Inr(3) [OF assms(1) y] spans_ok_ro_rows [OF assms(2) y] by blast
  moreover have "own_width (ro_rows 0 (rows b) ! y) = own_width (rows b ! y)"
    using y by (simp add: own_width_def row_cells_ro_rows)
  moreover have "length (ro_rows 0 (rows b) ! y) = own_width (rows b ! y) + reserved (rows b) y"
    using assms(2) y by (intro length_ro_rows_width) (auto simp: parsed_rows_def)
  ultimately show ?thesis
    using length_le_max_cols [OF assms(1) y] by simp
qed

text \<open>
  The cells of a row stay in place: only the last one may be widened, or cells added
  behind it.
\<close>

definition same_cells :: "cell list \<Rightarrow> cell list \<Rightarrow> bool" where
  "same_cells cs cs' \<longleftrightarrow>
     (\<exists>more. cs' = cs @ more) \<or>
     (\<exists>n. 0 < n \<and> cs \<noteq> [] \<and> cs' = butlast cs @ [(cspan_of (last cs) + int n, snd (last cs))])"

lemma fill_row_same_cells:
  assumes "fill_row fill mc r = Inr r'"
  shows "same_cells (row_cells r) (row_cells r')"
  using assms
proof (cases rule: fill_row_cases)
  case (spanned c)
  then have "row_cells r = row_cells (butlast r) @ [c]" by (metis row_cells_snoc_Some)
  with spanned show ?thesis
    unfolding same_cells_def
    by (intro disjI2 exI [of _ "mc - length r"]) (auto simp: rspan_of_def)
qed (auto simp: same_cells_def)

end
