(* ===== verification/FlatTableParse.thy ===== *)
theory FlatTableParse
  imports FlatTableGrid
begin

text \<open>
  What the parser of \<open>flat-table\<close> accepts and returns: the span roles of a cell, the
  children of a row item, and the rows of the whole list.
\<close>

section \<open>Span roles inside a cell\<close>

fun is_span :: "tnode \<Rightarrow> bool" where
  "is_span (Nd (KColSpan _) _) = True"
| "is_span (Nd (KRowSpan _) _) = True"
| "is_span _ = False"

fun col_after :: "tnode \<Rightarrow> int \<Rightarrow> int" where
  "col_after (Nd (KColSpan n) _) c = n"
| "col_after _ c = c"

fun row_after :: "tnode \<Rightarrow> int \<Rightarrow> int" where
  "row_after (Nd (KRowSpan n) _) r = n"
| "row_after _ r = r"

text \<open>
  The loop as a recursion over the list: a span node is dropped, the node after it is
  kept unseen.
\<close>

fun span_ref :: "tnode list \<Rightarrow> int \<Rightarrow> int \<Rightarrow> int \<times> int \<times> tnode list" where
  "span_ref [] c r = (c, r, [])"
| "span_ref (e # es) c r =
     (if is_span e then
        (case es of
           [] \<Rightarrow> (col_after e c, row_after e r, [])
         | x # xs \<Rightarrow> (let (c', r', out) = span_ref xs (col_after e c) (row_after e r)
                      in (c', r', x # out)))
      else (let (c', r', out) = span_ref es c r in (c', r', e # out)))"

lemma scan_spans_step:
  "i < length es \<Longrightarrow> scan_spans i es c r =
     (if is_span (es ! i)
      then scan_spans (Suc i) (remove_at i es) (col_after (es ! i) c) (row_after (es ! i) r)
      else scan_spans (Suc i) es c r)"
  by (cases "es ! i"; cases "kind (es ! i)") (simp_all add: scan_spans.simps [of i es])

lemma scan_spans_end: "length es \<le> i \<Longrightarrow> scan_spans i es c r = (c, r, es)"
  by (simp add: scan_spans.simps [of i es])

lemma scan_spans_ref:
  "scan_spans (length pre) (pre @ es) c r
     = (let (c', r', out) = span_ref es c r in (c', r', pre @ out))"
proof (induction es c r arbitrary: pre rule: span_ref.induct)
  case (1 c r)
  then show ?case by (simp add: scan_spans_end)
next
  case (2 e es c r)
  show ?case
  proof (cases "is_span e")
    case False
    then show ?thesis
      using "2.IH"(2) [of "pre @ [e]"]
      by (simp add: scan_spans_step split: prod.splits)
  next
    case True
    show ?thesis
    proof (cases es)
      case Nil
      with True show ?thesis
        by (simp add: scan_spans_step scan_spans_end remove_at_append)
    next
      case (Cons x xs)
      with True show ?thesis
        using "2.IH"(1) [of x xs "pre @ [x]"]
        by (simp add: scan_spans_step remove_at_append split: prod.splits)
    qed
  qed
qed

lemma scan_spans_ref0: "scan_spans 0 es c r = span_ref es c r"
  using scan_spans_ref [of "[]" es c r] by (simp split: prod.splits)

fun separated :: "tnode list \<Rightarrow> bool" where
  "separated (a # b # es) \<longleftrightarrow> \<not> (is_span a \<and> is_span b) \<and> separated (b # es)"
| "separated _ \<longleftrightarrow> True"

lemma col_after_plain: "\<not> is_span e \<Longrightarrow> col_after e c = c"
  by (cases "(e, c)" rule: col_after.cases) auto

lemma row_after_plain: "\<not> is_span e \<Longrightarrow> row_after e r = r"
  by (cases "(e, r)" rule: row_after.cases) auto

lemma separated_tl: "separated (a # es) \<Longrightarrow> separated es"
  by (cases es) auto

lemma span_ref_separated:
  "separated es \<Longrightarrow>
   span_ref es c r = (fold col_after es c, fold row_after es r, filter (\<lambda>e. \<not> is_span e) es)"
proof (induction es c r rule: span_ref.induct)
  case (1 c r)
  then show ?case by simp
next
  case (2 e es c r)
  then show ?case
    by (cases es) (auto simp: col_after_plain row_after_plain dest: separated_tl)
qed

text \<open>Separated nodes in front of a span role are scanned on their own.\<close>

lemma span_ref_before:
  "separated (pre @ [e]) \<Longrightarrow> is_span e \<Longrightarrow>
   span_ref (pre @ e # es) c r =
     (let (c', r', out) = span_ref (e # es) (fold col_after pre c) (fold row_after pre r)
      in (c', r', filter (\<lambda>e. \<not> is_span e) pre @ out))"
proof (induction pre c r rule: span_ref.induct)
  case (1 c r)
  then show ?case by (simp del: span_ref.simps split: prod.splits)
next
  case (2 a pre c r)
  show ?case
  proof (cases "is_span a")
    case False
    then have "span_ref ((a # pre) @ e # es) c r = (let (c', r', out) = span_ref (pre @ e # es) c r in (c', r', a # out))"
      by simp
    moreover have "separated (pre @ [e])" using 2(3) separated_tl by simp
    ultimately show ?thesis
      using 2(2) [OF False _ 2(4)] False
      by (simp add: col_after_plain row_after_plain del: span_ref.simps split: prod.splits)
  next
    case True
    with 2(3,4) obtain x xs where pre: "pre = x # xs" and x: "\<not> is_span x" and sep: "separated (xs @ [e])"
      by (cases pre) (auto dest: separated_tl)
    have "span_ref ((a # pre) @ e # es) c r
        = (let (c', r', out) = span_ref (xs @ e # es) (col_after a c) (row_after a r) in (c', r', x # out))"
      using True pre by simp
    then show ?thesis
      using 2(1) [OF True pre sep 2(4)] True pre x
      by (simp add: col_after_plain row_after_plain del: span_ref.simps split: prod.splits)
  qed
qed

lemma span_ref_adjacent:
  assumes "separated (pre @ [e1])" and "is_span e1" and "separated post"
  shows "span_ref (pre @ e1 # e2 # post) c r =
    (fold col_after (pre @ e1 # post) c, fold row_after (pre @ e1 # post) r,
     filter (\<lambda>e. \<not> is_span e) pre @ e2 # filter (\<lambda>e. \<not> is_span e) post)"
proof -
  have "span_ref (e1 # e2 # post) c r = (fold col_after (e1 # post) c, fold row_after (e1 # post) r,
      e2 # filter (\<lambda>e. \<not> is_span e) post)" for c r
    using assms(2) span_ref_separated [OF assms(3)] by simp
  then show ?thesis by (simp add: span_ref_before [OF assms(1,2)] del: span_ref.simps)
qed

text \<open>Spans that are not negative stay so.\<close>

fun span_nonneg :: "tnode \<Rightarrow> bool" where
  "span_nonneg (Nd (KColSpan n) _) \<longleftrightarrow> 0 \<le> n"
| "span_nonneg (Nd (KRowSpan n) _) \<longleftrightarrow> 0 \<le> n"
| "span_nonneg _ \<longleftrightarrow> True"

lemma col_after_nonneg: "span_nonneg e \<Longrightarrow> 0 \<le> c \<Longrightarrow> 0 \<le> col_after e c"
  by (cases "(e, c)" rule: col_after.cases) auto

lemma row_after_nonneg: "span_nonneg e \<Longrightarrow> 0 \<le> r \<Longrightarrow> 0 \<le> row_after e r"
  by (cases "(e, r)" rule: row_after.cases) auto

lemma span_ref_nonneg:
  assumes "span_ref es c r = (c', r', out)" "\<forall>e \<in> set es. span_nonneg e" "0 \<le> c" "0 \<le> r"
  shows "0 \<le> c' \<and> 0 \<le> r'"
  using assms
proof (induction es c r arbitrary: c' r' out rule: span_ref.induct)
  case (1 c r)
  then show ?case by simp
next
  case (2 e es c r)
  show ?case
  proof (cases "is_span e")
    case False
    with 2 show ?thesis by (auto split: prod.splits)
  next
    case True
    with 2 show ?thesis
      by (cases es) (auto simp: col_after_nonneg row_after_nonneg split: prod.splits)
  qed
qed

section \<open>The children of a row item\<close>

fun is_bullet_list :: "tnode \<Rightarrow> bool" where
  "is_bullet_list (Nd KBulletList _) = True"
| "is_bullet_list _ = False"

fun is_target :: "tnode \<Rightarrow> bool" where
  "is_target (Nd (KTarget _) _) = True"
| "is_target _ = False"

fun row_child_ok :: "tnode \<Rightarrow> bool" where
  "row_child_ok (Nd KComment _) = True"
| "row_child_ok (Nd (KSystemMessage _ _ _) _) = True"
| "row_child_ok (Nd (KTarget _) _) = True"
| "row_child_ok (Nd KBulletList _) = True"
| "row_child_ok _ = False"

definition last_with :: "('a \<Rightarrow> bool) \<Rightarrow> 'a list \<Rightarrow> 'a option \<Rightarrow> 'a option" where
  "last_with P xs d = fold (\<lambda>x v. if P x then Some x else v) xs d"

lemma last_with_simps [simp]:
  "last_with P [] d = d"
  "last_with P (x # xs) d = last_with P xs (if P x then Some x else d)"
  by (simp_all add: last_with_def)

lemma last_with_filter: "last_with P xs d = (if filter P xs = [] then d else Some (last (filter P xs)))"
  by (induction xs arbitrary: d) auto

lemma scan_row_ok:
  "\<forall>ch \<in> set chs. row_child_ok ch \<Longrightarrow>
   scan_row chs n cell target =
     (False, n + length (filter is_bullet_list chs),
      last_with is_bullet_list chs cell, last_with is_target chs target)"
proof (induction chs arbitrary: n cell target)
  case Nil
  then show ?case by simp
next
  case (Cons ch chs)
  then show ?case by (cases ch rule: row_child_ok.cases) auto
qed

lemma scan_row_bad:
  "\<not> (\<forall>ch \<in> set chs. row_child_ok ch) \<Longrightarrow> fst (scan_row chs n cell target)"
proof (induction chs arbitrary: n cell target)
  case Nil
  then show ?case by simp
next
  case (Cons ch chs)
  then show ?case by (cases ch rule: row_child_ok.cases) auto
qed

lemma parse_row_item_bad:
  "\<not> (\<forall>ch \<in> set (kids item). row_child_ok ch) \<Longrightarrow>
   parse_row_item name item n = raise_error (two_level_msg name n)"
  using scan_row_bad [of "kids item" 0 None None]
  by (cases "scan_row (kids item) 0 None None") (simp add: parse_row_item_def)

text \<open>The row item in closed form.\<close>

lemma parse_row_item_eq:
  "parse_row_item name item n =
     (if (\<forall>ch \<in> set (kids item). row_child_ok ch)
         \<and> length (filter is_bullet_list (kids item)) = 1
      then Inr (map (Some \<circ> row_cell (last_with is_target (kids item) None))
                 (kids (hd (filter is_bullet_list (kids item)))))
      else raise_error (two_level_msg name n))"
proof (cases "\<forall>ch \<in> set (kids item). row_child_ok ch")
  case False
  then show ?thesis by (subst parse_row_item_bad) auto
next
  case True
  let ?bl = "filter is_bullet_list (kids item)"
  show ?thesis
  proof (cases "length ?bl = 1")
    case one: True
    then obtain l where "?bl = [l]" by (metis One_nat_def length_0_conv length_Suc_conv)
    with True show ?thesis
      by (simp add: parse_row_item_def scan_row_ok last_with_filter [of is_bullet_list])
  next
    case False
    with True show ?thesis by (simp add: parse_row_item_def scan_row_ok)
  qed
qed

definition row_item_ok :: "tnode \<Rightarrow> bool" where
  "row_item_ok item \<longleftrightarrow> (\<forall>ch \<in> set (kids item). row_child_ok ch)
     \<and> length (filter is_bullet_list (kids item)) = 1"

lemma parse_row_item_Inl:
  "parse_row_item name item n = Inl e \<longleftrightarrow>
     \<not> row_item_ok item \<and> e = DocMessage Error (two_level_msg name n)"
  by (auto simp: parse_row_item_eq raise_error_def row_item_ok_def)

section \<open>Parsed rows\<close>

text \<open>The first malformed row is reported.\<close>

lemma parse_row_items_Inl:
  "parse_row_items name n items = Inl e \<longleftrightarrow>
     (\<exists>i < length items. \<not> row_item_ok (items ! i) \<and> (\<forall>j < i. row_item_ok (items ! j))
        \<and> e = DocMessage Error (two_level_msg name (n + i)))"
proof (induction items arbitrary: n)
  case Nil
  then show ?case by simp
next
  case (Cons item items)
  show ?case
  proof (cases "row_item_ok item")
    case False
    then have "(\<exists>i < length (item # items). \<not> row_item_ok ((item # items) ! i)
        \<and> (\<forall>j < i. row_item_ok ((item # items) ! j))
        \<and> e = DocMessage Error (two_level_msg name (n + i)))
      \<longleftrightarrow> e = DocMessage Error (two_level_msg name n)"
      by (metis add.right_neutral gr_zeroI length_greater_0_conv list.discI nth_Cons_0 not_less_zero)
    with False show ?thesis
      by (auto simp: rbind_Inl_iff parse_row_item_Inl) (metis parse_row_item_Inl sum.distinct(1))
  next
    case True
    then obtain r where "parse_row_item name item n = Inr r"
      by (cases "parse_row_item name item n") (auto simp: parse_row_item_Inl)
    with True show ?thesis
      by (simp add: rbind_Inl_iff Cons.IH Ex_less_Suc2 All_less_Suc2)
  qed
qed

lemma parse_row_items_Inr_iff:
  "parse_row_items name n items = Inr rs \<longleftrightarrow>
     length rs = length items \<and>
     (\<forall>i < length items. parse_row_item name (items ! i) (n + i) = Inr (rs ! i))"
proof (induction items arbitrary: n rs)
  case Nil
  then show ?case by auto
next
  case (Cons item items)
  show ?case
  proof (cases rs)
    case Nil
    then show ?thesis by (auto simp: rbind_Inr_iff)
  next
    case (Cons r rs')
    then show ?thesis
      by (auto simp: rbind_Inr_iff Cons.IH All_less_Suc2)
  qed
qed

lemma all_cells_map_Some [simp]: "all_cells (map (Some \<circ> f) xs)"
  by (auto simp: all_cells_def)

lemma row_cells_map_comp [simp]: "row_cells (map (Some \<circ> f) xs) = map f xs"
  by (induction xs) auto

definition item_spans_ok :: "tnode \<Rightarrow> bool" where
  "item_spans_ok t \<longleftrightarrow> (\<forall>n \<in> set (preorder t). span_nonneg n)"

lemma item_spans_ok_kid: "item_spans_ok t \<Longrightarrow> c \<in> set (kids t) \<Longrightarrow> item_spans_ok c"
  by (cases t) (auto simp: item_spans_ok_def)

lemma item_spans_ok_root: "item_spans_ok t \<Longrightarrow> span_nonneg t"
  by (simp add: item_spans_ok_def)

lemma row_cell_spans:
  assumes "item_spans_ok item"
  shows "0 \<le> cspan_of (row_cell target item) \<and> 0 \<le> rspan_of (row_cell target item)"
proof (cases "kids item")
  case Nil
  then show ?thesis by (simp add: row_cell_def parse_cell_item_def cspan_of_def rspan_of_def)
next
  case (Cons e es)
  obtain c r out where ref: "span_ref (kids e) 0 0 = (c, r, out)" by (metis prod_cases3)
  have "\<forall>x \<in> set (kids e). span_nonneg x"
    using assms Cons item_spans_ok_kid item_spans_ok_root by (metis list.set_intros(1))
  with ref have "0 \<le> c \<and> 0 \<le> r" using span_ref_nonneg by blast
  with ref Cons show ?thesis
    by (simp add: row_cell_def parse_cell_item_def scan_spans_ref0 cspan_of_def rspan_of_def)
qed

lemma parse_row_item_spans:
  assumes "parse_row_item name item n = Inr r" and "item_spans_ok item"
  shows "all_cells r \<and> spans_ok r"
proof -
  let ?bl = "filter is_bullet_list (kids item)"
  have one: "length ?bl = 1"
    and r: "r = map (Some \<circ> row_cell (last_with is_target (kids item) None)) (kids (hd ?bl))"
    using assms(1) by (auto simp: parse_row_item_eq raise_error_def split: if_splits)
  from one have "hd ?bl \<in> set ?bl" by (intro hd_in_set) auto
  then have "item_spans_ok (hd ?bl)"
    using assms(2) item_spans_ok_kid by auto
  then show ?thesis
    using row_cell_spans item_spans_ok_kid by (auto simp: r spans_ok_def)
qed

lemma parse_row_items_parsed:
  assumes "parse_row_items name n items = Inr rs" and "\<forall>i \<in> set items. item_spans_ok i"
  shows "parsed_rows rs"
  using assms parse_row_item_spans
  by (fastforce simp: parse_row_items_Inr_iff parsed_rows_def in_set_conv_nth)

end
