(* ===== verification/FlatTableProps.thy ===== *)
theory FlatTableProps
  imports FlatTableParse
begin

text \<open>
  The properties of the \<open>flat-table\<close> directive: how far the rows it builds fill the columns, that no
  cell is lost on the way, and the inputs it rejects.
\<close>

section \<open>Output nodes\<close>

text \<open>The columns an entry of the output covers.\<close>

fun entry_width :: "tnode \<Rightarrow> nat" where
  "entry_width (Nd (KEntry _ _ morecols) _) =
     1 + (case morecols of None \<Rightarrow> 0 | Some n \<Rightarrow> nat n)"
| "entry_width _ = 0"

fun is_body :: "tnode \<Rightarrow> bool" where
  "is_body (Nd KThead _) = True"
| "is_body (Nd KTbody _) = True"
| "is_body _ = False"

fun is_tgroup :: "tnode \<Rightarrow> bool" where
  "is_tgroup (Nd (KTgroup _) _) = True"
| "is_tgroup _ = False"

text \<open>The rows of a table group in order, head before body, and its \<open>cols\<close> attribute.\<close>

definition group_rows :: "tnode \<Rightarrow> tnode list" where
  "group_rows g = concat (map kids (filter is_body (kids g)))"

fun group_cols :: "tnode \<Rightarrow> nat" where
  "group_cols (Nd (KTgroup n) _) = n"
| "group_cols _ = 0"

definition row_width :: "tnode \<Rightarrow> nat" where
  "row_width r = sum_list (map entry_width (kids r))"

lemma row_width_build: "row_width (buildTableRowNode r) = own_width r"
proof -
  have "sum_list (map entry_width (build_entries cl r)) = own_width r" for cl
  proof (induction cl r rule: build_entries.induct)
    case (3 cl cspan rspan ct r)
    then show ?case by (simp add: own_width_def cspan_of_def)
  qed (simp_all add: own_width_def)
  then show ?thesis by (simp add: row_width_def buildTableRowNode_def)
qed

text \<open>
  The rows an entry covers below its own, and the columns of a row that entries of the rows above it cover.
\<close>

fun entry_depth :: "tnode \<Rightarrow> nat" where
  "entry_depth (Nd (KEntry _ morerows _) _) = (case morerows of None \<Rightarrow> 0 | Some n \<Rightarrow> nat n)"
| "entry_depth _ = 0"

definition covered_below :: "nat \<Rightarrow> tnode \<Rightarrow> nat" where
  "covered_below d r = (\<Sum>e\<leftarrow>kids r. if d \<le> entry_depth e then entry_width e else 0)"

definition covered_from_above :: "tnode list \<Rightarrow> nat \<Rightarrow> nat" where
  "covered_from_above rws z = (\<Sum>y\<leftarrow>[0..<z]. covered_below (z - y) (rws ! y))"

lemma covered_below_build:
  assumes "0 < d" and "spans_ok r"
  shows "covered_below d (buildTableRowNode r) = slots_row d r"
proof -
  have "(\<Sum>e\<leftarrow>build_entries cl r. if d \<le> entry_depth e then entry_width e else 0) = slots_row d r" for cl
    using assms(2)
  proof (induction cl r rule: build_entries.induct)
    case (3 cl cspan rspan ct r)
    then have "0 \<le> cspan" "spans_ok r" by (auto simp: spans_ok_def cspan_of_def)
    with 3 assms(1) show ?case by (auto simp: slots_row_def slots_into_def cspan_of_def rspan_of_def nat_add_distrib)
  qed (simp_all add: slots_row_def spans_ok_def)
  then show ?thesis by (simp add: covered_below_def buildTableRowNode_def)
qed

lemma covered_from_above_build:
  assumes "z \<le> length rs" and "\<forall>r \<in> set rs. spans_ok r"
  shows "covered_from_above (map buildTableRowNode rs) z = reserved rs z"
  unfolding covered_from_above_def reserved_def
  by (intro arg_cong [where f = sum_list] map_cong refl) (use assms in \<open>auto simp: covered_below_build\<close>)

lemma filter_body_colspecs [simp]: "filter is_body (build_colspecs s ws) = []"
  by (induction s ws rule: build_colspecs.induct) auto

lemma length_build_colspecs [simp]: "length (build_colspecs s ws) = length ws"
  by (induction s ws rule: build_colspecs.induct) auto

lemma nth_build_colspecs:
  "i < length ws \<Longrightarrow> build_colspecs s ws ! i = Nd (KColspec (ws ! i) (i < s)) []"
proof (induction s ws arbitrary: i rule: build_colspecs.induct)
  case (2 s w ws)
  then show ?case by (cases i) auto
qed simp

text \<open>The one shape of a table the builder returns.\<close>

lemma buildTableNode_Inr:
  assumes "buildTableNode gw opts b = Inr t"
  obtains cw g where "gw (max_cols b) = Inr cw" "t = Nd KTable [g]" "is_tgroup g"
    "group_cols g = length (plain_widths cw)"
    "group_rows g = map buildTableRowNode (rows b)"
    "take (length (plain_widths cw)) (kids g)
       = build_colspecs (opt_get (stub_columns opts)) (plain_widths cw)"
proof -
  let ?h = "opt_get (header_rows opts)"
  let ?s = "opt_get (stub_columns opts)"
  let ?parts = "(if ?h \<noteq> 0 then [Nd KThead (map buildTableRowNode (take ?h (rows b)))] else [])
       @ [Nd KTbody (map buildTableRowNode (drop ?h (rows b)))]"
  from assms obtain cw where cw: "gw (max_cols b) = Inr cw"
    and t: "t = Nd KTable [Nd (KTgroup (length (plain_widths cw)))
              (build_colspecs ?s (plain_widths cw) @ ?parts)]"
    by (auto simp: buildTableNode_def rbind_Inr_iff Let_def)
  have "concat (map kids (filter is_body ?parts)) = map buildTableRowNode (rows b)"
    by (simp flip: map_append)
  with cw t show ?thesis by (intro that [OF cw t]) (auto simp: group_rows_def)
qed

section \<open>From the parsed list to the table\<close>

lemma parseFlatTableNode_Inr:
  assumes "parseFlatTableNode name fill node new_builder = Inr b"
  obtains bl rs where "kids node = [bl]" "kind bl = KBulletList"
    "parse_row_items name 0 (kids bl) = Inr rs"
    "roundOffTableDefinition fill (new_builder\<lparr>rows := rs\<rparr>) = Inr b"
  using assms
  by (auto simp: parseFlatTableNode_def raise_error_def new_builder_def rbind_Inr_iff
      split: list.splits if_splits)

lemma ft_run_Inr:
  assumes "ft_run mt np gw d = Inr ns" and "content d \<noteq> []"
  obtains b t where
    "parseFlatTableNode (dname d) (fill_cells (options d))
       (Nd (KElement ''Element'') (np (content d))) new_builder = Inr b"
    "buildTableNode gw (options d) b = Inr t"
    "ns = (case fst (mt d) of None \<Rightarrow> t | Some ti \<Rightarrow> push_kid t ti) # snd (mt d)"
  using assms
  by (auto simp: ft_run_def rbind_Inr_iff split: prod.splits)

text \<open>The rows the directive parses from its content, before they are rounded off.\<close>

definition content_rows :: "(string list \<Rightarrow> tnode list) \<Rightarrow> ft_directive \<Rightarrow> trow list res" where
  "content_rows np d =
     (case np (content d) of
        [bl] \<Rightarrow> if kind bl \<noteq> KBulletList then raise_error (one_list_msg (dname d))
                else parse_row_items (dname d) 0 (kids bl)
      | _ \<Rightarrow> raise_error (one_list_msg (dname d)))"

lemma ft_run_rows:
  assumes "ft_run mt np gw d = Inr (t # msgs)" and "content d \<noteq> []"
  obtains rs b g cw where "content_rows np d = Inr rs"
    "roundOffTableDefinition (fill_cells (options d)) (new_builder\<lparr>rows := rs\<rparr>) = Inr b"
    "gw (max_cols b) = Inr cw" "g = last (kids t)" "is_tgroup g"
    "group_cols g = length (plain_widths cw)"
    "group_rows g = map buildTableRowNode (rows b)"
proof -
  obtain b t' where p: "parseFlatTableNode (dname d) (fill_cells (options d))
       (Nd (KElement ''Element'') (np (content d))) new_builder = Inr b"
    and bt: "buildTableNode gw (options d) b = Inr t'"
    and t: "t = (case fst (mt d) of None \<Rightarrow> t' | Some ti \<Rightarrow> push_kid t' ti)"
    using assms by (rule ft_run_Inr) auto
  obtain bl rs where bl: "np (content d) = [bl]" "kind bl = KBulletList"
    and rs: "parse_row_items (dname d) 0 (kids bl) = Inr rs"
    and ro: "roundOffTableDefinition (fill_cells (options d)) (new_builder\<lparr>rows := rs\<rparr>) = Inr b"
    using p by (rule parseFlatTableNode_Inr) auto
  obtain cw g where g: "gw (max_cols b) = Inr cw" "t' = Nd KTable [g]" "is_tgroup g"
    "group_cols g = length (plain_widths cw)" "group_rows g = map buildTableRowNode (rows b)"
    using bt by (rule buildTableNode_Inr)
  have "g = last (kids t)" using t g(2) by (simp split: option.splits)
  with bl rs ro g show ?thesis
    by (intro that [of rs b cw g]) (auto simp: content_rows_def)
qed

lemma content_rows_parsed:
  assumes "content_rows np d = Inr rs" and "\<forall>n \<in> set (np (content d)). item_spans_ok n"
  shows "parsed_rows rs"
  using assms parse_row_items_parsed item_spans_ok_kid
  by (fastforce simp: content_rows_def raise_error_def split: list.splits if_splits)

section \<open>Spans after the widening\<close>

text \<open>
  The rounding off widens the last cell of a short row. \<open>widens_row_span\<close> says that the
  cell it widens spans rows as well.
\<close>

definition widens_row_span :: "bool \<Rightarrow> nat \<Rightarrow> trow \<Rightarrow> bool" where
  "widens_row_span fill mc r \<longleftrightarrow>
     length r < mc \<and> \<not> fill \<and> r \<noteq> [] \<and>
     (case last r of None \<Rightarrow> False | Some c \<Rightarrow> 0 < rspan_of c)"

lemma slots_row_append [simp]: "slots_row d (r @ r') = slots_row d r + slots_row d r'"
  by (simp add: slots_row_def)

lemma slots_row_Some: "slots_row d [Some c] = slots_into d c"
  by (simp add: slots_row_def)

lemma slots_row_replicate_fill: "0 < d \<Longrightarrow> slots_row d (replicate x (Some (0, 0, ct))) = 0"
  by (induction x) (auto simp: slots_row_def slots_into_def rspan_of_def)

lemma fill_row_slots_ge:
  assumes "fill_row fill mc r = Inr r'" and "0 < d"
  shows "slots_row d r \<le> slots_row d r'"
  using assms(1)
proof (cases rule: fill_row_cases)
  case (spanned c)
  then have "slots_row d r = slots_row d (butlast r) + slots_into d c"
    by (metis slots_row_append slots_row_Some)
  with spanned show ?thesis
    by (simp add: slots_row_Some slots_into_def rspan_of_def cspan_of_def nat_mono)
qed simp_all

lemma fill_row_slots_eq:
  assumes "fill_row fill mc r = Inr r'" and "0 < d" and "\<not> widens_row_span fill mc r"
  shows "slots_row d r' = slots_row d r"
  using assms(1)
proof (cases rule: fill_row_cases)
  case (spanned c)
  then have sp: "slots_row d r = slots_row d (butlast r) + slots_into d c"
    by (metis slots_row_append slots_row_Some)
  have "last r = Some c" using spanned by (metis last_snoc)
  with assms(3) spanned have "rspan_of c \<le> 0" by (auto simp: widens_row_span_def)
  with sp spanned assms(2) show ?thesis
    by (simp add: slots_row_Some slots_into_def rspan_of_def)
next
  case appended
  with assms(2) show ?thesis by (simp add: slots_row_Some slots_into_def rspan_of_def)
qed (simp_all add: slots_row_replicate_fill assms(2))

lemma fill_row_slots_widened:
  assumes "fill_row fill mc r = Inr r'" and "widens_row_span fill mc r" and "spans_ok r"
  shows "slots_row 1 r' = slots_row 1 r + (mc - length r)"
  using assms(1)
proof (cases rule: fill_row_cases)
  case (spanned c)
  then have sp: "slots_row 1 r = slots_row 1 (butlast r) + slots_into 1 c"
    by (metis slots_row_append slots_row_Some)
  have "last r = Some c" using spanned by (metis last_snoc)
  with assms(2) have "0 < rspan_of c" by (auto simp: widens_row_span_def)
  have "c \<in> set (row_cells r)"
    using spanned by (metis in_set_conv_decomp row_cells_snoc_Some)
  with assms(3) have nonneg: "0 \<le> cspan_of c" by (auto simp: spans_ok_def)
  define k where "k = mc - length r"
  have "slots_into 1 (cspan_of c + int k, snd c) = slots_into 1 c + k"
    using nonneg \<open>0 < rspan_of c\<close> by (auto simp: slots_into_def rspan_of_def cspan_of_def)
  then show ?thesis
    using sp spanned by (simp add: slots_row_Some rspan_of_def k_def)
qed (use assms(2) in \<open>auto simp: widens_row_span_def\<close>)

lemma fill_row_spans_ok:
  assumes "fill_row fill mc r = Inr r'" and "spans_ok r"
  shows "spans_ok r'"
  using assms(1)
proof (cases rule: fill_row_cases)
  case (spanned c)
  then have "row_cells r = row_cells (butlast r) @ [c]" by (metis row_cells_snoc_Some)
  with assms(2) spanned show ?thesis by (auto simp: spans_ok_def cspan_of_def rspan_of_def)
next
  case filled
  have "row_cells (replicate n (Some v)) = replicate n v" for n and v :: cell by (induction n) auto
  with filled assms(2) show ?thesis by (auto simp: spans_ok_def cspan_of_def rspan_of_def)
qed (use assms(2) in \<open>auto simp: spans_ok_def cspan_of_def rspan_of_def\<close>)

lemma roundOff_spans_ok:
  assumes "roundOffTableDefinition fill b = Inr b'" and "parsed_rows (rows b)"
  shows "\<forall>r \<in> set (rows b'). spans_ok r"
  using fill_row_spans_ok [OF roundOff_Inr(3) [OF assms(1)] spans_ok_ro_rows [OF assms(2)]] roundOff_Inr(2) [OF assms(1)]
  by (metis in_set_conv_nth)

text \<open>A row span is widened only in a row that is short as it was parsed, and for its last cell.\<close>

lemma widened_last:
  assumes "widens_row_span fill mc (ro_rows 0 rs ! y)" and "y < length rs" and "parsed_rows rs"
  shows "\<not> fill \<and> row_cells (rs ! y) \<noteq> [] \<and> 0 < rspan_of (last (row_cells (rs ! y)))
    \<and> own_width (rs ! y) + reserved rs y < mc"
proof -
  let ?r = "ro_rows 0 rs ! y"
  obtain c where c: "last ?r = Some c" "0 < rspan_of c" "?r \<noteq> []" "length ?r < mc" "\<not> fill"
    using assms(1) by (auto simp: widens_row_span_def split: option.splits)
  then have "?r = butlast ?r @ [Some c]" by (metis append_butlast_last_id)
  then have "row_cells ?r = row_cells (butlast ?r) @ [c]" by (metis row_cells_snoc_Some)
  moreover have "length ?r = own_width (rs ! y) + reserved rs y"
    using assms(2,3) by (intro length_ro_rows_width) (auto simp: parsed_rows_def)
  ultimately show ?thesis using c row_cells_ro_rows [OF assms(2), of 0] by simp
qed

lemma slots_row_ro_rows:
  "y < length rs \<Longrightarrow> slots_row d (ro_rows 0 rs ! y) = slots_row d (rs ! y)"
  by (simp add: slots_row_def row_cells_ro_rows)

lemma roundOff_slots_ge:
  assumes "roundOffTableDefinition fill b = Inr b'" and "y < length (rows b)" and "0 < d"
  shows "slots_row d (rows b ! y) \<le> slots_row d (rows b' ! y)"
  using fill_row_slots_ge [OF roundOff_Inr(3) [OF assms(1,2)] assms(3)] assms(2)
  by (simp add: slots_row_ro_rows)

lemma reserved_le:
  assumes "\<And>y. y < z \<Longrightarrow> slots_row (z - y) (rs ! y) \<le> slots_row (z - y) (rs' ! y)"
  shows "reserved rs z \<le> reserved rs' z"
  unfolding reserved_def by (rule sum_list_mono) (use assms in auto)

lemma reserved_eq:
  assumes "\<And>y. y < z \<Longrightarrow> slots_row (z - y) (rs ! y) = slots_row (z - y) (rs' ! y)"
  shows "reserved rs z = reserved rs' z"
  unfolding reserved_def by (intro arg_cong [where f = sum_list] map_cong refl) (use assms in auto)

lemma reserved_Suc: "reserved rs (Suc y) = (\<Sum>i\<leftarrow>[0..<y]. slots_row (Suc y - i) (rs ! i)) + slots_row 1 (rs ! y)"
  by (simp add: reserved_def)

text \<open>
  With the spans that are written to the table the rows still add up to the number of columns, provided no
  cell that spans rows was widened above them.
\<close>

lemma ft_written:
  assumes "roundOffTableDefinition fill b = Inr b'" and "parsed_rows (rows b)" and y: "y < length (rows b)"
    and "\<forall>i < y. \<not> widens_row_span fill (max_cols b') (ro_rows 0 (rows b) ! i)"
  shows "own_width (rows b' ! y) + reserved (rows b') y = max_cols b'"
proof -
  have "reserved (rows b') y = reserved (rows b) y"
  proof (rule reserved_eq)
    fix i assume i: "i < y"
    with y have l: "i < length (rows b)" and d: "0 < y - i" by auto
    show "slots_row (y - i) (rows b' ! i) = slots_row (y - i) (rows b ! i)"
      using fill_row_slots_eq [OF roundOff_Inr(3) [OF assms(1) l] d] assms(4) i l
      by (simp add: slots_row_ro_rows)
  qed
  then show ?thesis using roundOff_width [OF assms(1,2) y] by simp
qed

section \<open>An example\<close>

text \<open>
  The list of the documentation's own example (\<open>Documentation/doc-guide/sphinx.rst\<close>): four
  columns, an automatic span, a cell over two columns and two rows, a target before the
  last row.
\<close>

definition txt_cell :: "string \<Rightarrow> tnode" where
  "txt_cell s = Nd KListItem [Nd KParagraph [Nd (KText s) []]]"

definition row_item :: "tnode list \<Rightarrow> tnode" where
  "row_item cs = Nd KListItem [Nd KBulletList cs]"

definition example_list :: tnode where
  "example_list = Nd KBulletList
     [row_item [txt_cell ''head col 1'', txt_cell ''head col 2'', txt_cell ''head col 3'',
                txt_cell ''head col 4''],
      row_item [txt_cell ''column 1'', txt_cell ''field 1.1'', txt_cell ''field 1.2''],
      row_item [txt_cell ''column 2'', txt_cell ''field 2.1'',
        Nd KListItem [Nd KParagraph
          [Nd (KRowSpan 1) [], Nd (KText '' '') [], Nd (KColSpan 1) [],
           Nd (KText '' field 2.2 - 3.3'') []]]],
      Nd KListItem [Nd (KTarget ''last row'') [], Nd KBulletList [txt_cell ''column 3'']]]"

definition example_directive :: ft_directive where
  "example_directive = \<lparr>dname = ''flat-table'', block_text = [], lineno = 1,
     content = [''* - head col 1''],
     options = \<lparr>header_rows = Some 1, stub_columns = None, fill_cells = False\<rparr>\<rparr>"

definition example_rows :: "trow list" where
  "example_rows = (case content_rows (\<lambda>_. [example_list]) example_directive of
     Inl _ \<Rightarrow> [] | Inr rs \<Rightarrow> rs)"

text \<open>Short rows whose last cell spans rows.\<close>

definition plain_cell :: "int \<Rightarrow> int \<Rightarrow> cell" where
  "plain_cell c r = (c, r, Elements [])"

definition overlap_rows :: "trow list" where
  "overlap_rows =
     [[Some (plain_cell 0 0), Some (plain_cell 0 1)],
      [Some (plain_cell 0 0)],
      [Some (plain_cell 0 0), Some (plain_cell 0 0), Some (plain_cell 0 0)]]"

abbreviation example_builder :: table_builder where
  "example_builder \<equiv> new_builder\<lparr>rows := example_rows\<rparr>"

abbreviation overlap_builder :: table_builder where
  "overlap_builder \<equiv> new_builder\<lparr>rows := overlap_rows\<rparr>"

lemma example_round_off:
  obtains b' where "roundOffTableDefinition False example_builder = Inr b'" "max_cols b' = 4"
proof -
  have "case roundOffTableDefinition False example_builder of Inr b' \<Rightarrow> max_cols b' = 4 | _ \<Rightarrow> False"
    by code_simp
  then show ?thesis by (auto intro: that split: sum.splits)
qed

lemma overlap_round_off:
  obtains b' where "roundOffTableDefinition False overlap_builder = Inr b'" "max_cols b' = 3"
proof -
  have "case roundOffTableDefinition False overlap_builder of Inr b' \<Rightarrow> max_cols b' = 3 | _ \<Rightarrow> False"
    by code_simp
  then show ?thesis by (auto intro: that split: sum.splits)
qed

lemma example_parsed: "parsed_rows (rows example_builder)" "parsed_rows (rows overlap_builder)"
  unfolding parsed_rows_def all_cells_def spans_ok_def by code_simp+

lemma length_example [simp]: "length (rows example_builder) = 4" "length (rows overlap_builder) = 3"
  by code_simp+

section \<open>Properties\<close>

text \<open>
  C3. The table that \<open>flat-table\<close> returns: it has one row per parsed row, and in every row the columns its
  entries cover and the columns covered by entries of the rows above, which both are read off the
  returned nodes, add up to at least the \<open>cols\<close> attribute. They add up to exactly that in all rows when
  \<open>fill-cells\<close> is given, and also when every row whose last cell spans rows is as wide as the table with the cells and spans it was
  written with; otherwise the automatic span can widen such a cell, and rows below it are too wide. It is assumed that
  docutils returns one width per column and that no \<open>cspan\<close> or \<open>rspan\<close> role is negative.
\<close>

theorem ft_table_rectangular:
  assumes "ft_run mt np gw d = Inr (t # msgs)" and "content d \<noteq> []"
    and "\<And>n cw. gw n = Inr cw \<Longrightarrow> length (plain_widths cw) = n"
    and "\<forall>n \<in> set (np (content d)). item_spans_ok n"
  shows "\<exists>rs g. content_rows np d = Inr rs \<and> g = last (kids t)
    \<and> length (group_rows g) = length rs
    \<and> (\<forall>y < length rs. group_cols g \<le> row_width (group_rows g ! y) + covered_from_above (group_rows g) y)
    \<and> (fill_cells (options d)
       \<or> (\<forall>y < length rs. row_cells (rs ! y) \<noteq> [] \<longrightarrow> 0 < rspan_of (last (row_cells (rs ! y))) \<longrightarrow>
            own_width (rs ! y) + reserved rs y = group_cols g)
       \<longrightarrow> (\<forall>y < length rs. row_width (group_rows g ! y) + covered_from_above (group_rows g) y = group_cols g))"
proof -
  obtain rs b g cw where rs: "content_rows np d = Inr rs"
    and b: "roundOffTableDefinition (fill_cells (options d)) (new_builder\<lparr>rows := rs\<rparr>) = Inr b"
    and g: "gw (max_cols b) = Inr cw" "g = last (kids t)" "is_tgroup g"
      "group_cols g = length (plain_widths cw)" "group_rows g = map buildTableRowNode (rows b)"
    using assms(1,2) by (rule ft_run_rows)
  have cols: "group_cols g = max_cols b"
    using assms(3) [OF g(1)] g(4) by simp
  have len: "length (rows b) = length rs" using roundOff_Inr(2) [OF b] by simp
  have parsed: "parsed_rows rs" by (rule content_rows_parsed [OF rs assms(4)])
  then have parsed': "parsed_rows (rows (new_builder\<lparr>rows := rs\<rparr>))" by simp
  have node: "row_width (group_rows g ! y) + covered_from_above (group_rows g) y
      = own_width (rows b ! y) + reserved (rows b) y" if "y < length rs" for y
    using that len covered_from_above_build [OF _ roundOff_spans_ok [OF b parsed'], of y]
    by (simp add: g(5) row_width_build)
  have old: "own_width (rows b ! y) + reserved rs y = max_cols b" if "y < length rs" for y
    using roundOff_width [OF b parsed', of y] that by simp
  have ge: "max_cols b \<le> own_width (rows b ! y) + reserved (rows b) y" if y: "y < length rs" for y
  proof -
    have "reserved rs y \<le> reserved (rows b) y"
      by (rule reserved_le) (use roundOff_slots_ge [OF b] y in auto)
    with old [OF y] show ?thesis by simp
  qed
  have eq: "own_width (rows b ! y) + reserved (rows b) y = max_cols b"
    if full: "fill_cells (options d) \<or> (\<forall>y < length rs. row_cells (rs ! y) \<noteq> [] \<longrightarrow>
        0 < rspan_of (last (row_cells (rs ! y))) \<longrightarrow> own_width (rs ! y) + reserved rs y = max_cols b)"
      and y: "y < length rs" for y
    using ft_written [OF b parsed', of y] widened_last [OF _ _ parsed, of "fill_cells (options d)" "max_cols b"] full y
    by fastforce
  from rs len cols g node ge eq show ?thesis by (intro exI [of _ rs] exI [of _ g]) auto
qed

theorem ft_table_rectangular_witness:
  "\<exists>t. ft_run (\<lambda>d. (None, [])) (\<lambda>_. [example_list])
       (\<lambda>n. Inr (Widths (replicate n 1))) example_directive = Inr [t]
     \<and> list_all (\<lambda>y. row_width (group_rows (last (kids t)) ! y) + covered_from_above (group_rows (last (kids t))) y
            = group_cols (last (kids t))) [0..<4]"
proof -
  let ?run = "ft_run (\<lambda>d. (None, [])) (\<lambda>_. [example_list])
       (\<lambda>n. Inr (Widths (replicate n 1))) example_directive"
  have "case ?run of Inr [t] \<Rightarrow> group_cols (last (kids t)) = 4 | _ \<Rightarrow> False" by code_simp
  then obtain t where t: "?run = Inr [t]" "group_cols (last (kids t)) = 4"
    by (cases ?run) (auto split: list.splits)
  have rs: "content_rows (\<lambda>_. [example_list]) example_directive = Inr example_rows"
    and ne: "content example_directive \<noteq> []" and len: "length example_rows = 4"
    by code_simp+
  have ok: "\<forall>n \<in> set [example_list]. item_spans_ok n"
    unfolding item_spans_ok_def by code_simp
  have full: "\<forall>y < 4. row_cells (example_rows ! y) \<noteq> [] \<longrightarrow> 0 < rspan_of (last (row_cells (example_rows ! y))) \<longrightarrow>
      own_width (example_rows ! y) + reserved example_rows y = 4"
    by code_simp
  have w: "length (plain_widths cw) = n" if "Inr (Widths (replicate n 1)) = Inr cw" for n and cw :: colwidths
    using that by auto
  from ft_table_rectangular [OF t(1) ne w ok] rs len full t
  have "\<forall>y < 4. row_width (group_rows (last (kids t)) ! y) + covered_from_above (group_rows (last (kids t))) y
      = group_cols (last (kids t))" by auto
  with t(1) show ?thesis by (auto simp: list_all_iff)
qed

text \<open>
  C19. No cell is lost, invented or moved to another row or position: the cells of a row
  after the rounding off are the parsed ones in order, where at most the last one is
  widened or new ones follow it.
\<close>

theorem ft_cells_preserved:
  assumes "roundOffTableDefinition fill b = Inr b'"
  shows "length (rows b') = length (rows b) \<and>
    (\<forall>y < length (rows b). same_cells (row_cells (rows b ! y)) (row_cells (rows b' ! y)))"
  using roundOff_Inr(2,3) [OF assms] fill_row_same_cells
  by (metis row_cells_ro_rows)

theorem ft_cells_preserved_witness:
  "\<exists>b'. roundOffTableDefinition False example_builder = Inr b' \<and> length (rows b') = 4 \<and>
     same_cells (row_cells (example_rows ! 3)) (row_cells (rows b' ! 3))"
proof -
  obtain b' where "roundOffTableDefinition False example_builder = Inr b'"
    by (rule example_round_off)
  then show ?thesis
    using ft_cells_preserved [of False example_builder b'] length_example by auto
qed

text \<open>
  The number of columns is the width of the widest row, counted with the columns
  reserved by row spans: no row is wider, and some row has that width.
\<close>

theorem ft_max_cols_widest:
  assumes "roundOffTableDefinition fill b = Inr b'" and "parsed_rows (rows b)"
    and "max_cols b = 0" and "rows b \<noteq> []"
  shows "(\<forall>y < length (rows b). own_width (rows b ! y) + reserved (rows b) y \<le> max_cols b')
    \<and> (\<exists>y < length (rows b). own_width (rows b ! y) + reserved (rows b) y = max_cols b')"
proof -
  let ?R = "ro_rows 0 (rows b)"
  have w: "length (?R ! y) = own_width (rows b ! y) + reserved (rows b) y"
    if "y < length (rows b)" for y
    using assms(2) that by (intro length_ro_rows_width) (auto simp: parsed_rows_def)
  have m: "max_cols b' = count_max_cols 0 ?R"
    using roundOff_Inr(1) [OF assms(1)] assms(3) by simp
  have "\<exists>y < length (rows b). length (?R ! y) = max_cols b'"
  proof (cases "max_cols b' = 0")
    case True
    with assms(4) show ?thesis
      using length_le_max_cols [OF assms(1), of 0] by (intro exI [of _ 0]) auto
  next
    case False
    with m count_max_cols_attained [of 0 ?R] show ?thesis
      by (auto simp: in_set_conv_nth)
  qed
  with w show ?thesis
    using length_le_max_cols [OF assms(1)] by fastforce
qed

theorem ft_max_cols_widest_witness:
  "\<exists>b'. roundOffTableDefinition False example_builder = Inr b' \<and> max_cols b' = 4 \<and>
     (\<exists>y < 4. own_width (example_rows ! y) + reserved example_rows y = 4)"
proof -
  obtain b' where b': "roundOffTableDefinition False example_builder = Inr b'" "max_cols b' = 4"
    by (rule example_round_off)
  have "max_cols example_builder = 0" "rows example_builder \<noteq> []" by code_simp+
  then show ?thesis
    using ft_max_cols_widest [OF b'(1) example_parsed(1)] b' length_example(1) by auto
qed

text \<open>
  C20. Where the automatic span widens a cell that also spans rows, the row below is too
  wide: the slots for the row span were reserved with the width the cell had before, and
  the row below is completed to the full number of columns on its own. The table then has
  overlapping cells.
\<close>

theorem ft_autospan_overlaps_row_span:
  assumes "roundOffTableDefinition fill b = Inr b'" and "parsed_rows (rows b)"
    and "Suc y < length (rows b)"
    and "widens_row_span fill (max_cols b') (ro_rows 0 (rows b) ! y)"
  shows "max_cols b' < own_width (rows b' ! Suc y) + reserved (rows b') (Suc y)"
proof -
  let ?r = "ro_rows 0 (rows b) ! y"
  have y: "y < length (rows b)" using assms(3) by simp
  have "slots_row 1 (rows b' ! y) = slots_row 1 (rows b ! y) + (max_cols b' - length ?r)"
    using fill_row_slots_widened [OF roundOff_Inr(3) [OF assms(1) y] assms(4)
        spans_ok_ro_rows [OF assms(2) y]] y
    by (simp add: slots_row_ro_rows)
  moreover have "length ?r < max_cols b'"
    using assms(4) by (simp add: widens_row_span_def)
  moreover have "(\<Sum>i\<leftarrow>[0..<y]. slots_row (Suc y - i) (rows b ! i))
      \<le> (\<Sum>i\<leftarrow>[0..<y]. slots_row (Suc y - i) (rows b' ! i))"
    using y by (intro sum_list_mono roundOff_slots_ge [OF assms(1)]) auto
  ultimately have "reserved (rows b) (Suc y) < reserved (rows b') (Suc y)"
    by (simp add: reserved_Suc)
  then show ?thesis using roundOff_width [OF assms(1-3)] by simp
qed

theorem ft_autospan_overlaps_row_span_witness:
  "\<exists>b'. roundOffTableDefinition False overlap_builder = Inr b' \<and> max_cols b' = 3 \<and>
     3 < own_width (rows b' ! 1) + reserved (rows b') 1"
proof -
  obtain b' where b': "roundOffTableDefinition False overlap_builder = Inr b'" "max_cols b' = 3"
    by (rule overlap_round_off)
  have "widens_row_span False 3 (ro_rows 0 (rows overlap_builder) ! 0)" by code_simp
  then show ?thesis
    using ft_autospan_overlaps_row_span [OF b'(1) example_parsed(2), of 0] b' length_example(2)
    by auto
qed

text \<open>
  C30. The rounding off of parsed rows fails in one situation only: without
  \<open>fill-cells\<close>, a row that covers no column at all (neither by a cell of its own nor by a
  reserved slot) while another row covers some. It then raises \<open>IndexError\<close>.
\<close>

theorem ft_round_off_error_iff:
  assumes "parsed_rows (rows b)" and "max_cols b = 0"
  shows "roundOffTableDefinition fill b = Inl e \<longleftrightarrow>
    e = IndexError \<and> \<not> fill
    \<and> (\<exists>y < length (rows b). own_width (rows b ! y) + reserved (rows b) y = 0)
    \<and> (\<exists>y < length (rows b). own_width (rows b ! y) + reserved (rows b) y \<noteq> 0)"
proof -
  let ?R = "ro_rows 0 (rows b)"
  let ?mc = "count_max_cols 0 ?R"
  have w: "own_width (rows b ! y) + reserved (rows b) y = length (?R ! y)"
    if "y < length (rows b)" for y
    using assms(1) that by (intro length_ro_rows_width [symmetric]) (auto simp: parsed_rows_def)
  have pos: "0 < ?mc \<longleftrightarrow> (\<exists>y < length (rows b). ?R ! y \<noteq> [])"
    using count_max_cols_ge [of 0 ?R] count_max_cols_attained [of 0 ?R]
    by (fastforce simp: in_set_conv_nth)
  have "roundOffTableDefinition fill b = Inl e \<longleftrightarrow> rmap_list (fill_row fill ?mc) ?R = Inl e"
    using assms(2) by (simp add: roundOffTableDefinition_def rbind_Inl_iff Let_def)
  also have "\<dots> \<longleftrightarrow> e = IndexError \<and> \<not> fill \<and> 0 < ?mc \<and> (\<exists>r \<in> set ?R. r = [])"
    using rmap_list_Inl_iff_single
      [of ?R "fill_row fill ?mc" IndexError "\<lambda>r. r = [] \<and> \<not> fill \<and> 0 < ?mc" e]
    by (auto simp: fill_row_error_iff)
  finally have err: "roundOffTableDefinition fill b = Inl e \<longleftrightarrow>
    e = IndexError \<and> \<not> fill \<and> 0 < ?mc \<and> (\<exists>r \<in> set ?R. r = [])" .
  have z: "own_width (rows b ! y) + reserved (rows b) y = 0 \<longleftrightarrow> ?R ! y = []"
    if "y < length (rows b)" for y
    using w [OF that] by simp
  have "(\<exists>r \<in> set ?R. r = []) \<longleftrightarrow> (\<exists>y < length (rows b). ?R ! y = [])"
    by (auto simp: in_set_conv_nth)
  also have "\<dots> \<longleftrightarrow>
      (\<exists>y < length (rows b). own_width (rows b ! y) + reserved (rows b) y = 0)"
    by (rule ex_less_cong) (rule z [symmetric])
  finally have "(\<exists>r \<in> set ?R. r = []) \<longleftrightarrow>
      (\<exists>y < length (rows b). own_width (rows b ! y) + reserved (rows b) y = 0)" .
  moreover have "(\<exists>y < length (rows b). ?R ! y \<noteq> []) \<longleftrightarrow>
      (\<exists>y < length (rows b). own_width (rows b ! y) + reserved (rows b) y \<noteq> 0)"
  proof (rule ex_less_cong)
    fix y assume "y < length (rows b)"
    from z [OF this] show "?R ! y \<noteq> [] \<longleftrightarrow> own_width (rows b ! y) + reserved (rows b) y \<noteq> 0"
      by simp
  qed
  ultimately show ?thesis unfolding err pos by blast
qed

theorem ft_round_off_error_iff_witness:
  "roundOffTableDefinition False (new_builder\<lparr>rows := [[], [Some (plain_cell 0 0)]]\<rparr>) = Inl IndexError"
proof -
  let ?b = "new_builder\<lparr>rows := [[], [Some (plain_cell 0 0)]]\<rparr>"
  have "parsed_rows (rows ?b)" "max_cols ?b = 0"
    unfolding parsed_rows_def all_cells_def spans_ok_def by code_simp+
  moreover have "\<exists>y < length (rows ?b). own_width (rows ?b ! y) + reserved (rows ?b) y = 0"
    by (intro exI [of _ 0]) code_simp
  moreover have "\<exists>y < length (rows ?b). own_width (rows ?b ! y) + reserved (rows ?b) y \<noteq> 0"
    by (intro exI [of _ 1]) code_simp
  ultimately show ?thesis using ft_round_off_error_iff [of ?b False IndexError] by blast
qed

text \<open>
  C31. When no two span roles stand directly next to each other, a cell gets the value of
  its last \<open>cspan\<close> role and of its last \<open>rspan\<close> role (zero without one), and exactly the
  role nodes are removed from its first paragraph.
\<close>

theorem ft_cell_spans:
  assumes "separated es"
  shows "parse_cell_item (Nd k (Nd pk es # rest)) =
    (fold col_after es 0, fold row_after es 0, Nd pk (filter (\<lambda>e. \<not> is_span e) es) # rest)"
  using assms by (simp add: parse_cell_item_def scan_spans_ref0 span_ref_separated)

theorem ft_cell_spans_witness:
  "parse_cell_item (Nd KListItem [Nd KParagraph
      [Nd (KRowSpan 1) [], Nd (KText '' '') [], Nd (KColSpan 2) [], Nd (KText ''x'') []]]) =
   (2, 1, [Nd KParagraph [Nd (KText '' '') [], Nd (KText ''x'') []]])"
proof -
  have "separated [Nd (KRowSpan 1) [], Nd (KText '' '') [], Nd (KColSpan 2) [], Nd (KText ''x'') []]"
    by simp
  from ft_cell_spans [OF this, of KListItem KParagraph "[]"] show ?thesis by simp
qed

text \<open>
  C32. Of any two span roles with nothing between them the second does not count: the loop deletes the first
  from the list it walks and so passes over the node after it. The second role, of the same kind or the other, gives
  no value and stays in the cell as a node; all other roles, which are separated, count as usual.
\<close>

theorem ft_adjacent_span_lost:
  assumes "is_span e1" and "is_span e2" and "separated (pre @ [e1])" and "separated post"
  shows "parse_cell_item (Nd k (Nd pk (pre @ e1 # e2 # post) # rest)) =
    (fold col_after (pre @ e1 # post) 0, fold row_after (pre @ e1 # post) 0,
     Nd pk (filter (\<lambda>e. \<not> is_span e) pre @ e2 # filter (\<lambda>e. \<not> is_span e) post) # rest)"
  using assms by (simp add: parse_cell_item_def scan_spans_ref0 span_ref_adjacent)

theorem ft_adjacent_span_lost_witness:
  "parse_cell_item (Nd KListItem [Nd KParagraph
      [Nd (KColSpan 2) [], Nd (KRowSpan 1) [], Nd (KText ''x'') [], Nd (KColSpan 3) []]]) =
   (3, 0, [Nd KParagraph [Nd (KRowSpan 1) [], Nd (KText ''x'') []]])"
  using ft_adjacent_span_lost [of "Nd (KColSpan 2) []" "Nd (KRowSpan 1) []" "[]"
      "[Nd (KText ''x'') [], Nd (KColSpan 3) []]" KListItem KParagraph "[]"]
  by simp

text \<open>
  The parser rejects a list of rows exactly when some row item is malformed (a child
  that is no bullet list, target, comment or system message, or not exactly one bullet
  list), and the message names the first such row, counted from one.
\<close>

theorem ft_first_bad_row:
  "parse_row_items name 0 items = Inl e \<longleftrightarrow>
     (\<exists>i < length items. \<not> row_item_ok (items ! i) \<and> (\<forall>j < i. row_item_ok (items ! j))
        \<and> e = DocMessage Error (two_level_msg name i))"
  using parse_row_items_Inl [of name 0 items e] by simp

theorem ft_first_bad_row_witness:
  "parse_row_items ''flat-table'' 0 [row_item [txt_cell ''a''], txt_cell ''b''] =
     Inl (DocMessage Error (two_level_msg ''flat-table'' 1))"
proof -
  let ?items = "[row_item [txt_cell ''a''], txt_cell ''b'']"
  have "\<not> row_item_ok (?items ! 1)" "row_item_ok (?items ! 0)"
    unfolding row_item_ok_def by code_simp+
  then show ?thesis
    using ft_first_bad_row [of "''flat-table''" ?items]
    by (auto simp: less_Suc_eq intro!: exI [of _ 1])
qed

text \<open>
  The table has one column specification per width, of which the first
  \<open>stub-columns\<close> are stubs, and its rows are the rows of the builder in order, the first
  \<open>header-rows\<close> of them in the head.
\<close>

theorem ft_table_layout:
  assumes "gw (max_cols b) = Inr cw"
  shows "\<exists>g. buildTableNode gw opts b = Inr (Nd KTable [g])
    \<and> group_cols g = length (plain_widths cw)
    \<and> (\<forall>i < length (plain_widths cw). kids g ! i =
          Nd (KColspec (plain_widths cw ! i) (i < opt_get (stub_columns opts))) [])
    \<and> group_rows g = map buildTableRowNode (rows b)
    \<and> (opt_get (header_rows opts) \<noteq> 0 \<longrightarrow>
         kids g ! length (plain_widths cw)
           = Nd KThead (map buildTableRowNode (take (opt_get (header_rows opts)) (rows b))))"
proof -
  have "\<exists>t. buildTableNode gw opts b = Inr t"
    using assms by (simp add: buildTableNode_def Let_def)
  then obtain t where t: "buildTableNode gw opts b = Inr t" by blast
  then obtain cw' g where g: "gw (max_cols b) = Inr cw'" "t = Nd KTable [g]"
    "group_cols g = length (plain_widths cw')" "group_rows g = map buildTableRowNode (rows b)"
    "take (length (plain_widths cw')) (kids g)
       = build_colspecs (opt_get (stub_columns opts)) (plain_widths cw')"
    by (rule buildTableNode_Inr)
  have cw': "cw' = cw" using g(1) assms by simp
  have "kids g ! i = build_colspecs (opt_get (stub_columns opts)) (plain_widths cw) ! i"
    if "i < length (plain_widths cw)" for i
    using g(5) that unfolding cw' by (metis nth_take)
  moreover have "kids g ! length (plain_widths cw)
      = Nd KThead (map buildTableRowNode (take (opt_get (header_rows opts)) (rows b)))"
    if "opt_get (header_rows opts) \<noteq> 0"
    using t that assms unfolding g(2) by (auto simp: buildTableNode_def Let_def nth_append)
  ultimately show ?thesis
    using t g by (intro exI [of _ g]) (auto simp: cw' nth_build_colspecs)
qed

theorem ft_table_layout_witness:
  "\<exists>g. buildTableNode (\<lambda>n. Inr (WidthsPair ''auto'' [10, 20]))
       \<lparr>header_rows = Some 1, stub_columns = Some 1, fill_cells = False\<rparr>
       (new_builder\<lparr>rows := [[Some (plain_cell 1 0)]], max_cols := 2\<rparr>) = Inr (Nd KTable [g])
     \<and> kids g ! 0 = Nd (KColspec 10 True) [] \<and> kids g ! 1 = Nd (KColspec 20 False) []"
proof -
  let ?b = "new_builder\<lparr>rows := [[Some (plain_cell 1 0)]], max_cols := 2\<rparr>"
  let ?o = "\<lparr>header_rows = Some 1, stub_columns = Some 1, fill_cells = False\<rparr>"
  from ft_table_layout [where gw = "\<lambda>n. Inr (WidthsPair ''auto'' [10, 20])" and b = ?b and opts = ?o]
  show ?thesis by (force simp: opt_get_def less_Suc_eq)
qed

text \<open>
  The roles read back every integer that is written into them, negative ones
  included.
\<close>

theorem ft_span_roles_roundtrip:
  "c_span (str_int n) = Inr ([Nd (KColSpan n) []], []) \<and>
   r_span (str_int n) = Inr ([Nd (KRowSpan n) []], [])"
  by (simp add: c_span_def r_span_def py_int_str_int)

end
