(* ===== verification/CxacruCf.thy ===== *)
theory CxacruCf
  imports PyNumbers "HOL-Library.Word"
begin

unbundle bit_operations_syntax

text \<open>
  \<open>Documentation/networking/cxacru-cf.py\<close>: converts a binary configuration file of the
  ADSL modem (a packed list of little-endian 32-bit values) to the text that is written
  to the \<open>adsl_config\<close> attribute. Standard input is a list of bytes, the two output
  streams are strings, and the result carries the exit status.
\<close>

type_synonym byte = "8 word"

record cf_result =
  cf_out :: string
  cf_err :: string
  cf_status :: nat

section \<open>The converter\<close>

text \<open>\<open>struct.unpack("<I", buf)[0]\<close>; \<open>None\<close> is \<open>struct.error\<close>, raised for any other length.\<close>

definition unpack_le32 :: "byte list \<Rightarrow> 32 word option" where
  "unpack_le32 buf =
     (case buf of
        [b0, b1, b2, b3] \<Rightarrow>
          Some (ucast b0 OR push_bit 8 (ucast b1) OR push_bit 16 (ucast b2) OR push_bit 24 (ucast b3))
      | _ \<Rightarrow> None)"

text \<open>\<open>"\{0:x\}=\{1\}".format(i, v)\<close>\<close>

definition cf_entry :: "nat \<Rightarrow> 32 word \<Rightarrow> string" where
  "cf_entry i v = hex_nat i @ ''='' @ str_nat (unat v)"

definition short_read_msg :: "nat \<Rightarrow> string" where
  "short_read_msg n = ''Error: read '' @ str_nat n @ '' not 4 bytes'' @ ''\<newline>''"

text \<open>
  The \<open>while True\<close> loop, from the index \<open>i\<close>, the bytes not yet read and the text written so
  far. Each round reads up to four bytes, so the input gets shorter.
\<close>

function cf_loop :: "nat \<Rightarrow> byte list \<Rightarrow> string \<Rightarrow> cf_result" where
  "cf_loop i input out =
     (let buf = take 4 input; rest = drop 4 input in
      if length buf = 0 then \<lparr>cf_out = out @ ''\<newline>'', cf_err = [], cf_status = 0\<rparr>
      else if length buf \<noteq> 4 then
        \<lparr>cf_out = out @ ''\<newline>'', cf_err = short_read_msg (length buf), cf_status = 1\<rparr>
      else
        (case unpack_le32 buf of
           None \<Rightarrow> \<lparr>cf_out = out, cf_err = ''struct.error'', cf_status = 1\<rparr>
         | Some v \<Rightarrow>
             cf_loop (i + 1) rest (out @ (if i > 0 then '' '' else []) @ cf_entry i v)))"
  by pat_completeness auto
termination
  by (relation "measure (\<lambda>(i, input, out). length input)") auto

declare cf_loop.simps [simp del]

definition cxacru_cf :: "byte list \<Rightarrow> cf_result" where
  "cxacru_cf input = cf_loop 0 input []"

section \<open>Words of the file\<close>

text \<open>Writing a value as four bytes, least significant first, is the inverse.\<close>

definition pack_le32 :: "32 word \<Rightarrow> byte list" where
  "pack_le32 v = [ucast v, ucast (drop_bit 8 v), ucast (drop_bit 16 v), ucast (drop_bit 24 v)]"

lemma length_pack_le32 [simp]: "length (pack_le32 v) = 4"
  by (simp add: pack_le32_def)

lemma pack_le32_not_Nil [simp]: "pack_le32 v \<noteq> []"
  by (simp add: pack_le32_def)

lemma unpack_pack_le32: "unpack_le32 (pack_le32 v) = Some v"
proof -
  have "ucast (ucast v :: byte) OR push_bit 8 (ucast (ucast (drop_bit 8 v) :: byte))
      OR push_bit 16 (ucast (ucast (drop_bit 16 v) :: byte))
      OR push_bit 24 (ucast (ucast (drop_bit 24 v) :: byte)) = v" (is "?w = v")
  proof (rule bit_word_eqI)
    fix n assume "n < LENGTH(32)"
    then consider "n < 8" | "8 \<le> n \<and> n < 16" | "16 \<le> n \<and> n < 24" | "24 \<le> n \<and> n < 32"
      by force
    then show "bit ?w n = bit v n"
      by cases (auto simp: bit_simps)
  qed
  then show ?thesis by (simp add: unpack_le32_def pack_le32_def)
qed

lemma bit_byte_high [simp]: "8 \<le> n \<Longrightarrow> \<not> bit (b :: byte) n"
  using bit_imp_le_length [of b n] by auto

lemma pack_unpack_le32:
  assumes "length buf = 4"
  shows "\<exists>v. unpack_le32 buf = Some v \<and> pack_le32 v = buf"
proof -
  obtain b0 b1 b2 b3 where buf: "buf = [b0, b1, b2, b3]"
    using assms by (auto simp: length_Suc_conv numeral_eq_Suc)
  show ?thesis
    unfolding buf unpack_le32_def pack_le32_def
    by (auto intro!: bit_word_eqI simp: bit_simps)
qed

text \<open>The bytes of a list of values, and the values of a file of full length.\<close>

definition pack_all :: "32 word list \<Rightarrow> byte list" where
  "pack_all vs = concat (map pack_le32 vs)"

lemma pack_all_simps [simp]:
  "pack_all [] = []"
  "pack_all (v # vs) = pack_le32 v @ pack_all vs"
  by (simp_all add: pack_all_def)

lemma length_pack_all [simp]: "length (pack_all vs) = 4 * length vs"
  by (induction vs) auto

text \<open>Every input is a packed list of values and up to three more bytes.\<close>

lemma input_split: "\<exists>vs left. input = pack_all vs @ left \<and> length left < 4"
proof (induction "length input" arbitrary: input rule: less_induct)
  case less
  show ?case
  proof (cases "length input < 4")
    case True
    then show ?thesis by (intro exI [of _ "[]"] exI [of _ input]) simp
  next
    case False
    then have "length (take 4 input) = 4" by simp
    then obtain v where v: "pack_le32 v = take 4 input"
      using pack_unpack_le32 by blast
    have "length (drop 4 input) < length input" using False by simp
    from less [OF this] obtain vs left where "drop 4 input = pack_all vs @ left" "length left < 4"
      by blast
    with v have "input = pack_all (v # vs) @ left \<and> length left < 4"
      by (metis append.assoc append_take_drop_id pack_all_simps(2))
    then show ?thesis by blast
  qed
qed

section \<open>What the loop writes\<close>

fun cf_entries :: "nat \<Rightarrow> 32 word list \<Rightarrow> string list" where
  "cf_entries i [] = []"
| "cf_entries i (v # vs) = cf_entry i v # cf_entries (Suc i) vs"

text \<open>The end of a run with \<open>left\<close> left in the last read.\<close>

definition cf_end :: "string \<Rightarrow> byte list \<Rightarrow> cf_result" where
  "cf_end out left =
     (if left = [] then \<lparr>cf_out = out @ ''\<newline>'', cf_err = [], cf_status = 0\<rparr>
      else \<lparr>cf_out = out @ ''\<newline>'', cf_err = short_read_msg (length left), cf_status = 1\<rparr>)"

definition spaced :: "string list \<Rightarrow> string" where
  "spaced ws = concat (map (\<lambda>w. CHR '' '' # w) ws)"

lemma spaced_simps [simp]: "spaced [] = []" "spaced (w # ws) = CHR '' '' # w @ spaced ws"
  by (simp_all add: spaced_def)

lemma py_join_spaced: "py_join '' '' (w # ws) = w @ spaced ws"
  by (induction ws arbitrary: w) auto

lemma cf_loop_short: "length left < 4 \<Longrightarrow> cf_loop i left out = cf_end out left"
  by (subst cf_loop.simps) (simp add: cf_end_def)

lemma cf_loop_step:
  "cf_loop i (pack_le32 v @ rest) out
     = cf_loop (Suc i) rest (out @ (if i > 0 then '' '' else []) @ cf_entry i v)"
  by (subst cf_loop.simps) (simp add: unpack_pack_le32 Let_def)

lemma cf_loop_later:
  "0 < i \<Longrightarrow> length left < 4 \<Longrightarrow>
   cf_loop i (pack_all vs @ left) out = cf_end (out @ spaced (cf_entries i vs)) left"
  by (induction vs arbitrary: i out) (simp_all add: cf_loop_short cf_loop_step)

lemma cxacru_cf_run:
  assumes "length left < 4"
  shows "cxacru_cf (pack_all vs @ left) = cf_end (py_join '' '' (cf_entries 0 vs)) left"
proof (cases vs)
  case Nil
  with assms show ?thesis by (simp add: cxacru_cf_def cf_loop_short)
next
  case (Cons v vs')
  with assms show ?thesis
    by (simp add: cxacru_cf_def cf_loop_step cf_loop_later py_join_spaced del: py_join.simps)
qed

section \<open>Reading the text back\<close>

text \<open>
  A reader of the written text: entries separated by spaces up to the newline, an index in
  hexadecimal, an equals sign, a decimal value.
\<close>

definition read_entry :: "string \<Rightarrow> (nat \<times> nat) option" where
  "read_entry w =
     (case py_split (CHR ''='') w of
        [a, b] \<Rightarrow>
          Option.bind (read_pos 16 hex_val 0 a) (\<lambda>i.
          Option.bind (read_pos 10 dec_val 0 b) (\<lambda>v. Some (i, v)))
      | _ \<Rightarrow> None)"

fun read_all :: "string list \<Rightarrow> (nat \<times> nat) list option" where
  "read_all [] = Some []"
| "read_all (w # ws) =
     Option.bind (read_entry w) (\<lambda>e. Option.bind (read_all ws) (\<lambda>es. Some (e # es)))"

definition read_config :: "string \<Rightarrow> (nat \<times> nat) list option" where
  "read_config s = read_all (py_words is_space s)"

lemma hex_val_plain: "hex_val c \<noteq> None \<Longrightarrow> c \<noteq> CHR ''='' \<and> \<not> is_space c"
  by (auto simp: hex_val_def is_space_def Let_def split: if_splits)

lemma dec_val_plain: "dec_val c \<noteq> None \<Longrightarrow> c \<noteq> CHR ''='' \<and> \<not> is_space c"
  by (auto simp: dec_val_def is_space_def Let_def split: if_splits)

lemma read_cf_entry: "read_entry (cf_entry i v) = Some (i, unat v)"
proof -
  have "CHR ''='' \<notin> set (hex_nat i)" "CHR ''='' \<notin> set (str_nat (unat v))"
    using hex_nat_digits hex_val_plain str_nat_digits dec_val_plain by blast+
  then show ?thesis
    by (simp add: read_entry_def cf_entry_def py_split_append py_split_word read_hex_nat read_str_nat)
qed

lemma cf_entry_no_space: "c \<in> set (cf_entry i v) \<Longrightarrow> \<not> is_space c"
  using hex_nat_digits [of c i] hex_val_plain [of c] str_nat_digits [of c "unat v"]
    dec_val_plain [of c]
  by (auto simp: cf_entry_def is_space_def)

lemma words_acc_run:
  "\<forall>c \<in> set w. \<not> P c \<Longrightarrow> words_acc P acc (w @ s) = words_acc P (rev w @ acc) s"
  by (induction w arbitrary: acc) auto

lemma words_spaced:
  assumes "\<forall>w \<in> set ws. w \<noteq> [] \<and> (\<forall>c \<in> set w. \<not> P c)" and "P (CHR '' '')" and "P (CHR 0x0A)"
    and "acc \<noteq> []"
  shows "words_acc P acc (spaced ws @ ''\<newline>'') = rev acc # ws"
  using assms
proof (induction ws arbitrary: acc)
  case Nil
  then show ?case by simp
next
  case (Cons w ws)
  then show ?case by (simp add: words_acc_run)
qed

lemma words_join:
  assumes "\<forall>w \<in> set ws. w \<noteq> [] \<and> (\<forall>c \<in> set w. \<not> P c)" and "P (CHR '' '')" and "P (CHR 0x0A)"
  shows "py_words P (py_join '' '' ws @ ''\<newline>'') = ws"
proof (cases ws)
  case Nil
  with assms show ?thesis by (simp add: py_words_def)
next
  case (Cons w ws')
  with assms show ?thesis
    by (simp add: py_words_def py_join_spaced words_acc_run words_spaced del: py_join.simps)
qed

lemma cf_entries_plain:
  "w \<in> set (cf_entries i vs) \<Longrightarrow> w \<noteq> [] \<and> (\<forall>c \<in> set w. \<not> is_space c)"
  by (induction vs arbitrary: i) (auto simp: cf_entry_no_space, simp add: cf_entry_def)

lemma read_all_entries:
  "read_all (cf_entries i vs) = Some (zip [i..<i + length vs] (map unat vs))"
  by (induction vs arbitrary: i) (simp_all add: read_cf_entry upt_rec)

lemma read_config_entries:
  "read_config (py_join '' '' (cf_entries 0 vs) @ ''\<newline>'')
     = Some (zip [0..<length vs] (map unat vs))"
proof -
  have "py_words is_space (py_join '' '' (cf_entries 0 vs) @ ''\<newline>'') = cf_entries 0 vs"
    using cf_entries_plain by (intro words_join) (auto simp: is_space_def)
  then show ?thesis using read_all_entries [of 0 vs] by (simp add: read_config_def)
qed

text \<open>A decimal numeral read as a hexadecimal one.\<close>

lemma dec_digits_hex: "dec_val c = Some d \<Longrightarrow> hex_val c = Some d"
  by (auto simp: dec_val_def hex_val_def Let_def split: if_splits)

lemma str_nat_as_hex:
  "\<exists>h. read_pos 16 hex_val 0 (str_nat n) = Some h \<and> n \<le> h \<and> (10 \<le> n \<longrightarrow> n < h)"
proof (induction n rule: less_induct)
  case (less n)
  show ?case
  proof (cases "n < 10")
    case True
    then have "hex_val (digit_char n) = Some n" by (intro hex_val_digit_char) simp
    with True show ?thesis by (simp add: str_nat_def show_pos.simps [of 10])
  next
    case False
    then have "n div 10 < n" by simp
    with less obtain h where h: "read_pos 16 hex_val 0 (str_nat (n div 10)) = Some h" "n div 10 \<le> h"
      by blast
    have "str_nat n = str_nat (n div 10) @ [digit_char (n mod 10)]"
      using False by (simp add: str_nat_def show_pos.simps [of 10 digit_char n])
    moreover have "hex_val (digit_char (n mod 10)) = Some (n mod 10)"
      by (intro hex_val_digit_char) (simp add: less_trans [of "n mod 10" 10 16])
    ultimately have "read_pos 16 hex_val 0 (str_nat n) = Some (h * 16 + n mod 10)"
      using h by (simp add: read_pos_append)
    moreover have "n < h * 16 + n mod 10"
      using h(2) False div_mult_mod_eq [of n 10] div_le_mono [of 10 n 10] by linarith
    ultimately show ?thesis by (intro exI [of _ "h * 16 + n mod 10"]) simp
  qed
qed

lemma str_nat_as_hex_iff: "read_pos 16 hex_val 0 (str_nat n) = Some n \<longleftrightarrow> n < 10"
proof -
  obtain h where h: "read_pos 16 hex_val 0 (str_nat n) = Some h" "10 \<le> n \<longrightarrow> n < h"
    using str_nat_as_hex by blast
  have "h = n" if "n < 10"
  proof -
    have "hex_val (digit_char n) = Some n" using that by (intro hex_val_digit_char) simp
    with h(1) that show ?thesis by (simp add: str_nat_def show_pos.simps [of 10])
  qed
  with h show ?thesis by fastforce
qed

text \<open>
  The reader the documentation of the attribute describes (\<open>networking/cxacru.txt\<close>:
  parameters in hexadecimal format \<open><index>=<value>\<close>).
\<close>

definition read_entry_doc :: "string \<Rightarrow> (nat \<times> nat) option" where
  "read_entry_doc w =
     (case py_split (CHR ''='') w of
        [a, b] \<Rightarrow>
          Option.bind (read_pos 16 hex_val 0 a) (\<lambda>i.
          Option.bind (read_pos 16 hex_val 0 b) (\<lambda>v. Some (i, v)))
      | _ \<Rightarrow> None)"

fun read_all_doc :: "string list \<Rightarrow> (nat \<times> nat) list option" where
  "read_all_doc [] = Some []"
| "read_all_doc (w # ws) =
     Option.bind (read_entry_doc w) (\<lambda>e. Option.bind (read_all_doc ws) (\<lambda>es. Some (e # es)))"

definition read_config_doc :: "string \<Rightarrow> (nat \<times> nat) list option" where
  "read_config_doc s = read_all_doc (py_words is_space s)"

lemma read_entry_doc_cf: "\<exists>h. read_entry_doc (cf_entry i v) = Some (i, h) \<and> (h = unat v \<longleftrightarrow> unat v < 10)"
proof -
  have "CHR ''='' \<notin> set (hex_nat i)" "CHR ''='' \<notin> set (str_nat (unat v))"
    using hex_nat_digits hex_val_plain str_nat_digits dec_val_plain by blast+
  moreover obtain h where "read_pos 16 hex_val 0 (str_nat (unat v)) = Some h"
    using str_nat_as_hex by blast
  ultimately show ?thesis
    using str_nat_as_hex_iff [of "unat v"]
    by (simp add: read_entry_doc_def cf_entry_def py_split_append py_split_word read_hex_nat)
qed

lemma read_all_doc_entries:
  "\<exists>hs. read_all_doc (cf_entries i vs) = Some (zip [i..<i + length vs] hs)
     \<and> list_all2 (\<lambda>h v. h = unat v \<longleftrightarrow> unat v < 10) hs vs"
proof (induction vs arbitrary: i)
  case (Cons v vs)
  obtain hs where hs: "read_all_doc (cf_entries (Suc i) vs) = Some (zip [Suc i..<Suc i + length vs] hs)"
    "list_all2 (\<lambda>h v. h = unat v \<longleftrightarrow> unat v < 10) hs vs" using Cons.IH by blast
  obtain h where "read_entry_doc (cf_entry i v) = Some (i, h)" "h = unat v \<longleftrightarrow> unat v < 10"
    using read_entry_doc_cf by blast
  moreover have "[i..<i + length (v # vs)] = i # [Suc i..<Suc i + length vs]"
    by (simp add: upt_conv_Cons del: upt_Suc)
  ultimately show ?case using hs by (intro exI [of _ "h # hs"]) (simp del: upt_Suc)
qed simp

section \<open>Properties\<close>

text \<open>
  C34. The written text read the way \<open>networking/cxacru.txt\<close> documents the attribute it is for (entries separated by
  white space, index and value in hexadecimal): every packed file is accepted and every value reaches its
  index, but since the script writes the values in decimal, exactly the values below ten are the ones
  that were packed.
\<close>

theorem cxacru_read_as_documented:
  "\<exists>hs. read_config_doc (cf_out (cxacru_cf (pack_all vs))) = Some (zip [0..<length vs] hs)
     \<and> list_all2 (\<lambda>v h. h = unat v \<longleftrightarrow> unat v < 10) vs hs"
proof -
  have "py_words is_space (py_join '' '' (cf_entries 0 vs) @ ''\<newline>'') = cf_entries 0 vs"
    using cf_entries_plain by (intro words_join) (auto simp: is_space_def)
  then have "read_config_doc (cf_out (cxacru_cf (pack_all vs))) = read_all_doc (cf_entries 0 vs)"
    using cxacru_cf_run [of "[]" vs] by (simp add: cf_end_def read_config_doc_def)
  with read_all_doc_entries [of 0 vs] show ?thesis by (auto simp: list_all2_conv_all_nth)
qed

text \<open>
  C35. Every input is converted up to its last complete value: the text holds all complete
  values, and exactly when the length is no multiple of four the script reports the number
  of bytes of the incomplete one and exits with status one.
\<close>

theorem cxacru_every_input:
  "\<exists>vs left. input = pack_all vs @ left \<and> length left = length input mod 4
    \<and> read_config (cf_out (cxacru_cf input)) = Some (zip [0..<length vs] (map unat vs))
    \<and> cf_status (cxacru_cf input) = (if 4 dvd length input then 0 else 1)
    \<and> cf_err (cxacru_cf input)
        = (if 4 dvd length input then [] else short_read_msg (length input mod 4))"
proof -
  obtain vs left where in_eq: "input = pack_all vs @ left" and short: "length left < 4"
    using input_split by blast
  then have m: "length input mod 4 = length left" by simp
  then have "4 dvd length input \<longleftrightarrow> left = []" by (simp add: dvd_eq_mod_eq_0)
  with in_eq m short cxacru_cf_run [OF short, of vs] read_config_entries [of vs]
  show ?thesis by (intro exI [of _ vs] exI [of _ left]) (simp add: cf_end_def)
qed

end
