(* ===== verification/DecodeMsr.thy ===== *)
theory DecodeMsr
  imports PyNumbers
begin

text \<open>
  \<open>Documentation/trace/postprocess/decode_msr.py\<close>: reads the register names of a header
  file and annotates the register numbers in the lines of a trace. The two regular
  expressions are written out as matchers; in both the repeated classes are disjoint from
  what follows, so the longest run is the only one that can match.
\<close>

section \<open>The patterns\<close>

definition strip_pre :: "string \<Rightarrow> string \<Rightarrow> string option" where
  "strip_pre p s = (if prefix p s then Some (drop (length p) s) else None)"

definition is_hex :: "char \<Rightarrow> bool" where
  "is_hex c \<longleftrightarrow> hex_val c \<noteq> None"

definition is_lower_hex :: "char \<Rightarrow> bool" where
  "is_lower_hex c \<longleftrightarrow> is_digit c \<or> 97 \<le> (of_char c :: nat) \<and> (of_char c :: nat) \<le> 102"

text \<open>
  \<open>re.match(r'#define (MSR_\w+)\s+(0x[0-9a-fA-F]+)', j)\<close>: the two groups.
\<close>

definition match_define :: "string \<Rightarrow> (string \<times> string) option" where
  "match_define j =
     Option.bind (strip_pre ''#define MSR_'' j) (\<lambda>r.
       let w = takeWhile is_word_char r;
           r1 = dropWhile is_word_char r;
           sp = takeWhile is_space r1
       in if w = [] \<or> sp = [] then None
          else Option.bind (strip_pre ''0x'' (dropWhile is_space r1)) (\<lambda>r2.
                 let h = takeWhile is_hex r2
                 in if h = [] then None else Some (''MSR_'' @ w, ''0x'' @ h)))"

text \<open>\<open>(read|write)_msr:\s+([0-9a-f]+)\<close> at the beginning of a string: the second group.\<close>

definition after_colon :: "string \<Rightarrow> string option" where
  "after_colon r =
     (let sp = takeWhile is_space r;
          h = takeWhile is_lower_hex (dropWhile is_space r)
      in if sp = [] \<or> h = [] then None else Some h)"

definition match_msr :: "string \<Rightarrow> string option" where
  "match_msr j =
     (case strip_pre ''read_msr:'' j of
        Some r \<Rightarrow> after_colon r
      | None \<Rightarrow> (case strip_pre ''write_msr:'' j of Some r \<Rightarrow> after_colon r | None \<Rightarrow> None))"

text \<open>\<open>re.search\<close>: the leftmost position that matches.\<close>

fun search_msr :: "string \<Rightarrow> string option" where
  "search_msr [] = match_msr []"
| "search_msr (c # s) =
     (case match_msr (c # s) of Some h \<Rightarrow> Some h | None \<Rightarrow> search_msr s)"

text \<open>\<open>int(s, 16)\<close> on the strings the patterns return: hexadecimal digits after an optional \<open>0x\<close>.\<close>

definition int_16 :: "string \<Rightarrow> nat res" where
  "int_16 s =
     (let d = (if prefix ''0x'' s then drop 2 s else s)
      in if d = [] then Inl ValueError
         else (case read_pos 16 hex_val 0 d of None \<Rightarrow> Inl ValueError | Some n \<Rightarrow> Inr n))"

section \<open>The register names\<close>

fun load_msrs :: "(nat \<rightharpoonup> string) \<Rightarrow> string list \<Rightarrow> (nat \<rightharpoonup> string) res" where
  "load_msrs msrs [] = Inr msrs"
| "load_msrs msrs (j # f) =
     (case match_define j of
        None \<Rightarrow> load_msrs msrs f
      | Some (name, num) \<Rightarrow> rbind (int_16 num) (\<lambda>n. load_msrs (msrs(n \<mapsto> name)) f))"

text \<open>Each format with one \<open>%d\<close> is kept as the text before and after it.\<close>

definition extra_ranges :: "(string \<times> string \<times> nat \<times> nat) list" where
  "extra_ranges =
     [(''MSR_LASTBRANCH_'', ''_FROM_IP'', 0x680, 0x69F),
      (''MSR_LASTBRANCH_'', ''_TO_IP'', 0x6C0, 0x6DF),
      (''LBR_INFO_'', '''', 0xdc0, 0xddf)]"

fun find_range :: "(string \<times> string \<times> nat \<times> nat) list \<Rightarrow> nat \<Rightarrow> string option" where
  "find_range [] num = None"
| "find_range ((pre, post, lo, hi) # ers) num =
     (if lo \<le> num \<and> num \<le> hi then Some (pre @ str_nat (num - lo) @ post)
      else find_range ers num)"

definition msr_name :: "(nat \<rightharpoonup> string) \<Rightarrow> nat \<Rightarrow> string option" where
  "msr_name msrs num =
     (case msrs num of Some r \<Rightarrow> Some r | None \<Rightarrow> find_range extra_ranges num)"

section \<open>The filter\<close>

definition annotation :: "string \<Rightarrow> string \<Rightarrow> string" where
  "annotation r h = '' '' @ r @ ''('' @ h @ '')''"

definition decode_line :: "(nat \<rightharpoonup> string) \<Rightarrow> string \<Rightarrow> string res" where
  "decode_line msrs j =
     (case search_msr j of
        None \<Rightarrow> Inr j
      | Some h \<Rightarrow> rbind (int_16 h) (\<lambda>num.
          (case msr_name msrs num of
             None \<Rightarrow> Inr j
           | Some r \<Rightarrow> if r = [] then Inr j
                       else Inr (py_replace ('' '' @ h) (annotation r h) j))))"

text \<open>The texts the print statements are given for a header file and a trace.\<close>

definition decode_msr :: "string list \<Rightarrow> string list \<Rightarrow> string list res" where
  "decode_msr header trace =
     rbind (load_msrs Map.empty header) (\<lambda>msrs. rmap_list (decode_line msrs) trace)"

text \<open>
  The whole script: what \<open>print j,\<close> writes for these texts. Lines end in a line break, so nothing comes between
  them; after a last line without one Python 2 writes it at the end.
\<close>

fun print_soft :: "bool \<Rightarrow> string list \<Rightarrow> string" where
  "print_soft soft [] = (if soft then ''\<newline>'' else [])"
| "print_soft soft (t # ts) = (if soft then '' '' else []) @ t @ print_soft (blank_after t) ts"

definition decode_msr_output :: "string list \<Rightarrow> string list \<Rightarrow> string res" where
  "decode_msr_output header trace = rbind (decode_msr header trace) (\<lambda>ts. Inr (print_soft False ts))"

section \<open>What the patterns return\<close>

lemma lower_hex_is_hex: "is_lower_hex c \<Longrightarrow> is_hex c"
  by (auto simp: is_lower_hex_def is_hex_def is_digit_def hex_val_def Let_def)

lemma read_pos_total:
  "\<forall>c \<in> set s. dec c \<noteq> None \<Longrightarrow> \<exists>n. read_pos b dec acc s = Some n"
  by (induction s arbitrary: acc) (auto split: option.split)

lemma int_16_digits:
  assumes "s \<noteq> []" and "\<forall>c \<in> set s. is_hex c"
  shows "\<exists>n. read_pos 16 hex_val 0 s = Some n \<and> int_16 s = Inr n"
proof -
  have "\<not> prefix ''0x'' s"
  proof
    assume "prefix ''0x'' s"
    then have "CHR ''x'' \<in> set s" by (auto simp: prefix_def)
    with assms(2) show False by (auto simp: is_hex_def hex_val_def)
  qed
  with assms read_pos_total [of s hex_val 16 0] show ?thesis
    by (auto simp: int_16_def is_hex_def)
qed

lemma int_16_0x:
  assumes "h \<noteq> []" and "\<forall>c \<in> set h. is_hex c"
  shows "\<exists>n. read_pos 16 hex_val 0 h = Some n \<and> int_16 (''0x'' @ h) = Inr n"
  using assms read_pos_total [of h hex_val 16 0] by (auto simp: int_16_def is_hex_def)

lemma match_define_Some:
  assumes "match_define j = Some (name, num)"
  shows "name \<noteq> [] \<and> (\<exists>h. num = ''0x'' @ h \<and> h \<noteq> [] \<and> (\<forall>c \<in> set h. is_hex c))"
  using assms set_takeWhileD
  by (fastforce simp: match_define_def Let_def bind_eq_Some_conv split: if_splits)

lemma after_colon_Some:
  "after_colon r = Some h \<Longrightarrow> h \<noteq> [] \<and> (\<forall>c \<in> set h. is_lower_hex c)"
  using set_takeWhileD by (fastforce simp: after_colon_def Let_def split: if_splits)

lemma search_msr_Some:
  "search_msr j = Some h \<Longrightarrow> h \<noteq> [] \<and> (\<forall>c \<in> set h. is_lower_hex c)"
  by (induction j rule: search_msr.induct)
    (auto simp: match_msr_def dest: after_colon_Some split: option.splits)

lemma int_16_search:
  assumes "search_msr j = Some h"
  shows "\<exists>n. read_pos 16 hex_val 0 h = Some n \<and> int_16 h = Inr n"
  using search_msr_Some [OF assms] lower_hex_is_hex by (intro int_16_digits) auto

section \<open>The dictionary\<close>

text \<open>The definitions of a header in order, as pairs of a number and a name.\<close>

definition define_of :: "string \<Rightarrow> (nat \<times> string) option" where
  "define_of j =
     Option.bind (match_define j) (\<lambda>(name, num).
       map_option (\<lambda>n. (n, name)) (read_pos 16 hex_val 0 (drop 2 num)))"

lemma load_msrs_step:
  "load_msrs m (j # f) =
     (case define_of j of None \<Rightarrow> load_msrs m f | Some (n, name) \<Rightarrow> load_msrs (m(n \<mapsto> name)) f)"
proof (cases "match_define j")
  case None
  then show ?thesis by (simp add: define_of_def)
next
  case (Some p)
  obtain name num where p: "p = (name, num)" by (cases p)
  with Some obtain h where "num = ''0x'' @ h" "h \<noteq> []" "\<forall>c \<in> set h. is_hex c"
    using match_define_Some by blast
  with Some p int_16_0x show ?thesis by (fastforce simp: define_of_def)
qed

fun header_defs :: "string list \<Rightarrow> (nat \<times> string) list" where
  "header_defs [] = []"
| "header_defs (j # f) = (case define_of j of None \<Rightarrow> [] | Some d \<Rightarrow> [d]) @ header_defs f"

lemma map_add_map_of_snoc: "m ++ map_of (xs @ [(n, v)]) = m(n \<mapsto> v) ++ map_of xs"
  by (simp add: map_of_append map_add_assoc [symmetric])

lemma load_msrs_map_of: "load_msrs m f = Inr (m ++ map_of (rev (header_defs f)))"
proof (induction f arbitrary: m)
  case Nil
  then show ?case by simp
next
  case (Cons j f)
  show ?case
  proof (cases "define_of j")
    case None
    then show ?thesis by (simp add: load_msrs_step Cons.IH del: load_msrs.simps)
  next
    case (Some d)
    then obtain n name where d: "define_of j = Some (n, name)" by (cases d) auto
    have "m ++ map_of (rev (header_defs (j # f))) = m(n \<mapsto> name) ++ map_of (rev (header_defs f))"
      using d map_add_map_of_snoc [of m "rev (header_defs f)" n name] by simp
    moreover have "load_msrs m (j # f) = load_msrs (m(n \<mapsto> name)) f"
      using d by (simp add: load_msrs_step del: load_msrs.simps)
    ultimately show ?thesis using Cons.IH [of "m(n \<mapsto> name)"] by (simp only:)
  qed
qed

section \<open>The replacement\<close>

lemma subseq_py_replace: "subseq p q \<Longrightarrow> subseq s (py_replace p q s)"
proof (induction p q s rule: py_replace.induct)
  case (1 p q s)
  show ?case
  proof (cases s)
    case Nil
    then show ?thesis by simp
  next
    case (Cons c s')
    show ?thesis
    proof (cases "p \<noteq> [] \<and> prefix p s")
      case True
      then obtain t where s: "s = p @ t" by (auto simp: prefix_def)
      then have "t = drop (length p) s" by simp
      with 1 Cons True have "subseq t (py_replace p q t)" by metis
      then have "subseq (p @ t) (q @ py_replace p q t)"
        using "1.prems" by (rule list_emb_append_mono [rotated])
      with True s show ?thesis by (simp add: py_replace_hit)
    next
      case False
      with 1 Cons show ?thesis by (subst py_replace.simps) auto
    qed
  qed
qed

lemma length_py_replace_ge:
  assumes "subseq p q"
  shows "length s \<le> length (py_replace p q s)"
  using list_emb_length [OF subseq_py_replace [OF assms]] .

lemma py_replace_first:
  "p \<noteq> [] \<Longrightarrow> py_find p (u @ p @ v) = Some (length u) \<Longrightarrow>
   py_replace p q (u @ p @ v) = u @ q @ py_replace p q v"
proof (induction u)
  case Nil
  then show ?case by (simp add: py_replace_hit)
next
  case (Cons c u)
  then show ?case by (auto simp: py_replace_skip split: if_splits)
qed

lemma length_py_replace_gt:
  assumes "p \<noteq> []" and "subseq p q" and "length p < length q" and "py_find p s \<noteq> None"
  shows "length s < length (py_replace p q s)"
proof -
  obtain i where "py_find p s = Some i" using assms(4) by blast
  from py_find_first [OF this] obtain u v where s: "s = u @ p @ v"
    and f: "py_find p (u @ p @ v) = Some (length u)" .
  have "py_replace p q s = u @ q @ py_replace p q v"
    unfolding s by (rule py_replace_first [OF assms(1) f])
  then show ?thesis
    using length_py_replace_ge [OF assms(2), of v] assms(3) by (simp add: s)
qed

lemma subseq_annotation: "subseq ('' '' @ h) (annotation r h)"
proof -
  have "subseq h (h @ '')'')" by (rule subseq_rev_drop_many) simp
  then have "subseq h ((r @ ''('') @ h @ '')'')" by (rule subseq_drop_many)
  then show ?thesis by (simp add: annotation_def)
qed

lemma length_annotation: "length ('' '' @ h) < length (annotation r h)"
  by (simp add: annotation_def)

lemma decode_line_named:
  assumes "search_msr j = Some h" and "read_pos 16 hex_val 0 h = Some n"
    and "msr_name msrs n = Some r" and "r \<noteq> []"
  shows "decode_line msrs j = Inr (py_replace ('' '' @ h) (annotation r h) j)"
  using assms int_16_search [OF assms(1)] by (auto simp: decode_line_def)

lemma decode_line_unnamed:
  assumes "\<And>h n. search_msr j = Some h \<Longrightarrow> read_pos 16 hex_val 0 h = Some n
      \<Longrightarrow> msr_name msrs n = None"
  shows "decode_line msrs j = Inr j"
proof (cases "search_msr j")
  case None
  then show ?thesis by (simp add: decode_line_def)
next
  case (Some h)
  with assms int_16_search [OF Some] show ?thesis by (auto simp: decode_line_def)
qed

lemma decode_line_cases:
  obtains (plain) "decode_line msrs j = Inr j"
  | (named) h n r where "search_msr j = Some h" and "read_pos 16 hex_val 0 h = Some n"
      and "msr_name msrs n = Some r" and "r \<noteq> []"
      and "decode_line msrs j = Inr (py_replace ('' '' @ h) (annotation r h) j)"
proof (cases "search_msr j")
  case None
  with plain show thesis by (simp add: decode_line_def)
next
  case (Some h)
  with int_16_search obtain n where n: "read_pos 16 hex_val 0 h = Some n" by blast
  show thesis
  proof (cases "msr_name msrs n")
    case None
    have "decode_line msrs j = Inr j"
      by (rule decode_line_unnamed) (use Some n None in auto)
    then show thesis by (rule plain)
  next
    case r: (Some r)
    show thesis
    proof (cases "r = []")
      case True
      with Some r n plain int_16_search [OF Some] show thesis by (auto simp: decode_line_def)
    next
      case False
      with decode_line_named [OF Some n r] named Some n r show thesis by blast
    qed
  qed
qed

lemma subseq_print_soft: "list_all2 subseq js ts \<Longrightarrow> subseq (concat js) (print_soft soft ts)"
proof (induction js ts arbitrary: soft rule: list_all2_induct)
  case (Cons j js t ts)
  have "subseq (j @ concat js) (t @ print_soft (blank_after t) ts)"
    by (rule list_emb_append_mono [OF Cons(1) Cons(3)])
  then show ?case by (simp add: subseq_drop_many)
qed simp

section \<open>Properties\<close>

text \<open>
  C36. Filtering never fails, whatever the header and the trace hold: the conversions only
  see digits. Each line of the trace gives one line, and no character of it is lost: what is
  printed contains the line as a subsequence, and so the output the whole trace.
\<close>

theorem msr_lines_kept:
  "\<exists>out. decode_msr header trace = Inr out \<and> list_all2 subseq trace out
     \<and> decode_msr_output header trace = Inr (print_soft False out)
     \<and> subseq (concat trace) (print_soft False out)"
proof -
  let ?m = "map_of (rev (header_defs header))"
  have line: "\<exists>j'. decode_line ?m j = Inr j' \<and> subseq j j'" for j
    by (rule decode_line_cases [of ?m j]) (blast intro: subseq_py_replace subseq_annotation)+
  obtain g where g: "\<And>j. decode_line ?m j = Inr (g j) \<and> subseq j (g j)"
    using line by metis
  then have "rmap_list (decode_line ?m) trace = Inr (map g trace)"
    by (intro rmap_list_total) simp
  moreover have "list_all2 subseq trace (map g trace)"
    using g by (simp add: list_all2_conv_all_nth)
  ultimately show ?thesis
    using load_msrs_map_of [of Map.empty header] subseq_print_soft [of trace "map g trace" False]
    by (simp add: decode_msr_def decode_msr_output_def)
qed

text \<open>
  The dictionary holds, for each number a definition of the header gives, the name of the
  last definition with that number, and nothing else.
\<close>

theorem msr_dictionary:
  "load_msrs Map.empty header = Inr (map_of (rev (header_defs header)))"
  using load_msrs_map_of [of Map.empty header] by simp

text \<open>
  The names made from the formats: a number outside the dictionary is named exactly when
  it lies in one of the three ranges, and the number in the name is its distance to the
  start of the range, below 32.
\<close>

theorem msr_extra_ranges:
  assumes "msrs num = None"
  shows "msr_name msrs num =
     (if 0x680 \<le> num \<and> num < 0x680 + 32
      then Some (''MSR_LASTBRANCH_'' @ str_nat (num - 0x680) @ ''_FROM_IP'')
      else if 0x6C0 \<le> num \<and> num < 0x6C0 + 32
      then Some (''MSR_LASTBRANCH_'' @ str_nat (num - 0x6C0) @ ''_TO_IP'')
      else if 0xdc0 \<le> num \<and> num < 0xdc0 + 32
      then Some (''LBR_INFO_'' @ str_nat (num - 0xdc0))
      else None)"
  using assms by (auto simp: msr_name_def extra_ranges_def)

theorem msr_extra_ranges_witness:
  "msr_name [0x10 \<mapsto> ''MSR_TSC''] 0x683 = Some ''MSR_LASTBRANCH_3_FROM_IP''"
proof -
  have "str_nat 3 = ''3''" by code_simp
  with msr_extra_ranges [of "[0x10 \<mapsto> ''MSR_TSC'']" 1667] show ?thesis by simp
qed

text \<open>
  C37. A line in which the register's number, with its space, occurs only once is annotated in
  place: what is before and after it is unchanged.
\<close>

theorem msr_annotated_in_place:
  assumes "search_msr j = Some h" and "read_pos 16 hex_val 0 h = Some n"
    and "msr_name msrs n = Some r" and "r \<noteq> []"
    and "j = u @ '' '' @ h @ v" and "py_find ('' '' @ h) j = Some (length u)"
    and "py_find ('' '' @ h) v = None"
  shows "decode_line msrs j = Inr (u @ '' '' @ r @ ''('' @ h @ '')'' @ v)"
proof -
  have "py_replace ('' '' @ h) (annotation r h) (u @ ('' '' @ h) @ v) = u @ annotation r h @ v"
    using assms(5-7) by (intro py_replace_once) auto
  with decode_line_named [OF assms(1-4)] assms(5) show ?thesis by (simp add: annotation_def)
qed

theorem msr_annotated_in_place_witness:
  "decode_line [0x10 \<mapsto> ''MSR_TSC''] ''x: read_msr: 10, value 2f''
     = Inr ''x: read_msr: MSR_TSC(10), value 2f''"
proof -
  have 1: "search_msr ''x: read_msr: 10, value 2f'' = Some ''10''" by code_simp
  have 2: "read_pos 16 hex_val 0 ''10'' = Some 0x10" by code_simp
  have 3: "py_find ('' '' @ ''10'') ''x: read_msr: 10, value 2f'' = Some (length ''x: read_msr:'')"
    by code_simp
  have 4: "py_find ('' '' @ ''10'') '', value 2f'' = None" by code_simp
  show ?thesis
    using msr_annotated_in_place [OF 1 2 _ _ _ 3 4, where msrs = "[0x10 \<mapsto> ''MSR_TSC'']" and r = "''MSR_TSC''"]
    by (simp add: msr_name_def)
qed

text \<open>
  The annotation is not confined to the register: when the digits of the register's number
  come again after a space later in the line, as the beginning of the value read or written, the
  value is rewritten as well, and the line grows by more than one annotation.
\<close>

theorem msr_value_rewritten:
  assumes "search_msr j = Some h" and "read_pos 16 hex_val 0 h = Some n"
    and "msr_name msrs n = Some r" and "r \<noteq> []"
    and "j = u @ '' '' @ h @ v" and "py_find ('' '' @ h) j = Some (length u)"
    and "v = u' @ '' '' @ h @ v'" and "py_find ('' '' @ h) v = Some (length u')"
  shows "\<exists>w. decode_line msrs j
           = Inr (u @ '' '' @ r @ ''('' @ h @ '')'' @ u' @ '' '' @ r @ ''('' @ h @ '')'' @ w)"
proof -
  let ?p = "'' '' @ h" and ?q = "annotation r h"
  have "py_replace ?p ?q (u @ ?p @ v) = u @ ?q @ py_replace ?p ?q v"
    using assms(5,6) by (intro py_replace_first) auto
  moreover have "py_replace ?p ?q (u' @ ?p @ v') = u' @ ?q @ py_replace ?p ?q v'"
    using assms(7,8) by (intro py_replace_first) auto
  ultimately show ?thesis
    using decode_line_named [OF assms(1-4)] assms(5,7)
    by (intro exI [of _ "py_replace ?p ?q v'"]) (simp add: annotation_def)
qed

theorem msr_value_rewritten_witness:
  "decode_line [0x10 \<mapsto> ''MSR_TSC''] ''read_msr: 10, value 1000''
     = Inr ''read_msr: MSR_TSC(10), value MSR_TSC(10)00''
   \<and> (\<exists>w. decode_line [0x10 \<mapsto> ''MSR_TSC''] ''read_msr: 10, value 1000''
       = Inr (''read_msr: MSR_TSC(10), value MSR_TSC(10)'' @ w))"
proof -
  have 1: "search_msr ''read_msr: 10, value 1000'' = Some ''10''" by code_simp
  have 2: "read_pos 16 hex_val 0 ''10'' = Some 0x10" by code_simp
  have 3: "py_find ('' '' @ ''10'') ''read_msr: 10, value 1000'' = Some (length ''read_msr:'')"
    by code_simp
  have 4: "py_find ('' '' @ ''10'') '', value 1000'' = Some (length '', value'')" by code_simp
  have "decode_line [0x10 \<mapsto> ''MSR_TSC''] ''read_msr: 10, value 1000''
     = Inr ''read_msr: MSR_TSC(10), value MSR_TSC(10)00''" by code_simp
  then show ?thesis
    using msr_value_rewritten [OF 1 2 _ _ _ 3 _ 4, where msrs = "[0x10 \<mapsto> ''MSR_TSC'']" and r = "''MSR_TSC''"]
    by (simp add: msr_name_def)
qed

end
