(* ===== verification/PosixPath.thy ===== *)
theory PosixPath
  imports PyPrelude
begin

text \<open>
  The path functions of Python's standard library (module \<open>posixpath\<close>) that the sources
  call: \<open>normpath\<close>, \<open>abspath\<close>, \<open>join\<close>, \<open>dirname\<close>, \<open>basename\<close>, \<open>splitext\<close> and
  \<open>expandvars\<close>, written out from the library, with the laws the components rely on. The
  current directory and the environment are arguments.
\<close>

section \<open>Definitions\<close>

abbreviation slash :: char where
  "slash \<equiv> CHR ''/''"

abbreviation dot :: char where
  "dot \<equiv> CHR ''.''"

definition isabs :: "string \<Rightarrow> bool" where
  "isabs p \<longleftrightarrow> startswith p ''/''"

definition path_join :: "string \<Rightarrow> string \<Rightarrow> string" where
  "path_join a b =
     (if startswith b ''/'' then b
      else if a = [] \<or> endswith a ''/'' then a @ b
      else a @ ''/'' @ b)"

definition basename :: "string \<Rightarrow> string" where
  "basename p = rev (takeWhile (\<lambda>c. c \<noteq> slash) (rev p))"

definition path_head :: "string \<Rightarrow> string" where
  "path_head p = take (length p - length (basename p)) p"

definition dirname :: "string \<Rightarrow> string" where
  "dirname p =
     (let h = path_head p in
      if list_all (\<lambda>c. c = slash) h then h else rstrip_by (\<lambda>c. c = slash) h)"

text \<open>
  \<open>splitext\<close>: the last dot of the last component starts the extension, unless only dots are
  before it there.
\<close>

definition splitext :: "string \<Rightarrow> string \<times> string" where
  "splitext p =
     (let b = basename p;
          e = rev (takeWhile (\<lambda>c. c \<noteq> dot) (rev b));
          n = length b - length e - 1
      in if dot \<in> set b \<and> list_ex (\<lambda>c. c \<noteq> dot) (take n b)
         then (take (length p - length e - 1) p, dot # e)
         else (p, []))"

text \<open>
  The loop of \<open>normpath\<close>; the accumulator is \<open>new_comps\<close>, last component first.
\<close>

fun norm_comps :: "bool \<Rightarrow> string list \<Rightarrow> string list \<Rightarrow> string list" where
  "norm_comps rooted acc [] = rev acc"
| "norm_comps rooted acc (c # cs) =
     (if c = [] \<or> c = ''.'' then norm_comps rooted acc cs
      else if c \<noteq> ''..'' \<or> (\<not> rooted \<and> acc = []) \<or> (acc \<noteq> [] \<and> hd acc = ''..'')
      then norm_comps rooted (c # acc) cs
      else norm_comps rooted (tl acc) cs)"

definition initial_slashes :: "string \<Rightarrow> nat" where
  "initial_slashes p =
     (if \<not> startswith p ''/'' then 0
      else if startswith p ''//'' \<and> \<not> startswith p ''///'' then 2 else 1)"

definition normpath :: "string \<Rightarrow> string" where
  "normpath p =
     (if p = [] then ''.''
      else let k = initial_slashes p;
               r = replicate k slash @ py_join ''/'' (norm_comps (k \<noteq> 0) [] (py_split slash p))
           in if r = [] then ''.'' else r)"

definition abspath :: "string \<Rightarrow> string \<Rightarrow> string" where
  "abspath cwd p = normpath (if isabs p then p else path_join cwd p)"

text \<open>
  \<open>expandvars\<close>: the pattern \<open>\$(\w+|\{[^}]*\})\<close>; \<open>var_ref\<close> matches what follows a dollar
  sign and returns the name, the text matched and the rest. A substituted value is not
  scanned again.
\<close>

definition var_ref :: "string \<Rightarrow> (string \<times> string \<times> string) option" where
  "var_ref s =
     (let w = takeWhile is_word_char s in
      if w \<noteq> [] then Some (w, w, dropWhile is_word_char s)
      else (case s of
              [] \<Rightarrow> None
            | c # s' \<Rightarrow>
                let n = takeWhile (\<lambda>d. d \<noteq> CHR ''}'') s';
                    r = dropWhile (\<lambda>d. d \<noteq> CHR ''}'') s'
                in if c = CHR ''{'' \<and> r \<noteq> [] then Some (n, ''{'' @ n @ ''}'', tl r) else None))"

lemma var_ref_shorter [termination_simp]:
  assumes "var_ref s = Some (n, m, r)"
  shows "length r < length s"
proof -
  have "length (dropWhile is_word_char s) < length s" if "takeWhile is_word_char s \<noteq> []"
    using that by (cases s) (auto simp: le_imp_less_Suc length_dropWhile_le split: if_splits)
  moreover have "length (tl (dropWhile P s')) < Suc (length s')" for P and s' :: string
    using length_dropWhile_le [of P s'] by simp
  ultimately show ?thesis
    using assms by (auto simp: var_ref_def Let_def split: if_splits list.splits)
qed

function expandvars :: "(string \<rightharpoonup> string) \<Rightarrow> string \<Rightarrow> string" where
  "expandvars env s =
     (case s of
        [] \<Rightarrow> []
      | c # s' \<Rightarrow>
          if c = CHR ''$'' then
            (case var_ref s' of
               None \<Rightarrow> c # expandvars env s'
             | Some (n, m, r) \<Rightarrow>
                 (case env n of None \<Rightarrow> c # m @ expandvars env r | Some v \<Rightarrow> v @ expandvars env r))
          else c # expandvars env s')"
  by pat_completeness auto
termination
  by (relation "measure (\<lambda>(env, s). length s)") (auto dest: var_ref_shorter)

declare expandvars.simps [simp del]

section \<open>Joining and splitting\<close>

lemma path_join_abs: "isabs b \<Longrightarrow> path_join a b = b"
  by (simp add: path_join_def isabs_def)

lemma isabs_path_join: "isabs a \<Longrightarrow> isabs (path_join a b)"
  by (auto simp: path_join_def isabs_def startswith_def prefix_def)

lemma head_basename: "path_head p @ basename p = p"
proof -
  have "rev p = takeWhile (\<lambda>c. c \<noteq> slash) (rev p) @ dropWhile (\<lambda>c. c \<noteq> slash) (rev p)" by simp
  then have "p = rev (dropWhile (\<lambda>c. c \<noteq> slash) (rev p)) @ basename p"
    unfolding basename_def by (metis rev_append rev_rev_ident)
  then obtain h where "p = h @ basename p" by blast
  then have "path_head p = h"
    unfolding path_head_def by (metis append_eq_conv_conj diff_add_inverse2 length_append)
  with \<open>p = h @ basename p\<close> show ?thesis by simp
qed

lemma basename_no_slash: "slash \<notin> set (basename p)"
  unfolding basename_def by (auto dest: set_takeWhileD)

lemma basename_append:
  assumes "slash \<notin> set b"
  shows "basename (d @ slash # b) = b"
proof -
  have "takeWhile (\<lambda>c. c \<noteq> slash) (rev b @ slash # rev d) = rev b"
    using assms by (subst takeWhile_append2) auto
  then show ?thesis by (simp add: basename_def)
qed

lemma basename_plain:
  assumes "slash \<notin> set b"
  shows "basename b = b"
proof -
  have "takeWhile (\<lambda>c. c \<noteq> slash) (rev b) = rev b"
    unfolding takeWhile_eq_all_conv using assms by auto
  then show ?thesis unfolding basename_def by (metis rev_rev_ident)
qed

lemma splitext_append: "fst (splitext p) @ snd (splitext p) = p"
proof (cases "dot \<in> set (basename p)")
  case False
  then show ?thesis by (simp add: splitext_def Let_def)
next
  case True
  let ?b = "basename p"
  let ?e = "rev (takeWhile (\<lambda>c. c \<noteq> dot) (rev ?b))"
  obtain u v where uv: "rev ?b = u @ dot # v" and u: "dot \<notin> set u"
    using True by (metis set_rev split_list_first)
  have "takeWhile (\<lambda>c. c \<noteq> dot) (rev ?b) = u"
    unfolding uv using u by (subst takeWhile_append2) auto
  then have e: "?e = rev u" by simp
  have b: "?b = rev v @ dot # rev u" using arg_cong [OF uv, of rev] by simp
  have "p = (path_head p @ rev v) @ dot # rev u"
    using head_basename [of p] by (simp add: b)
  then obtain h where p: "p = h @ dot # rev u" by blast
  have "take (length p - length ?e - 1) p = h"
    using arg_cong [OF p, of length] arg_cong [OF p, of "take (length h)"] by (simp add: e)
  with p e show ?thesis unfolding splitext_def Let_def by simp
qed

section \<open>Normalised paths\<close>

definition plain_comp :: "string \<Rightarrow> bool" where
  "plain_comp c \<longleftrightarrow> c \<noteq> [] \<and> c \<noteq> ''.'' \<and> c \<noteq> ''..'' \<and> slash \<notin> set c"

text \<open>Components after the loop: parent references only at the start of a relative path.\<close>

definition normal_comps :: "bool \<Rightarrow> string list \<Rightarrow> bool" where
  "normal_comps rooted cs \<longleftrightarrow>
     (\<exists>n ps. cs = replicate n ''..'' @ ps \<and> (rooted \<longrightarrow> n = 0) \<and> (\<forall>c \<in> set ps. plain_comp c))"

lemma normal_compsI:
  "(\<And>c. c \<in> set ps \<Longrightarrow> plain_comp c) \<Longrightarrow> (rooted \<Longrightarrow> n = 0) \<Longrightarrow>
   normal_comps rooted (replicate n ''..'' @ ps)"
  unfolding normal_comps_def by blast

lemma normal_compsE:
  assumes "normal_comps rooted cs"
  obtains (parts) n ps where "cs = replicate n ''..'' @ ps" and "rooted \<longrightarrow> n = 0"
    and "\<forall>c \<in> set ps. plain_comp c"
  using assms unfolding normal_comps_def by blast

lemma normal_comps_snoc_plain:
  assumes "normal_comps rooted cs" and "plain_comp c"
  shows "normal_comps rooted (cs @ [c])"
proof -
  obtain n ps where cs: "cs = replicate n ''..'' @ ps" and n: "rooted \<longrightarrow> n = 0"
    and ps: "\<forall>c \<in> set ps. plain_comp c"
    using normal_compsE [OF assms(1)] by metis
  have "normal_comps rooted (replicate n ''..'' @ ps @ [c])"
    using n ps assms(2) by (intro normal_compsI) auto
  with cs show ?thesis by simp
qed

lemma normal_comps_snoc_up:
  assumes "normal_comps rooted cs" and "\<not> rooted" and "cs = [] \<or> last cs = ''..''"
  shows "normal_comps rooted (cs @ [''..''])"
proof -
  obtain n ps where cs: "cs = replicate n ''..'' @ ps" and ps: "\<forall>c \<in> set ps. plain_comp c"
    using normal_compsE [OF assms(1)] by metis
  have "ps = []"
  proof (rule ccontr)
    assume "ps \<noteq> []"
    with cs assms(3) have "last ps = ''..''" by auto
    with ps last_in_set [OF \<open>ps \<noteq> []\<close>] show False by (auto simp: plain_comp_def)
  qed
  moreover have "normal_comps rooted (replicate (Suc n) ''..'' @ [])"
    using assms(2) by (intro normal_compsI) auto
  ultimately show ?thesis using cs by (simp add: replicate_append_same)
qed

lemma normal_comps_last_up:
  "normal_comps rooted cs \<Longrightarrow> cs \<noteq> [] \<Longrightarrow> last cs = ''..'' \<Longrightarrow> \<not> rooted"
  unfolding normal_comps_def by (metis append_self_conv2 last_in_set plain_comp_def replicate_0)

lemma normal_comps_butlast:
  assumes "normal_comps rooted cs"
  shows "normal_comps rooted (butlast cs)"
proof -
  obtain n ps where cs: "cs = replicate n ''..'' @ ps" and n: "rooted \<longrightarrow> n = 0"
    and ps: "\<forall>c \<in> set ps. plain_comp c"
    using normal_compsE [OF assms] by metis
  show ?thesis
  proof (cases "ps = []")
    case True
    have "normal_comps rooted (replicate (n - 1) ''..'' @ [])"
      using n by (intro normal_compsI) auto
    moreover have "butlast cs = replicate (n - 1) ''..''"
      using cs True by (simp add: butlast_conv_take)
    ultimately show ?thesis by simp
  next
    case False
    have "normal_comps rooted (replicate n ''..'' @ butlast ps)"
      using n ps by (intro normal_compsI) (auto dest: in_set_butlastD)
    with False cs show ?thesis by (simp add: butlast_append)
  qed
qed

lemma norm_comps_normal:
  assumes "normal_comps rooted (rev acc)" and "\<forall>c \<in> set cs. slash \<notin> set c"
  shows "normal_comps rooted (norm_comps rooted acc cs)"
  using assms
proof (induction cs arbitrary: acc)
  case Nil
  then show ?case by simp
next
  case (Cons c cs)
  have last: "acc \<noteq> [] \<Longrightarrow> last (rev acc) = hd acc" by (simp add: last_rev)
  consider "c = [] \<or> c = ''.''" | "plain_comp c"
    | "c = ''..''" "(\<not> rooted \<and> acc = []) \<or> (acc \<noteq> [] \<and> hd acc = ''..'')"
    | "c = ''..''" "\<not> ((\<not> rooted \<and> acc = []) \<or> (acc \<noteq> [] \<and> hd acc = ''..''))"
    using Cons.prems(2) by (auto simp: plain_comp_def)
  then show ?case
  proof cases
    case 1
    with Cons show ?thesis by auto
  next
    case 2
    then have "normal_comps rooted (rev (c # acc))"
      using Cons.prems(1) by (simp add: normal_comps_snoc_plain)
    from Cons.IH [OF this] Cons.prems 2 show ?thesis by (simp add: plain_comp_def)
  next
    case 3
    then have "normal_comps rooted (rev (c # acc))"
      using Cons.prems(1) normal_comps_last_up [OF Cons.prems(1)] last
        normal_comps_snoc_up [OF Cons.prems(1)] by auto
    from Cons.IH [OF this] Cons.prems 3 show ?thesis by auto
  next
    case 4
    have "normal_comps rooted (rev (tl acc))"
      using normal_comps_butlast [OF Cons.prems(1)] by (cases acc) auto
    from Cons.IH [OF this] Cons.prems 4 show ?thesis by auto
  qed
qed

lemma norm_comps_plain:
  "\<forall>c \<in> set cs. plain_comp c \<Longrightarrow> norm_comps rooted acc cs = rev acc @ cs"
  by (induction cs arbitrary: acc) (auto simp: plain_comp_def)

lemma norm_comps_up:
  "acc = [] \<or> hd acc = ''..'' \<Longrightarrow>
   norm_comps False acc (replicate n ''..'' @ cs) = norm_comps False (replicate n ''..'' @ acc) cs"
  by (induction n arbitrary: acc) (auto simp: replicate_app_Cons_same)

lemma norm_comps_id: "normal_comps rooted cs \<Longrightarrow> norm_comps rooted [] cs = cs"
  unfolding normal_comps_def
  by (cases rooted) (auto simp: norm_comps_plain norm_comps_up)

lemma norm_comps_skip: "norm_comps rooted acc (replicate k [] @ cs) = norm_comps rooted acc cs"
  by (induction k) auto

lemma normal_comp_in:
  assumes "normal_comps rooted cs" and "c \<in> set cs"
  shows "c \<noteq> [] \<and> slash \<notin> set c"
proof -
  obtain n ps where "cs = replicate n ''..'' @ ps" and "\<forall>c \<in> set ps. plain_comp c"
    using normal_compsE [OF assms(1)] by metis
  with assms(2) consider "c = ''..''" | "plain_comp c" by auto
  then show ?thesis by cases (auto simp: plain_comp_def)
qed

lemma split_slashes:
  "py_split slash (replicate k slash @ s) = replicate k [] @ py_split slash s"
  by (induction k) auto

lemma hd_join:
  assumes "normal_comps rooted cs" and "py_join ''/'' cs = c # s"
  shows "c \<noteq> slash"
proof -
  obtain w ws where cs: "cs = w # ws" using assms(2) by (cases cs) auto
  then obtain d w' where w: "w = d # w'" "d \<noteq> slash"
    using normal_comp_in [OF assms(1), of w] by (cases w) auto
  have "c = d" using assms(2) unfolding cs w(1) by (cases ws) auto
  with w show ?thesis by simp
qed

lemma initial_slashes_join:
  assumes "normal_comps rooted cs" and "k \<le> 2"
  shows "initial_slashes (replicate k slash @ py_join ''/'' cs) = k"
proof -
  have nosl: "\<not> prefix (slash # u) (py_join ''/'' cs)" for u
    using hd_join [OF assms(1)] by (auto simp: prefix_def)
  consider "k = 0" | "k = 1" | "k = 2" using assms(2) by linarith
  then show ?thesis
    by cases (simp_all add: initial_slashes_def startswith_def nosl numeral_2_eq_2)
qed

lemma join_normal_Nil: "normal_comps rooted cs \<Longrightarrow> py_join ''/'' cs = [] \<longleftrightarrow> cs = []"
  using normal_comp_in [of rooted cs "hd cs"] by (cases cs; cases "tl cs") auto

lemma norm_comps_split_join:
  assumes "normal_comps rooted cs"
  shows "norm_comps rooted [] (py_split slash (replicate k slash @ py_join ''/'' cs)) = cs"
proof (cases "cs = []")
  case True
  have "norm_comps rooted [] (replicate k [] @ [[]]) = []"
    by (simp add: norm_comps_skip)
  with True show ?thesis by (simp add: split_slashes [of k "[]", simplified])
next
  case False
  then have "py_split slash (py_join ''/'' cs) = cs"
    using normal_comp_in [OF assms] by (intro py_split_join) auto
  then show ?thesis
    using norm_comps_id [OF assms] by (simp add: split_slashes norm_comps_skip)
qed

lemma normpath_canonical:
  assumes "normal_comps (k \<noteq> 0) cs" and "k \<le> 2" and "k \<noteq> 0 \<or> cs \<noteq> []"
  shows "normpath (replicate k slash @ py_join ''/'' cs) = replicate k slash @ py_join ''/'' cs"
  using assms initial_slashes_join [OF assms(1,2)] norm_comps_split_join [OF assms(1)]
    join_normal_Nil [OF assms(1)]
  by (auto simp: normpath_def Let_def)

lemma normpath_form:
  assumes "p \<noteq> []"
  obtains (dot) "normpath p = ''.''" and "initial_slashes p = 0"
  | (comps) k cs where "k = initial_slashes p" and "normal_comps (k \<noteq> 0) cs" and "k \<le> 2"
      and "k \<noteq> 0 \<or> cs \<noteq> []" and "normpath p = replicate k slash @ py_join ''/'' cs"
proof -
  define k where "k = initial_slashes p"
  define cs where "cs = norm_comps (k \<noteq> 0) [] (py_split slash p)"
  have n: "normal_comps (k \<noteq> 0) cs"
    unfolding cs_def
    by (rule norm_comps_normal) (auto simp: normal_comps_def dest: py_split_no_sep)
  have "k \<le> 2" by (simp add: k_def initial_slashes_def)
  moreover have "normpath p = (if k = 0 \<and> cs = [] then ''.'' else replicate k slash @ py_join ''/'' cs)"
    using assms join_normal_Nil [OF n]
    unfolding normpath_def Let_def k_def [symmetric] cs_def [symmetric] by auto
  ultimately show thesis
    using n dot comps [OF k_def n] by (cases "k = 0 \<and> cs = []") (auto simp: k_def)
qed

lemma normpath_idem: "normpath (normpath p) = normpath p"
proof (cases "p = []")
  case True
  have "normpath ''.'' = ''.''" by code_simp
  with True show ?thesis by (simp add: normpath_def)
next
  case False
  then show ?thesis
  proof (cases rule: normpath_form)
    case dot
    have "normpath ''.'' = ''.''" by code_simp
    with dot show ?thesis by simp
  next
    case (comps k cs)
    then show ?thesis using normpath_canonical by simp
  qed
qed

text \<open>
  An absolute path without redundant parts: what \<open>realpath\<close> is documented to return.
\<close>

definition canonical :: "string \<Rightarrow> bool" where
  "canonical p \<longleftrightarrow> isabs p \<and> normpath p = p"

lemma canonical_normpath: "isabs p \<Longrightarrow> canonical (normpath p)"
proof -
  assume abs: "isabs p"
  then have "p \<noteq> []" and k: "initial_slashes p \<noteq> 0"
    by (auto simp: isabs_def startswith_def initial_slashes_def)
  from this(1) have "isabs (normpath p)"
  proof (cases rule: normpath_form)
    case dot
    with k show ?thesis by simp
  next
    case (comps k' cs)
    with k obtain j where "k' = Suc j" by (metis not0_implies_Suc)
    with comps(5) show ?thesis by (simp add: isabs_def startswith_def)
  qed
  then show ?thesis by (simp add: canonical_def normpath_idem)
qed

lemma canonical_abspath: "isabs cwd \<Longrightarrow> canonical (abspath cwd p)"
  by (auto simp: abspath_def intro!: canonical_normpath isabs_path_join)

lemma canonical_join: "canonical p \<Longrightarrow> normpath (path_join d p) = p"
  by (simp add: canonical_def path_join_abs)

section \<open>Variables\<close>

lemma expandvars_Nil [simp]: "expandvars env [] = []"
  by (subst expandvars.simps) simp

lemma expandvars_plain: "CHR ''$'' \<notin> set s \<Longrightarrow> expandvars env s = s"
proof (induction s)
  case (Cons c s)
  then show ?case by (subst expandvars.simps) auto
qed simp

lemma var_ref_append: "var_ref s = Some (n, m, r) \<Longrightarrow> s = m @ r"
proof -
  assume v: "var_ref s = Some (n, m, r)"
  show "s = m @ r"
  proof (cases "takeWhile is_word_char s = []")
    case False
    with v show ?thesis by (auto simp: var_ref_def Let_def)
  next
    case True
    with v obtain c s' where s: "s = c # s'" by (auto simp: var_ref_def split: list.splits)
    let ?P = "\<lambda>d. d \<noteq> CHR ''}''"
    from v True have c: "c = CHR ''{''" and r: "dropWhile ?P s' \<noteq> []"
      and m: "m = ''{'' @ takeWhile ?P s' @ ''}''" "r = tl (dropWhile ?P s')"
      by (auto simp: var_ref_def Let_def s split: if_splits)
    have "hd (dropWhile ?P s') = CHR ''}''" using hd_dropWhile [OF r] by simp
    then have "dropWhile ?P s' = CHR ''}'' # r" using r m(2) by (metis list.collapse)
    then show ?thesis using s c m(1) takeWhile_dropWhile_id [of ?P s'] by simp
  qed
qed

text \<open>References to variables that are not set are left unchanged.\<close>

lemma expandvars_unset: "expandvars Map.empty s = s"
proof (induction s rule: length_induct)
  case (1 s)
  show ?case
  proof (cases s)
    case (Cons c s')
    have IH: "expandvars Map.empty r = r" if "length r < length s" for r
      using 1 that by blast
    show ?thesis
    proof (cases "var_ref s'")
      case None
      with Cons IH show ?thesis by (subst expandvars.simps) simp
    next
      case (Some p)
      obtain n m r where p: "p = (n, m, r)" by (cases p)
      with Some have "length r < length s" "s' = m @ r"
        using var_ref_shorter var_ref_append Cons by fastforce+
      with IH Some p Cons show ?thesis by (subst expandvars.simps) simp
    qed
  qed simp
qed

end
