(* ===== verification/LoadConfig.thy ===== *)
theory LoadConfig
  imports PosixPath
begin

text \<open>
  \<open>Documentation/sphinx/load_config.py\<close>: extends the name space of a configuration file by
  the file the environment variable \<open>SPHINX_CONF\<close> names. Executing a file
  (\<open>sphinx.util.pycompat.execfile_\<close>) and the test for a regular file are arguments; the
  result carries what is written to the two output streams.
\<close>

datatype 'v pyval = PyStr string | PyObj 'v

type_synonym 'v namespace = "string \<rightharpoonup> 'v pyval"

record 'v load_result =
  lc_out :: string
  lc_err :: string
  lc_ns :: "'v namespace res"

definition file_key :: string where
  "file_key = ''__file__''"

section \<open>The function\<close>

text \<open>Lines 26 to 30: run the file on a copy of the name space and merge the copy.\<close>

definition merge_config ::
  "(string \<Rightarrow> 'v namespace \<Rightarrow> 'v namespace res) \<Rightarrow> string \<Rightarrow> 'v namespace \<Rightarrow> 'v namespace res"
where
  "merge_config execfile config_file ns =
     rbind (execfile config_file (ns(file_key \<mapsto> PyStr config_file))) (\<lambda>config.
       if config file_key = None then Inl (KeyError file_key)
       else Inr (ns ++ config(file_key := None)))"

definition load_config ::
  "string option \<Rightarrow> string \<Rightarrow> (string \<Rightarrow> bool)
   \<Rightarrow> (string \<Rightarrow> 'v namespace \<Rightarrow> 'v namespace res) \<Rightarrow> 'v namespace \<Rightarrow> 'v load_result"
where
  "load_config sphinx_conf cwd isfile execfile ns =
     (let quiet = (\<lambda>r. \<lparr>lc_out = [], lc_err = [], lc_ns = r\<rparr>) in
      case sphinx_conf of
        None \<Rightarrow> quiet (Inr ns)
      | Some cf \<Rightarrow>
          (case ns file_key of
             None \<Rightarrow> quiet (Inl (KeyError file_key))
           | Some (PyObj v) \<Rightarrow> quiet (Inl (OtherError ''TypeError''))
           | Some (PyStr f) \<Rightarrow>
               if normpath f = normpath cf then quiet (Inr ns)
               else let config_file = abspath cwd cf in
                 if isfile config_file
                 then \<lparr>lc_out = ''load additional sphinx-config: '' @ config_file @ ''\<newline>'',
                       lc_err = [], lc_ns = merge_config execfile config_file ns\<rparr>
                 else \<lparr>lc_out = [],
                       lc_err = ''WARNING: additional sphinx-config not found: '' @ config_file @ ''\<newline>'',
                       lc_ns = Inr ns\<rparr>))"

section \<open>Lemmas\<close>

lemma merge_config_Inr:
  "merge_config execfile cf ns = Inr ns' \<longleftrightarrow>
     (\<exists>config. execfile cf (ns(file_key \<mapsto> PyStr cf)) = Inr config \<and> config file_key \<noteq> None
        \<and> ns' = ns ++ config(file_key := None))"
  by (auto simp: merge_config_def rbind_Inr_iff split: if_splits)

lemma merge_config_lookup:
  "merge_config execfile cf ns = Inr ns' \<Longrightarrow>
   \<exists>config. execfile cf (ns(file_key \<mapsto> PyStr cf)) = Inr config \<and>
     ns' k = (if k = file_key then ns k else case config k of None \<Rightarrow> ns k | Some v \<Rightarrow> Some v)"
  by (auto simp: merge_config_Inr map_add_def split: option.splits)

lemma load_config_cases:
  assumes "lc_ns (load_config sc cwd isfile execfile ns) = Inr ns'"
  obtains (same) "ns' = ns"
  | (merged) cf where "sc = Some cf" and "isfile (abspath cwd cf)"
      and "merge_config execfile (abspath cwd cf) ns = Inr ns'"
  using assms
  by (auto simp: load_config_def Let_def split: option.splits pyval.splits if_splits)

lemma load_keeps_names:
  assumes "lc_ns (load_config sc cwd isfile execfile ns) = Inr ns'" and "ns k = Some v"
  shows "\<exists>w. ns' k = Some w"
  using assms(1)
proof (cases rule: load_config_cases)
  case same
  with assms(2) show ?thesis by simp
next
  case (merged cf)
  from merge_config_lookup [OF merged(3), of k] assms(2) show ?thesis by (auto split: option.splits if_splits)
qed

lemma normpath_relative:
  assumes "\<not> isabs p"
  shows "\<not> isabs (normpath p)"
proof (cases "p = []")
  case True
  then show ?thesis by (simp add: normpath_def isabs_def startswith_def)
next
  case False
  have k: "initial_slashes p = 0" using assms by (simp add: isabs_def initial_slashes_def)
  from False show ?thesis
  proof (cases rule: normpath_form)
    case dot
    then show ?thesis by (simp add: isabs_def startswith_def)
  next
    case (comps k' cs)
    then have "normpath p = py_join ''/'' cs" using k by simp
    with hd_join [OF comps(2)] show ?thesis
      by (auto simp: isabs_def startswith_def prefix_def)
  qed
qed

section \<open>What a loaded file may do\<close>

text \<open>
  The contract of the files that are loaded: they leave every name alone but those in \<open>touched\<close>, and
  keep values in the types \<open>ty\<close> gives their names. Loading such a file keeps the same.
\<close>

definition typed_space :: "(string \<Rightarrow> 'v pyval \<Rightarrow> bool) \<Rightarrow> 'v namespace \<Rightarrow> bool" where
  "typed_space ty ns \<longleftrightarrow> (\<forall>k v. ns k = Some v \<longrightarrow> ty k v)"

lemma typed_space_upd: "typed_space ty ns \<Longrightarrow> ty k v \<Longrightarrow> typed_space ty (ns(k \<mapsto> v))"
  by (simp add: typed_space_def)

locale conf_reader =
  fixes execfile :: "string \<Rightarrow> 'v namespace \<Rightarrow> 'v namespace res"
    and touched :: "string list"
  assumes leaves: "execfile f ns = Inr ns' \<Longrightarrow> k \<notin> set touched \<Longrightarrow> ns' k = ns k"
begin

lemma load_leaves:
  assumes "lc_ns (load_config sc cwd isfile execfile ns) = Inr ns'" and "k \<notin> set touched" and "k \<noteq> file_key"
  shows "ns' k = ns k"
  using assms(1)
proof (cases rule: load_config_cases)
  case same
  then show ?thesis by simp
next
  case (merged cf)
  from merge_config_lookup [OF merged(3), of k] obtain config where
    c: "execfile (abspath cwd cf) (ns(file_key \<mapsto> PyStr (abspath cwd cf))) = Inr config"
    and k: "ns' k = (case config k of None \<Rightarrow> ns k | Some v \<Rightarrow> Some v)"
    using assms(3) by auto
  from leaves [OF c assms(2)] have "config k = ns k" using assms(3) by simp
  with k show ?thesis by (simp split: option.split)
qed

end

locale typed_reader = conf_reader execfile touched
  for execfile :: "string \<Rightarrow> 'v namespace \<Rightarrow> 'v namespace res" and touched +
  fixes ty :: "string \<Rightarrow> 'v pyval \<Rightarrow> bool"
  assumes keeps_types: "typed_space ty ns \<Longrightarrow> execfile f ns = Inr ns' \<Longrightarrow> typed_space ty ns'"
    and file_type: "ty file_key (PyStr f)"
begin

lemma load_keeps_types:
  assumes "lc_ns (load_config sc cwd isfile execfile ns) = Inr ns'" and "typed_space ty ns"
  shows "typed_space ty ns'"
  using assms(1)
proof (cases rule: load_config_cases)
  case same
  with assms(2) show ?thesis by simp
next
  case (merged cf)
  then obtain config where c: "execfile (abspath cwd cf) (ns(file_key \<mapsto> PyStr (abspath cwd cf))) = Inr config"
    and ns': "ns' = ns ++ config(file_key := None)"
    unfolding merge_config_Inr by blast
  have "typed_space ty config"
    by (rule keeps_types [OF typed_space_upd [OF assms(2) file_type] c])
  with assms(2) show ?thesis unfolding ns' typed_space_def by (auto simp: map_add_def split: option.splits if_splits)
qed

end

section \<open>Properties\<close>

text \<open>
  C38. Loading a further configuration only extends: no name of the configuration is deleted,
  its own file name stays, every other name has the value the loaded file leaves in it, and a
  name the loaded file deletes keeps its old value.
\<close>

theorem load_config_extends:
  assumes "lc_ns (load_config (Some cf) cwd isfile execfile ns) = Inr ns'"
    and "isfile (abspath cwd cf)" and "ns file_key = Some (PyStr f)"
    and "normpath f \<noteq> normpath cf"
  shows "dom ns \<subseteq> dom ns' \<and> ns' file_key = ns file_key \<and>
     (\<exists>config. execfile (abspath cwd cf) (ns(file_key \<mapsto> PyStr (abspath cwd cf))) = Inr config
        \<and> (\<forall>k. k \<noteq> file_key \<longrightarrow> ns' k = (if config k = None then ns k else config k)))"
proof -
  have m: "merge_config execfile (abspath cwd cf) ns = Inr ns'"
    using assms by (simp add: load_config_def Let_def)
  then obtain config where c: "execfile (abspath cwd cf) (ns(file_key \<mapsto> PyStr (abspath cwd cf))) = Inr config"
    and ns': "ns' = ns ++ config(file_key := None)"
    by (auto simp: merge_config_Inr)
  have "dom ns \<subseteq> dom ns'" and "ns' file_key = ns file_key"
    unfolding ns' by (auto simp: map_add_def split: option.splits)
  moreover have "\<forall>k. k \<noteq> file_key \<longrightarrow> ns' k = (if config k = None then ns k else config k)"
    unfolding ns' by (auto simp: map_add_def split: option.splits)
  ultimately show ?thesis using c by blast
qed

definition exec_example :: "string \<Rightarrow> nat namespace \<Rightarrow> nat namespace res" where
  "exec_example f m = Inr (m(''project'' := None, ''version'' \<mapsto> PyObj 2))"

definition ns_example :: "nat namespace" where
  "ns_example = [file_key \<mapsto> PyStr ''/doc/conf.py'', ''version'' \<mapsto> PyObj 1, ''project'' \<mapsto> PyObj 7]"

theorem load_config_extends_witness:
  "\<exists>ns'. lc_ns (load_config (Some ''sub/conf.py'') ''/doc'' (\<lambda>f. True) exec_example ns_example) = Inr ns'
     \<and> dom ns_example \<subseteq> dom ns' \<and> ns' ''project'' = Some (PyObj 7) \<and> ns' ''version'' = Some (PyObj 2)"
proof -
  have ne: "normpath ''/doc/conf.py'' \<noteq> normpath ''sub/conf.py''" by code_simp
  have f: "ns_example file_key = Some (PyStr ''/doc/conf.py'')"
    by (simp add: ns_example_def file_key_def)
  obtain ns' where ns': "lc_ns (load_config (Some ''sub/conf.py'') ''/doc'' (\<lambda>f. True) exec_example ns_example) = Inr ns'"
    using ne f by (simp add: load_config_def merge_config_def exec_example_def file_key_def)
  from load_config_extends [OF ns' _ f ne] obtain config where "dom ns_example \<subseteq> dom ns'"
    and c: "exec_example (abspath ''/doc'' ''sub/conf.py'')
       (ns_example(file_key \<mapsto> PyStr (abspath ''/doc'' ''sub/conf.py''))) = Inr config"
    and v: "\<forall>k. k \<noteq> file_key \<longrightarrow> ns' k = (if config k = None then ns_example k else config k)"
    by auto
  moreover have "ns' ''project'' = Some (PyObj 7)" "ns' ''version'' = Some (PyObj 2)"
    using c v by (auto simp: exec_example_def ns_example_def file_key_def)
  ultimately show ?thesis using ns' by blast
qed

text \<open>
  C39. The test that keeps a file from loading itself: while the file \<open>SPHINX_CONF\<close> names is
  being executed, a further call of the function does nothing exactly when the variable holds an
  absolute path; with a relative path the same file is executed again.
\<close>

theorem load_config_self_guard:
  assumes "isabs cwd" and "isfile (abspath cwd cf)"
    and "ns file_key = Some (PyStr (abspath cwd cf))"
  shows "lc_ns (load_config (Some cf) cwd isfile execfile ns)
     = (if isabs cf then Inr ns else merge_config execfile (abspath cwd cf) ns)"
proof (cases "isabs cf")
  case True
  then have "normpath (abspath cwd cf) = normpath cf" by (simp add: abspath_def normpath_idem)
  with True assms show ?thesis by (simp add: load_config_def)
next
  case False
  then have "\<not> isabs (normpath cf)" by (rule normpath_relative)
  moreover have "isabs (normpath (abspath cwd cf))"
    using canonical_abspath [OF assms(1), of cf] by (simp add: canonical_def)
  ultimately have "normpath (abspath cwd cf) \<noteq> normpath cf" by metis
  with False assms show ?thesis by (simp add: load_config_def Let_def)
qed

theorem load_config_self_guard_witness:
  "lc_ns (load_config (Some ''conf.py'') ''/doc'' (\<lambda>f. True) (\<lambda>f m. Inl (OtherError ''RecursionError''))
      [file_key \<mapsto> PyStr ''/doc/conf.py'']) = (Inl (OtherError ''RecursionError'') :: nat namespace res)"
proof -
  have a: "abspath ''/doc'' ''conf.py'' = ''/doc/conf.py''" by code_simp
  have "isabs ''/doc''" "\<not> isabs ''conf.py''" by code_simp+
  with load_config_self_guard [of "''/doc''" "\<lambda>f. True" "''conf.py''" "[file_key \<mapsto> PyStr ''/doc/conf.py'']"
      "\<lambda>f m. Inl (OtherError ''RecursionError'')"] a
  show ?thesis by (simp add: merge_config_def)
qed

end
