(* ===== verification/KernelInclude.thy ===== *)
theory KernelInclude
  imports PosixPath PyNumbers
begin

text \<open>
  \<open>Documentation/sphinx/kernel_include.py\<close>: the \<open>kernel-include\<close> directive. What it takes
  from docutils and the operating system (resolving symbolic links, \<open>directives.path\<close>,
  \<open>io.FileInput\<close>, \<open>string2lines\<close>, \<open>NumberLines\<close>, \<open>CodeBlock\<close>) is a record of functions;
  the calls that change the state of the document are returned as a list of events.
\<close>

section \<open>Data\<close>

text \<open>The options of the directive, \<open>None\<close> or \<open>False\<close> where an option is not given.\<close>

record inc_options =
  io_encoding :: "string option"
  io_tab_width :: "int option"
  io_start_line :: "int option"
  io_end_line :: "int option"
  io_start_after :: "string option"
  io_end_before :: "string option"
  io_literal :: bool
  io_code :: "string option"
  io_number_lines :: "string option"
  io_class :: "string list option"

text \<open>The settings of the document and the environment of the process.\<close>

record inc_context =
  ic_name :: string
  ic_environ :: "string \<rightharpoonup> string"
  ic_cwd :: string
  ic_source :: string
  ic_file_insertion_enabled :: bool
  ic_input_encoding :: string
  ic_error_handler :: string
  ic_tab_width :: int
  ic_standard_include_path :: string

text \<open>An open file, with what \<open>read()\<close> and \<open>readlines()\<close> return on it.\<close>

record inc_file =
  fi_read :: "string res"
  fi_readlines :: "string list res"

record 'n inc_extern =
  ix_realpath :: "string \<Rightarrow> string"
  ix_path :: "string \<Rightarrow> string"
  ix_open :: "string \<Rightarrow> string \<Rightarrow> string \<Rightarrow> inc_file res"
  ix_string2lines :: "string \<Rightarrow> int \<Rightarrow> string list"
  ix_number_lines :: "string \<Rightarrow> int \<Rightarrow> int \<Rightarrow> (string list \<times> string) list"
  ix_code_block :: "string \<Rightarrow> inc_options \<Rightarrow> string \<Rightarrow> string list \<Rightarrow> 'n list res"

datatype inc_event =
    AddDependency string
  | AddName
  | InsertInput "string list" string

datatype inc_child =
    TextNode string
  | InlineNode string "string list"

datatype 'n inc_node =
    LiteralBlock string string "string list" "inc_child list"
  | CodeNode 'n

type_synonym 'n inc_result = "inc_event list \<times> 'n inc_node list res"

section \<open>The text to include\<close>

text \<open>\<open>s.expandtabs(w)\<close>, from the given column.\<close>

fun expandtabs :: "nat \<Rightarrow> nat \<Rightarrow> string \<Rightarrow> string" where
  "expandtabs w col [] = []"
| "expandtabs w col (c # s) =
     (if c = CHR 0x09 then
        (if w = 0 then expandtabs w col s
         else replicate (w - col mod w) CHR 0x20 @ expandtabs w (col + (w - col mod w)) s)
      else c # expandtabs w (if c = CHR 0x0A \<or> c = CHR 0x0D then 0 else col + 1) s)"

definition severe :: "string \<Rightarrow> exn" where
  "severe msg = DocMessage Severe msg"

text \<open>Lines 116 to 126: the lines selected by \<open>start-line\<close> and \<open>end-line\<close>.\<close>

definition read_text :: "string \<Rightarrow> inc_options \<Rightarrow> inc_file \<Rightarrow> string res" where
  "read_text name opts f =
     (let r = (if (io_start_line opts \<noteq> None \<and> io_start_line opts \<noteq> Some 0) \<or> io_end_line opts \<noteq> None
               then rbind (fi_readlines f) (\<lambda>lines.
                      Inr (concat (py_slice (io_start_line opts) (io_end_line opts) lines)))
               else fi_read f)
      in case r of
           Inl (UnicodeError e) \<Rightarrow>
             Inl (severe (''Problem with \"'' @ name @ ''\" directive:'' @ ''\<newline>'' @ e))
         | Inl (UnicodeEncodeError e) \<Rightarrow>
             Inl (severe (''Problem with \"'' @ name @ ''\" directive:'' @ ''\<newline>'' @ e))
         | _ \<Rightarrow> r)"

text \<open>Lines 129 to 144: \<open>start-after\<close> and \<open>end-before\<close>; an empty text counts as not given.\<close>

definition not_found :: "string \<Rightarrow> string \<Rightarrow> exn" where
  "not_found opt name =
     severe (''Problem with \"'' @ opt @ ''\" option of \"'' @ name @ ''\" directive:'' @ ''\<newline>''
       @ ''Text not found.'')"

definition cut_after :: "string \<Rightarrow> string option \<Rightarrow> string \<Rightarrow> string res" where
  "cut_after name after_text rawtext =
     (case after_text of
        None \<Rightarrow> Inr rawtext
      | Some t \<Rightarrow>
          if t = [] then Inr rawtext
          else (case py_find t rawtext of
                  None \<Rightarrow> Inl (not_found ''start-after'' name)
                | Some i \<Rightarrow> Inr (drop (i + length t) rawtext)))"

definition cut_before :: "string \<Rightarrow> string option \<Rightarrow> string \<Rightarrow> string res" where
  "cut_before name before_text rawtext =
     (case before_text of
        None \<Rightarrow> Inr rawtext
      | Some t \<Rightarrow>
          if t = [] then Inr rawtext
          else (case py_find t rawtext of
                  None \<Rightarrow> Inl (not_found ''end-before'' name)
                | Some i \<Rightarrow> Inr (take i rawtext)))"

definition select_text :: "string \<Rightarrow> inc_options \<Rightarrow> inc_file \<Rightarrow> string res" where
  "select_text name opts f =
     rbind (read_text name opts f) (\<lambda>raw.
     rbind (cut_after name (io_start_after opts) raw) (\<lambda>raw1.
     cut_before name (io_end_before opts) raw1))"

section \<open>What is inserted\<close>

fun number_child :: "string list \<times> string \<Rightarrow> inc_child" where
  "number_child (cls, value) = (if cls \<noteq> [] then InlineNode value cls else TextNode value)"

text \<open>Lines 148 to 176: a literal block, its lines numbered when asked for.\<close>

definition literal_children ::
  "'n inc_extern \<Rightarrow> inc_options \<Rightarrow> string list \<Rightarrow> string \<Rightarrow> inc_child list res"
where
  "literal_children x opts include_lines text =
     (case io_number_lines opts of
        None \<Rightarrow> Inr [TextNode text]
      | Some n \<Rightarrow>
          (case (if n = [] then Inr 1 else py_int n) of
             Inl e \<Rightarrow> Inl (DocMessage Error '':number-lines: with non-integer start value'')
           | Inr startline \<Rightarrow>
               let endline = startline + int (length include_lines);
                   t = (if endswith text ''\<newline>'' then butlast text else text)
               in Inr (map number_child (ix_number_lines x t startline endline))))"

definition literal_block ::
  "'n inc_extern \<Rightarrow> inc_options \<Rightarrow> int \<Rightarrow> string \<Rightarrow> string \<Rightarrow> string list \<Rightarrow> 'n inc_result"
where
  "literal_block x opts tab_width path rawtext include_lines =
     (let text = (if tab_width \<ge> 0 then expandtabs (nat tab_width) 0 rawtext else rawtext);
          cls = (case io_class opts of None \<Rightarrow> [] | Some c \<Rightarrow> c)
      in ([AddName],
          rbind (literal_children x opts include_lines text) (\<lambda>kids.
            Inr [LiteralBlock rawtext path cls kids])))"

definition emit ::
  "'n inc_extern \<Rightarrow> inc_options \<Rightarrow> int \<Rightarrow> string \<Rightarrow> string \<Rightarrow> 'n inc_result"
where
  "emit x opts tab_width path rawtext =
     (let include_lines = ix_string2lines x rawtext tab_width in
      if io_literal opts then literal_block x opts tab_width path rawtext include_lines
      else case io_code opts of
             Some lang \<Rightarrow>
               ([], rbind (ix_code_block x lang (opts\<lparr>io_code := None\<rparr>) path include_lines) (\<lambda>ns.
                      Inr (map CodeNode ns)))
           | None \<Rightarrow> ([InsertInput include_lines path], Inr []))"

section \<open>The directive\<close>

text \<open>Lines 86 to 92: the path from the argument.\<close>

definition include_path :: "'n inc_extern \<Rightarrow> inc_context \<Rightarrow> string \<Rightarrow> string" where
  "include_path x ctx arg =
     (let source_dir = dirname (abspath (ic_cwd ctx) (ic_source ctx));
          p = ix_path x arg;
          p' = (if startswith p ''<'' \<and> endswith p ''>''
                then path_join (ic_standard_include_path ctx) (butlast (tl p)) else p)
      in normpath (path_join source_dir p'))"

text \<open>
  Lines 103 to 115: of what opening the file raises, encoding errors of the path and I/O errors become messages;
  any other error, other Unicode errors included, is passed on.
\<close>

definition open_error :: "string \<Rightarrow> string \<Rightarrow> exn \<Rightarrow> exn" where
  "open_error name path e =
     (case e of
        UnicodeEncodeError m \<Rightarrow>
          severe (''Problems with \"'' @ name @ ''\" directive path:'' @ ''\<newline>''
            @ ''Cannot encode input file path \"'' @ path @ ''\" (wrong locale?).'')
      | IOError m \<Rightarrow>
          severe (''Problems with \"'' @ name @ ''\" directive path:'' @ ''\<newline>'' @ m @ ''.'')
      | _ \<Rightarrow> e)"

definition inc_inner_run ::
  "'n inc_extern \<Rightarrow> inc_context \<Rightarrow> inc_options \<Rightarrow> string \<Rightarrow> 'n inc_result"
where
  "inc_inner_run x ctx opts arg =
     (if \<not> ic_file_insertion_enabled ctx
      then ([], Inl (DocMessage Warning (''\"'' @ ic_name ctx @ ''\" directive disabled.'')))
      else
        let path = include_path x ctx arg;
            encoding = (case io_encoding opts of None \<Rightarrow> ic_input_encoding ctx | Some e \<Rightarrow> e);
            tab_width = (case io_tab_width opts of None \<Rightarrow> ic_tab_width ctx | Some w \<Rightarrow> w)
        in case ix_open x path encoding (ic_error_handler ctx) of
             Inl e \<Rightarrow> ([AddDependency path], Inl (open_error (ic_name ctx) path e))
           | Inr f \<Rightarrow>
               (case select_text (ic_name ctx) opts f of
                  Inl e \<Rightarrow> ([AddDependency path], Inl e)
                | Inr rawtext \<Rightarrow>
                    (let (evs, r) = emit x opts tab_width path rawtext
                     in (AddDependency path # evs, r))))"

definition real_argument :: "'n inc_extern \<Rightarrow> inc_context \<Rightarrow> string \<Rightarrow> string" where
  "real_argument x ctx arg = ix_realpath x (expandvars (ic_environ ctx) arg)"

definition prohibited :: "string \<Rightarrow> bool" where
  "prohibited path \<longleftrightarrow> startswith path (''/'' @ ''etc'')"

definition inc_run ::
  "'n inc_extern \<Rightarrow> inc_context \<Rightarrow> inc_options \<Rightarrow> string \<Rightarrow> 'n inc_result"
where
  "inc_run x ctx opts arg =
     (let path = real_argument x ctx arg in
      if prohibited path
      then ([], Inl (severe (''Problems with \"'' @ ic_name ctx
              @ ''\" directive, prohibited path: '' @ path)))
      else inc_inner_run x ctx opts path)"

section \<open>Lemmas\<close>

text \<open>The file an event names.\<close>

fun event_path :: "inc_event \<Rightarrow> string option" where
  "event_path (AddDependency p) = Some p"
| "event_path AddName = None"
| "event_path (InsertInput ls p) = Some p"

lemma include_path_canonical:
  assumes "canonical p" and "ix_path x p = p"
  shows "include_path x ctx p = p"
proof -
  have "\<not> startswith p ''<''"
    using assms(1) by (auto simp: canonical_def isabs_def startswith_def prefix_def)
  with assms show ?thesis by (simp add: include_path_def canonical_join)
qed

lemma emit_paths: "ev \<in> set (fst (emit x opts w path raw)) \<Longrightarrow> event_path ev \<in> {None, Some path}"
  by (auto simp: emit_def literal_block_def Let_def split: if_splits option.splits)

text \<open>Nothing but the opening depends on how files are opened.\<close>

lemma opened_elsewhere:
  "real_argument (x\<lparr>ix_open := opn\<rparr>) ctx arg = real_argument x ctx arg"
  "include_path (x\<lparr>ix_open := opn\<rparr>) ctx p = include_path x ctx p"
  "emit (x\<lparr>ix_open := opn\<rparr>) opts w p raw = emit x opts w p raw"
proof -
  have fields: "ix_number_lines (x\<lparr>ix_open := opn\<rparr>) = ix_number_lines x"
    "ix_string2lines (x\<lparr>ix_open := opn\<rparr>) = ix_string2lines x"
    "ix_code_block (x\<lparr>ix_open := opn\<rparr>) = ix_code_block x" by simp_all
  show "emit (x\<lparr>ix_open := opn\<rparr>) opts w p raw = emit x opts w p raw"
    unfolding emit_def literal_block_def literal_children_def fields ..
qed (simp_all add: real_argument_def include_path_def)

lemma inner_run_paths:
  "ev \<in> set (fst (inc_inner_run x ctx opts arg)) \<Longrightarrow>
   event_path ev \<in> {None, Some (include_path x ctx arg)}"
  by (auto simp: inc_inner_run_def Let_def split_beta split: if_splits sum.splits option.splits
      dest: emit_paths)

lemma read_text_slice:
  assumes "fi_readlines f = Inr ls" and "fi_read f = Inr (concat ls)"
  shows "read_text name opts f = Inr (concat (py_slice (io_start_line opts) (io_end_line opts) ls))"
proof -
  have "py_slice (Some 0) None ls = ls" by (simp add: py_slice_def slice_index_def)
  with assms show ?thesis by (auto simp: read_text_def)
qed

lemma cut_after_Some:
  assumes "t \<noteq> []"
  shows "cut_after name (Some t) raw = Inr r \<longleftrightarrow>
     (\<exists>u. raw = u @ t @ r \<and> py_find t raw = Some (length u))"
proof (cases "py_find t raw")
  case None
  with assms show ?thesis by (simp add: cut_after_def)
next
  case (Some i)
  then obtain u v where raw: "raw = u @ t @ v" and i: "length u = i" by (rule py_find_first)
  then have "drop (i + length t) raw = v" by simp
  with assms Some have "cut_after name (Some t) raw = Inr v" by (simp add: cut_after_def)
  moreover have "(\<exists>u'. raw = u' @ t @ r \<and> i = length u') \<longleftrightarrow> r = v" using raw i by auto
  ultimately show ?thesis using Some by auto
qed

lemma cut_before_Some:
  assumes "t \<noteq> []"
  shows "cut_before name (Some t) raw = Inr r \<longleftrightarrow>
     (\<exists>v. raw = r @ t @ v \<and> py_find t raw = Some (length r))"
proof (cases "py_find t raw")
  case None
  with assms show ?thesis by (simp add: cut_before_def)
next
  case (Some i)
  then obtain u v where raw: "raw = u @ t @ v" and i: "length u = i" by (rule py_find_first)
  then have "take i raw = u" by simp
  with assms Some have "cut_before name (Some t) raw = Inr u" by (simp add: cut_before_def)
  moreover have "(\<exists>v'. raw = r @ t @ v' \<and> i = length r) \<longleftrightarrow> r = u" using raw i by auto
  ultimately show ?thesis using Some by auto
qed

lemma select_text_Inr:
  "select_text name opts f = Inr t \<longleftrightarrow>
     (\<exists>raw raw1. read_text name opts f = Inr raw \<and> cut_after name (io_start_after opts) raw = Inr raw1
        \<and> cut_before name (io_end_before opts) raw1 = Inr t)"
  by (auto simp: select_text_def rbind_Inr_iff)

lemma cut_errors:
  "cut_after name o1 raw = Inl e \<Longrightarrow> \<exists>m. e = DocMessage Severe m"
  "cut_before name o2 raw = Inl e \<Longrightarrow> \<exists>m. e = DocMessage Severe m"
  by (auto simp: cut_after_def cut_before_def not_found_def severe_def split: option.splits if_splits)

section \<open>Properties\<close>

text \<open>
  C5. When the resolved argument is an absolute normalised path that \<open>directives.path\<close> leaves
  as it is, the path that is checked is the path that is used: the run records and inserts no other file and opens no
  other file, as it is the same whatever opening any other path gives; and for a path that begins with \<open>/etc\<close> it records,
  inserts and opens nothing. In particular the form with angle brackets, which docutils resolves to its own
  files, is never taken. Without the two conditions this does not hold, as the next property shows.
\<close>

theorem inc_checked_path_is_used:
  assumes "canonical (real_argument x ctx arg)"
    and "ix_path x (real_argument x ctx arg) = real_argument x ctx arg"
  shows "(\<forall>ev \<in> set (fst (inc_run x ctx opts arg)). event_path ev \<in> {None, Some (real_argument x ctx arg)})
    \<and> (\<forall>opn. opn (real_argument x ctx arg) = ix_open x (real_argument x ctx arg) \<longrightarrow>
         inc_run (x\<lparr>ix_open := opn\<rparr>) ctx opts arg = inc_run x ctx opts arg)
    \<and> (startswith (real_argument x ctx arg) ''/etc'' \<longrightarrow>
         fst (inc_run x ctx opts arg) = []
         \<and> (\<forall>opn. inc_run (x\<lparr>ix_open := opn\<rparr>) ctx opts arg = inc_run x ctx opts arg))"
proof (intro conjI allI impI ballI)
  note path = include_path_canonical [OF assms, of ctx]
  show "event_path ev \<in> {None, Some (real_argument x ctx arg)}" if "ev \<in> set (fst (inc_run x ctx opts arg))" for ev
    using that inner_run_paths [of ev x ctx opts "real_argument x ctx arg"] path
    by (auto simp: inc_run_def Let_def split: if_splits)
  show "inc_run (x\<lparr>ix_open := opn\<rparr>) ctx opts arg = inc_run x ctx opts arg"
    if "opn (real_argument x ctx arg) = ix_open x (real_argument x ctx arg)" for opn
  proof -
    have o: "ix_open (x\<lparr>ix_open := opn\<rparr>) = opn" by simp
    show ?thesis unfolding inc_run_def inc_inner_run_def opened_elsewhere Let_def path that o ..
  qed
  assume etc: "startswith (real_argument x ctx arg) ''/etc''"
  then show "fst (inc_run x ctx opts arg) = []" by (simp add: inc_run_def prohibited_def)
  show "inc_run (x\<lparr>ix_open := opn\<rparr>) ctx opts arg = inc_run x ctx opts arg" for opn
    using etc by (simp add: inc_run_def prohibited_def opened_elsewhere)
qed

text \<open>A document tree with one readable file.\<close>

definition inc_opts0 :: inc_options where
  "inc_opts0 = \<lparr>io_encoding = None, io_tab_width = None, io_start_line = None, io_end_line = None,
     io_start_after = None, io_end_before = None, io_literal = False, io_code = None,
     io_number_lines = None, io_class = None\<rparr>"

definition inc_ctx0 :: inc_context where
  "inc_ctx0 = \<lparr>ic_name = ''kernel-include'', ic_environ = [''OUT'' \<mapsto> ''/out''], ic_cwd = ''/doc'',
     ic_source = ''index.rst'', ic_file_insertion_enabled = True, ic_input_encoding = ''utf-8'',
     ic_error_handler = ''strict'', ic_tab_width = 8, ic_standard_include_path = ''/lib/include''\<rparr>"

definition inc_x0 :: "nat inc_extern" where
  "inc_x0 = \<lparr>ix_realpath = abspath ''/doc'',
     ix_path = List.filter (\<lambda>c. c \<noteq> CHR 0x0A),
     ix_open = (\<lambda>p enc h. if p = ''/out/a.rst'' \<or> p = ''/etc/passwd''
        then Inr \<lparr>fi_read = Inr ''one two three'', fi_readlines = Inr [''one two three'']\<rparr>
        else Inl (IOError ''No such file'')),
     ix_string2lines = (\<lambda>s w. py_split (CHR 0x0A) s),
     ix_number_lines = (\<lambda>s a b. []), ix_code_block = (\<lambda>l opts p ls. Inr [])\<rparr>"

text \<open>Nothing but one file can be opened.\<close>

definition only_one ::
  "(string \<Rightarrow> string \<Rightarrow> string \<Rightarrow> inc_file res) \<Rightarrow> string \<Rightarrow> string \<Rightarrow> string \<Rightarrow> string \<Rightarrow> inc_file res"
where
  "only_one opn f p = (if p = f then opn p else (\<lambda>enc h. Inl ValueError))"

theorem inc_checked_path_is_used_witness:
  "fst (inc_run inc_x0 inc_ctx0 inc_opts0 ''$OUT/./a.rst'')
      = [AddDependency ''/out/a.rst'', InsertInput [''one two three''] ''/out/a.rst'']
   \<and> inc_run (inc_x0\<lparr>ix_open := only_one (ix_open inc_x0) ''/out/a.rst''\<rparr>) inc_ctx0 inc_opts0 ''$OUT/./a.rst''
        = inc_run inc_x0 inc_ctx0 inc_opts0 ''$OUT/./a.rst''"
proof -
  have r: "real_argument inc_x0 inc_ctx0 ''$OUT/./a.rst'' = ''/out/a.rst''" by code_simp
  have c: "canonical ''/out/a.rst''" "ix_path inc_x0 ''/out/a.rst'' = ''/out/a.rst''" by code_simp+
  have e: "fst (inc_run inc_x0 inc_ctx0 inc_opts0 ''$OUT/./a.rst'')
      = [AddDependency ''/out/a.rst'', InsertInput [''one two three''] ''/out/a.rst'']"
    by code_simp
  have o: "only_one (ix_open inc_x0) ''/out/a.rst'' ''/out/a.rst'' = ix_open inc_x0 ''/out/a.rst''"
    by (simp add: only_one_def)
  from inc_checked_path_is_used [of inc_x0 inc_ctx0 "''$OUT/./a.rst''" inc_opts0, unfolded r, OF c] e o
  show ?thesis by blast
qed

text \<open>
  C6. The prohibition of \<open>/etc\<close> can be passed by: the argument may hold a line break, which the
  check keeps and \<open>directives.path\<close> removes. When no symbolic link is involved, an argument
  that breaks the line inside \<open>/etc\<close> includes the prohibited file.
\<close>

theorem inc_etc_reachable:
  assumes "ic_file_insertion_enabled ctx" and "CHR ''$'' \<notin> set rest"
    and "ix_realpath x (''/e'' @ ''\<newline>'' @ ''tc'' @ rest) = ''/e'' @ ''\<newline>'' @ ''tc'' @ rest"
    and "ix_path x (''/e'' @ ''\<newline>'' @ ''tc'' @ rest) = ''/etc'' @ rest"
    and "canonical (''/etc'' @ rest)"
    and "ix_open x (''/etc'' @ rest) (ic_input_encoding ctx) (ic_error_handler ctx) = Inr f"
    and "fi_read f = Inr text"
  shows "inc_run x ctx inc_opts0 (''/e'' @ ''\<newline>'' @ ''tc'' @ rest)
     = ([AddDependency (''/etc'' @ rest),
         InsertInput (ix_string2lines x text (ic_tab_width ctx)) (''/etc'' @ rest)], Inr [])"
proof -
  let ?a = "''/e'' @ ''\<newline>'' @ ''tc'' @ rest"
  have "real_argument x ctx ?a = ?a"
    using assms(2,3) by (simp add: real_argument_def expandvars_plain)
  moreover have "\<not> prohibited ?a" by (simp add: prohibited_def startswith_def)
  moreover have "include_path x ctx ?a = ''/etc'' @ rest"
  proof -
    have "\<not> startswith (''/etc'' @ rest) ''<''" by (simp add: startswith_def)
    then show ?thesis
      using assms(4) canonical_join [OF assms(5)] by (simp add: include_path_def)
  qed
  ultimately show ?thesis
    using assms(1,6,7)
    by (simp add: inc_run_def inc_inner_run_def inc_opts0_def select_text_def read_text_def
        cut_after_def cut_before_def emit_def Let_def)
qed

theorem inc_etc_reachable_witness:
  "inc_run inc_x0 inc_ctx0 inc_opts0 ''/e\<newline>tc/passwd''
     = ([AddDependency ''/etc/passwd'', InsertInput [''one two three''] ''/etc/passwd''], Inr [])"
proof -
  have a: "''/e\<newline>tc/passwd'' = ''/e'' @ ''\<newline>'' @ ''tc'' @ ''/passwd''" by simp
  have 1: "ic_file_insertion_enabled inc_ctx0" "CHR ''$'' \<notin> set ''/passwd''" by code_simp+
  have 2: "ix_realpath inc_x0 (''/e'' @ ''\<newline>'' @ ''tc'' @ ''/passwd'') = ''/e'' @ ''\<newline>'' @ ''tc'' @ ''/passwd''"
    by code_simp
  have 3: "ix_path inc_x0 (''/e'' @ ''\<newline>'' @ ''tc'' @ ''/passwd'') = ''/etc'' @ ''/passwd''" by code_simp
  have 4: "canonical (''/etc'' @ ''/passwd'')" by code_simp
  have 5: "ix_open inc_x0 (''/etc'' @ ''/passwd'') (ic_input_encoding inc_ctx0) (ic_error_handler inc_ctx0)
      = Inr \<lparr>fi_read = Inr ''one two three'', fi_readlines = Inr [''one two three'']\<rparr>" by code_simp
  have 6: "py_split (CHR 0x0A) ''one two three'' = [''one two three'']" by code_simp
  show ?thesis
    unfolding a using inc_etc_reachable [OF 1 2 3 4 5, of "''one two three''"]
    by (simp add: inc_x0_def 6)
qed

text \<open>
  C22. The text included with \<open>start-after\<close> and \<open>end-before\<close> is the part of the selected lines
  between the first occurrence of the one and the first occurrence of the other after it, neither
  included; it is found exactly when both texts occur in this order.
\<close>

theorem inc_selected_text:
  assumes "fi_readlines f = Inr ls" and "fi_read f = Inr (concat ls)"
    and "io_start_after opts = Some a" and "a \<noteq> []"
    and "io_end_before opts = Some b" and "b \<noteq> []"
  shows "select_text name opts f = Inr t \<longleftrightarrow>
     (\<exists>u v. concat (py_slice (io_start_line opts) (io_end_line opts) ls) = u @ a @ t @ b @ v
        \<and> py_find a (u @ a @ t @ b @ v) = Some (length u) \<and> py_find b (t @ b @ v) = Some (length t))"
proof -
  let ?raw = "concat (py_slice (io_start_line opts) (io_end_line opts) ls)"
  have "select_text name opts f = Inr t \<longleftrightarrow>
      (\<exists>r u v. ?raw = u @ a @ r \<and> py_find a ?raw = Some (length u)
         \<and> r = t @ b @ v \<and> py_find b r = Some (length t))"
    using read_text_slice [OF assms(1,2)] assms(3-6)
    by (simp add: select_text_Inr cut_after_Some cut_before_Some) blast
  then show ?thesis by metis
qed

theorem inc_selected_text_witness:
  "select_text ''kernel-include'' (inc_opts0\<lparr>io_start_after := Some ''one'', io_end_before := Some ''three''\<rparr>)
     \<lparr>fi_read = Inr ''one two three'', fi_readlines = Inr [''one two three'']\<rparr> = Inr '' two ''"
proof -
  let ?o = "inc_opts0\<lparr>io_start_after := Some ''one'', io_end_before := Some ''three''\<rparr>"
  let ?f = "\<lparr>fi_read = Inr ''one two three'', fi_readlines = Inr [''one two three'']\<rparr>"
  have "concat (py_slice (io_start_line ?o) (io_end_line ?o) [''one two three''])
      = [] @ ''one'' @ '' two '' @ ''three'' @ []
    \<and> py_find ''one'' ([] @ ''one'' @ '' two '' @ ''three'' @ []) = Some (length [])
    \<and> py_find ''three'' ('' two '' @ ''three'' @ []) = Some (length '' two '')"
    by code_simp
  then have "\<exists>u v. concat (py_slice (io_start_line ?o) (io_end_line ?o) [''one two three''])
      = u @ ''one'' @ '' two '' @ ''three'' @ v
    \<and> py_find ''one'' (u @ ''one'' @ '' two '' @ ''three'' @ v) = Some (length u)
    \<and> py_find ''three'' ('' two '' @ ''three'' @ v) = Some (length '' two '')"
    by (intro exI)
  then show ?thesis
    by (rule inc_selected_text [THEN iffD2, rotated 6]) (simp_all add: inc_opts0_def)
qed

text \<open>
  C23. What a run can raise: a message of the documentation tools of at least the level of a warning, or, passed
  on unchanged, an error of opening the file other than an encoding or I/O error, an error of reading it that is no
  Unicode error, or, with \<open>code\<close> and without \<open>literal\<close>, what the code block raised. Whatever is raised, it is
  raised before anything is inserted.
\<close>

theorem inc_errors_are_messages:
  assumes "inc_run x ctx opts arg = (evs, Inl e)"
  shows "((\<exists>sev m. e = DocMessage sev m \<and> Warning \<le> sev)
     \<or> (ix_open x (include_path x ctx (real_argument x ctx arg))
          (case io_encoding opts of None \<Rightarrow> ic_input_encoding ctx | Some enc \<Rightarrow> enc) (ic_error_handler ctx) = Inl e
        \<and> (\<forall>m. e \<noteq> IOError m \<and> e \<noteq> UnicodeEncodeError m))
     \<or> (\<exists>f. ix_open x (include_path x ctx (real_argument x ctx arg))
          (case io_encoding opts of None \<Rightarrow> ic_input_encoding ctx | Some enc \<Rightarrow> enc) (ic_error_handler ctx) = Inr f
        \<and> (fi_read f = Inl e \<or> fi_readlines f = Inl e) \<and> (\<forall>m. e \<noteq> UnicodeError m \<and> e \<noteq> UnicodeEncodeError m))
     \<or> (\<not> io_literal opts \<and> (\<exists>lang ls. io_code opts = Some lang
        \<and> ix_code_block x lang (opts\<lparr>io_code := None\<rparr>) (include_path x ctx (real_argument x ctx arg)) ls = Inl e)))
     \<and> (\<forall>ls p. InsertInput ls p \<notin> set evs)"
proof -
  let ?ok = "\<lambda>e. \<exists>sev m. e = DocMessage sev m \<and> Warning \<le> sev"
  have sev: "Warning \<le> Severe" "Warning \<le> Error" "Warning \<le> Warning"
    by (simp_all add: less_eq_severity_def)
  have read: "?ok e' \<or> (fi_read f = Inl e' \<or> fi_readlines f = Inl e')
      \<and> (\<forall>m. e' \<noteq> UnicodeError m \<and> e' \<noteq> UnicodeEncodeError m)"
    if "select_text name opts f = Inl e'" for f name e'
    using that sev cut_errors
    by (fastforce simp: select_text_def read_text_def rbind_Inl_iff severe_def Let_def
        split: if_splits sum.splits exn.splits)
  have op: "?ok (open_error name p e') \<or> open_error name p e' = e' \<and> (\<forall>m. e' \<noteq> IOError m \<and> e' \<noteq> UnicodeEncodeError m)"
    for p name e'
    using sev by (cases e') (auto simp: open_error_def severe_def)
  have em: "(?ok e' \<or> \<not> io_literal opts \<and> (\<exists>lang ls. io_code opts = Some lang
      \<and> ix_code_block x lang (opts\<lparr>io_code := None\<rparr>) path ls = Inl e'))
      \<and> (\<forall>ls p. InsertInput ls p \<notin> set (fst (emit x opts w path t)))"
    if "snd (emit x opts w path t) = Inl e'" for w path t e'
    using that sev
    by (auto simp: emit_def literal_block_def literal_children_def rbind_Inl_iff Let_def
        split: if_splits option.splits sum.splits)
  show ?thesis
  proof (cases "prohibited (real_argument x ctx arg)")
    case True
    with assms sev show ?thesis by (auto simp: inc_run_def severe_def)
  next
    case False
    let ?p = "include_path x ctx (real_argument x ctx arg)"
    let ?o = "ix_open x ?p (case io_encoding opts of None \<Rightarrow> ic_input_encoding ctx | Some enc \<Rightarrow> enc) (ic_error_handler ctx)"
    let ?w = "case io_tab_width opts of None \<Rightarrow> ic_tab_width ctx | Some w \<Rightarrow> w"
    from assms False have run: "inc_inner_run x ctx opts (real_argument x ctx arg) = (evs, Inl e)"
      by (simp add: inc_run_def)
    show ?thesis
    proof (cases "ic_file_insertion_enabled ctx")
      case True
      note run = run [unfolded inc_inner_run_def Let_def, simplified True simp_thms if_False]
      show ?thesis
      proof (cases ?o)
        case (Inl e')
        with run op [of "ic_name ctx" ?p e'] show ?thesis by auto
      next
        case (Inr f)
        show ?thesis
        proof (cases "select_text (ic_name ctx) opts f")
          case (Inl e')
          with run Inr read [OF Inl] show ?thesis by auto
        next
          case sel: (Inr t)
          with run Inr have "snd (emit x opts ?w ?p t) = Inl e" "evs = AddDependency ?p # fst (emit x opts ?w ?p t)"
            by (auto split: prod.splits)
          with em [of ?w ?p t e] show ?thesis by auto
        qed
      qed
    qed (use run sev in \<open>auto simp: inc_inner_run_def\<close>)
  qed
qed

theorem inc_errors_are_messages_witness:
  "\<exists>evs e. inc_run inc_x0 inc_ctx0 inc_opts0 ''b.rst'' = (evs, Inl e)
     \<and> (\<exists>sev m. e = DocMessage sev m) \<and> (\<forall>ls p. InsertInput ls p \<notin> set evs)"
proof -
  have "case snd (inc_run inc_x0 inc_ctx0 inc_opts0 ''b.rst'') of Inl (DocMessage sev m) \<Rightarrow> True | _ \<Rightarrow> False" by code_simp
  then obtain evs e where r: "inc_run inc_x0 inc_ctx0 inc_opts0 ''b.rst'' = (evs, Inl e)" "\<exists>sev m. e = DocMessage sev m"
    by (cases "inc_run inc_x0 inc_ctx0 inc_opts0 ''b.rst''") (auto split: sum.splits exn.splits)
  from inc_errors_are_messages [OF r(1)] r show ?thesis by blast
qed

end
