(* ===== verification/KernelDoc.thy ===== *)
theory KernelDoc
  imports PosixPath PyNumbers
begin

text \<open>
  \<open>Documentation/sphinx/kerneldoc.py\<close>: the \<open>kernel-doc\<close> directive, which runs the
  extraction script on a source file and parses its output. The script, the globbing of file
  names, the decoding of bytes and the nested parser are arguments; the calls into the build
  environment are returned as events, and the parser's memo is the state.
\<close>

section \<open>Data\<close>

record kd_options =
  ko_export :: "string option"
  ko_internal :: "string option"
  ko_doc :: "string option"
  ko_functions :: "string option"
  ko_tab_width :: "int option"

record kd_config =
  kc_bin :: string
  kc_srctree :: string
  kc_verbosity :: int
  kc_tab_width :: int
  kc_cwd :: string

text \<open>The parser's memo: what the directive replaces, and a field it leaves to the parser.\<close>

record 'r kd_memo =
  km_title_styles :: "string list"
  km_section_level :: nat
  km_bubble_up_kludge :: bool
  km_reporter :: 'r

datatype kd_event =
    NoteDependency string
  | Verbose string
  | Warn string
  | Stderr string

text \<open>A line of the output with the file and the line number it is reported for.\<close>

type_synonym view_line = "string \<times> string \<times> int"

datatype 'n kd_node = ErrorParagraph string | Parsed 'n

record ('b, 'r, 'n) kd_extern =
  kx_glob :: "string \<Rightarrow> string list"
  kx_popen :: "string list \<Rightarrow> ('b \<times> 'b \<times> int) res"
  kx_decode :: "'b \<Rightarrow> string res"
  kx_string2lines :: "string \<Rightarrow> int \<Rightarrow> string list"
  kx_autodoc_reporter :: "view_line list \<Rightarrow> 'r \<Rightarrow> 'r"
  kx_nested_parse :: "view_line list \<Rightarrow> 'r kd_memo \<Rightarrow> 'r kd_memo \<times> 'n list res"
  kx_exn_text :: "exn \<Rightarrow> string"

section \<open>The command\<close>

text \<open>
  Lines 70 to 80: the selection of the comments, and the patterns of the export files, of an option for which
  \<open>str()\<close> has returned. That call, which may raise in Python 2, is in \<open>kd_directive\<close> below.
\<close>

definition kd_select :: "kd_options \<Rightarrow> string list \<times> string list" where
  "kd_select opts =
     (case ko_export opts of
        Some e \<Rightarrow> ([''-export''], py_words is_space_text e)
      | None \<Rightarrow>
          (case ko_internal opts of
             Some i \<Rightarrow> ([''-internal''], py_words is_space_text i)
           | None \<Rightarrow>
               (case ko_doc opts of
                  Some d \<Rightarrow> ([''-function'', d], [])
                | None \<Rightarrow>
                    (case ko_functions opts of
                       Some fs \<Rightarrow>
                         (concat (map (\<lambda>f. [''-function'', f]) (py_words is_space_text fs)), [])
                     | None \<Rightarrow> ([], [])))))"

definition kd_filename :: "kd_config \<Rightarrow> string \<Rightarrow> string" where
  "kd_filename cfg arg = kc_srctree cfg @ ''/'' @ arg"

definition export_paths :: "('b, 'r, 'n) kd_extern \<Rightarrow> kd_config \<Rightarrow> string list \<Rightarrow> string list" where
  "export_paths x cfg patterns =
     concat (map (\<lambda>p. kx_glob x (kc_srctree cfg @ ''/'' @ p)) patterns)"

definition kd_command ::
  "('b, 'r, 'n) kd_extern \<Rightarrow> kd_config \<Rightarrow> kd_options \<Rightarrow> string \<Rightarrow> string list"
where
  "kd_command x cfg opts arg =
     (let (sel, patterns) = kd_select opts in
      [kc_bin cfg, ''-rst'', ''-enable-lineno''] @ sel
        @ concat (map (\<lambda>f. [''-export-file'', f]) (export_paths x cfg patterns))
        @ [kd_filename cfg arg])"

definition kd_dependencies ::
  "('b, 'r, 'n) kd_extern \<Rightarrow> kd_config \<Rightarrow> kd_options \<Rightarrow> string \<Rightarrow> kd_event list"
where
  "kd_dependencies x cfg opts arg =
     map (\<lambda>f. NoteDependency (abspath (kc_cwd cfg) f))
       (kd_filename cfg arg # export_paths x cfg (snd (kd_select opts)))"

section \<open>The line numbers\<close>

text \<open>
  \<open>^#define LINENO ([0-9]+)$\<close>; the pattern's end also matches before a final line break.
\<close>

definition lineno_of :: "string \<Rightarrow> nat option" where
  "lineno_of line =
     (if prefix ''#define LINENO '' line
      then let r = drop 15 line;
               d = (if endswith r ''\<newline>'' then butlast r else r)
           in if d = [] then None else read_pos 10 dec_val 0 d
      else None)"

fun kd_lines :: "string \<Rightarrow> int \<Rightarrow> string list \<Rightarrow> view_line list" where
  "kd_lines filename lineoffset [] = []"
| "kd_lines filename lineoffset (line # lines) =
     (case lineno_of line of
        Some n \<Rightarrow> kd_lines filename (int n - 1) lines
      | None \<Rightarrow> (line, filename, lineoffset) # kd_lines filename (lineoffset + 1) lines)"

section \<open>The directive\<close>

text \<open>Lines 120 to 129: the nested parse, with the memo replaced and then restored.\<close>

definition parse_result ::
  "('b, 'r, 'n) kd_extern \<Rightarrow> 'r kd_memo \<Rightarrow> view_line list \<Rightarrow> 'r kd_memo \<times> 'n list res"
where
  "parse_result x memo result =
     (let buf = (km_title_styles memo, km_section_level memo, km_reporter memo);
          inner = memo\<lparr>km_title_styles := [], km_section_level := 0,
                       km_reporter := kx_autodoc_reporter x result (km_reporter memo)\<rparr>;
          (memo', r) = kx_nested_parse x result inner
      in (memo'\<lparr>km_title_styles := fst buf, km_section_level := fst (snd buf),
                km_reporter := snd (snd buf)\<rparr>, r))"

definition join_cmd :: "string list \<Rightarrow> string" where
  "join_cmd cmd = py_join '' '' cmd"

definition failed_msg :: "string list \<Rightarrow> int \<Rightarrow> string" where
  "failed_msg cmd rc =
     ''kernel-doc '' @ [CHR 0x27] @ join_cmd cmd @ [CHR 0x27]
       @ '' failed with return code '' @ str_int rc"

definition processing_msg :: "string list \<Rightarrow> string \<Rightarrow> string" where
  "processing_msg cmd e =
     ''kernel-doc '' @ [CHR 0x27] @ join_cmd cmd @ [CHR 0x27] @ '' processing failed with: '' @ e"

text \<open>
  The body of the \<open>try\<close>: the events so far and either the exception that reaches the handler or
  the nodes to return.
\<close>

definition kd_try ::
  "('b, 'r, 'n) kd_extern \<Rightarrow> kd_config \<Rightarrow> kd_options \<Rightarrow> 'r kd_memo \<Rightarrow> string list \<Rightarrow> string
   \<Rightarrow> kd_event list \<times> 'r kd_memo \<times> 'n kd_node list res"
where
  "kd_try x cfg opts memo cmd filename =
     (case rbind (kx_popen x cmd) (\<lambda>(out, err, rc).
             rbind (kx_decode x out) (\<lambda>out'. rbind (kx_decode x err) (\<lambda>err'. Inr (out', err', rc)))) of
        Inl e \<Rightarrow> ([], memo, Inl e)
      | Inr (out, err, rc) \<Rightarrow>
          if rc \<noteq> 0
          then ([Stderr err, Warn (failed_msg cmd rc)], memo, Inr [ErrorParagraph ''kernel-doc missing''])
          else
            let evs = (if kc_verbosity cfg > 0 then [Stderr err] else []);
                tab_width = (case ko_tab_width opts of None \<Rightarrow> kc_tab_width cfg | Some w \<Rightarrow> w);
                lines = kx_string2lines x out tab_width;
                (memo', r) = parse_result x memo (kd_lines filename 0 lines)
            in (evs, memo', rbind r (\<lambda>ns. Inr (map Parsed ns))))"

definition kd_run ::
  "('b, 'r, 'n) kd_extern \<Rightarrow> kd_config \<Rightarrow> kd_options \<Rightarrow> 'r kd_memo \<Rightarrow> string
   \<Rightarrow> kd_event list \<times> 'r kd_memo \<times> 'n kd_node list"
where
  "kd_run x cfg opts memo arg =
     (let filename = kd_filename cfg arg;
          cmd = kd_command x cfg opts arg;
          before = kd_dependencies x cfg opts arg
            @ [Verbose (''calling kernel-doc '' @ [CHR 0x27] @ join_cmd cmd @ [CHR 0x27])];
          (evs, memo', r) = kd_try x cfg opts memo cmd filename
      in case r of
           Inr ns \<Rightarrow> (before @ evs, memo', ns)
         | Inl e \<Rightarrow> (before @ evs @ [Warn (processing_msg cmd (kx_exn_text x e))], memo',
                    [ErrorParagraph ''kernel-doc missing'']))"

text \<open>
  \<open>str()\<close> of the option that selects the comments: in Python 2 an option is a \<open>unicode\<close> object, and \<open>str()\<close> raises
  for one that is not ASCII. That happens before the block that catches errors is entered, when the build
  environment has been told of the source file alone.
\<close>

definition kd_option :: "kd_options \<Rightarrow> string option" where
  "kd_option opts =
     (case ko_export opts of Some e \<Rightarrow> Some e
      | None \<Rightarrow> (case ko_internal opts of Some i \<Rightarrow> Some i
      | None \<Rightarrow> (case ko_doc opts of Some d \<Rightarrow> Some d
      | None \<Rightarrow> ko_functions opts)))"

definition is_ascii :: "string \<Rightarrow> bool" where
  "is_ascii s = list_all (\<lambda>c. (of_char c :: nat) < 128) s"

definition kd_str :: "bool \<Rightarrow> string \<Rightarrow> string res" where
  "kd_str py3 s = (if py3 \<or> is_ascii s then Inr s else Inl (UnicodeEncodeError s))"

definition kd_directive ::
  "bool \<Rightarrow> ('b, 'r, 'n) kd_extern \<Rightarrow> kd_config \<Rightarrow> kd_options \<Rightarrow> 'r kd_memo \<Rightarrow> string
   \<Rightarrow> kd_event list \<times> 'r kd_memo \<times> 'n kd_node list res"
where
  "kd_directive py3 x cfg opts memo arg =
     (case (case kd_option opts of None \<Rightarrow> Inr [] | Some v \<Rightarrow> kd_str py3 v) of
        Inl e \<Rightarrow> ([NoteDependency (abspath (kc_cwd cfg) (kd_filename cfg arg))], memo, Inl e)
      | Inr v \<Rightarrow> (let (evs, memo', ns) = kd_run x cfg opts memo arg in (evs, memo', Inr ns)))"

section \<open>Lemmas\<close>

lemma kd_directive_raises:
  "kd_directive py3 x cfg opts memo arg =
     (if \<not> py3 \<and> (\<exists>v. kd_option opts = Some v \<and> \<not> is_ascii v)
      then ([NoteDependency (abspath (kc_cwd cfg) (kd_filename cfg arg))], memo,
            Inl (UnicodeEncodeError (the (kd_option opts))))
      else case kd_run x cfg opts memo arg of (evs, memo', ns) \<Rightarrow> (evs, memo', Inr ns))"
  by (auto simp: kd_directive_def kd_str_def split: option.split)

lemma kd_lines_append:
  "\<exists>s'. kd_lines f s (us @ ls) = kd_lines f s us @ kd_lines f s' ls"
  by (induction us arbitrary: s) (auto split: option.splits)

lemma kd_lines_announced:
  "lineno_of l = Some n \<Longrightarrow> kd_lines f s (us @ l # ls) = kd_lines f s us @ kd_lines f (int n - 1) ls"
  using kd_lines_append [of f s us "l # ls"] by auto

lemma kd_lines_plain:
  assumes "\<forall>l \<in> set vs. lineno_of l = None"
  shows "kd_lines f s (vs @ ws) = map (\<lambda>k. (vs ! k, f, s + int k)) [0..<length vs]
     @ kd_lines f (s + int (length vs)) ws"
  using assms
proof (induction vs arbitrary: s)
  case Nil
  then show ?case by simp
next
  case (Cons v vs)
  have up: "[0..<Suc (length vs)] = 0 # map Suc [0..<length vs]"
    by (simp add: map_Suc_upt upt_conv_Cons del: upt_Suc)
  from Cons show ?case by (simp add: up o_def algebra_simps del: upt_Suc)
qed

lemma kd_lines_start:
  "ws = [] \<or> lineno_of (hd ws) \<noteq> None \<Longrightarrow> kd_lines f s ws = kd_lines f s' ws"
  by (cases ws) auto

lemma lineno_of_announcement: "lineno_of (''#define LINENO '' @ str_nat n) = Some n"
proof -
  have "\<not> endswith (str_nat n) ''\<newline>''"
  proof
    assume "endswith (str_nat n) ''\<newline>''"
    then have "CHR 0x0A \<in> set (str_nat n)" by (auto simp: endswith_def suffix_def)
    then have "dec_val (CHR 0x0A) \<noteq> None" by (rule str_nat_digits)
    then show False by (simp add: dec_val_def)
  qed
  then show ?thesis by (simp add: lineno_of_def read_str_nat)
qed

abbreviation same_memo :: "'r kd_memo \<Rightarrow> 'r kd_memo \<Rightarrow> bool" where
  "same_memo m m' \<equiv> km_title_styles m' = km_title_styles m \<and> km_section_level m' = km_section_level m
     \<and> km_reporter m' = km_reporter m"

lemma parse_result_memo: "same_memo memo (fst (parse_result x memo result))"
  by (simp add: parse_result_def Let_def split_beta)

lemma kd_try_memo: "same_memo memo (fst (snd (kd_try x cfg opts memo cmd f)))"
  by (simp add: kd_try_def Let_def split_beta parse_result_memo split: sum.splits)

text \<open>Which lines reach the parser: none if the script cannot be run or fails.\<close>

definition script_output ::
  "('b, 'r, 'n) kd_extern \<Rightarrow> kd_config \<Rightarrow> kd_options \<Rightarrow> string list \<Rightarrow> string list option"
where
  "script_output x cfg opts cmd =
     (case kx_popen x cmd of
        Inr (out, err, rc) \<Rightarrow>
          (case (kx_decode x out, kx_decode x err) of
             (Inr s, Inr e) \<Rightarrow>
               if rc = 0
               then Some (kx_string2lines x s
                     (case ko_tab_width opts of None \<Rightarrow> kc_tab_width cfg | Some w \<Rightarrow> w))
               else None
           | _ \<Rightarrow> None)
      | Inl e \<Rightarrow> None)"

fun is_warn :: "kd_event \<Rightarrow> bool" where
  "is_warn (Warn m) = True"
| "is_warn _ = False"

lemma kd_try_outcome:
  assumes "kd_try x cfg opts memo cmd f = (evs, memo', r)"
  shows "case script_output x cfg opts cmd of
      None \<Rightarrow> (\<exists>e. r = Inl e \<and> List.filter is_warn evs = []) \<or>
              (r = Inr [ErrorParagraph ''kernel-doc missing''] \<and> length (List.filter is_warn evs) = 1)
    | Some lines \<Rightarrow> List.filter is_warn evs = [] \<and>
        r = rbind (snd (parse_result x memo (kd_lines f 0 lines))) (\<lambda>ns. Inr (map Parsed ns))"
proof (cases "rbind (kx_popen x cmd) (\<lambda>(out, err, rc).
         rbind (kx_decode x out) (\<lambda>out'. rbind (kx_decode x err) (\<lambda>err'. Inr (out', err', rc))))")
  case (Inl e)
  then have "script_output x cfg opts cmd = None"
    by (auto simp: script_output_def rbind_Inl_iff split: sum.splits)
  with Inl assms show ?thesis by (auto simp: kd_try_def)
next
  case (Inr t)
  obtain out err rc where t: "t = (out, err, rc)" by (cases t)
  have "script_output x cfg opts cmd =
      (if rc = 0 then Some (kx_string2lines x out
          (case ko_tab_width opts of None \<Rightarrow> kc_tab_width cfg | Some w \<Rightarrow> w)) else None)"
    using Inr t by (auto simp: script_output_def rbind_Inr_iff)
  with Inr t assms show ?thesis by (auto simp: kd_try_def Let_def split_beta split: if_splits)
qed

lemma no_warn_before:
  "List.filter is_warn (kd_dependencies x cfg opts arg @ [Verbose m]) = []"
  by (simp add: kd_dependencies_def filter_empty_conv)

lemma kd_run_result:
  assumes "kd_run x cfg opts memo arg = (evs, memo', nodes)"
  shows "same_memo memo memo' \<and>
    (case script_output x cfg opts (kd_command x cfg opts arg) of
       None \<Rightarrow> nodes = [ErrorParagraph ''kernel-doc missing''] \<and> length (List.filter is_warn evs) = 1
     | Some lines \<Rightarrow>
         (case snd (parse_result x memo (kd_lines (kd_filename cfg arg) 0 lines)) of
            Inl e \<Rightarrow> nodes = [ErrorParagraph ''kernel-doc missing''] \<and> length (List.filter is_warn evs) = 1
          | Inr ns \<Rightarrow> nodes = map Parsed ns \<and> List.filter is_warn evs = []))"
proof -
  let ?cmd = "kd_command x cfg opts arg" and ?f = "kd_filename cfg arg"
  obtain ev2 memo2 r where t: "kd_try x cfg opts memo ?cmd ?f = (ev2, memo2, r)"
    by (cases "kd_try x cfg opts memo ?cmd ?f") auto
  have m: "same_memo memo memo2" using kd_try_memo [where x = x and cfg = cfg and opts = opts and cmd = ?cmd and f = ?f and memo = memo] t by simp
  have run: "kd_run x cfg opts memo arg =
      (case r of Inr ns \<Rightarrow> (kd_dependencies x cfg opts arg @
            [Verbose (''calling kernel-doc '' @ [CHR 0x27] @ join_cmd ?cmd @ [CHR 0x27])] @ ev2, memo2, ns)
       | Inl e \<Rightarrow> (kd_dependencies x cfg opts arg @
            [Verbose (''calling kernel-doc '' @ [CHR 0x27] @ join_cmd ?cmd @ [CHR 0x27])] @ ev2
            @ [Warn (processing_msg ?cmd (kx_exn_text x e))], memo2, [ErrorParagraph ''kernel-doc missing'']))"
    using t by (simp add: kd_run_def Let_def split: sum.split)
  have w: "List.filter is_warn (kd_dependencies x cfg opts arg) = []"
    using no_warn_before by simp
  show ?thesis
    using kd_try_outcome [OF t] run assms m w
    by (cases r) (auto split: option.splits sum.splits simp: rbind_Inl_iff rbind_Inr_iff)
qed

section \<open>Properties\<close>

text \<open>
  C7. The lines handed to the parser: the announcements are dropped, every other line stays in
  order with the source file, and the lines after an announcement, up to the next one, are numbered
  from the announced number on (which counts from one, the parser from zero).
\<close>

theorem kd_line_numbers:
  assumes "\<forall>l \<in> set vs. lineno_of l = None" and "ws = [] \<or> lineno_of (hd ws) \<noteq> None"
  shows "kd_lines f 0 (us @ (''#define LINENO '' @ str_nat n) # vs @ ws)
     = kd_lines f 0 us @ map (\<lambda>k. (vs ! k, f, int n - 1 + int k)) [0..<length vs] @ kd_lines f 0 ws"
  using kd_lines_start [OF assms(2), of f "int n - 1 + int (length vs)" 0]
  by (subst kd_lines_announced [OF lineno_of_announcement]) (simp add: kd_lines_plain [OF assms(1)])

theorem kd_line_numbers_witness:
  "kd_lines ''a.c'' 0 ([''x''] @ (''#define LINENO '' @ str_nat 12) # [''y'', ''z''] @ [''#define LINENO 2'', ''w''])
     = [(''x'', ''a.c'', 0), (''y'', ''a.c'', 11), (''z'', ''a.c'', 12), (''w'', ''a.c'', 1)]"
proof -
  have 1: "\<forall>l \<in> set [''y'', ''z'']. lineno_of l = None" by code_simp
  have 2: "[''#define LINENO 2'', ''w''] = [] \<or> lineno_of (hd [''#define LINENO 2'', ''w'']) \<noteq> None"
    by code_simp
  have 3: "kd_lines ''a.c'' 0 [''x''] = [(''x'', ''a.c'', 0)]"
    "kd_lines ''a.c'' 0 [''#define LINENO 2'', ''w''] = [(''w'', ''a.c'', 1)]" by code_simp+
  show ?thesis unfolding kd_line_numbers [OF 1 2, of "''a.c''" "[''x'']" 12] 3 by simp
qed



definition kd_cfg0 :: kd_config where
  "kd_cfg0 = \<lparr>kc_bin = ''scripts/kernel-doc'', kc_srctree = ''/src'', kc_verbosity = 1,
     kc_tab_width = 8, kc_cwd = ''/src''\<rparr>"

definition kd_opts0 :: kd_options where
  "kd_opts0 = \<lparr>ko_export = Some ''drivers/*.c lib/*.c'', ko_internal = None, ko_doc = None,
     ko_functions = Some ''f'', ko_tab_width = None\<rparr>"

definition kd_memo0 :: "nat kd_memo" where
  "kd_memo0 = \<lparr>km_title_styles = [''=''], km_section_level = 2, km_bubble_up_kludge = False, km_reporter = 5\<rparr>"

text \<open>A script that prints two lines, and a nested parser that leaves another section level.\<close>

definition kd_x0 :: "(string, nat, string) kd_extern" where
  "kd_x0 = \<lparr>kx_glob = (\<lambda>p. [p]),
     kx_popen = (\<lambda>cmd. Inr (''one\<newline>two'', [], 0)),
     kx_decode = Inr,
     kx_string2lines = (\<lambda>s w. py_split (CHR 0x0A) s),
     kx_autodoc_reporter = (\<lambda>ls r. length ls),
     kx_nested_parse = (\<lambda>ls m. (m\<lparr>km_section_level := 7\<rparr>,
        if length ls = 2 then Inr (map fst ls) else Inl (OtherError ''SEVERE''))),
     kx_exn_text = (\<lambda>e. [])\<rparr>"


end
