(* ===== verification/CDomain.thy ===== *)
theory CDomain
  imports PyPrelude
begin

text \<open>
  \<open>Documentation/sphinx/cdomain.py\<close>: the C domain's description of an object, with its
  own handling of function-like macros, of the \<open>name\<close> option and of duplicate descriptions.
  Sphinx's two signature patterns, its base class and the registration of a target in the
  document are arguments.
\<close>

section \<open>Data\<close>

text \<open>The groups of a signature pattern: return type, name, argument list and \<open>const\<close>.\<close>

type_synonym sig_groups = "string \<times> string \<times> string option \<times> string option"

datatype desc_param = NoEmphParam string

datatype 'n sig_child = DescName string | ParamList "desc_param list" | BaseChild 'n

record 'n sig_extern =
  sx_funcptr :: "string \<Rightarrow> sig_groups option"
  sx_sig :: "string \<Rightarrow> sig_groups option"
  sx_base_handle :: "string \<Rightarrow> 'n list \<times> string res"

text \<open>An index entry is a tuple of four components before Sphinx 1.4 and of five since.\<close>

datatype index_entry =
    Single4 string string
  | Single5 string string

record signode =
  sn_names :: "string list"
  sn_ids :: "string list"
  sn_first :: "bool option"

record cd_state =
  cd_ids :: "string set"
  cd_objects :: "string \<rightharpoonup> string \<times> string"
  cd_warnings :: "string list"
  cd_entries :: "index_entry list"

record cd_context =
  cx_docname :: string
  cx_nitpicky :: bool
  cx_nitpick_ignore :: "(string \<times> string) list"
  cx_doc2path :: "string \<Rightarrow> string"
  cx_sphinx :: "nat \<times> nat"
  cx_index_text :: "string \<Rightarrow> string \<Rightarrow> string"
  cx_note_target :: "signode \<Rightarrow> string set \<Rightarrow> string set"

section \<open>Signatures\<close>

text \<open>Lines 89 and 90: the argument list without markup, and its arguments.\<close>

definition macro_args :: "string \<Rightarrow> string list" where
  "macro_args arglist =
     map (strip_by is_space_text)
       (py_split (CHR '','') (py_replace [CHR 0x5C, CHR 0x20] [] (py_replace [CHR 0x60] [] arglist)))"

text \<open>
  The nodes appended to the signature, and the name of the macro, \<open>None\<close> for \<open>False\<close>.
\<close>

definition handle_func_like_macro ::
  "'n sig_extern \<Rightarrow> string \<Rightarrow> string \<Rightarrow> 'n sig_child list \<times> string option res"
where
  "handle_func_like_macro x objtype sig =
     (if objtype \<noteq> ''function'' then ([], Inr None)
      else
        case (case sx_funcptr x sig of Some g \<Rightarrow> Some g | None \<Rightarrow> sx_sig x sig) of
          None \<Rightarrow> ([], Inl ValueError)
        | Some (rettype, fullname, arglist, const) \<Rightarrow>
            (case arglist of
               None \<Rightarrow> ([], Inl AttributeError)
             | Some a \<Rightarrow>
                 let args = strip_by is_space_text a in
                 if rettype \<noteq> [] \<or> args = [] then ([], Inr None)
                 else
                   let names = macro_args args in
                   if length (py_split (CHR '' '') (hd names)) > 1 then ([], Inr None)
                   else ([DescName fullname, ParamList (map NoEmphParam names)], Inr (Some fullname))))"

definition handle_signature ::
  "'n sig_extern \<Rightarrow> string \<Rightarrow> string option \<Rightarrow> string \<Rightarrow> 'n sig_child list \<times> string res"
where
  "handle_signature x objtype name_opt sig =
     (let (kids, r) = handle_func_like_macro x objtype sig in
      case r of
        Inl e \<Rightarrow> (kids, Inl e)
      | Inr m \<Rightarrow>
          let (kids', fullname) =
            (case m of
               Some (c # cs) \<Rightarrow> (kids, Inr (c # cs))
             | _ \<Rightarrow> (let (ns, f) = sx_base_handle x sig in (kids @ map BaseChild ns, f)))
          in (kids', rbind fullname (\<lambda>f.
                case name_opt of
                  Some n \<Rightarrow> Inr (if objtype = ''function'' then n else f)
                | None \<Rightarrow> Inr f)))"

section \<open>Targets and index\<close>

definition target_name :: "string \<Rightarrow> string" where
  "target_name name = ''c.'' @ name"

definition duplicate_msg :: "cd_context \<Rightarrow> string \<Rightarrow> string \<Rightarrow> string" where
  "duplicate_msg cx name other =
     ''duplicate C object description of '' @ name @ '', '' @ ''other instance in '' @ cx_doc2path cx other"

definition warns_duplicate :: "cd_context \<Rightarrow> (string \<rightharpoonup> string \<times> string) \<Rightarrow> string \<Rightarrow> string \<Rightarrow> bool" where
  "warns_duplicate cx objs objtype name \<longleftrightarrow>
     objs name \<noteq> None \<and> cx_nitpicky cx \<and> objtype = ''function''
     \<and> (''c:func'', name) \<notin> set (cx_nitpick_ignore cx)"

text \<open>Lines 128 to 141: a new target; \<open>has_names\<close> says whether \<open>self.names\<close> is not empty.\<close>

definition add_target ::
  "cd_context \<Rightarrow> string \<Rightarrow> bool \<Rightarrow> string \<Rightarrow> signode \<Rightarrow> cd_state \<Rightarrow> signode \<times> cd_state"
where
  "add_target cx objtype has_names name sn st =
     (if target_name name \<in> cd_ids st then (sn, st)
      else
        let sn' = sn\<lparr>sn_names := sn_names sn @ [target_name name],
                     sn_ids := sn_ids sn @ [target_name name],
                     sn_first := Some (\<not> has_names)\<rparr>;
            objs = cd_objects st;
            ws = (if warns_duplicate cx objs objtype name
                  then [duplicate_msg cx name (fst (the (objs name)))] else [])
        in (sn', st\<lparr>cd_ids := cx_note_target cx sn' (cd_ids st),
                    cd_warnings := cd_warnings st @ ws,
                    cd_objects := objs(name \<mapsto> (cx_docname cx, objtype))\<rparr>))"

text \<open>Lines 143 to 152; Sphinx' text of the entry depends on the type of the object and its name.\<close>

definition index_entry :: "cd_context \<Rightarrow> string \<Rightarrow> string \<Rightarrow> index_entry list" where
  "index_entry cx objtype name =
     (let indextext = cx_index_text cx objtype name; (major, minor) = cx_sphinx cx in
      if indextext = [] then []
      else if major = 1 \<and> minor < 4 then [Single4 indextext (target_name name)]
      else [Single5 indextext (target_name name)])"

definition add_target_and_index ::
  "cd_context \<Rightarrow> string \<Rightarrow> bool \<Rightarrow> string \<Rightarrow> signode \<Rightarrow> cd_state \<Rightarrow> signode \<times> cd_state"
where
  "add_target_and_index cx objtype has_names name sn st =
     (let (sn', st') = add_target cx objtype has_names name sn st in
      (sn', st'\<lparr>cd_entries := cd_entries st' @ index_entry cx objtype name\<rparr>))"

section \<open>Lemmas\<close>

text \<open>The descriptions of one document, each with a fresh signature node.\<close>

definition new_signode :: signode where
  "new_signode = \<lparr>sn_names = [], sn_ids = [], sn_first = None\<rparr>"

fun describe_all :: "cd_context \<Rightarrow> (string \<times> string) list \<Rightarrow> cd_state \<Rightarrow> cd_state" where
  "describe_all cx [] st = st"
| "describe_all cx ((objtype, name) # ds) st =
     describe_all cx ds (snd (add_target_and_index cx objtype False name new_signode st))"

text \<open>The first description of each name whose target is not yet taken.\<close>

fun firsts :: "string set \<Rightarrow> (string \<times> string) list \<Rightarrow> (string \<times> string) list" where
  "firsts ids [] = []"
| "firsts ids ((objtype, name) # ds) =
     (if target_name name \<in> ids then firsts ids ds
      else (objtype, name) # firsts (insert (target_name name) ids) ds)"

definition notes_targets :: "cd_context \<Rightarrow> bool" where
  "notes_targets cx \<longleftrightarrow> (\<forall>sn ids. cx_note_target cx sn ids = ids \<union> set (sn_ids sn))"

definition dup_warnings ::
  "cd_context \<Rightarrow> (string \<rightharpoonup> string \<times> string) \<Rightarrow> (string \<times> string) list \<Rightarrow> string list"
where
  "dup_warnings cx objs ds =
     map (\<lambda>(objtype, name). duplicate_msg cx name (fst (the (objs name))))
       (List.filter (\<lambda>(objtype, name). warns_duplicate cx objs objtype name) ds)"

lemma target_name_inj [simp]: "target_name a = target_name b \<longleftrightarrow> a = b"
  by (simp add: target_name_def)

lemma firsts_names: "(t, name) \<in> set (firsts ids ds) \<Longrightarrow> target_name name \<notin> ids"
  by (induction ids ds rule: firsts.induct) (auto split: if_splits)

lemma distinct_firsts: "distinct (map snd (firsts ids ds))"
  by (induction ids ds rule: firsts.induct) (auto dest: firsts_names)

lemma dup_warnings_update:
  "name \<notin> snd ` set ds \<Longrightarrow> dup_warnings cx (objs(name \<mapsto> v)) ds = dup_warnings cx objs ds"
  by (induction ds) (auto simp: dup_warnings_def warns_duplicate_def)

lemma dup_warnings_Cons: "dup_warnings cx objs (d # ds) = dup_warnings cx objs [d] @ dup_warnings cx objs ds"
  by (simp add: dup_warnings_def)

definition register ::
  "cd_context \<Rightarrow> (string \<times> string) list \<Rightarrow> (string \<rightharpoonup> string \<times> string) \<Rightarrow> (string \<rightharpoonup> string \<times> string)"
where
  "register cx ds objs = fold (\<lambda>(objtype, name) m. m(name \<mapsto> (cx_docname cx, objtype))) ds objs"

lemma register_lookup:
  "distinct (map snd ds) \<Longrightarrow>
   register cx ds objs name =
     (case map_of (map (\<lambda>(t, n). (n, t)) ds) name of None \<Rightarrow> objs name | Some t \<Rightarrow> Some (cx_docname cx, t))"
proof (induction ds arbitrary: objs)
  case Nil
  then show ?case by (simp add: register_def)
next
  case (Cons d ds)
  obtain t n where d: "d = (t, n)" by (cases d)
  have "map_of (map (\<lambda>(t, n). (n, t)) ds) n = None"
    using Cons.prems d by (force simp: map_of_eq_None_iff)
  with Cons d show ?case by (auto simp: register_def split: option.splits)
qed

lemma describe_all_effect:
  assumes "notes_targets cx"
  shows "cd_ids (describe_all cx ds st) = cd_ids st \<union> target_name ` snd ` set ds
     \<and> cd_objects (describe_all cx ds st) = register cx (firsts (cd_ids st) ds) (cd_objects st)
     \<and> cd_warnings (describe_all cx ds st)
         = cd_warnings st @ dup_warnings cx (cd_objects st) (firsts (cd_ids st) ds)
     \<and> cd_entries (describe_all cx ds st) = cd_entries st @ concat (map (\<lambda>(t, n). index_entry cx t n) ds)"
proof (induction ds arbitrary: st)
  case Nil
  then show ?case by (simp add: register_def dup_warnings_def)
next
  case (Cons d ds)
  obtain t n where d: "d = (t, n)" by (cases d)
  let ?st = "snd (add_target_and_index cx t False n new_signode st)"
  show ?case
  proof (cases "target_name n \<in> cd_ids st")
    case True
    then have "?st = st\<lparr>cd_entries := cd_entries st @ index_entry cx t n\<rparr>"
      by (simp add: add_target_and_index_def add_target_def)
    with True d Cons.IH [of ?st] show ?thesis by auto
  next
    case False
    define m where "m = (cd_objects st)(n \<mapsto> (cx_docname cx, t))"
    have st: "cd_ids ?st = insert (target_name n) (cd_ids st)"
      "cd_objects ?st = m"
      "cd_warnings ?st = cd_warnings st @ dup_warnings cx (cd_objects st) [(t, n)]"
      "cd_entries ?st = cd_entries st @ index_entry cx t n"
      using False assms
      by (auto simp: add_target_and_index_def add_target_def notes_targets_def new_signode_def
          dup_warnings_def m_def Let_def)
    let ?fs = "firsts (insert (target_name n) (cd_ids st)) ds"
    have "n \<notin> snd ` set ?fs" using firsts_names by fastforce
    then have "dup_warnings cx m ?fs = dup_warnings cx (cd_objects st) ?fs"
      unfolding m_def by (rule dup_warnings_update)
    moreover have "register cx ((t, n) # ?fs) (cd_objects st) = register cx ?fs m"
      by (simp add: register_def m_def)
    ultimately show ?thesis
      using False d st Cons.IH [of ?st] by (simp add: dup_warnings_Cons [of cx _ "(t, n)" ?fs])
  qed
qed

lemma map_of_firsts:
  "map_of (map (\<lambda>(t, n). (n, t)) (firsts ids ds)) name =
     (if target_name name \<in> ids then None else map_of (map (\<lambda>(t, n). (n, t)) ds) name)"
  by (induction ids ds rule: firsts.induct) auto

text \<open>The argument list of a macro, written with one space after each comma.\<close>

lemma py_split_comma_join:
  assumes "\<And>w. w \<in> set (w0 # ws) \<Longrightarrow> c \<notin> set w" and "c \<noteq> d"
  shows "py_split c (py_join [c, d] (w0 # ws)) = w0 # map ((#) d) ws"
  using assms(1)
proof (induction ws arbitrary: w0)
  case Nil
  then show ?case by (simp add: py_split_word)
next
  case (Cons w ws)
  have "py_split c (w0 @ c # d # py_join [c, d] (w # ws)) = w0 # py_split c (d # py_join [c, d] (w # ws))"
    using Cons.prems by (intro py_split_append) simp
  also have "py_split c (d # py_join [c, d] (w # ws)) = (d # w) # map ((#) d) ws"
    using Cons.IH [of w] Cons.prems assms(2) by simp
  finally show ?case by simp
qed

lemma set_py_join: "set (py_join sep ws) \<subseteq> (\<Union>w \<in> set ws. set w) \<union> set sep"
  by (induction sep ws rule: py_join.induct) auto

lemma hd_last_py_join:
  "w \<noteq> [] \<Longrightarrow> (\<And>v. v \<in> set ws \<Longrightarrow> v \<noteq> []) \<Longrightarrow>
   hd (py_join sep (w # ws)) = hd w \<and> last (py_join sep (w # ws)) = last (last (w # ws))
   \<and> py_join sep (w # ws) \<noteq> []"
proof (induction ws arbitrary: w)
  case Nil
  then show ?case by simp
next
  case (Cons v ws)
  then have "py_join sep (v # ws) \<noteq> []" "last (py_join sep (v # ws)) = last (last (v # ws))" by auto
  with Cons.prems show ?case by (simp add: last_append)
qed

lemma strip_by_blank:
  assumes "a \<noteq> []" and "\<forall>c \<in> set a. \<not> P c" and "P d"
  shows "strip_by P (d # a) = a" and "strip_by P a = a"
proof -
  show "strip_by P a = a"
    using assms hd_in_set [of a] last_in_set [of a] by (intro strip_by_id) auto
  then show "strip_by P (d # a) = a" using assms(3) by (simp add: strip_by_def lstrip_by_def)
qed

text \<open>An argument without white space, commas and markup characters.\<close>

definition macro_arg_ok :: "string \<Rightarrow> bool" where
  "macro_arg_ok a \<longleftrightarrow> a \<noteq> [] \<and> list_all (\<lambda>c. \<not> is_space_text c \<and> c \<noteq> CHR '','' \<and> c \<noteq> CHR 0x60 \<and> c \<noteq> CHR 0x5C) a"

lemma macro_arg_okD:
  "macro_arg_ok a \<Longrightarrow> a \<noteq> []"
  "macro_arg_ok a \<Longrightarrow> c \<in> set a \<Longrightarrow> \<not> is_space_text c \<and> c \<noteq> CHR '','' \<and> c \<noteq> CHR 0x60 \<and> c \<noteq> CHR 0x5C"
  by (auto simp: macro_arg_ok_def list_all_iff)

lemma macro_args_join:
  assumes "\<forall>a \<in> set (w # ws). macro_arg_ok a"
  shows "macro_args (py_join '', '' (w # ws)) = w # ws"
    and "strip_by is_space_text (py_join '', '' (w # ws)) = py_join '', '' (w # ws)"
proof -
  let ?s = "py_join '', '' (w # ws)"
  have chars: "c \<notin> set ?s" if "c = CHR 0x60 \<or> c = CHR 0x5C" for c
  proof
    assume "c \<in> set ?s"
    with set_py_join [of "'', ''" "w # ws"] that obtain a where "a \<in> set (w # ws)" "c \<in> set a" by auto
    with assms that show False by (blast dest: macro_arg_okD(2))
  qed
  have absent: "py_find (c # p) ?s = None" if "c \<notin> set ?s" for c p
    using that set_mono_sublist [of "c # p" ?s] by (auto simp: py_find_None_iff)
  have "py_find [CHR 0x60] ?s = None" by (intro absent chars) simp
  moreover have "py_find [CHR 0x5C, CHR 0x20] ?s = None" by (intro absent chars) simp
  ultimately have "macro_args ?s = map (strip_by is_space_text) (py_split (CHR '','') ?s)"
    by (simp add: macro_args_def py_replace_absent)
  also have "py_split (CHR '','') ?s = w # map ((#) (CHR 0x20)) ws"
    using assms by (intro py_split_comma_join) (auto dest: macro_arg_okD(2))
  also have "map (strip_by is_space_text) (w # map ((#) (CHR 0x20)) ws) = w # ws"
  proof -
    have "strip_by is_space_text a = a \<and> strip_by is_space_text (CHR 0x20 # a) = a" if "a \<in> set (w # ws)" for a
    proof -
      have "a \<noteq> []" "\<forall>c \<in> set a. \<not> is_space_text c"
        using assms that macro_arg_okD(1) macro_arg_okD(2) by blast+
      moreover have "is_space_text (CHR 0x20)" by code_simp
      ultimately show ?thesis by (intro conjI strip_by_blank)
    qed
    then show ?thesis by (simp add: o_def map_idI)
  qed
  finally show "macro_args ?s = w # ws" .
  have "w \<noteq> []" "\<And>v. v \<in> set ws \<Longrightarrow> v \<noteq> []" using assms macro_arg_okD(1) by auto
  from hd_last_py_join [OF this, where sep = "'', ''"]
  have "hd ?s = hd w" "last ?s = last (last (w # ws))" "?s \<noteq> []" by blast+
  moreover have "\<not> is_space_text (hd w)" "\<not> is_space_text (last (last (w # ws)))"
    using assms macro_arg_okD(1) macro_arg_okD(2) [OF _ hd_in_set] macro_arg_okD(2) [OF _ last_in_set]
      last_in_set [of "w # ws"] by (metis list.distinct(1) list.set_intros(1))+
  ultimately show "strip_by is_space_text ?s = ?s" by (intro strip_by_id) auto
qed

section \<open>Properties\<close>

text \<open>
  C15. Describing the objects of a document, when the document records the identifiers of a target:
  the inventory maps each name whose target was free to this document and the type of its
  first description, and every other name as before; the identifiers grow by the targets of all names;
  and the index gets, for every description whose index text is not empty, duplicates included, one entry of the
  text of its type and name that leads to the target, of four components before Sphinx 1.4 and of five since.
\<close>

theorem cd_inventory:
  assumes "notes_targets cx"
  shows "cd_ids (describe_all cx ds st) = cd_ids st \<union> (\<lambda>(t, n). ''c.'' @ n) ` set ds
    \<and> cd_entries (describe_all cx ds st) = cd_entries st @ concat (map (\<lambda>(t, n).
         if cx_index_text cx t n = [] then []
         else if fst (cx_sphinx cx) = 1 \<and> snd (cx_sphinx cx) < 4 then [Single4 (cx_index_text cx t n) (''c.'' @ n)]
         else [Single5 (cx_index_text cx t n) (''c.'' @ n)]) ds)
    \<and> cd_objects (describe_all cx ds st) name =
       (if ''c.'' @ name \<in> cd_ids st then cd_objects st name
        else case map_of (map (\<lambda>(t, n). (n, t)) ds) name of
               None \<Rightarrow> cd_objects st name | Some t \<Rightarrow> Some (cx_docname cx, t))"
proof -
  have e: "index_entry cx t n = (if cx_index_text cx t n = [] then []
      else if fst (cx_sphinx cx) = 1 \<and> snd (cx_sphinx cx) < 4 then [Single4 (cx_index_text cx t n) (''c.'' @ n)]
      else [Single5 (cx_index_text cx t n) (''c.'' @ n)])" for t n
    by (simp add: index_entry_def target_name_def Let_def split_beta)
  have i: "target_name ` snd ` set ds = (\<lambda>(t, n). ''c.'' @ n) ` set ds"
    by (force simp: target_name_def image_iff)
  have o: "cd_objects (describe_all cx ds st) name =
       (if target_name name \<in> cd_ids st then cd_objects st name
        else case map_of (map (\<lambda>(t, n). (n, t)) ds) name of
               None \<Rightarrow> cd_objects st name | Some t \<Rightarrow> Some (cx_docname cx, t))"
    using describe_all_effect [OF assms, of ds st] distinct_firsts [of "cd_ids st" ds]
    by (simp add: register_lookup map_of_firsts)
  show ?thesis using describe_all_effect [OF assms, of ds st] o unfolding e i target_name_def by blast
qed

definition cd_cx0 :: cd_context where
  "cd_cx0 = \<lparr>cx_docname = ''b'', cx_nitpicky = True, cx_nitpick_ignore = [], cx_doc2path = id,
     cx_sphinx = (1, 4), cx_index_text = (\<lambda>t n. if t = ''macro'' then [] else n @ '' (C '' @ t @ '')''), cx_note_target = (\<lambda>sn ids. ids \<union> set (sn_ids sn))\<rparr>"

definition cd_st0 :: cd_state where
  "cd_st0 = \<lparr>cd_ids = {}, cd_objects = [''f'' \<mapsto> (''a'', ''function''), ''s'' \<mapsto> (''a'', ''type'')],
     cd_warnings = [], cd_entries = []\<rparr>"

theorem cd_inventory_witness:
  "cd_objects (describe_all cd_cx0 [(''macro'', ''f''), (''function'', ''f'')] cd_st0) ''f'' = Some (''b'', ''macro'')
   \<and> cd_entries (describe_all cd_cx0 [(''macro'', ''f''), (''function'', ''f'')] cd_st0) = [Single5 ''f (C function)'' ''c.f'']"
proof -
  have "notes_targets cd_cx0" by (simp add: notes_targets_def cd_cx0_def)
  from cd_inventory [OF this, of "[(''macro'', ''f''), (''function'', ''f'')]" cd_st0 "''f''"]
  show ?thesis by (simp add: cd_st0_def cd_cx0_def)
qed

text \<open>
  The duplicates that are reported: in nitpicky mode only, and there only functions that are not
  ignored, described first in this document and known from another one. A duplicate macro, type,
  variable or member is never reported, nor a second description in the same document.
\<close>

theorem cd_duplicate_warnings:
  assumes "notes_targets cx"
  shows "cd_warnings (describe_all cx ds st) = cd_warnings st @
     map (\<lambda>(t, name). duplicate_msg cx name (fst (the (cd_objects st name))))
       (List.filter (\<lambda>(t, name). cx_nitpicky cx \<and> t = ''function'' \<and> cd_objects st name \<noteq> None
            \<and> (''c:func'', name) \<notin> set (cx_nitpick_ignore cx)) (firsts (cd_ids st) ds))"
proof -
  have "dup_warnings cx (cd_objects st) (firsts (cd_ids st) ds) =
     map (\<lambda>(t, name). duplicate_msg cx name (fst (the (cd_objects st name))))
       (List.filter (\<lambda>(t, name). cx_nitpicky cx \<and> t = ''function'' \<and> cd_objects st name \<noteq> None
            \<and> (''c:func'', name) \<notin> set (cx_nitpick_ignore cx)) (firsts (cd_ids st) ds))"
    unfolding dup_warnings_def by (rule arg_cong [of _ _ "map _"], rule filter_cong) (auto simp: warns_duplicate_def)
  with describe_all_effect [OF assms, of ds st] show ?thesis by simp
qed

theorem cd_duplicate_warnings_witness:
  "length (cd_warnings (describe_all cd_cx0 [(''type'', ''s''), (''function'', ''f''), (''function'', ''f'')] cd_st0)) = 1"
proof -
  have "notes_targets cd_cx0" by (simp add: notes_targets_def cd_cx0_def)
  from cd_duplicate_warnings [OF this, of "[(''type'', ''s''), (''function'', ''f''), (''function'', ''f'')]" cd_st0]
  show ?thesis by (simp add: cd_st0_def cd_cx0_def)
qed

text \<open>
  C25. A function-like macro: a signature without return type whose first argument has no type is shown
  with its name and its arguments, stripped, in order and without guessing types, and is
  referred to by the \<open>name\<close> option or by its own name; the base class is not asked.
\<close>

theorem cd_macro_signature:
  assumes "args \<noteq> []"
    and "\<forall>a \<in> set args. macro_arg_ok a"
    and "sx_funcptr x sig = None"
    and "sx_sig x sig = Some ([], fullname, Some (py_join '', '' args), const)"
    and "fullname \<noteq> []"
  shows "handle_signature x ''function'' name_opt sig
     = ([DescName fullname, ParamList (map NoEmphParam args)],
        Inr (case name_opt of None \<Rightarrow> fullname | Some n \<Rightarrow> n))"
proof -
  obtain w ws where args: "args = w # ws" using assms(1) by (cases args) auto
  have a: "\<forall>a \<in> set (w # ws). macro_arg_ok a" using assms(2) args by simp
  have "w \<noteq> []" "\<And>v. v \<in> set ws \<Longrightarrow> v \<noteq> []" using a macro_arg_okD(1) by auto
  from hd_last_py_join [OF this, where sep = "'', ''"] have ne: "py_join '', '' args \<noteq> []" by (simp add: args)
  have "CHR '' '' \<notin> set w" using a macro_arg_okD(2) [of w "CHR '' ''"] by (auto simp: is_space_text_def is_space_def)
  then have "py_split (CHR '' '') (hd args) = [w]" by (simp add: args py_split_word)
  then have "handle_func_like_macro x ''function'' sig
      = ([DescName fullname, ParamList (map NoEmphParam args)], Inr (Some fullname))"
    using assms(3,4) ne macro_args_join [OF a] by (simp add: handle_func_like_macro_def args)
  then show ?thesis
    using assms(5) by (cases fullname) (auto simp: handle_signature_def split: option.split)
qed

text \<open>
  A function without an argument list, which the base class accepts, raises an
  \<open>AttributeError\<close>; it is the only signature that does.
\<close>

theorem cd_no_arglist:
  assumes "\<And>s. snd (sx_base_handle x s) \<noteq> Inl AttributeError"
  shows "snd (handle_signature x objtype name_opt sig) = Inl AttributeError \<longleftrightarrow>
     objtype = ''function'' \<and>
     (\<exists>rettype fullname const.
        (case sx_funcptr x sig of Some g \<Rightarrow> Some g | None \<Rightarrow> sx_sig x sig) = Some (rettype, fullname, None, const))"
proof -
  have macro: "snd (handle_func_like_macro x objtype sig) = Inl AttributeError \<longleftrightarrow>
     objtype = ''function'' \<and>
     (\<exists>rettype fullname const.
        (case sx_funcptr x sig of Some g \<Rightarrow> Some g | None \<Rightarrow> sx_sig x sig) = Some (rettype, fullname, None, const))"
    by (auto simp: handle_func_like_macro_def Let_def split: option.splits)
  have "snd (handle_signature x objtype name_opt sig) = Inl AttributeError \<longleftrightarrow>
     snd (handle_func_like_macro x objtype sig) = Inl AttributeError"
    using assms
    by (auto simp: handle_signature_def rbind_Inl_iff split_beta Let_def split: sum.splits option.splits list.splits)
  with macro show ?thesis by simp
qed

definition sx_example :: "nat sig_extern" where
  "sx_example = \<lparr>sx_funcptr = (\<lambda>s. None),
     sx_sig = (\<lambda>s. if s = ''foo'' then Some ([], ''foo'', None, None)
                   else Some ([], ''CRW'', Some ''a, b'', None)),
     sx_base_handle = (\<lambda>s. ([0], Inr s))\<rparr>"

theorem cd_macro_signature_witness:
  "handle_signature sx_example ''function'' None ''CRW(a, b)''
     = ([DescName ''CRW'', ParamList [NoEmphParam ''a'', NoEmphParam ''b'']], Inr ''CRW'')"
proof -
  have "macro_arg_ok ''a''" "macro_arg_ok ''b''" by code_simp+
  then show ?thesis
    using cd_macro_signature [of "[''a'', ''b'']" sx_example "''CRW(a, b)''" "''CRW''" None None]
    by (simp add: sx_example_def)
qed

theorem cd_no_arglist_witness:
  "snd (handle_signature sx_example ''function'' None ''foo'') = Inl AttributeError"
  using cd_no_arglist [of sx_example "''function''" None "''foo''"] by (simp add: sx_example_def)

end
