(* ===== verification/FileStore.thy ===== *)
theory FileStore
  imports PosixPath
begin

text \<open>
  The files the figure converter and the module generator read and write: a store of files and directories with their
  change times, and a clock that stands still while the program runs and is moved on by its
  environment. Paths are compared as they are written. What the programs rely on is stated
  once, as the \<open>locale\<close> \<open>file_store\<close>, with the facts on derived files that follow from it; the
  store is its interpretation.
\<close>

section \<open>The interface\<close>

text \<open>
  \<open>look\<close> reads a regular file with its time, \<open>put\<close> writes one and can fail, \<open>now\<close> is the clock.
\<close>

locale file_store =
  fixes look :: "'s \<Rightarrow> string \<Rightarrow> (string \<times> nat) option"
    and put :: "string \<Rightarrow> string \<Rightarrow> 's \<Rightarrow> 's res"
    and now :: "'s \<Rightarrow> nat"
    and valid :: "'s \<Rightarrow> bool"
  assumes look_put: "put p d s = Inr s' \<Longrightarrow> look s' q = (if q = p then Some (d, now s) else look s q)"
    and now_put: "put p d s = Inr s' \<Longrightarrow> now s' = now s"
    and valid_put: "valid s \<Longrightarrow> put p d s = Inr s' \<Longrightarrow> valid s'"
    and look_past: "valid s \<Longrightarrow> look s p = Some (d, t) \<Longrightarrow> t \<le> now s"
begin

text \<open>
  A derived file that is newer than its source holds what the conversion leaves for what the source now
  holds; a conversion may leave nothing.
\<close>

definition derived_ok :: "(string \<Rightarrow> string option) \<Rightarrow> 's \<Rightarrow> string \<Rightarrow> string \<Rightarrow> bool" where
  "derived_ok conv s src dst \<longleftrightarrow>
     (\<forall>d t d' t'. look s src = Some (d, t) \<longrightarrow> look s dst = Some (d', t') \<longrightarrow> t < t' \<longrightarrow> conv d = Some d')"

lemma derived_ok_absent: "look s dst = None \<Longrightarrow> derived_ok conv s src dst"
  by (simp add: derived_ok_def)

lemma derived_ok_old:
  "look s src = Some (d, t) \<Longrightarrow> look s dst = Some (d', t') \<Longrightarrow> t' \<le> t \<Longrightarrow> derived_ok conv s src dst"
  by (simp add: derived_ok_def)

lemma derived_ok_cong:
  "look s' src = look s src \<Longrightarrow> look s' dst = look s dst \<Longrightarrow>
   derived_ok conv s' src dst \<longleftrightarrow> derived_ok conv s src dst"
  by (simp add: derived_ok_def)

lemma derived_ok_edit:
  assumes "valid s" and "put src d s = Inr s'" and "src \<noteq> dst"
  shows "derived_ok conv s' src dst"
  using assms look_put [OF assms(2)] look_past [OF assms(1), of dst]
  by (fastforce simp: derived_ok_def)

lemma derived_ok_other:
  assumes "put p d s = Inr s'" and "p \<noteq> src" and "p \<noteq> dst"
  shows "derived_ok conv s' src dst \<longleftrightarrow> derived_ok conv s src dst"
  using assms look_put [OF assms(1)] by (intro derived_ok_cong) auto

lemma derived_ok_made:
  assumes "look s src = Some (d, t)" and "conv d = Some c" and "put dst c s = Inr s'" and "src \<noteq> dst"
  shows "derived_ok conv s' src dst"
  using assms look_put [OF assms(3)] by (auto simp: derived_ok_def)

text \<open>Writing a derived file again after the clock moved on makes it newer than its source.\<close>

lemma put_newer:
  assumes "look s src = Some (d, t)" and "t < now s" and "put dst c s = Inr s'" and "src \<noteq> dst"
  shows "\<exists>t'. look s' dst = Some (c, t') \<and> look s' src = Some (d, t) \<and> t < t'"
  using assms look_put [OF assms(3)] by auto

end

section \<open>The store\<close>

datatype entry = File string nat | Dir nat

fun entry_time :: "entry \<Rightarrow> nat" where
  "entry_time (File d t) = t"
| "entry_time (Dir t) = t"

record store =
  fs_entries :: "string \<rightharpoonup> entry"
  fs_clock :: nat

definition fs_exists :: "store \<Rightarrow> string \<Rightarrow> bool" where
  "fs_exists s p \<longleftrightarrow> p = ''/'' \<or> fs_entries s p \<noteq> None"

definition fs_isdir :: "store \<Rightarrow> string \<Rightarrow> bool" where
  "fs_isdir s p \<longleftrightarrow>
     (case fs_entries s p of Some (Dir t) \<Rightarrow> True | Some (File d t) \<Rightarrow> False | None \<Rightarrow> p = ''/'')"

definition fs_look :: "store \<Rightarrow> string \<Rightarrow> (string \<times> nat) option" where
  "fs_look s p = (case fs_entries s p of Some (File d t) \<Rightarrow> Some (d, t) | _ \<Rightarrow> None)"

definition fs_isfile :: "store \<Rightarrow> string \<Rightarrow> bool" where
  "fs_isfile s p \<longleftrightarrow> fs_look s p \<noteq> None"

definition fs_ctime :: "store \<Rightarrow> string \<Rightarrow> nat option" where
  "fs_ctime s p = map_option entry_time (fs_entries s p)"

text \<open>\<open>open(p, "w")\<close> and a write: the directory has to be there and the path be none itself.\<close>

definition fs_put :: "string \<Rightarrow> string \<Rightarrow> store \<Rightarrow> store res" where
  "fs_put p d s =
     (if fs_isdir s p then Inl (IOError ''Is a directory'')
      else if dirname p \<noteq> [] \<and> \<not> fs_isdir s (dirname p) then Inl (IOError ''No such file or directory'')
      else Inr (s\<lparr>fs_entries := (fs_entries s)(p \<mapsto> File d (fs_clock s))\<rparr>))"

text \<open>
  \<open>os.makedirs\<close> for a path without a trailing slash: the missing directories on the way, then the
  directory itself.
\<close>

definition fs_mkdir :: "string \<Rightarrow> store \<Rightarrow> store res" where
  "fs_mkdir p s =
     (if fs_exists s p then Inl (IOError ''File exists'')
      else Inr (s\<lparr>fs_entries := (fs_entries s)(p \<mapsto> Dir (fs_clock s))\<rparr>))"

lemma dirname_shorter:
  assumes "basename p \<noteq> []"
  shows "length (dirname p) < length p"
proof -
  have "length (rstrip_by P h) \<le> length h" for P and h :: string
    unfolding rstrip_by_def using length_dropWhile_le [of P "rev h"] by simp
  moreover have "length (path_head p) < length p"
    using arg_cong [OF head_basename [of p], of length] assms by (cases "basename p") auto
  ultimately show ?thesis
    unfolding dirname_def Let_def by (auto intro: le_less_trans)
qed

function fs_makedirs :: "string \<Rightarrow> store \<Rightarrow> store res" where
  "fs_makedirs p s =
     (if dirname p \<noteq> [] \<and> basename p \<noteq> [] \<and> \<not> fs_exists s (dirname p)
      then rbind (fs_makedirs (dirname p) s) (fs_mkdir p)
      else fs_mkdir p s)"
  by pat_completeness auto
termination
  by (relation "measure (\<lambda>(p, s). length p)") (auto simp: dirname_shorter)

declare fs_makedirs.simps [simp del]

text \<open>The clock moves on.\<close>

definition fs_tick :: "nat \<Rightarrow> store \<Rightarrow> store" where
  "fs_tick n s = s\<lparr>fs_clock := fs_clock s + n\<rparr>"

text \<open>No entry is from the future.\<close>

definition fs_valid :: "store \<Rightarrow> bool" where
  "fs_valid s \<longleftrightarrow> (\<forall>p e. fs_entries s p = Some e \<longrightarrow> entry_time e \<le> fs_clock s)"

section \<open>The store has the interface\<close>

lemma fs_look_put:
  "fs_put p d s = Inr s' \<Longrightarrow> fs_look s' q = (if q = p then Some (d, fs_clock s) else fs_look s q)"
  by (auto simp: fs_put_def fs_look_def split: if_splits)

interpretation fs: file_store fs_look fs_put fs_clock fs_valid
proof
  show "fs_look s' q = (if q = p then Some (d, fs_clock s) else fs_look s q)"
    if "fs_put p d s = Inr s'" for p d s s' q
    using that by (rule fs_look_put)
  show "fs_clock s' = fs_clock s" if "fs_put p d s = Inr s'" for p d s s'
    using that by (auto simp: fs_put_def split: if_splits)
  show "fs_valid s'" if "fs_valid s" "fs_put p d s = Inr s'" for p d s s'
    using that by (auto simp: fs_put_def fs_valid_def split: if_splits)
  show "t \<le> fs_clock s" if "fs_valid s" "fs_look s p = Some (d, t)" for s p d t
    using that by (force simp: fs_valid_def fs_look_def split: option.splits entry.splits)
qed

lemma fs_ctime_look: "fs_look s p = Some (d, t) \<Longrightarrow> fs_ctime s p = Some t"
  by (auto simp: fs_look_def fs_ctime_def split: option.splits entry.splits)

lemma fs_exists_look: "fs_look s p = Some x \<Longrightarrow> fs_exists s p"
  by (auto simp: fs_look_def fs_exists_def split: option.splits)

lemma fs_look_tick [simp]: "fs_look (fs_tick n s) p = fs_look s p"
  by (simp add: fs_look_def fs_tick_def)

lemma fs_valid_tick: "fs_valid s \<Longrightarrow> fs_valid (fs_tick n s)"
  by (force simp: fs_valid_def fs_tick_def)

lemma fs_mkdir_keeps:
  assumes "fs_mkdir p s = Inr s'"
  shows "fs_look s' q = fs_look s q" and "fs_clock s' = fs_clock s" and "fs_valid s \<Longrightarrow> fs_valid s'"
  using assms
  by (auto simp: fs_mkdir_def fs_exists_def fs_look_def fs_valid_def split: if_splits)

lemma fs_makedirs_keeps:
  "fs_makedirs p s = Inr s' \<Longrightarrow>
   (\<forall>q. fs_look s' q = fs_look s q) \<and> fs_clock s' = fs_clock s \<and> (fs_valid s \<longrightarrow> fs_valid s')"
proof (induction p s arbitrary: s' rule: fs_makedirs.induct)
  case (1 p s)
  show ?case
  proof (cases "dirname p \<noteq> [] \<and> basename p \<noteq> [] \<and> \<not> fs_exists s (dirname p)")
    case True
    then obtain s1 where "fs_makedirs (dirname p) s = Inr s1" "fs_mkdir p s1 = Inr s'"
      using 1(2) by (auto simp: fs_makedirs.simps [of p s] rbind_Inr_iff)
    with 1(1) [OF True] fs_mkdir_keeps show ?thesis by metis
  next
    case False
    then have "fs_mkdir p s = Inr s'" using 1(2) by (auto simp: fs_makedirs.simps [of p s])
    with fs_mkdir_keeps show ?thesis by metis
  qed
qed

end
