(* ===== verification/KFigure.thy ===== *)
theory KFigure
  imports FileStore PyNumbers
begin

text \<open>
  \<open>Documentation/sphinx/kfigure.py\<close>, the conversion of images: looking for the tools, choosing
  the format for the builder, and running the tools on the files of a \<^typ>\<open>store\<close>. The two tools
  are arguments: they get the command and the content of the input file, and either cannot be started, which
  is the error \<open>subprocess.call\<close> raises, or return their exit code and what they write.
\<close>

section \<open>Data\<close>

text \<open>The two global variables \<open>dot_cmd\<close> and \<open>convert_cmd\<close>.\<close>

record kf_tools =
  dot_cmd :: "string option"
  convert_cmd :: "string option"

record kf_builder =
  kb_format :: string
  kb_srcdir :: string
  kb_outdir :: string
  kb_imagedir :: string
  kb_imgpath :: string

record kf_extern =
  kx_dot :: "string list \<Rightarrow> string option \<Rightarrow> (int \<times> string) res"
  kx_convert :: "string list \<Rightarrow> string option \<Rightarrow> (int \<times> string option) res"

datatype kf_event = KVerbose string | KWarn string

record kf_state =
  kf_fs :: store
  kf_images :: "string set"
  kf_log :: "kf_event list"

text \<open>An image node with its uri and its candidate for every format, or what replaced it.\<close>

datatype img_node =
    Image string "string option"
  | LiteralText string

definition verbose :: "string \<Rightarrow> kf_state \<Rightarrow> kf_state" where
  "verbose m st = st\<lparr>kf_log := kf_log st @ [KVerbose m]\<rparr>"

definition warn :: "string \<Rightarrow> kf_state \<Rightarrow> kf_state" where
  "warn m st = st\<lparr>kf_log := kf_log st @ [KWarn m]\<rparr>"

section \<open>Helpers\<close>

fun which_in :: "(string \<Rightarrow> bool) \<Rightarrow> string \<Rightarrow> string list \<Rightarrow> string option" where
  "which_in isfile cmd [] = None"
| "which_in isfile cmd (folder # folders) =
     (let fname = folder @ ''/'' @ cmd in
      if isfile fname then Some fname else which_in isfile cmd folders)"

definition which :: "(string \<rightharpoonup> string) \<Rightarrow> string \<Rightarrow> (string \<Rightarrow> bool) \<Rightarrow> string \<Rightarrow> string option" where
  "which environ defpath isfile cmd =
     (let envpath = (case environ ''PATH'' of Some p \<Rightarrow> if p = [] then defpath else p | None \<Rightarrow> defpath)
      in which_in isfile cmd (py_split (CHR '':'') envpath))"

definition mkdir :: "string \<Rightarrow> store \<Rightarrow> store res" where
  "mkdir folder s = (if \<not> fs_isdir s folder then fs_makedirs folder s else Inr s)"

definition file2literal :: "store \<Rightarrow> string \<Rightarrow> img_node res" where
  "file2literal s fname =
     (case fs_look s fname of None \<Rightarrow> Inl (IOError fname) | Some (d, t) \<Rightarrow> Inr (LiteralText d))"

definition isNewer :: "store \<Rightarrow> string \<Rightarrow> string \<Rightarrow> bool res" where
  "isNewer s path1 path2 =
     (if \<not> fs_exists s path1 then Inr False
      else case (fs_ctime s path1, fs_ctime s path2) of
             (Some t1, Some t2) \<Rightarrow> Inr (t2 < t1)
           | _ \<Rightarrow> Inl (OtherError ''OSError''))"

definition setupTools ::
  "(string \<rightharpoonup> string) \<Rightarrow> string \<Rightarrow> kf_state \<Rightarrow> kf_tools \<times> kf_state"
where
  "setupTools environ defpath st =
     (let st0 = verbose ''kfigure: check installed tools ...'' st;
          d = which environ defpath (fs_isfile (kf_fs st)) ''dot'';
          c = which environ defpath (fs_isfile (kf_fs st)) ''convert'';
          st1 = (case d of
                   Some f \<Rightarrow> verbose (''use dot(1) from: '' @ f) st0
                 | None \<Rightarrow> warn (''dot(1) not found, for better output quality install ''
                     @ ''graphviz from http://www.graphviz.org'') st0);
          st2 = (case c of
                   Some f \<Rightarrow> verbose (''use convert(1) from: '' @ f) st1
                 | None \<Rightarrow> warn (''convert(1) not found, for SVG to PDF conversion install ''
                     @ ''ImageMagick (https://www.imagemagick.org)'') st1)
      in (\<lparr>dot_cmd = d, convert_cmd = c\<rparr>, st2))"

section \<open>Running the tools\<close>

definition error_msg :: "int \<Rightarrow> string list \<Rightarrow> string" where
  "error_msg exit_code cmd = ''Error #'' @ str_int exit_code @ '' when calling: '' @ py_join '' '' cmd"

text \<open>
  The output file is truncated before the tool is started, and what the tool prints stays in it. When the
  tool cannot be started the error leaves the function, and the file is empty.
\<close>

definition dot2format ::
  "kf_extern \<Rightarrow> kf_tools \<Rightarrow> kf_state \<Rightarrow> string \<Rightarrow> string \<Rightarrow> kf_state \<times> bool res"
where
  "dot2format x tools st dot_fname out_fname =
     (let out_format = drop 1 (snd (splitext out_fname));
          cmd = [(case dot_cmd tools of Some c \<Rightarrow> c | None \<Rightarrow> []), ''-T'' @ out_format, dot_fname]
      in case fs_put out_fname [] (kf_fs st) of
           Inl e \<Rightarrow> (st, Inl e)
         | Inr s1 \<Rightarrow>
             (case kx_dot x cmd (map_option fst (fs_look s1 dot_fname)) of
                Inl e \<Rightarrow> (st\<lparr>kf_fs := s1\<rparr>, Inl e)
              | Inr (exit_code, out) \<Rightarrow>
                  (case fs_put out_fname out s1 of
                     Inl e \<Rightarrow> (st\<lparr>kf_fs := s1\<rparr>, Inl e)
                   | Inr s2 \<Rightarrow>
                       let st2 = st\<lparr>kf_fs := s2\<rparr> in
                       (if exit_code \<noteq> 0 then warn (error_msg exit_code cmd) st2 else st2,
                        Inr (exit_code = 0)))))"

text \<open>\<open>convert(1)\<close> writes the file itself, or nothing; when it cannot be started the error leaves the function.\<close>

definition svg2pdf ::
  "kf_extern \<Rightarrow> kf_tools \<Rightarrow> kf_state \<Rightarrow> string \<Rightarrow> string \<Rightarrow> kf_state \<times> bool res"
where
  "svg2pdf x tools st svg_fname pdf_fname =
     (let cmd = [(case convert_cmd tools of Some c \<Rightarrow> c | None \<Rightarrow> []), svg_fname, pdf_fname]
      in case kx_convert x cmd (map_option fst (fs_look (kf_fs st) svg_fname)) of
           Inl e \<Rightarrow> (st, Inl e)
         | Inr (exit_code, out) \<Rightarrow>
             let st1 = (case out of
                          None \<Rightarrow> st
                        | Some d \<Rightarrow> (case fs_put pdf_fname d (kf_fs st) of Inl e \<Rightarrow> st | Inr s \<Rightarrow> st\<lparr>kf_fs := s\<rparr>))
             in (if exit_code \<noteq> 0 then warn (error_msg exit_code cmd) st1 else st1, Inr (exit_code = 0)))"

section \<open>Converting an image\<close>

text \<open>
  Lines 225 to 260: what is done with an image of the given name and extension. \<open>Raw\<close> includes the
  source as text, after a message; \<open>Convert\<close> names the file to make and the new uri; \<open>Keep\<close>
  leaves the node as it is.
\<close>

datatype conv_plan = Raw "string option" | Convert string string | Keep

definition plan_image :: "kf_tools \<Rightarrow> kf_builder \<Rightarrow> string \<Rightarrow> string \<Rightarrow> conv_plan" where
  "plan_image tools b fname in_ext =
     (if in_ext = ''.dot'' then
        (if dot_cmd tools = None \<or> dot_cmd tools = Some []
         then Raw (Some ''dot from graphviz not available / include DOT raw.'')
         else if kb_format b = ''latex''
         then Convert (path_join (kb_outdir b) (fname @ ''.pdf'')) (fname @ ''.pdf'')
         else if kb_format b = ''html''
         then Convert (path_join (path_join (kb_outdir b) (kb_imagedir b)) (fname @ ''.svg''))
                (path_join (kb_imgpath b) (fname @ ''.svg''))
         else Raw None)
      else if in_ext = ''.svg'' \<and> kb_format b = ''latex'' then
        (if convert_cmd tools = None
         then Raw (Some ''no SVG to PDF conversion available / include SVG raw.'')
         else Convert (path_join (kb_outdir b) (fname @ ''.pdf'')) (fname @ ''.pdf''))
      else Keep)"

text \<open>Lines 263 to 283: make the file unless it is there and newer.\<close>

definition run_plan ::
  "kf_extern \<Rightarrow> kf_tools \<Rightarrow> kf_builder \<Rightarrow> kf_state \<Rightarrow> string \<Rightarrow> string \<Rightarrow> string \<Rightarrow> string
   \<Rightarrow> kf_state \<times> img_node res"
where
  "run_plan x tools b st in_ext src_fname dst_fname uri =
     (let st1 = st\<lparr>kf_images := kf_images st - {uri}\<rparr>;
          out_name = drop (length (kb_outdir b) + 1) dst_fname;
          node = Image uri (Some uri)
      in case isNewer (kf_fs st1) dst_fname src_fname of
           Inl e \<Rightarrow> (st1, Inl e)
         | Inr True \<Rightarrow>
             (verbose (''convert: {out}/'' @ out_name @ '' already exists and is newer'') st1, Inr node)
         | Inr False \<Rightarrow>
             (case mkdir (dirname dst_fname) (kf_fs st1) of
                Inl e \<Rightarrow> (st1, Inl e)
              | Inr s2 \<Rightarrow>
                  let st2 = st1\<lparr>kf_fs := s2\<rparr>;
                      (st3, r) =
                        (if in_ext = ''.dot''
                         then dot2format x tools (verbose (''convert DOT to: {out}/'' @ out_name) st2)
                                src_fname dst_fname
                         else if in_ext = ''.svg''
                         then svg2pdf x tools (verbose (''convert SVG to: {out}/'' @ out_name) st2)
                                src_fname dst_fname
                         else (st2, Inr False))
                  in (st3, rbind r (\<lambda>ok. if ok then Inr node else file2literal (kf_fs st3) src_fname))))"

text \<open>Lines 214 to 217: the file of an image, below the sources or else below the output.\<close>

definition image_file :: "kf_builder \<Rightarrow> store \<Rightarrow> string \<Rightarrow> string" where
  "image_file b s uri =
     (let f = path_join (kb_srcdir b) uri in
      if fs_exists s f then f else path_join (kb_outdir b) uri)"

definition convert_image ::
  "kf_extern \<Rightarrow> kf_tools \<Rightarrow> kf_builder \<Rightarrow> kf_state \<Rightarrow> string \<Rightarrow> string option \<Rightarrow> string option
   \<Rightarrow> kf_state \<times> img_node res"
where
  "convert_image x tools b st uri cand src =
     (let (fname, in_ext) = splitext (basename uri);
          src_fname = (case src of None \<Rightarrow> image_file b (kf_fs st) uri | Some f \<Rightarrow> f);
          st0 = verbose (''assert best format for: '' @ uri) st
      in case plan_image tools b fname in_ext of
           Keep \<Rightarrow> (st0, Inr (Image uri cand))
         | Raw m \<Rightarrow>
             (case m of None \<Rightarrow> st0 | Some t \<Rightarrow> verbose t st0, file2literal (kf_fs st0) src_fname)
         | Convert dst_fname uri' \<Rightarrow> run_plan x tools b st0 in_ext src_fname dst_fname uri')"

text \<open>The visitors of \<open>kernel-image\<close> and \<open>kernel-figure\<close> convert the image they hold.\<close>

definition visit_kernel_image ::
  "kf_extern \<Rightarrow> kf_tools \<Rightarrow> kf_builder \<Rightarrow> kf_state \<Rightarrow> img_node \<Rightarrow> kf_state \<times> img_node res"
where
  "visit_kernel_image x tools b st node =
     (case node of
        Image uri cand \<Rightarrow> convert_image x tools b st uri cand None
      | LiteralText d \<Rightarrow> (st, Inl (KeyError ''uri'')))"

text \<open>
  The visitor of a figure converts the first child of the figure the node wraps; \<open>None\<close> is a child that has
  no \<open>uri\<close>, like the reference docutils puts around the image of a figure with the option \<open>target\<close>.
\<close>

definition visit_kernel_figure ::
  "kf_extern \<Rightarrow> kf_tools \<Rightarrow> kf_builder \<Rightarrow> kf_state \<Rightarrow> img_node option list \<Rightarrow> kf_state \<times> img_node res"
where
  "visit_kernel_figure x tools b st children =
     (case children of
        [] \<Rightarrow> (st, Inl IndexError)
      | None # cs \<Rightarrow> (st, Inl (KeyError ''uri''))
      | Some c # cs \<Rightarrow> visit_kernel_image x tools b st c)"

section \<open>Rendering markup\<close>

definition render_markup_ext :: "(string \<times> string) list" where
  "render_markup_ext = [(''DOT'', ''.dot''), (''SVG'', ''.svg'')]"

record render_node =
  rn_srclang :: string
  rn_code :: string

text \<open>
  The visitor of \<open>kernel-render\<close>; \<open>sha1hex\<close> is the digest of the text. The result is the child of the
  node, which stays the literal text when nothing can be rendered.
\<close>

definition visit_kernel_render ::
  "kf_extern \<Rightarrow> (string \<Rightarrow> string) \<Rightarrow> kf_tools \<Rightarrow> kf_builder \<Rightarrow> kf_state \<Rightarrow> render_node
   \<Rightarrow> kf_state \<times> img_node res"
where
  "visit_kernel_render x sha1hex tools b st node =
     (let st0 = verbose (''visit kernel-render node lang: \"'' @ rn_srclang node @ ''\"'') st in
      case map_of render_markup_ext (rn_srclang node) of
        None \<Rightarrow> (warn (''kernel-render: \"'' @ rn_srclang node @ ''\" unknow / include raw.'') st0,
                 Inr (LiteralText (rn_code node)))
      | Some tmp_ext \<Rightarrow>
          if (dot_cmd tools = None \<or> dot_cmd tools = Some []) \<and> tmp_ext = ''.dot''
          then (verbose ''dot from graphviz not available / include raw.'' st0,
                Inr (LiteralText (rn_code node)))
          else
            let fname = rn_srclang node @ ''-'' @ sha1hex (rn_code node);
                tmp_fname = path_join (path_join (kb_outdir b) (kb_imagedir b)) (fname @ tmp_ext);
                written =
                  (if \<not> fs_isfile (kf_fs st0) tmp_fname
                   then rbind (mkdir (dirname tmp_fname) (kf_fs st0)) (fs_put tmp_fname (rn_code node))
                   else Inr (kf_fs st0));
                uri = path_join (kb_imgpath b) (fname @ tmp_ext)
            in case written of
                 Inl e \<Rightarrow> (st0, Inl e)
               | Inr s \<Rightarrow>
                   convert_image x tools b (st0\<lparr>kf_fs := s\<rparr>) uri (Some uri) (Some tmp_fname))"

end
