(* ===== verification/KFigureBuild.thy ===== *)
theory KFigureBuild
  imports KFigure
begin

text \<open>
  Builds over time: the converter of \<open>KFigure\<close> as steps among edits of the sources and the passing of
  time, with the invariant that a figure newer than its source shows what the source holds. The
  invariant rests on the facts of the interface \<open>file_store\<close>.
\<close>

section \<open>Effects of the operations on the store\<close>

lemma fs_put_Inr:
  "fs_put p d s = Inr s' \<longleftrightarrow> \<not> fs_isdir s p \<and> (dirname p = [] \<or> fs_isdir s (dirname p))
     \<and> s' = s\<lparr>fs_entries := (fs_entries s)(p \<mapsto> File d (fs_clock s))\<rparr>"
  by (auto simp: fs_put_def)

lemma fs_put_put:
  assumes "fs_put p c s = Inr s1"
  shows "fs_put p d s1 = fs_put p d s"
proof -
  have s1: "s1 = s\<lparr>fs_entries := (fs_entries s)(p \<mapsto> File c (fs_clock s))\<rparr>"
    and p: "\<not> fs_isdir s p" "dirname p = [] \<or> fs_isdir s (dirname p)"
    using assms by (auto simp: fs_put_Inr)
  have "fs_isdir s1 q \<longleftrightarrow> fs_isdir s q" if "q \<noteq> p" for q
    using that by (simp add: s1 fs_isdir_def)
  moreover have "\<not> fs_isdir s1 p" using p(1) by (auto simp: s1 fs_isdir_def)
  moreover have "dirname p = [] \<or> dirname p \<noteq> p" using p by auto
  ultimately show ?thesis using p by (auto simp: fs_put_def s1)
qed

lemma rstrip_prefix: "prefix (rstrip_by P h) h"
proof -
  have "h = rev (dropWhile P (rev h)) @ rev (takeWhile P (rev h))"
    by (metis rev_append rev_rev_ident takeWhile_dropWhile_id)
  then show ?thesis unfolding rstrip_by_def by (metis prefixI)
qed

lemma dirname_prefix: "prefix (dirname p) p"
proof -
  have h: "prefix (path_head p) p" by (simp add: path_head_def take_is_prefix)
  then show ?thesis
    using prefix_order.trans [OF rstrip_prefix h] by (simp add: dirname_def Let_def)
qed

lemma fs_makedirs_entries:
  "fs_makedirs p s = Inr s' \<Longrightarrow> \<not> prefix q p \<Longrightarrow> fs_entries s' q = fs_entries s q"
proof (induction p s arbitrary: s' rule: fs_makedirs.induct)
  case (1 p s)
  have mk: "fs_entries s' q = fs_entries s1 q" if "fs_mkdir p s1 = Inr s'" for s1
    using that 1(3) by (auto simp: fs_mkdir_def split: if_splits)
  show ?case
  proof (cases "dirname p \<noteq> [] \<and> basename p \<noteq> [] \<and> \<not> fs_exists s (dirname p)")
    case True
    then obtain s1 where "fs_makedirs (dirname p) s = Inr s1" "fs_mkdir p s1 = Inr s'"
      using 1(2) by (auto simp: fs_makedirs.simps [of p s] rbind_Inr_iff)
    moreover have "\<not> prefix q (dirname p)"
      using 1(3) dirname_prefix prefix_order.trans by blast
    ultimately show ?thesis using 1(1) [OF True] mk by metis
  next
    case False
    then have "fs_mkdir p s = Inr s'" using 1(2) by (auto simp: fs_makedirs.simps [of p s])
    with mk show ?thesis by metis
  qed
qed

lemma mkdir_keeps:
  assumes "mkdir p s = Inr s'"
  shows "fs_look s' q = fs_look s q" and "fs_clock s' = fs_clock s" and "fs_valid s \<Longrightarrow> fs_valid s'"
    and "\<not> prefix q p \<Longrightarrow> fs_entries s' q = fs_entries s q"
  using assms fs_makedirs_keeps fs_makedirs_entries
  by (auto simp: mkdir_def split: if_splits)

lemma verbose_fs [simp]: "kf_fs (verbose m st) = kf_fs st" "kf_images (verbose m st) = kf_images st"
  by (simp_all add: verbose_def)

lemma warn_fs [simp]: "kf_fs (warn m st) = kf_fs st" "kf_images (warn m st) = kf_images st"
  by (simp_all add: warn_def)

section \<open>What the tools make\<close>

text \<open>
  The commands, the result of the tool for a source with the content \<open>d\<close>, and the node that stands
  for it: an error is passed on, the picture is shown when the exit code is zero, the text otherwise.
\<close>

definition dot_command :: "kf_tools \<Rightarrow> string \<Rightarrow> string \<Rightarrow> string list" where
  "dot_command tools src dst =
     [(case dot_cmd tools of Some c \<Rightarrow> c | None \<Rightarrow> []), ''-T'' @ drop 1 (snd (splitext dst)), src]"

definition convert_command :: "kf_tools \<Rightarrow> string \<Rightarrow> string \<Rightarrow> string list" where
  "convert_command tools src dst =
     [(case convert_cmd tools of Some c \<Rightarrow> c | None \<Rightarrow> []), src, dst]"

definition tool_result ::
  "kf_extern \<Rightarrow> kf_tools \<Rightarrow> string \<Rightarrow> string \<Rightarrow> string \<Rightarrow> string \<Rightarrow> (int \<times> string option) res"
where
  "tool_result x tools in_ext src dst d =
     (if in_ext = ''.dot''
      then rbind (kx_dot x (dot_command tools src dst) (Some d)) (\<lambda>(e, out). Inr (e, Some out))
      else kx_convert x (convert_command tools src dst) (Some d))"

definition outcome :: "(int \<times> string option) res \<Rightarrow> string \<Rightarrow> string \<Rightarrow> img_node res" where
  "outcome t uri d =
     rbind t (\<lambda>(e, out). Inr (if e = 0 then Image uri (Some uri) else LiteralText d))"

text \<open>
  What the output file holds afterwards when the directory is there: for \<open>dot\<close> what it printed, whatever its
  exit code, and nothing when it could not be started; for \<open>convert\<close> what it wrote, if it wrote at all.
\<close>

definition made_by ::
  "kf_extern \<Rightarrow> kf_tools \<Rightarrow> string \<Rightarrow> string \<Rightarrow> string \<Rightarrow> string \<Rightarrow> string option"
where
  "made_by x tools in_ext src dst d =
     (case tool_result x tools in_ext src dst d of
        Inr (e, out) \<Rightarrow> out
      | Inl e \<Rightarrow> if in_ext = ''.dot'' then Some [] else None)"

text \<open>One conversion: the tool ran on the source's content and what it left is in the output file.\<close>

lemma dot2format_step:
  assumes "fs_look s2 src = Some (d, t)" and "kx_dot x (dot_command tools src dst) (Some d) = Inr (e, out)"
    and "fs_put dst out s2 = Inr s3" and "fs_put dst [] (kf_fs st) = Inr s2"
  shows "dot2format x tools st src dst =
     (if e \<noteq> 0 then warn (error_msg e (dot_command tools src dst)) (st\<lparr>kf_fs := s3\<rparr>)
      else st\<lparr>kf_fs := s3\<rparr>, Inr (e = 0))"
  using assms unfolding dot2format_def dot_command_def Let_def by simp

lemma dot2format_raised:
  assumes "fs_look s2 src = Some (d, t)" and "kx_dot x (dot_command tools src dst) (Some d) = Inl e"
    and "fs_put dst [] (kf_fs st) = Inr s2"
  shows "dot2format x tools st src dst = (st\<lparr>kf_fs := s2\<rparr>, Inl e)"
  using assms unfolding dot2format_def dot_command_def Let_def by simp

lemma dot2format_cases:
  assumes "dot2format x tools st src dst = (st', r)" and "fs_look (kf_fs st) src = Some (d, t)"
    and "src \<noteq> dst"
  obtains (failed) e where "fs_put dst [] (kf_fs st) = Inl e" and "r = Inl e" and "kf_fs st' = kf_fs st"
  | (raised) e where "tool_result x tools ''.dot'' src dst d = Inl e"
      and "fs_put dst [] (kf_fs st) = Inr (kf_fs st')" and "r = Inl e"
  | (ran) e out where "tool_result x tools ''.dot'' src dst d = Inr (e, Some out)"
      and "fs_put dst out (kf_fs st) = Inr (kf_fs st')" and "r = Inr (e = 0)"
proof (cases "fs_put dst [] (kf_fs st)")
  case (Inl e)
  then have "r = Inl e" "st' = st" using assms(1) by (auto simp: dot2format_def Let_def)
  with Inl show thesis by (intro failed [of e]) simp_all
next
  case (Inr s1)
  then have look: "fs_look s1 src = Some (d, t)" using assms(2,3) fs_look_put [OF Inr, of src] by simp
  show thesis
  proof (cases "kx_dot x (dot_command tools src dst) (Some d)")
    case (Inl e)
    with assms(1) dot2format_raised [OF look Inl Inr] have "st' = st\<lparr>kf_fs := s1\<rparr>" "r = Inl e" by simp_all
    with Inr Inl raised [of e] show thesis by (simp add: tool_result_def)
  next
    case k: (Inr p)
    obtain e out where p: "p = (e, out)" by (cases p)
    obtain s2 where s2: "fs_put dst out (kf_fs st) = Inr s2" "fs_put dst out s1 = Inr s2"
      using Inr fs_put_put [OF Inr, of out] by (auto simp: fs_put_Inr)
    have "(st', r) = (if e \<noteq> 0 then warn (error_msg e (dot_command tools src dst)) (st\<lparr>kf_fs := s2\<rparr>)
        else st\<lparr>kf_fs := s2\<rparr>, Inr (e = 0))"
      using assms(1) dot2format_step [OF look k [unfolded p] s2(2) Inr] by simp
    then have "kf_fs st' = s2" "r = Inr (e = 0)" by (auto split: if_splits)
    moreover have "tool_result x tools ''.dot'' src dst d = Inr (e, Some out)" using k p by (simp add: tool_result_def)
    ultimately show thesis using s2(1) by (intro ran [of e out]) simp_all
  qed
qed

lemma svg2pdf_cases:
  assumes "svg2pdf x tools st src dst = (st', r)" and "fs_look (kf_fs st) src = Some (d, t)"
  obtains (raised) e where "tool_result x tools ''.svg'' src dst d = Inl e" and "r = Inl e"
      and "kf_fs st' = kf_fs st"
  | (left) e out where "tool_result x tools ''.svg'' src dst d = Inr (e, out)"
      and "r = Inr (e = 0)" and "kf_fs st' = kf_fs st"
      and "out = None \<or> (\<exists>o' e'. out = Some o' \<and> fs_put dst o' (kf_fs st) = Inl e')"
  | (ran) e out where "tool_result x tools ''.svg'' src dst d = Inr (e, Some out)"
      and "fs_put dst out (kf_fs st) = Inr (kf_fs st')" and "r = Inr (e = 0)"
proof (cases "kx_convert x (convert_command tools src dst) (Some d)")
  case (Inl e)
  with assms have "st' = st" "r = Inl e"
    unfolding svg2pdf_def convert_command_def [symmetric] Let_def by simp_all
  with Inl raised [of e] show thesis by (simp add: tool_result_def)
next
  case (Inr p)
  obtain e out where p: "p = (e, out)" by (cases p)
  have t: "tool_result x tools ''.svg'' src dst d = Inr (e, out)" using Inr p by (simp add: tool_result_def)
  define st1 where "st1 = (case out of None \<Rightarrow> st
      | Some d \<Rightarrow> (case fs_put dst d (kf_fs st) of Inl e \<Rightarrow> st | Inr s \<Rightarrow> st\<lparr>kf_fs := s\<rparr>))"
  have r: "(st', r) = (if e \<noteq> 0 then warn (error_msg e (convert_command tools src dst)) st1 else st1, Inr (e = 0))"
    using assms Inr p unfolding svg2pdf_def convert_command_def [symmetric] Let_def st1_def by simp
  then have fs: "kf_fs st' = kf_fs st1" "r = Inr (e = 0)" by (auto split: if_splits)
  show thesis
  proof (cases out)
    case None
    then have "kf_fs st' = kf_fs st" using fs by (simp add: st1_def)
    then show thesis by (rule left [OF t fs(2)]) (simp add: None)
  next
    case (Some d')
    show thesis
    proof (cases "fs_put dst d' (kf_fs st)")
      case (Inl e')
      then have "kf_fs st' = kf_fs st" using fs Some by (simp add: st1_def)
      then show thesis by (rule left [OF t fs(2)]) (simp add: Some Inl)
    next
      case (Inr s)
      then have "kf_fs st' = s" using fs Some by (simp add: st1_def)
      with Some Inr t fs(2) ran [of e d'] show thesis by simp
    qed
  qed
qed

text \<open>
  One image with a plan to convert: the store is left alone, or only directories are made, or what the tool
  leaves is in the output; the result is the one of the tool.
\<close>

lemma run_plan_cases:
  assumes "run_plan x tools b st in_ext src dst uri = (st', r)"
    and "fs_look (kf_fs st) src = Some (d, t)" and "src \<noteq> dst"
    and "in_ext = ''.dot'' \<or> in_ext = ''.svg''"
  obtains (newer) "isNewer (kf_fs st) dst src = Inr True" and "r = Inr (Image uri (Some uri))"
      and "kf_fs st' = kf_fs st"
  | (left) e where "kf_fs st' = kf_fs st" and "r = Inl e"
      and "isNewer (kf_fs st) dst src = Inl e \<or> mkdir (dirname dst) (kf_fs st) = Inl e"
  | (unmade) s2 where "mkdir (dirname dst) (kf_fs st) = Inr s2" and "kf_fs st' = s2"
      and "isNewer (kf_fs st) dst src = Inr False"
      and "(r = outcome (tool_result x tools in_ext src dst d) uri d \<and> made_by x tools in_ext src dst d = None)
           \<or> (\<exists>c e. fs_put dst c s2 = Inl e)"
  | (made) s2 out where "mkdir (dirname dst) (kf_fs st) = Inr s2"
      and "isNewer (kf_fs st) dst src = Inr False"
      and "made_by x tools in_ext src dst d = Some out"
      and "fs_put dst out s2 = Inr (kf_fs st')"
      and "r = outcome (tool_result x tools in_ext src dst d) uri d"
proof -
  let ?st1 = "st\<lparr>kf_images := kf_images st - {uri}\<rparr>"
  let ?on = "drop (length (kb_outdir b) + 1) dst"
  consider e where "isNewer (kf_fs st) dst src = Inl e" | "isNewer (kf_fs st) dst src = Inr True"
    | e where "isNewer (kf_fs st) dst src = Inr False" "mkdir (dirname dst) (kf_fs st) = Inl e"
    | s2 where "isNewer (kf_fs st) dst src = Inr False" "mkdir (dirname dst) (kf_fs st) = Inr s2"
    by (cases "isNewer (kf_fs st) dst src"; cases "mkdir (dirname dst) (kf_fs st)") (blast | metis (full_types))+
  then show thesis
  proof cases
    case (1 e)
    then have "st' = ?st1" "r = Inl e" using assms(1) by (auto simp: run_plan_def)
    with 1 show thesis by (intro left [of e]) auto
  next
    case 2
    then have "kf_fs st' = kf_fs st" "r = Inr (Image uri (Some uri))"
      using assms(1) by (auto simp: run_plan_def Let_def)
    with 2 show thesis by (intro newer)
  next
    case (3 e)
    then have "st' = ?st1" "r = Inl e" using assms(1) by (auto simp: run_plan_def Let_def)
    with 3 show thesis by (intro left [of e]) auto
  next
    case (4 s2)
    let ?st2 = "?st1\<lparr>kf_fs := s2\<rparr>"
    have look: "fs_look s2 src = Some (d, t)" using mkdir_keeps(1) [OF 4(2)] assms(2) by simp
    have lit: "file2literal (kf_fs s3) src = Inr (LiteralText d)" if "fs_look (kf_fs s3) src = Some (d, t)" for s3
      using that by (simp add: file2literal_def)
    show thesis
    proof (cases "in_ext = ''.dot''")
      case True
      obtain st3 r3 where c: "dot2format x tools (verbose (''convert DOT to: {out}/'' @ ?on) ?st2) src dst = (st3, r3)"
        by (cases "dot2format x tools (verbose (''convert DOT to: {out}/'' @ ?on) ?st2) src dst")
      have run: "st' = st3" "r = rbind r3 (\<lambda>ok. if ok then Inr (Image uri (Some uri)) else file2literal (kf_fs st3) src)"
        using assms(1) 4 True c by (auto simp: run_plan_def Let_def)
      have look': "fs_look (kf_fs (verbose (''convert DOT to: {out}/'' @ ?on) ?st2)) src = Some (d, t)"
        using look by simp
      from c look' assms(3) show thesis
      proof (cases rule: dot2format_cases)
        case (failed e)
        then have "fs_put dst [] s2 = Inl e" by simp
        with failed(3) run unmade [OF 4(2) _ 4(1)] show thesis by auto
      next
        case (raised e)
        with run True made [OF 4(2,1), of "[]"] show thesis by (simp add: made_by_def outcome_def)
      next
        case (ran e out)
        then have "fs_look (kf_fs st3) src = Some (d, t)"
          using look assms(3) fs_look_put [of dst out s2 "kf_fs st3" src] by simp
        with ran run lit [of st3] True made [OF 4(2,1), of out] show thesis by (simp add: made_by_def outcome_def)
      qed
    next
      case False
      obtain st3 r3 where c: "svg2pdf x tools (verbose (''convert SVG to: {out}/'' @ ?on) ?st2) src dst = (st3, r3)"
        by (cases "svg2pdf x tools (verbose (''convert SVG to: {out}/'' @ ?on) ?st2) src dst")
      have run: "st' = st3" "r = rbind r3 (\<lambda>ok. if ok then Inr (Image uri (Some uri)) else file2literal (kf_fs st3) src)"
        using assms(1,4) 4 False c by (auto simp: run_plan_def Let_def)
      have ext: "in_ext = ''.svg''" using False assms(4) by simp
      have look': "fs_look (kf_fs (verbose (''convert SVG to: {out}/'' @ ?on) ?st2)) src = Some (d, t)"
        using look by simp
      from c look' show thesis
      proof (cases rule: svg2pdf_cases)
        case (raised e)
        then have st3: "kf_fs st3 = s2" by simp
        with raised ext run show thesis
          by (intro unmade [OF 4(2) _ 4(1)]) (simp_all add: made_by_def outcome_def)
      next
        case (left e out)
        then have st3: "kf_fs st3 = s2" by simp
        have "r = outcome (tool_result x tools in_ext src dst d) uri d"
          using left ext run lit [of st3] look st3 by (simp add: outcome_def)
        with left ext run st3 show thesis
          by (intro unmade [OF 4(2) _ 4(1)]) (auto simp: made_by_def)
      next
        case (ran e out)
        then have "fs_look (kf_fs st3) src = Some (d, t)"
          using look assms(3) fs_look_put [of dst out s2 "kf_fs st3" src] by simp
        with ran run lit [of st3] ext made [OF 4(2,1), of out] show thesis by (simp add: made_by_def outcome_def)
      qed
    qed
  qed
qed

section \<open>Files made from files\<close>

text \<open>One file has a later time than another.\<close>

definition newer :: "store \<Rightarrow> string \<Rightarrow> string \<Rightarrow> bool" where
  "newer s dst src \<longleftrightarrow>
     (case (fs_look s dst, fs_look s src) of (Some (d', t'), Some (d, t)) \<Rightarrow> t < t' | _ \<Rightarrow> False)"

text \<open>An output is no directory, and one that is newer than its source is what the tool left for it.\<close>

definition made_ok :: "(string \<Rightarrow> string option) \<Rightarrow> store \<Rightarrow> string \<Rightarrow> string \<Rightarrow> bool" where
  "made_ok c s src dst \<longleftrightarrow> (fs_exists s dst \<longrightarrow> fs_isfile s dst) \<and> fs.derived_ok c s src dst"

lemma isNewer_files:
  assumes "isNewer s dst src = Inr True" and "fs_look s src = Some (d, t)"
    and "fs_exists s dst \<longrightarrow> fs_isfile s dst"
  obtains (files) d' t' where "fs_look s dst = Some (d', t')" and "t < t'"
proof -
  have "fs_exists s dst" using assms(1) by (auto simp: isNewer_def split: if_splits)
  with assms(3) obtain d' t' where f: "fs_look s dst = Some (d', t')" by (auto simp: fs_isfile_def)
  with assms(1) fs_ctime_look [OF f] fs_ctime_look [OF assms(2)] files show thesis
    by (auto simp: isNewer_def split: if_splits)
qed

lemma fs_exists_put: "fs_put p d s = Inr s' \<Longrightarrow> fs_exists s' q \<longleftrightarrow> q = p \<or> fs_exists s q"
  by (auto simp: fs_put_Inr fs_exists_def)

lemma fs_isfile_put: "fs_put p d s = Inr s' \<Longrightarrow> fs_isfile s' q \<longleftrightarrow> q = p \<or> fs_isfile s q"
  by (auto simp: fs_isfile_def fs_look_put)

lemma isfile_not_dir: "fs_exists s p \<longrightarrow> fs_isfile s p \<Longrightarrow> \<not> fs_isdir s p"
  by (auto simp: fs_exists_def fs_isfile_def fs_isdir_def fs_look_def split: option.splits entry.splits)

lemma mkdir_isdir: "mkdir p s = Inr s' \<Longrightarrow> fs_isdir s' p"
  by (auto simp: mkdir_def fs_makedirs.simps [of p s] fs_mkdir_def rbind_Inr_iff fs_isdir_def
      split: if_splits)

lemma look_entries: "fs_entries s' f = fs_entries s f \<Longrightarrow> fs_look s' f = fs_look s f"
  by (simp add: fs_look_def)

lemma exists_entries: "fs_entries s' f = fs_entries s f \<Longrightarrow> fs_exists s' f \<longleftrightarrow> fs_exists s f"
  by (simp add: fs_exists_def)

lemma made_ok_frame:
  assumes "made_ok c s src dst" and "fs_look s' src = fs_look s src" and "fs_entries s' dst = fs_entries s dst"
  shows "made_ok c s' src dst"
  using assms look_entries [OF assms(3)] exists_entries [OF assms(3)] fs.derived_ok_cong [OF assms(2)]
  by (auto simp: made_ok_def fs_isfile_def)

lemma made_ok_edit:
  assumes "made_ok c s src dst" and "fs_valid s" and "fs_put src d s = Inr s'" and "src \<noteq> dst"
  shows "made_ok c s' src dst"
  using assms fs.derived_ok_edit [OF assms(2-4)]
  by (auto simp: made_ok_def fs_exists_put [OF assms(3)] fs_isfile_put [OF assms(3)])

lemma made_ok_tick: "made_ok c (fs_tick n s) src dst \<longleftrightarrow> made_ok c s src dst"
proof -
  have "fs.derived_ok c (fs_tick n s) src dst \<longleftrightarrow> fs.derived_ok c s src dst"
    by (intro fs.derived_ok_cong) simp_all
  moreover have "fs_exists (fs_tick n s) dst \<longleftrightarrow> fs_exists s dst" by (simp add: fs_exists_def fs_tick_def)
  ultimately show ?thesis by (simp add: made_ok_def fs_isfile_def)
qed

text \<open>Beside an output that is no directory, the time stamps can be read and the output can be written.\<close>

lemma isNewer_reads:
  assumes "fs_look s src = Some (d, t)" and "fs_exists s dst \<longrightarrow> fs_isfile s dst"
  shows "isNewer s dst src \<noteq> Inl e"
proof (cases "fs_exists s dst")
  case True
  with assms(2) obtain d' t' where "fs_look s dst = Some (d', t')" by (auto simp: fs_isfile_def)
  with assms(1) True fs_ctime_look show ?thesis by (simp add: isNewer_def)
qed (simp add: isNewer_def)

lemma put_after_mkdir:
  assumes "mkdir (dirname dst) s = Inr s1" and "\<not> fs_isdir s1 dst"
  shows "fs_put dst c s1 \<noteq> Inl e"
  using mkdir_isdir [OF assms(1)] assms(2) by (simp add: fs_put_def)

text \<open>The one error of making a directory.\<close>

lemma mkdir_error: "mkdir p s = Inl e \<Longrightarrow> e = IOError ''File exists''"
proof -
  have "fs_makedirs p s = Inl e \<Longrightarrow> e = IOError ''File exists''"
  proof (induction p s rule: fs_makedirs.induct)
    case (1 p s)
    then show ?case by (auto simp: fs_makedirs.simps [of p s] fs_mkdir_def rbind_Inl_iff split: if_splits)
  qed
  then show "mkdir p s = Inl e \<Longrightarrow> e = IOError ''File exists''" by (auto simp: mkdir_def split: if_splits)
qed

text \<open>
  The contract of \<open>convert(1)\<close> with the exit code zero: a file was written. For \<open>dot(1)\<close> nothing is assumed,
  its output is what it printed.
\<close>

definition convert_writes :: "kf_extern \<Rightarrow> bool" where
  "convert_writes x \<longleftrightarrow> (\<forall>cmd d. kx_convert x cmd d \<noteq> Inr (0, None))"

lemma success_writes: "convert_writes x \<Longrightarrow> tool_result x tools ext src dst d \<noteq> Inr (0, None)"
  by (auto simp: convert_writes_def tool_result_def rbind_Inr_iff)

lemma outcome_Image:
  "outcome t uri d = Inr (Image uri' cd) \<longleftrightarrow> uri' = uri \<and> cd = Some uri \<and> (\<exists>out. t = Inr (0, out))"
  by (auto simp: outcome_def rbind_Inr_iff)

lemma outcome_Text:
  "outcome t uri d = Inr (LiteralText d') \<longleftrightarrow> d' = d \<and> (\<exists>e out. t = Inr (e, out) \<and> e \<noteq> 0)"
  by (auto simp: outcome_def rbind_Inr_iff)

lemma outcome_Inl: "outcome t uri d = Inl e \<longleftrightarrow> t = Inl e"
  by (auto simp: outcome_def rbind_Inl_iff)

text \<open>
  A conversion keeps its output in order and leaves every other file, and what is not on the way to the
  output. A picture that results is what the tool left for the source, and unless the output was newer before,
  the tool succeeded; a text is the source of a tool that failed; an error is the one of starting the tool
  or of making the directory.
\<close>

lemma run_plan_derived:
  assumes run: "run_plan x tools b st ext src dst uri = (st', r)"
    and src: "fs_look (kf_fs st) src = Some (d, t)" and ne: "src \<noteq> dst" and ext: "ext = ''.dot'' \<or> ext = ''.svg''"
    and apart: "\<not> prefix dst (dirname dst)" and valid: "fs_valid (kf_fs st)"
    and writes: "convert_writes x" and made: "made_ok (made_by x tools ext src dst) (kf_fs st) src dst"
  shows "fs_valid (kf_fs st') \<and> made_ok (made_by x tools ext src dst) (kf_fs st') src dst" (is ?ok)
    and "f \<noteq> dst \<Longrightarrow> fs_look (kf_fs st') f = fs_look (kf_fs st) f"
    and "f \<noteq> dst \<Longrightarrow> \<not> prefix f (dirname dst) \<Longrightarrow> fs_entries (kf_fs st') f = fs_entries (kf_fs st) f"
    and "r = Inr (Image uri' cd) \<Longrightarrow> \<exists>c t'. fs_look (kf_fs st') dst = Some (c, t') \<and> made_by x tools ext src dst d = Some c
       \<and> (newer (kf_fs st) dst src \<or> tool_result x tools ext src dst d = Inr (0, Some c))"
    and "r = Inr (LiteralText d') \<Longrightarrow> d' = d \<and> (\<exists>e out. tool_result x tools ext src dst d = Inr (e, out) \<and> e \<noteq> 0)"
    and "r = Inl e' \<Longrightarrow> tool_result x tools ext src dst d = Inl e' \<or> e' = IOError ''File exists''"
proof -
  let ?c = "made_by x tools ext src dst" and ?t = "tool_result x tools ext src dst d"
  have dir: "fs_valid s2 \<and> made_ok ?c s2 src dst \<and> fs_look s2 src = Some (d, t)"
    if m: "mkdir (dirname dst) (kf_fs st) = Inr s2" for s2
    using mkdir_keeps(1,4) [OF m] mkdir_keeps(3) [OF m valid] made_ok_frame [OF made, of s2] apart src by simp
  have isfile: "fs_exists (kf_fs st) dst \<longrightarrow> fs_isfile (kf_fs st) dst" using made by (simp add: made_ok_def)
  have "?ok \<and> (\<forall>f. f \<noteq> dst \<longrightarrow> fs_look (kf_fs st') f = fs_look (kf_fs st) f)
    \<and> (\<forall>f. f \<noteq> dst \<longrightarrow> \<not> prefix f (dirname dst) \<longrightarrow> fs_entries (kf_fs st') f = fs_entries (kf_fs st) f)
    \<and> (\<forall>uri' cd. r = Inr (Image uri' cd) \<longrightarrow> (\<exists>c t'. fs_look (kf_fs st') dst = Some (c, t') \<and> ?c d = Some c
         \<and> (newer (kf_fs st) dst src \<or> ?t = Inr (0, Some c))))
    \<and> (\<forall>d'. r = Inr (LiteralText d') \<longrightarrow> d' = d \<and> (\<exists>e out. ?t = Inr (e, out) \<and> e \<noteq> 0))
    \<and> (\<forall>e'. r = Inl e' \<longrightarrow> ?t = Inl e' \<or> e' = IOError ''File exists'')"
    using run src ne ext
  proof (cases rule: run_plan_cases)
    case new: newer
    obtain d' t' where dst: "fs_look (kf_fs st) dst = Some (d', t')" "t < t'"
      using isNewer_files [OF new(1) src isfile] by blast
    then have "?c d = Some d'" "newer (kf_fs st) dst src"
      using made src by (auto simp: made_ok_def fs.derived_ok_def newer_def)
    with new dst valid made show ?thesis by simp
  next
    case (left e)
    with valid made isNewer_reads [OF src isfile] mkdir_error [of _ "kf_fs st" e] show ?thesis by auto
  next
    case (unmade s2)
    have "\<not> fs_isdir s2 dst" using dir [OF unmade(1)] isfile_not_dir [of s2 dst] by (simp add: made_ok_def)
    then have r: "r = outcome ?t uri d" "?c d = None" using unmade(4) put_after_mkdir [OF unmade(1)] by auto
    have "?t \<noteq> Inr (0, out)" for out
      using r(2) success_writes [OF writes, of tools ext src dst d] by (cases out) (auto simp: made_by_def)
    with r dir [OF unmade(1)] unmade(2) mkdir_keeps(1,4) [OF unmade(1)]
    show ?thesis by (auto simp: outcome_Image outcome_Text outcome_Inl)
  next
    case put: (made s2 out)
    note p = put(4)
    have "fs.derived_ok ?c (kf_fs st') src dst"
      using dir [OF put(1)] fs.derived_ok_made [where conv = ?c, OF _ put(3) p ne] by blast
    then have k: "?ok" using fs.valid_put [OF _ p] dir [OF put(1)]
      by (simp add: made_ok_def fs_exists_put [OF p] fs_isfile_put [OF p])
    have e: "fs_entries (kf_fs st') f = fs_entries s2 f" if "f \<noteq> dst" for f using p that by (auto simp: fs_put_Inr)
    have "\<exists>c t'. fs_look (kf_fs st') dst = Some (c, t') \<and> ?c d = Some c
        \<and> (newer (kf_fs st) dst src \<or> ?t = Inr (0, Some c))" if "r = Inr (Image uri' cd)" for uri' cd
      using that put(3,5) fs_look_put [OF p] by (auto simp: outcome_Image made_by_def)
    with k e put(5) fs_look_put [OF p] mkdir_keeps(1,4) [OF put(1)] show ?thesis
      by (auto simp: outcome_Text outcome_Inl)
  qed
  then show ?ok "f \<noteq> dst \<Longrightarrow> fs_look (kf_fs st') f = fs_look (kf_fs st) f"
    "f \<noteq> dst \<Longrightarrow> \<not> prefix f (dirname dst) \<Longrightarrow> fs_entries (kf_fs st') f = fs_entries (kf_fs st) f"
    "r = Inr (Image uri' cd) \<Longrightarrow> \<exists>c t'. fs_look (kf_fs st') dst = Some (c, t') \<and> ?c d = Some c
       \<and> (newer (kf_fs st) dst src \<or> ?t = Inr (0, Some c))"
    "r = Inr (LiteralText d') \<Longrightarrow> d' = d \<and> (\<exists>e out. ?t = Inr (e, out) \<and> e \<noteq> 0)"
    "r = Inl e' \<Longrightarrow> ?t = Inl e' \<or> e' = IOError ''File exists''"
    by blast+
qed

section \<open>Builds over time\<close>

text \<open>
  A set of images of the sources: the file each comes from, the file it is converted to for the builder,
  and what its tool makes of a content.
\<close>

definition ext_of :: "string \<Rightarrow> string" where
  "ext_of u = snd (splitext (basename u))"

definition plan_of :: "kf_tools \<Rightarrow> kf_builder \<Rightarrow> string \<Rightarrow> conv_plan" where
  "plan_of tools b u = plan_image tools b (fst (splitext (basename u))) (ext_of u)"

definition src_of :: "kf_builder \<Rightarrow> string \<Rightarrow> string" where
  "src_of b u = path_join (kb_srcdir b) u"

definition dst_of :: "kf_tools \<Rightarrow> kf_builder \<Rightarrow> string \<Rightarrow> string" where
  "dst_of tools b u = (case plan_of tools b u of Convert dst uri \<Rightarrow> dst | _ \<Rightarrow> [])"

definition made_of :: "kf_extern \<Rightarrow> kf_tools \<Rightarrow> kf_builder \<Rightarrow> string \<Rightarrow> string \<Rightarrow> string option" where
  "made_of x tools b u d =
     made_by x tools (ext_of u) (src_of b u) (dst_of tools b u) d"

definition tool_of ::
  "kf_extern \<Rightarrow> kf_tools \<Rightarrow> kf_builder \<Rightarrow> string \<Rightarrow> string \<Rightarrow> (int \<times> string option) res"
where
  "tool_of x tools b u d =
     tool_result x tools (ext_of u) (src_of b u) (dst_of tools b u) d"

text \<open>
  The images are converted, no two of them to the same file, no output is a source, and no output is a
  directory on the way to another.
\<close>

definition converted :: "kf_tools \<Rightarrow> kf_builder \<Rightarrow> string \<Rightarrow> bool" where
  "converted tools b u \<longleftrightarrow> (case plan_of tools b u of Convert dst uri \<Rightarrow> True | _ \<Rightarrow> False)"

definition layout_ok :: "kf_tools \<Rightarrow> kf_builder \<Rightarrow> string list \<Rightarrow> bool" where
  "layout_ok tools b us \<longleftrightarrow>
     list_all (\<lambda>u. converted tools b u \<and>
       list_all (\<lambda>v. (u \<noteq> v \<longrightarrow> dst_of tools b u \<noteq> dst_of tools b v)
                   \<and> src_of b u \<noteq> dst_of tools b v
                   \<and> \<not> prefix (dst_of tools b u) (dirname (dst_of tools b v))) us) us"

text \<open>A step: time passes, a source is written, or an image is converted.\<close>

inductive kf_step ::
  "kf_extern \<Rightarrow> kf_tools \<Rightarrow> kf_builder \<Rightarrow> string list \<Rightarrow> kf_state \<Rightarrow> kf_state \<Rightarrow> bool"
  for x tools b us where
  tick: "kf_step x tools b us st (st\<lparr>kf_fs := fs_tick n (kf_fs st)\<rparr>)"
| edit: "u \<in> set us \<Longrightarrow> fs_put (src_of b u) d (kf_fs st) = Inr s \<Longrightarrow>
    kf_step x tools b us st (st\<lparr>kf_fs := s\<rparr>)"
| build: "u \<in> set us \<Longrightarrow> convert_image x tools b st u cand None = (st', r) \<Longrightarrow>
    kf_step x tools b us st st'"

inductive_cases kf_stepE: "kf_step x tools b us st st'"

text \<open>At the start: every source is there, and every output is absent or no newer than its source.\<close>

definition not_newer :: "store \<Rightarrow> string \<Rightarrow> string \<Rightarrow> bool" where
  "not_newer s dst src \<longleftrightarrow> (fs_exists s dst \<longrightarrow> fs_isfile s dst) \<and> \<not> newer s dst src"

definition fresh :: "kf_tools \<Rightarrow> kf_builder \<Rightarrow> string list \<Rightarrow> store \<Rightarrow> bool" where
  "fresh tools b us s \<longleftrightarrow> fs_valid s \<and>
     list_all (\<lambda>u. fs_isfile s (src_of b u) \<and> not_newer s (dst_of tools b u) (src_of b u)) us"

definition kf_inv :: "kf_extern \<Rightarrow> kf_tools \<Rightarrow> kf_builder \<Rightarrow> string list \<Rightarrow> store \<Rightarrow> bool" where
  "kf_inv x tools b us s \<longleftrightarrow> fs_valid s \<and>
     (\<forall>u \<in> set us. fs_isfile s (src_of b u)
        \<and> made_ok (made_of x tools b u) s (src_of b u) (dst_of tools b u))"

lemma layout_okD:
  assumes "layout_ok tools b us" and "u \<in> set us" and "v \<in> set us"
  shows "converted tools b u" and "u \<noteq> v \<Longrightarrow> dst_of tools b u \<noteq> dst_of tools b v"
    and "src_of b u \<noteq> dst_of tools b v"
    and "\<not> prefix (dst_of tools b u) (dirname (dst_of tools b v))"
  using assms by (auto simp: layout_ok_def list_all_iff)

lemma convertedE:
  assumes "converted tools b u"
  obtains (conv) uri where "plan_of tools b u = Convert (dst_of tools b u) uri"
    and "ext_of u = ''.dot'' \<or> ext_of u = ''.svg''"
  using assms
  by (auto simp: converted_def dst_of_def plan_of_def plan_image_def split: conv_plan.splits if_splits)

lemma src_look:
  "kf_inv x tools b us s \<Longrightarrow> u \<in> set us \<Longrightarrow> \<exists>d t. fs_look s (src_of b u) = Some (d, t)"
  by (auto simp: kf_inv_def fs_isfile_def)

text \<open>Converting an image of the sources is the plan run on its source file.\<close>

lemma convert_image_run:
  assumes "plan_of tools b u = Convert dst uri" and "fs_exists (kf_fs st) (src_of b u)"
  shows "convert_image x tools b st u cand None
     = run_plan x tools b (verbose (''assert best format for: '' @ u) st) (ext_of u) (src_of b u) dst uri"
  using assms by (simp add: convert_image_def plan_of_def ext_of_def split_beta src_of_def image_file_def Let_def)

section \<open>The invariant\<close>

lemma not_newer_ok: "not_newer s dst src \<Longrightarrow> made_ok c s src dst"
  by (auto simp: not_newer_def newer_def made_ok_def fs.derived_ok_def)

lemma kf_inv_fresh: "fresh tools b us s \<Longrightarrow> kf_inv x tools b us s"
  by (auto simp: fresh_def kf_inv_def list_all_iff not_newer_ok)

lemma kf_inv_tick: "kf_inv x tools b us s \<Longrightarrow> kf_inv x tools b us (fs_tick n s)"
  by (simp add: kf_inv_def fs_valid_tick fs_isfile_def made_ok_tick)

lemma kf_inv_edit:
  assumes inv: "kf_inv x tools b us s" and lay: "layout_ok tools b us" and u: "u \<in> set us"
    and p: "fs_put (src_of b u) d s = Inr s'"
  shows "kf_inv x tools b us s'"
proof -
  have "made_ok (made_of x tools b v) s' (src_of b v) (dst_of tools b v)" if v: "v \<in> set us" for v
  proof (cases "src_of b v = src_of b u")
    case True
    have "made_ok (made_of x tools b v) s (src_of b u) (dst_of tools b v)" "fs_valid s"
      using inv v unfolding kf_inv_def by (metis True)+
    from made_ok_edit [OF this p layout_okD(3) [OF lay u v]] show ?thesis by (simp only: True)
  next
    case False
    moreover have "fs_entries s' (dst_of tools b v) = fs_entries s (dst_of tools b v)"
      using p layout_okD(3) [OF lay u v] by (auto simp: fs_put_Inr)
    ultimately show ?thesis
      using made_ok_frame [of _ s "src_of b v" "dst_of tools b v" s'] inv v by (simp add: kf_inv_def fs_look_put [OF p])
  qed
  with inv fs.valid_put [OF _ p] show ?thesis by (auto simp: kf_inv_def fs_isfile_put [OF p])
qed

text \<open>
  Converting an image keeps the invariant; a picture that results shows the source, and a text is the
  source.
\<close>

lemma convert_run_plan:
  assumes inv: "kf_inv x tools b us (kf_fs st)" and lay: "layout_ok tools b us" and u: "u \<in> set us"
    and c: "convert_image x tools b st u cand None = (st', r)"
  obtains uri where "plan_of tools b u = Convert (dst_of tools b u) uri" and "ext_of u = ''.dot'' \<or> ext_of u = ''.svg''"
    and "run_plan x tools b (verbose (''assert best format for: '' @ u) st) (ext_of u) (src_of b u) (dst_of tools b u) uri = (st', r)"
proof -
  obtain uri where plan: "plan_of tools b u = Convert (dst_of tools b u) uri"
    and ext: "ext_of u = ''.dot'' \<or> ext_of u = ''.svg''"
    using convertedE [OF layout_okD(1) [OF lay u u]] by metis
  from src_look [OF inv u] c convert_image_run [OF plan, of st] plan ext that show thesis
    by (auto dest: fs_exists_look)
qed

lemma convert_step:
  assumes inv: "kf_inv x tools b us (kf_fs st)" and lay: "layout_ok tools b us" and u: "u \<in> set us"
    and writes: "convert_writes x" and c: "convert_image x tools b st u cand None = (st', r)"
  shows "kf_inv x tools b us (kf_fs st')"
    and "f \<noteq> dst_of tools b u \<Longrightarrow> fs_look (kf_fs st') f = fs_look (kf_fs st) f"
    and "f \<noteq> dst_of tools b u \<Longrightarrow> \<not> prefix f (dirname (dst_of tools b u)) \<Longrightarrow> fs_entries (kf_fs st') f = fs_entries (kf_fs st) f"
    and "r = Inr (Image uri' cd) \<Longrightarrow> \<exists>d t c t'. fs_look (kf_fs st') (src_of b u) = Some (d, t)
       \<and> fs_look (kf_fs st') (dst_of tools b u) = Some (c, t') \<and> made_of x tools b u d = Some c
       \<and> (newer (kf_fs st) (dst_of tools b u) (src_of b u) \<or> tool_of x tools b u d = Inr (0, Some c))"
    and "r = Inr (LiteralText d') \<Longrightarrow> \<exists>t. fs_look (kf_fs st') (src_of b u) = Some (d', t)
       \<and> (\<exists>e out. tool_of x tools b u d' = Inr (e, out) \<and> e \<noteq> 0)"
    and "r = Inl e' \<Longrightarrow> \<exists>d t. fs_look (kf_fs st') (src_of b u) = Some (d, t)
       \<and> (tool_of x tools b u d = Inl e' \<or> e' = IOError ''File exists'')"
proof -
  obtain d t where src: "fs_look (kf_fs st) (src_of b u) = Some (d, t)" using src_look [OF inv u] by blast
  obtain uri where ext: "ext_of u = ''.dot'' \<or> ext_of u = ''.svg''"
    and run: "run_plan x tools b (verbose (''assert best format for: '' @ u) st) (ext_of u) (src_of b u) (dst_of tools b u) uri = (st', r)"
    using convert_run_plan [OF inv lay u c] by metis
  have ne: "src_of b u \<noteq> dst_of tools b u" by (rule layout_okD(3) [OF lay u u])
  have m: "made_of x tools b u = made_by x tools (ext_of u) (src_of b u) (dst_of tools b u)"
    by (simp add: made_of_def fun_eq_iff)
  have k: "fs_valid (kf_fs st)" "made_ok (made_of x tools b u) (kf_fs st) (src_of b u) (dst_of tools b u)"
    using inv u by (auto simp: kf_inv_def)
  note der = run_plan_derived [OF run _ ne ext layout_okD(4) [OF lay u u], simplified verbose_fs,
      OF src k(1) writes k(2) [unfolded m]]
  show look: "fs_look (kf_fs st') f = fs_look (kf_fs st) f" if "f \<noteq> dst_of tools b u" for f using der(2) that .
  show entries: "fs_entries (kf_fs st') f = fs_entries (kf_fs st) f"
    if "f \<noteq> dst_of tools b u" "\<not> prefix f (dirname (dst_of tools b u))" for f using der(3) that .
  have "made_ok (made_of x tools b v) (kf_fs st') (src_of b v) (dst_of tools b v)" if v: "v \<in> set us" for v
  proof (cases "v = u")
    case True
    with der(1) m show ?thesis by simp
  next
    case False
    then have "dst_of tools b v \<noteq> dst_of tools b u" by (rule layout_okD(2) [OF lay v u])
    moreover have "made_ok (made_of x tools b v) (kf_fs st) (src_of b v) (dst_of tools b v)"
      using inv v by (simp add: kf_inv_def)
    ultimately show ?thesis
      using made_ok_frame look [OF layout_okD(3) [OF lay v u]] entries layout_okD(4) [OF lay v u] by blast
  qed
  moreover have "fs_isfile (kf_fs st') (src_of b v)" if v: "v \<in> set us" for v
    using inv v look [OF layout_okD(3) [OF lay v u]] by (simp add: kf_inv_def fs_isfile_def)
  ultimately show "kf_inv x tools b us (kf_fs st')" using der(1) by (simp add: kf_inv_def)
  have src': "fs_look (kf_fs st') (src_of b u) = Some (d, t)" using look [OF ne] src by simp
  then show "r = Inr (Image uri' cd) \<Longrightarrow> \<exists>d t c t'. fs_look (kf_fs st') (src_of b u) = Some (d, t)
       \<and> fs_look (kf_fs st') (dst_of tools b u) = Some (c, t') \<and> made_of x tools b u d = Some c
       \<and> (newer (kf_fs st) (dst_of tools b u) (src_of b u) \<or> tool_of x tools b u d = Inr (0, Some c))"
    using der(4) m unfolding tool_of_def by fastforce
  show "r = Inr (LiteralText d') \<Longrightarrow> \<exists>t. fs_look (kf_fs st') (src_of b u) = Some (d', t)
       \<and> (\<exists>e out. tool_of x tools b u d' = Inr (e, out) \<and> e \<noteq> 0)"
    using der(5) src' unfolding tool_of_def by blast
  show "r = Inl e' \<Longrightarrow> \<exists>d t. fs_look (kf_fs st') (src_of b u) = Some (d, t)
       \<and> (tool_of x tools b u d = Inl e' \<or> e' = IOError ''File exists'')"
    using der(6) src' unfolding tool_of_def by blast
qed

lemma kf_step_inv:
  assumes "kf_step x tools b us st st'" and "kf_inv x tools b us (kf_fs st)"
    and "layout_ok tools b us" and "convert_writes x"
  shows "kf_inv x tools b us (kf_fs st')"
  using assms(1)
proof (elim kf_stepE)
  fix n assume "st' = st\<lparr>kf_fs := fs_tick n (kf_fs st)\<rparr>"
  then show ?thesis using kf_inv_tick [OF assms(2)] by simp
next
  fix u d s assume "st' = st\<lparr>kf_fs := s\<rparr>" "u \<in> set us" "fs_put (src_of b u) d (kf_fs st) = Inr s"
  then show ?thesis using kf_inv_edit [OF assms(2,3)] by simp
next
  fix u cand r assume "u \<in> set us" "convert_image x tools b st u cand None = (st', r)"
  then show ?thesis using convert_step(1) [OF assms(2,3) _ assms(4)] by blast
qed

lemma kf_reachable_inv:
  assumes "(kf_step x tools b us)\<^sup>*\<^sup>* st0 st" and "fresh tools b us (kf_fs st0)"
    and "layout_ok tools b us" and "convert_writes x"
  shows "kf_inv x tools b us (kf_fs st)"
  using assms(1)
proof (induction rule: rtranclp_induct)
  case base
  show ?case by (rule kf_inv_fresh [OF assms(2)])
next
  case (step st st')
  then show ?case using kf_step_inv assms(3,4) by blast
qed

section \<open>Properties\<close>

definition kf_b0 :: kf_builder where
  "kf_b0 = \<lparr>kb_format = ''html'', kb_srcdir = ''/s'', kb_outdir = ''/o'', kb_imagedir = ''i'', kb_imgpath = ''i''\<rparr>"

definition kf_t0 :: kf_tools where
  "kf_t0 = \<lparr>dot_cmd = Some ''/bin/dot'', convert_cmd = Some ''/bin/convert''\<rparr>"

text \<open>A tool that draws every graph, and one that prints a line and fails.\<close>

definition kf_x0 :: kf_extern where
  "kf_x0 = \<lparr>kx_dot = (\<lambda>cmd d. Inr (0, case d of Some t \<Rightarrow> ''svg of '' @ t | None \<Rightarrow> [])),
     kx_convert = (\<lambda>cmd d. Inr (1, None))\<rparr>"

definition kf_x1 :: kf_extern where
  "kf_x1 = \<lparr>kx_dot = (\<lambda>cmd d. Inr (1, ''half'')), kx_convert = (\<lambda>cmd d. Inr (1, None))\<rparr>"

lemma kf_tools_write: "convert_writes kf_x0" "convert_writes kf_x1"
  by (simp_all add: convert_writes_def kf_x0_def kf_x1_def)

definition kf_st0 :: kf_state where
  "kf_st0 = \<lparr>kf_fs = \<lparr>fs_entries = [''/s'' \<mapsto> Dir 0, ''/o'' \<mapsto> Dir 0, ''/s/a.dot'' \<mapsto> File ''g'' 1], fs_clock = 5\<rparr>,
     kf_images = {}, kf_log = []\<rparr>"

lemma kf_start:
  "layout_ok kf_t0 kf_b0 [''a.dot'']" "fresh kf_t0 kf_b0 [''a.dot''] (kf_fs kf_st0)"
proof -
  show "layout_ok kf_t0 kf_b0 [''a.dot'']" by code_simp
  have "list_all (\<lambda>u. fs_isfile (kf_fs kf_st0) (src_of kf_b0 u)
      \<and> not_newer (kf_fs kf_st0) (dst_of kf_t0 kf_b0 u) (src_of kf_b0 u)) [''a.dot'']" by code_simp
  moreover have "fs_valid (kf_fs kf_st0)" by (auto simp: fs_valid_def kf_st0_def split: if_splits)
  ultimately show "fresh kf_t0 kf_b0 [''a.dot''] (kf_fs kf_st0)" unfolding fresh_def by blast
qed

text \<open>
  C17. When \<open>dot\<close> fails, its output file stays behind, truncated or half written. The build that runs it
  shows the graph's source and warns; the next one, when time has passed, takes the file
  for up to date and shows it as the picture, without any message to the user.
\<close>

theorem kf_failed_dot_stays:
  assumes "plan_of tools b u = Convert dst uri" and "ext_of u = ''.dot''" and "src_of b u \<noteq> dst"
    and "fs_look (kf_fs st) (src_of b u) = Some (d, t)" and "t < fs_clock (kf_fs st)"
    and "isNewer (kf_fs st) dst (src_of b u) = Inr False" and "\<not> fs_isdir s1 dst"
    and "mkdir (dirname dst) (kf_fs st) = Inr s1"
    and "kx_dot x (dot_command tools (src_of b u) dst) (Some d) = Inr (e, out)" and "e \<noteq> 0"
    and "convert_image x tools b st u cand None = (st1, r1)"
    and "convert_image x tools b (st1\<lparr>kf_fs := fs_tick n (kf_fs st1)\<rparr>) u cand None = (st2, r2)"
  shows "r1 = Inr (LiteralText d) \<and> r2 = Inr (Image uri (Some uri))
     \<and> map_option fst (fs_look (kf_fs st2) dst) = Some out
     \<and> (\<forall>m. KWarn m \<in> set (kf_log st2) \<longrightarrow> KWarn m \<in> set (kf_log st1))"
proof -
  let ?st0 = "verbose (''assert best format for: '' @ u) st"
  have run: "run_plan x tools b ?st0 (ext_of u) (src_of b u) dst uri = (st1, r1)"
    using assms(11) convert_image_run [OF assms(1) fs_exists_look [OF assms(4)]] by simp
  have clk: "fs_clock s1 = fs_clock (kf_fs st)" "fs_look s1 (src_of b u) = Some (d, t)"
    using mkdir_keeps [OF assms(8)] assms(4) by auto
  have put: "fs_put dst out s1 = Inr (s1\<lparr>fs_entries := (fs_entries s1)(dst \<mapsto> File out (fs_clock s1))\<rparr>)"
    using assms(7) mkdir_isdir [OF assms(8)] by (simp add: fs_put_def)
  have src0: "fs_look (kf_fs ?st0) (src_of b u) = Some (d, t)" using assms(4) by simp
  obtain s2 where s2: "fs_put dst [] s1 = Inr s2"
    using assms(7) mkdir_isdir [OF assms(8)] by (simp add: fs_put_def)
  let ?s3 = "s1\<lparr>fs_entries := (fs_entries s1)(dst \<mapsto> File out (fs_clock s1))\<rparr>"
  have put2: "fs_put dst out s2 = Inr ?s3" using put fs_put_put [OF s2] by simp
  have "fs_look s2 (src_of b u) = Some (d, t)"
    using clk assms(3) fs_look_put [OF s2, of "src_of b u"] by simp
  note dot = dot2format_step [OF this assms(9) put2]
  have st1: "kf_fs st1 = ?s3" and r1: "r1 = file2literal ?s3 (src_of b u)"
    using run assms(2,6,8,10) s2 by (auto simp: run_plan_def dot Let_def)
  have look: "fs_look ?s3 (src_of b u) = Some (d, t)" "fs_look ?s3 dst = Some (out, fs_clock s1)"
    using fs_look_put [OF put] clk assms(3) by auto
  have "isNewer (fs_tick n ?s3) dst (src_of b u) = Inr True"
    using look fs_exists_look [of "fs_tick n ?s3" dst] fs_ctime_look [of "fs_tick n ?s3"] assms(5) clk
    by (simp add: isNewer_def)
  moreover have "fs_exists (fs_tick n ?s3) (src_of b u)"
    using look fs_exists_look [of "fs_tick n ?s3" "src_of b u"] by simp
  ultimately have r2: "r2 = Inr (Image uri (Some uri))" "kf_fs st2 = fs_tick n ?s3"
    and log: "\<exists>m m'. kf_log st2 = kf_log st1 @ [KVerbose m, KVerbose m']"
    using assms(12) st1 convert_image_run [OF assms(1), of "st1\<lparr>kf_fs := fs_tick n (kf_fs st1)\<rparr>" x cand]
    by (auto simp: run_plan_def Let_def verbose_def)
  from r1 look r2 log show ?thesis by (auto simp: file2literal_def)
qed

theorem kf_failed_dot_stays_witness:
  "\<exists>st1 st2. convert_image kf_x1 kf_t0 kf_b0 kf_st0 ''a.dot'' None None = (st1, Inr (LiteralText ''g''))
     \<and> convert_image kf_x1 kf_t0 kf_b0 (st1\<lparr>kf_fs := fs_tick 1 (kf_fs st1)\<rparr>) ''a.dot'' None None
         = (st2, Inr (Image ''i/a.svg'' (Some ''i/a.svg'')))
     \<and> map_option fst (fs_look (kf_fs st2) ''/o/i/a.svg'') = Some ''half''"
proof -
  have 1: "plan_of kf_t0 kf_b0 ''a.dot'' = Convert ''/o/i/a.svg'' ''i/a.svg''" by code_simp
  have 2: "ext_of ''a.dot'' = ''.dot''" "src_of kf_b0 ''a.dot'' \<noteq> ''/o/i/a.svg''" by code_simp+
  have 3: "fs_look (kf_fs kf_st0) (src_of kf_b0 ''a.dot'') = Some (''g'', 1)" by code_simp
  have 4: "1 < fs_clock (kf_fs kf_st0)" by code_simp
  have 5: "isNewer (kf_fs kf_st0) ''/o/i/a.svg'' (src_of kf_b0 ''a.dot'') = Inr False" by code_simp
  have "case mkdir (dirname ''/o/i/a.svg'') (kf_fs kf_st0) of Inr s \<Rightarrow> \<not> fs_isdir s ''/o/i/a.svg'' | Inl e \<Rightarrow> False"
    by code_simp
  then obtain s1 where 6: "\<not> fs_isdir s1 ''/o/i/a.svg''" "mkdir (dirname ''/o/i/a.svg'') (kf_fs kf_st0) = Inr s1"
    by (auto split: sum.splits)
  have 7: "kx_dot kf_x1 (dot_command kf_t0 (src_of kf_b0 ''a.dot'') ''/o/i/a.svg'') (Some ''g'') = Inr (1, ''half'')"
    by (simp add: kf_x1_def)
  obtain st1 r1 where 8: "convert_image kf_x1 kf_t0 kf_b0 kf_st0 ''a.dot'' None None = (st1, r1)" by fastforce
  obtain st2 r2 where 9: "convert_image kf_x1 kf_t0 kf_b0 (st1\<lparr>kf_fs := fs_tick 1 (kf_fs st1)\<rparr>) ''a.dot'' None None = (st2, r2)"
    by fastforce
  from kf_failed_dot_stays [OF 1 2 3 4 5 6 7 _ 8 9] 8 9 show ?thesis by auto
qed

text \<open>
  C33. Images of the same base name share their output file: once the picture of one is newer than the
  source of the other, the other is replaced by it, and its own tool is not run.
\<close>

theorem kf_same_name_shared:
  assumes "plan_of tools b u = Convert dst uri" and "basename v = basename u"
    and "fs_exists (kf_fs st) (src_of b v)"
    and "isNewer (kf_fs st) dst (src_of b v) = Inr True"
  shows "plan_of tools b v = Convert dst uri \<and>
     snd (convert_image x tools b st v cand None) = Inr (Image uri (Some uri)) \<and>
     kf_fs (fst (convert_image x tools b st v cand None)) = kf_fs st"
proof -
  have p: "plan_of tools b v = Convert dst uri"
    using assms(1,2) by (simp add: plan_of_def ext_of_def)
  with assms(3,4) convert_image_run [OF p] show ?thesis by (simp add: run_plan_def Let_def)
qed

definition kf_st1 :: kf_state where
  "kf_st1 = \<lparr>kf_fs = \<lparr>fs_entries = [''/s'' \<mapsto> Dir 0, ''/o'' \<mapsto> Dir 0, ''/o/i'' \<mapsto> Dir 0,
     ''/s/a/x.dot'' \<mapsto> File ''g'' 1, ''/s/b/x.dot'' \<mapsto> File ''h'' 1, ''/o/i/x.svg'' \<mapsto> File ''svg of g'' 3],
     fs_clock = 5\<rparr>, kf_images = {}, kf_log = []\<rparr>"

theorem kf_same_name_shared_witness:
  "snd (convert_image kf_x0 kf_t0 kf_b0 kf_st1 ''b/x.dot'' None None) = Inr (Image ''i/x.svg'' (Some ''i/x.svg''))
   \<and> fs_look (kf_fs (fst (convert_image kf_x0 kf_t0 kf_b0 kf_st1 ''b/x.dot'' None None))) ''/o/i/x.svg''
       = Some (''svg of g'', 3)"
proof -
  have 1: "plan_of kf_t0 kf_b0 ''a/x.dot'' = Convert ''/o/i/x.svg'' ''i/x.svg''" by code_simp
  have 2: "basename ''b/x.dot'' = basename ''a/x.dot''" by code_simp
  have 3: "fs_exists (kf_fs kf_st1) (src_of kf_b0 ''b/x.dot'')" by code_simp
  have 4: "isNewer (kf_fs kf_st1) ''/o/i/x.svg'' (src_of kf_b0 ''b/x.dot'') = Inr True" by code_simp
  have "fs_look (kf_fs kf_st1) ''/o/i/x.svg'' = Some (''svg of g'', 3)" by code_simp
  with kf_same_name_shared [OF 1 2 3 4, of kf_x0 None] show ?thesis by simp
qed

end
