(* ===== verification/KFigureTools.thy ===== *)
theory KFigureTools
  imports KFigureBuild
begin

text \<open>
  The toolchain \<open>setupTools\<close> finds before a build, compared with a search of the path, and what a build shows
  without it.
\<close>

section \<open>The search\<close>

definition search_path :: "(string \<rightharpoonup> string) \<Rightarrow> string \<Rightarrow> string list" where
  "search_path environ defpath =
     py_split (CHR '':'') (case environ ''PATH'' of Some p \<Rightarrow> if p = [] then defpath else p | None \<Rightarrow> defpath)"

definition first_on_path :: "(string \<Rightarrow> bool) \<Rightarrow> string list \<Rightarrow> string \<Rightarrow> string option" where
  "first_on_path isfile folders cmd = List.find isfile (List.map (\<lambda>d. d @ ''/'' @ cmd) folders)"

lemma which_in_first: "which_in isfile cmd folders = first_on_path isfile folders cmd"
  by (induction folders) (simp_all add: first_on_path_def Let_def)

lemma which_first: "which environ defpath isfile cmd = first_on_path isfile (search_path environ defpath) cmd"
  by (simp add: which_def search_path_def which_in_first Let_def)

lemma first_on_path_None:
  "first_on_path isfile folders cmd = None \<longleftrightarrow> (\<forall>d \<in> set folders. \<not> isfile (d @ ''/'' @ cmd))"
  by (auto simp: first_on_path_def find_None_iff)

section \<open>Without the tool\<close>

definition warnings :: "kf_event list \<Rightarrow> string list" where
  "warnings es = concat (List.map (\<lambda>e. case e of KWarn m \<Rightarrow> [m] | KVerbose m \<Rightarrow> []) es)"

lemma warnings_log:
  "length (warnings (kf_log (verbose m st))) = length (warnings (kf_log st))"
  "length (warnings (kf_log (warn m st))) = Suc (length (warnings (kf_log st)))"
  by (simp_all add: warnings_def verbose_def warn_def)

text \<open>The images each tool is for.\<close>

definition needs_tool :: "kf_tools \<Rightarrow> kf_builder \<Rightarrow> string \<Rightarrow> bool" where
  "needs_tool tools b u \<longleftrightarrow>
     (ext_of u = ''.dot'' \<and> dot_cmd tools = None)
     \<or> (ext_of u = ''.svg'' \<and> kb_format b = ''latex'' \<and> convert_cmd tools = None)"

lemma plan_without_tool: "needs_tool tools b u \<Longrightarrow> \<exists>m. plan_of tools b u = Raw m"
  by (auto simp: needs_tool_def plan_of_def plan_image_def)

lemma convert_image_raw:
  assumes "plan_of tools b u = Raw m" and "fs_look (kf_fs st) (image_file b (kf_fs st) u) = Some (d, t)"
  shows "snd (convert_image x tools b st u cand None) = Inr (LiteralText d)"
    and "kf_fs (fst (convert_image x tools b st u cand None)) = kf_fs st"
  using assms
  by (auto simp: convert_image_def plan_of_def ext_of_def split_beta Let_def file2literal_def split: option.splits)

section \<open>Properties\<close>

text \<open>
  C24. The toolchain check: each tool is the first file of its name on the search path, a missing one is warned
  of once, no file is touched, and afterwards an image whose tool is missing is shown by its source, with no
  file written.
\<close>

theorem kf_tool_choice:
  assumes "setupTools environ defpath st = (tools, st1)"
  shows "dot_cmd tools = first_on_path (fs_isfile (kf_fs st)) (search_path environ defpath) ''dot''
    \<and> convert_cmd tools = first_on_path (fs_isfile (kf_fs st)) (search_path environ defpath) ''convert''
    \<and> kf_fs st1 = kf_fs st
    \<and> length (warnings (kf_log st1)) = length (warnings (kf_log st))
        + (if dot_cmd tools = None then 1 else 0) + (if convert_cmd tools = None then 1 else 0)
    \<and> (\<forall>x b u cand d t. needs_tool tools b u \<longrightarrow> fs_look (kf_fs st) (image_file b (kf_fs st) u) = Some (d, t) \<longrightarrow>
         snd (convert_image x tools b st1 u cand None) = Inr (LiteralText d)
         \<and> kf_fs (fst (convert_image x tools b st1 u cand None)) = kf_fs st)"
proof -
  have t: "dot_cmd tools = first_on_path (fs_isfile (kf_fs st)) (search_path environ defpath) ''dot''"
    "convert_cmd tools = first_on_path (fs_isfile (kf_fs st)) (search_path environ defpath) ''convert''"
    using assms by (auto simp: setupTools_def Let_def which_first)
  have f: "kf_fs st1 = kf_fs st"
    using assms by (auto simp: setupTools_def Let_def split: option.splits)
  have w: "length (warnings (kf_log st1)) = length (warnings (kf_log st))
      + (if dot_cmd tools = None then 1 else 0) + (if convert_cmd tools = None then 1 else 0)"
    using assms unfolding setupTools_def Let_def
    by (cases "which environ defpath (fs_isfile (kf_fs st)) ''dot''"; cases "which environ defpath (fs_isfile (kf_fs st)) ''convert''")
      (auto simp only: option.case prod.inject kf_tools.simps warnings_log option.distinct if_True if_False simp_thms)
  have "snd (convert_image x tools b st1 u cand None) = Inr (LiteralText d)
      \<and> kf_fs (fst (convert_image x tools b st1 u cand None)) = kf_fs st"
    if n: "needs_tool tools b u" and l: "fs_look (kf_fs st) (image_file b (kf_fs st) u) = Some (d, t)" for x b u cand d t
  proof -
    obtain m where "plan_of tools b u = Raw m" using plan_without_tool [OF n] by blast
    from convert_image_raw [OF this, of st1 d t x cand] l f show ?thesis by simp
  qed
  with t f w show ?thesis by blast
qed

definition tool_st :: kf_state where
  "tool_st = \<lparr>kf_fs = \<lparr>fs_entries = [''/s'' \<mapsto> Dir 0, ''/s/a.dot'' \<mapsto> File ''g'' 1, ''/usr/bin/convert'' \<mapsto> File ''elf'' 0],
     fs_clock = 5\<rparr>, kf_images = {}, kf_log = []\<rparr>"

theorem kf_tool_choice_witness:
  "\<exists>tools st1. setupTools [''PATH'' \<mapsto> ''/bin:/usr/bin''] ''/bin'' tool_st = (tools, st1)
     \<and> dot_cmd tools = None \<and> convert_cmd tools = Some ''/usr/bin/convert'' \<and> length (warnings (kf_log st1)) = 1
     \<and> snd (convert_image kf_x0 tools kf_b0 st1 ''a.dot'' None None) = Inr (LiteralText ''g'')"
proof -
  obtain tools st1 where s: "setupTools [''PATH'' \<mapsto> ''/bin:/usr/bin''] ''/bin'' tool_st = (tools, st1)" by fastforce
  note p = kf_tool_choice [OF s]
  have "first_on_path (fs_isfile (kf_fs tool_st)) (search_path [''PATH'' \<mapsto> ''/bin:/usr/bin''] ''/bin'') ''dot'' = None"
    "first_on_path (fs_isfile (kf_fs tool_st)) (search_path [''PATH'' \<mapsto> ''/bin:/usr/bin''] ''/bin'') ''convert''
      = Some ''/usr/bin/convert''" by code_simp+
  then have t: "dot_cmd tools = None" "convert_cmd tools = Some ''/usr/bin/convert''" using p by simp_all
  have "length (warnings (kf_log tool_st)) = 0" by code_simp
  then have w: "length (warnings (kf_log st1)) = 1" using p t by simp
  have "ext_of ''a.dot'' = ''.dot''" by code_simp
  then have n: "needs_tool tools kf_b0 ''a.dot''" using t by (simp add: needs_tool_def)
  have l: "fs_look (kf_fs tool_st) (image_file kf_b0 (kf_fs tool_st) ''a.dot'') = Some (''g'', 1)" by code_simp
  from p n l have "snd (convert_image kf_x0 tools kf_b0 st1 ''a.dot'' None None) = Inr (LiteralText ''g'')" by blast
  with s t w show ?thesis by blast
qed

end
