(* ===== verification/KFigureSpec.thy ===== *)
theory KFigureSpec
  imports KFigureBuild
begin

text \<open>
  What the image conversion promises over time, without outputs and change times: an abstract machine that
  only knows the sources and which of them were tried since they were written, and the refinement of it by the
  builds of \<open>KFigureBuild\<close>; and that a build settles.
\<close>

section \<open>Traces\<close>

text \<open>What is seen of a run: the picture's content or the text an image is replaced by, or that it raised.\<close>

datatype shown = Picture "string option" | SourceText string

datatype kf_obs = Waited nat | Edited string string | Showed string shown | Raised string exn

definition shown_by :: "kf_tools \<Rightarrow> kf_builder \<Rightarrow> string \<Rightarrow> kf_state \<Rightarrow> img_node \<Rightarrow> shown" where
  "shown_by tools b u st node =
     (case node of
        LiteralText c \<Rightarrow> SourceText c
      | Image uri cd \<Rightarrow> Picture (map_option fst (fs_look (kf_fs st) (dst_of tools b u))))"

inductive kf_trace ::
  "kf_extern \<Rightarrow> kf_tools \<Rightarrow> kf_builder \<Rightarrow> string list \<Rightarrow> kf_state \<Rightarrow> kf_obs list \<Rightarrow> kf_state \<Rightarrow> bool"
  for x tools b us where
  finish: "kf_trace x tools b us st [] st"
| wait: "kf_trace x tools b us (st\<lparr>kf_fs := fs_tick n (kf_fs st)\<rparr>) es st' \<Longrightarrow>
    kf_trace x tools b us st (Waited n # es) st'"
| edit: "u \<in> set us \<Longrightarrow> fs_put (src_of b u) d (kf_fs st) = Inr s \<Longrightarrow>
    kf_trace x tools b us (st\<lparr>kf_fs := s\<rparr>) es st' \<Longrightarrow> kf_trace x tools b us st (Edited u d # es) st'"
| shows_node: "u \<in> set us \<Longrightarrow> convert_image x tools b st u cand None = (st1, Inr node) \<Longrightarrow>
    kf_trace x tools b us st1 es st' \<Longrightarrow>
    kf_trace x tools b us st (Showed u (shown_by tools b u st1 node) # es) st'"
| raises: "u \<in> set us \<Longrightarrow> convert_image x tools b st u cand None = (st1, Inl e) \<Longrightarrow>
    kf_trace x tools b us st1 es st' \<Longrightarrow> kf_trace x tools b us st (Raised u e # es) st'"

inductive_simps kf_trace_Nil [simp]: "kf_trace x tools b us st [] st'"

text \<open>A trace is made of steps, and traces follow each other.\<close>

lemma kf_trace_steps: "kf_trace x tools b us st es st' \<Longrightarrow> (kf_step x tools b us)\<^sup>*\<^sup>* st st'"
  by (induction rule: kf_trace.induct) (auto intro: converse_rtranclp_into_rtranclp kf_step.intros)

lemma kf_trace_append:
  "kf_trace x tools b us st es st1 \<Longrightarrow> kf_trace x tools b us st1 es' st' \<Longrightarrow> kf_trace x tools b us st (es @ es') st'"
  by (induction rule: kf_trace.induct) (auto intro: kf_trace.intros)

text \<open>Every step is observed.\<close>

lemma kf_step_observed:
  assumes "kf_step x tools b us st st'"
  shows "\<exists>e. kf_trace x tools b us st [e] st'"
  using assms
proof (elim kf_stepE)
  fix u cand r assume u: "u \<in> set us" and c: "convert_image x tools b st u cand None = (st', r)"
  show ?thesis
  proof (cases r)
    case (Inl e)
    then show ?thesis using kf_trace.raises [OF u _ kf_trace.finish] c by blast
  next
    case (Inr node)
    then show ?thesis using kf_trace.shows_node [OF u _ kf_trace.finish] c by blast
  qed
qed (blast intro: kf_trace.intros)+

lemma kf_reachable_trace: "(kf_step x tools b us)\<^sup>*\<^sup>* st st' \<longleftrightarrow> (\<exists>es. kf_trace x tools b us st es st')"
proof
  assume "(kf_step x tools b us)\<^sup>*\<^sup>* st st'"
  then show "\<exists>es. kf_trace x tools b us st es st'"
  proof (induction rule: rtranclp_induct)
    case base
    show ?case by (blast intro: kf_trace.finish)
  next
    case (step st1 st2)
    then show ?case using kf_step_observed kf_trace_append by metis
  qed
qed (blast intro: kf_trace_steps)

section \<open>The abstract machine\<close>

text \<open>
  Its state is the content of the source files, and the images that were tried since their source was last
  written. A picture that is shown is what the tool makes of the source now, with the exit code zero, or, once
  it was tried, what a tool that failed on the same source left behind. A text is the source, and its tool failed.
  An error is the one of starting the tool, or of making the directory of the output.
\<close>

definition shown_ok ::
  "kf_extern \<Rightarrow> kf_tools \<Rightarrow> kf_builder \<Rightarrow> (string \<rightharpoonup> string) \<Rightarrow> string list \<Rightarrow> string \<Rightarrow> shown \<Rightarrow> bool"
where
  "shown_ok x tools b a tried u s \<longleftrightarrow>
     (case a (src_of b u) of
        None \<Rightarrow> False
      | Some d \<Rightarrow>
          (case s of
             Picture None \<Rightarrow> False
           | Picture (Some c) \<Rightarrow>
               tool_of x tools b u d = Inr (0, Some c)
               \<or> u \<in> set tried \<and> made_of x tools b u d = Some c
           | SourceText c \<Rightarrow>
               c = d \<and> (case tool_of x tools b u d of Inr (e, out) \<Rightarrow> e \<noteq> 0 | Inl e \<Rightarrow> False)))"

definition raised_ok ::
  "kf_extern \<Rightarrow> kf_tools \<Rightarrow> kf_builder \<Rightarrow> (string \<rightharpoonup> string) \<Rightarrow> string \<Rightarrow> exn \<Rightarrow> bool"
where
  "raised_ok x tools b a u e \<longleftrightarrow>
     (case a (src_of b u) of
        None \<Rightarrow> False
      | Some d \<Rightarrow> tool_of x tools b u d = Inl e \<or> e = IOError ''File exists'')"

fun spec_trace ::
  "kf_extern \<Rightarrow> kf_tools \<Rightarrow> kf_builder \<Rightarrow> (string \<rightharpoonup> string) \<Rightarrow> string list \<Rightarrow> kf_obs list \<Rightarrow> bool"
where
  "spec_trace x tools b a tried [] \<longleftrightarrow> True"
| "spec_trace x tools b a tried (Waited n # es) \<longleftrightarrow> spec_trace x tools b a tried es"
| "spec_trace x tools b a tried (Edited u d # es) \<longleftrightarrow>
     spec_trace x tools b (a(src_of b u \<mapsto> d)) (List.filter (\<lambda>v. src_of b v \<noteq> src_of b u) tried) es"
| "spec_trace x tools b a tried (Showed u s # es) \<longleftrightarrow>
     shown_ok x tools b a tried u s \<and> spec_trace x tools b a (u # tried) es"
| "spec_trace x tools b a tried (Raised u e # es) \<longleftrightarrow>
     raised_ok x tools b a u e \<and> spec_trace x tools b a (u # tried) es"

definition sources :: "kf_state \<Rightarrow> (string \<rightharpoonup> string)" where
  "sources st f = map_option fst (fs_look (kf_fs st) f)"

section \<open>Simulation\<close>

text \<open>
  The abstract state agrees with the sources of the images, and the output of an image that was not tried
  is no newer than its source.
\<close>

definition agrees :: "kf_tools \<Rightarrow> kf_builder \<Rightarrow> string list \<Rightarrow> (string \<rightharpoonup> string) \<Rightarrow> string list \<Rightarrow> kf_state \<Rightarrow> bool" where
  "agrees tools b us a tried st \<longleftrightarrow>
     (\<forall>u \<in> set us. a (src_of b u) = sources st (src_of b u)
        \<and> (u \<notin> set tried \<longrightarrow> \<not> newer (kf_fs st) (dst_of tools b u) (src_of b u)))"

lemma agrees_fresh: "fresh tools b us (kf_fs st) \<Longrightarrow> agrees tools b us (sources st) [] st"
  by (auto simp: agrees_def fresh_def list_all_iff not_newer_def)

lemma agrees_edit:
  assumes "agrees tools b us a tried st" and "layout_ok tools b us" and "u \<in> set us" and "fs_valid (kf_fs st)"
    and p: "fs_put (src_of b u) d (kf_fs st) = Inr s"
  shows "agrees tools b us (a(src_of b u \<mapsto> d)) (List.filter (\<lambda>v. src_of b v \<noteq> src_of b u) tried) (st\<lparr>kf_fs := s\<rparr>)"
proof -
  have "\<not> newer s (dst_of tools b v) (src_of b v)"
    if v: "v \<in> set us" and t: "v \<notin> set (List.filter (\<lambda>v. src_of b v \<noteq> src_of b u) tried)" for v
  proof (cases "src_of b v = src_of b u")
    case True
    then have "fs_look s (src_of b v) = Some (d, fs_clock (kf_fs st))" by (simp add: fs_look_put [OF p])
    moreover have "fs_look s (dst_of tools b v) = fs_look (kf_fs st) (dst_of tools b v)"
      using layout_okD(3) [OF assms(2,3) v] by (simp add: fs_look_put [OF p])
    ultimately show ?thesis
      using fs.look_past [OF assms(4), of "dst_of tools b v"] by (auto simp: newer_def split: option.splits)
  next
    case False
    have "\<not> newer (kf_fs st) (dst_of tools b v) (src_of b v)"
      using assms(1) v t False by (simp add: agrees_def)
    with False layout_okD(3) [OF assms(2,3) v] show ?thesis by (simp add: newer_def fs_look_put [OF p])
  qed
  with assms(1) show ?thesis by (simp add: agrees_def sources_def fs_look_put [OF p])
qed

lemma agrees_build:
  assumes "agrees tools b us a tried st" and "kf_inv x tools b us (kf_fs st)" and "layout_ok tools b us" and "u \<in> set us"
    and "convert_writes x" and "convert_image x tools b st u cand None = (st', r)"
  shows "agrees tools b us a (u # tried) st'"
proof -
  have look: "fs_look (kf_fs st') f = fs_look (kf_fs st) f" if "f \<noteq> dst_of tools b u" for f
    using convert_step(2) [OF assms(2-6)] that .
  have "\<not> newer (kf_fs st') (dst_of tools b v) (src_of b v)" if v: "v \<in> set us" and t: "v \<notin> set (u # tried)" for v
  proof -
    have "fs_look (kf_fs st') (dst_of tools b v) = fs_look (kf_fs st) (dst_of tools b v)"
      using look layout_okD(2) [OF assms(3) v assms(4)] t by simp
    with assms(1) v t look [OF layout_okD(3) [OF assms(3) v assms(4)]] show ?thesis
      by (simp add: agrees_def newer_def)
  qed
  with assms(1) look layout_okD(3) [OF assms(3) _ assms(4)] show ?thesis by (simp add: agrees_def sources_def)
qed

lemma shows_now:
  assumes "kf_inv x tools b us (kf_fs st)" and "layout_ok tools b us" and u: "u \<in> set us" and "convert_writes x"
    and "convert_image x tools b st u cand None = (st', Inr node)" and "agrees tools b us a tried st"
  shows "shown_ok x tools b a tried u (shown_by tools b u st' node)"
proof -
  have a: "a (src_of b u) = map_option fst (fs_look (kf_fs st') (src_of b u))"
    using assms(6) u convert_step(2) [OF assms(1-5) layout_okD(3) [OF assms(2) u u]]
    by (simp add: agrees_def sources_def)
  show ?thesis
  proof (cases node)
    case (Image uri cd)
    with convert_step(4) [OF assms(1-5)] obtain d t c t' where
      l: "fs_look (kf_fs st') (src_of b u) = Some (d, t)" "fs_look (kf_fs st') (dst_of tools b u) = Some (c, t')"
      and m: "made_of x tools b u d = Some c"
        "newer (kf_fs st) (dst_of tools b u) (src_of b u) \<or> tool_of x tools b u d = Inr (0, Some c)" by blast
    have "newer (kf_fs st) (dst_of tools b u) (src_of b u) \<Longrightarrow> u \<in> set tried"
      using assms(6) u by (auto simp: agrees_def)
    with Image a l m show ?thesis by (auto simp: shown_ok_def shown_by_def)
  next
    case (LiteralText d)
    with convert_step(5) [OF assms(1-5)] obtain t e out where
      "fs_look (kf_fs st') (src_of b u) = Some (d, t)" "tool_of x tools b u d = Inr (e, out)" "e \<noteq> 0" by blast
    with LiteralText a show ?thesis by (simp add: shown_ok_def shown_by_def)
  qed
qed

lemma raises_now:
  assumes "kf_inv x tools b us (kf_fs st)" and "layout_ok tools b us" and u: "u \<in> set us" and "convert_writes x"
    and "convert_image x tools b st u cand None = (st', Inl e)" and "agrees tools b us a tried st"
  shows "raised_ok x tools b a u e"
proof -
  obtain d t where l: "fs_look (kf_fs st') (src_of b u) = Some (d, t)"
    and r: "tool_of x tools b u d = Inl e \<or> e = IOError ''File exists''"
    using convert_step(6) [OF assms(1-5)] by blast
  have "a (src_of b u) = Some d"
    using assms(6) u l convert_step(2) [OF assms(1-5) layout_okD(3) [OF assms(2) u u]]
    by (simp add: agrees_def sources_def)
  with r show ?thesis by (simp add: raised_ok_def)
qed

lemma trace_simulated:
  assumes "kf_trace x tools b us st es st'" and "layout_ok tools b us" and "convert_writes x"
  shows "kf_inv x tools b us (kf_fs st) \<Longrightarrow> agrees tools b us a tried st \<Longrightarrow> spec_trace x tools b a tried es"
  using assms(1)
proof (induction arbitrary: a tried rule: kf_trace.induct)
  case (wait st n es st')
  then show ?case using kf_inv_tick by (simp add: agrees_def sources_def newer_def)
next
  case (edit u d st s es st')
  have "fs_valid (kf_fs st)" using edit(5) by (simp add: kf_inv_def)
  with edit kf_inv_edit [OF edit(5) assms(2)] agrees_edit [OF edit(6) assms(2)] show ?case by simp
next
  case (shows_node u st cand st1 node es st')
  have i: "kf_inv x tools b us (kf_fs st1)"
    using kf_step_inv [OF kf_step.build [OF shows_node(1,2)] shows_node(5) assms(2,3)] .
  note a = agrees_build [OF shows_node(6,5) assms(2) shows_node(1) assms(3) shows_node(2)]
  from shows_now [OF shows_node(5) assms(2) shows_node(1) assms(3) shows_node(2,6)] shows_node(4) [OF i a]
  show ?case by simp
next
  case (raises u st cand st1 e es st')
  have i: "kf_inv x tools b us (kf_fs st1)"
    using kf_step_inv [OF kf_step.build [OF raises(1,2)] raises(5) assms(2,3)] .
  note a = agrees_build [OF raises(6,5) assms(2) raises(1) assms(3) raises(2)]
  from raises_now [OF raises(5) assms(2) raises(1) assms(3) raises(2,6)] raises(4) [OF i a]
  show ?case by simp
qed simp

section \<open>Properties\<close>

text \<open>
  C2. Every run of edits, waiting and builds is a run of the abstract machine started with the same sources and
  nothing tried. So the first picture after an edit is always made from what was written, by a tool that succeeded,
  whatever outputs and change times are there; a text is the source, and only when the tool failed; and an
  error is the tool's or that of making a directory. What a failed tool left can be shown later, after it
  was tried. It is assumed that the files of the images do not collide, that at the start every source is there and
  no output is newer than its source, and that \<open>convert(1)\<close> writes its output when it returns zero; nothing is
  assumed of \<open>dot(1)\<close>.
\<close>

theorem kf_traces_refine:
  assumes "layout_ok tools b us" and "convert_writes x" and "fresh tools b us (kf_fs st0)"
    and "kf_trace x tools b us st0 es st"
  shows "spec_trace x tools b (sources st0) [] es"
  by (rule trace_simulated [OF assms(4,1,2) kf_inv_fresh [OF assms(3)] agrees_fresh [OF assms(3)]])

text \<open>With a \<open>dot\<close> that fails: the source is shown first, and when time has passed what it left.\<close>

theorem kf_traces_refine_witness:
  "\<exists>st. kf_trace kf_x1 kf_t0 kf_b0 [''a.dot''] kf_st0
       [Showed ''a.dot'' (SourceText ''g''), Waited 3, Showed ''a.dot'' (Picture (Some ''half''))] st
     \<and> spec_trace kf_x1 kf_t0 kf_b0 (sources kf_st0) []
         [Showed ''a.dot'' (SourceText ''g''), Waited 3, Showed ''a.dot'' (Picture (Some ''half''))]
     \<and> \<not> spec_trace kf_x1 kf_t0 kf_b0 (sources kf_st0) [] [Showed ''a.dot'' (Picture (Some ''half''))]"
proof -
  let ?c = "\<lambda>st. convert_image kf_x1 kf_t0 kf_b0 st ''a.dot'' None None"
  let ?w = "\<lambda>st. st\<lparr>kf_fs := fs_tick 3 (kf_fs st)\<rparr>"
  have "(case ?c kf_st0 of (s1, r1) \<Rightarrow> r1 = Inr (LiteralText ''g'') \<and>
      (case ?c (?w s1) of (s2, Inr n) \<Rightarrow> (case n of Image uri cd \<Rightarrow> True | LiteralText t \<Rightarrow> False)
         \<and> shown_by kf_t0 kf_b0 ''a.dot'' s2 n = Picture (Some ''half'') | (s2, Inl e) \<Rightarrow> False))" by code_simp
  then obtain s1 s2 n where c: "?c kf_st0 = (s1, Inr (LiteralText ''g''))" "?c (?w s1) = (s2, Inr n)"
    and n: "shown_by kf_t0 kf_b0 ''a.dot'' s2 n = Picture (Some ''half'')"
    by (auto split: prod.splits sum.splits)
  have "kf_trace kf_x1 kf_t0 kf_b0 [''a.dot''] kf_st0
      [Showed ''a.dot'' (shown_by kf_t0 kf_b0 ''a.dot'' s1 (LiteralText ''g'')), Waited 3,
       Showed ''a.dot'' (shown_by kf_t0 kf_b0 ''a.dot'' s2 n)] s2"
    by (intro kf_trace.shows_node [OF _ c(1)] kf_trace.wait kf_trace.shows_node [OF _ c(2)] kf_trace.finish) simp_all
  then have t: "kf_trace kf_x1 kf_t0 kf_b0 [''a.dot''] kf_st0
      [Showed ''a.dot'' (SourceText ''g''), Waited 3, Showed ''a.dot'' (Picture (Some ''half''))] s2"
    by (simp add: n) (simp add: shown_by_def)
  have "\<not> spec_trace kf_x1 kf_t0 kf_b0 (sources kf_st0) [] [Showed ''a.dot'' (Picture (Some ''half''))]" by code_simp
  with t kf_traces_refine [OF kf_start(1) kf_tools_write(2) kf_start(2) t] show ?thesis by blast
qed

text \<open>
  C18. A build settles: once the source of an image is older than the clock and a picture has been shown
  for it, showing it again, however much later, gives the same node and leaves every file as it is, until something
  is edited. The assumptions are those of the runs above: files that do not collide, a start where every source is
  there and no output is newer than it, and \<open>convert(1)\<close> writing its output when it returns zero.
\<close>

theorem kf_build_settles:
  assumes lay: "layout_ok tools b us" and writes: "convert_writes x"
    and start: "fresh tools b us (kf_fs st0)" "(kf_step x tools b us)\<^sup>*\<^sup>* st0 st" and u: "u \<in> set us"
    and old: "fs_look (kf_fs st) (src_of b u) = Some (d, t)" "t < fs_clock (kf_fs st)"
    and first: "convert_image x tools b st u cand None = (st1, Inr (Image uri cd))"
    and again: "convert_image x tools b (st1\<lparr>kf_fs := fs_tick n (kf_fs st1)\<rparr>) u cand2 None = (st2, r)"
  shows "r = Inr (Image uri cd) \<and> kf_fs st2 = fs_tick n (kf_fs st1)"
proof -
  have inv: "kf_inv x tools b us (kf_fs st)" by (rule kf_reachable_inv [OF start(2,1) lay writes])
  obtain uri' where plan: "plan_of tools b u = Convert (dst_of tools b u) uri'"
    and ext: "ext_of u = ''.dot'' \<or> ext_of u = ''.svg''"
    and run: "run_plan x tools b (verbose (''assert best format for: '' @ u) st) (ext_of u) (src_of b u)
      (dst_of tools b u) uri' = (st1, Inr (Image uri cd))"
    using convert_run_plan [OF inv lay u first] by metis
  have ne: "src_of b u \<noteq> dst_of tools b u" by (rule layout_okD(3) [OF lay u u])
  have src: "fs_look (kf_fs st1) (src_of b u) = Some (d, t)"
    using convert_step(2) [OF inv lay u writes first ne] old(1) by simp
  have made: "made_ok (made_of x tools b u) (kf_fs st) (src_of b u) (dst_of tools b u)"
    using inv u by (simp add: kf_inv_def)
  have "fs_look (kf_fs (verbose (''assert best format for: '' @ u) st)) (src_of b u) = Some (d, t)"
    using old(1) by simp
  with run have new: "uri = uri' \<and> cd = Some uri' \<and> (\<exists>d' t'. fs_look (kf_fs st1) (dst_of tools b u) = Some (d', t') \<and> t < t')"
    using ne ext
  proof (cases rule: run_plan_cases)
    case new: newer
    then obtain d' t' where "fs_look (kf_fs st) (dst_of tools b u) = Some (d', t')" "t < t'"
      using isNewer_files [of "kf_fs st" "dst_of tools b u" "src_of b u" d t] old(1) made
      by (auto simp: made_ok_def)
    with new show ?thesis by simp
  next
    case (unmade s2)
    then have m: "mkdir (dirname (dst_of tools b u)) (kf_fs st) = Inr s2" by simp
    have "made_ok (made_of x tools b u) s2 (src_of b u) (dst_of tools b u)"
      by (rule made_ok_frame [OF made]) (use mkdir_keeps(1,4) [OF m] layout_okD(4) [OF lay u u] in auto)
    then have "\<not> fs_isdir s2 (dst_of tools b u)" using isfile_not_dir by (auto simp: made_ok_def)
    from unmade(4) put_after_mkdir [OF m this]
    have r: "outcome (tool_of x tools b u d) uri' d = Inr (Image uri cd)" "made_of x tools b u d = None"
      by (auto simp: tool_of_def made_of_def)
    then obtain out where "tool_of x tools b u d = Inr (0, out)" by (auto simp: outcome_Image)
    with r(2) success_writes [OF writes] show ?thesis
      by (cases out) (auto simp: tool_of_def made_of_def made_by_def)
  next
    case put: (made s2 out)
    have "uri = uri' \<and> cd = Some uri'" using put(5) [symmetric] by (simp add: outcome_Image)
    with put mkdir_keeps(2) [OF put(1)] old(2) show ?thesis by (auto simp: fs_look_put split: if_splits)
  qed simp
  then obtain d' t' where dst: "fs_look (kf_fs st1) (dst_of tools b u) = Some (d', t')" "t < t'" by blast
  have "isNewer (fs_tick n (kf_fs st1)) (dst_of tools b u) (src_of b u) = Inr True"
    using dst src fs_exists_look [of "fs_tick n (kf_fs st1)" "dst_of tools b u"]
      fs_ctime_look [of "fs_tick n (kf_fs st1)"] by (simp add: isNewer_def)
  with again new src convert_image_run [OF plan, of "st1\<lparr>kf_fs := fs_tick n (kf_fs st1)\<rparr>" x cand2]
    fs_exists_look [of "fs_tick n (kf_fs st1)" "src_of b u"]
  show ?thesis by (auto simp: run_plan_def Let_def)
qed

theorem kf_build_settles_witness:
  "\<exists>st1 st2 uri. convert_image kf_x0 kf_t0 kf_b0 kf_st0 ''a.dot'' None None = (st1, Inr (Image uri (Some uri)))
     \<and> convert_image kf_x0 kf_t0 kf_b0 (st1\<lparr>kf_fs := fs_tick 2 (kf_fs st1)\<rparr>) ''a.dot'' None None
        = (st2, Inr (Image uri (Some uri)))
     \<and> kf_fs st2 = fs_tick 2 (kf_fs st1)"
proof -
  have old: "fs_look (kf_fs kf_st0) (src_of kf_b0 ''a.dot'') = Some (''g'', 1)" "1 < fs_clock (kf_fs kf_st0)"
    by code_simp+
  have "snd (convert_image kf_x0 kf_t0 kf_b0 kf_st0 ''a.dot'' None None) = Inr (Image ''i/a.svg'' (Some ''i/a.svg''))"
    by code_simp
  then obtain st1 where c: "convert_image kf_x0 kf_t0 kf_b0 kf_st0 ''a.dot'' None None
      = (st1, Inr (Image ''i/a.svg'' (Some ''i/a.svg'')))"
    by (cases "convert_image kf_x0 kf_t0 kf_b0 kf_st0 ''a.dot'' None None") auto
  obtain st2 r where c2: "convert_image kf_x0 kf_t0 kf_b0 (st1\<lparr>kf_fs := fs_tick 2 (kf_fs st1)\<rparr>) ''a.dot'' None None
      = (st2, r)" by fastforce
  from kf_build_settles [OF kf_start(1) kf_tools_write(1) kf_start(2) rtranclp.rtrancl_refl _ old c c2] c c2 show ?thesis by simp
qed

end
