(* ===== verification/KFigureDoc.thy ===== *)
theory KFigureDoc
  imports KFigure DocTree
begin

text \<open>
  \<open>Documentation/sphinx/kfigure.py\<close>, the directives \<open>kernel-image\<close>, \<open>kernel-figure\<close> and
  \<open>kernel-render\<close>, and the labels of figures. What docutils' own directives return and the nested
  parser are arguments.
\<close>

section \<open>kernel-image and kernel-figure\<close>

text \<open>The nodes docutils' directive returns: a system message or the image or figure.\<close>

datatype 'n base_node = SystemMessage string | BaseNode 'n

datatype 'n kernel_node = Passed "'n base_node" | Wrapped "'n base_node"

definition not_allowed :: "string \<Rightarrow> string \<Rightarrow> exn" where
  "not_allowed name uri =
     DocMessage Severe (''Error in \"'' @ name @ '': '' @ uri
       @ ''\": glob pattern and remote images are not allowed'')"

definition is_message :: "'n base_node \<Rightarrow> bool" where
  "is_message n = (case n of SystemMessage m \<Rightarrow> True | BaseNode k \<Rightarrow> False)"

text \<open>
  \<open>run\<close> of both directives; \<open>base_run\<close> is the inherited one. A list of two or one that starts with a
  message is passed on, else the single node is wrapped.
\<close>

definition kernel_wrap_run ::
  "string \<Rightarrow> (string \<Rightarrow> 'n base_node list res) \<Rightarrow> string \<Rightarrow> 'n kernel_node list res"
where
  "kernel_wrap_run name base_run uri =
     (if endswith uri ''.*'' \<or> py_find ''://'' uri \<noteq> None then Inl (not_allowed name uri)
      else rbind (base_run uri) (\<lambda>result.
        if length result = 2 then Inr (map Passed result)
        else case result of
               [] \<Rightarrow> Inl IndexError
             | n # ns \<Rightarrow>
                 if is_message n then Inr (map Passed result)
                 else if ns = [] then Inr [Wrapped n]
                 else Inl ValueError))"

definition KernelImage_run :: "(string \<Rightarrow> 'n base_node list res) \<Rightarrow> string \<Rightarrow> 'n kernel_node list res" where
  "KernelImage_run image_run uri = kernel_wrap_run ''kernel-image'' image_run uri"

definition KernelFigure_run :: "(string \<Rightarrow> 'n base_node list res) \<Rightarrow> string \<Rightarrow> 'n kernel_node list res" where
  "KernelFigure_run figure_run uri = kernel_wrap_run ''kernel-figure'' figure_run uri"

text \<open>A glob pattern or remote image is refused before docutils is asked; a single image is wrapped, and nothing else is.\<close>

lemma kernel_wrap_run_outcome:
  assumes "base_run uri = Inr [BaseNode n]"
  shows "kernel_wrap_run name base_run uri =
    (if endswith uri ''.*'' \<or> sublist ''://'' uri then Inl (not_allowed name uri) else Inr [Wrapped (BaseNode n)])"
  using assms py_find_None_iff [of "''://''" uri] by (simp add: kernel_wrap_run_def is_message_def)

lemma kernel_wrap_run_Wrapped:
  assumes "kernel_wrap_run name base_run uri = Inr ns" and "Wrapped m \<in> set ns"
  shows "ns = [Wrapped m] \<and> base_run uri = Inr [m] \<and> \<not> is_message m"
  using assms by (auto simp: kernel_wrap_run_def rbind_Inr_iff split: if_splits list.splits)

section \<open>kernel-render\<close>

record render_options =
  ro_alt :: "string option"
  ro_caption :: "string option"
  ro_others :: "(string \<times> string) list"

text \<open>
  A node the directive builds: the render node with its alternative text, language and literal code, alone
  or in a figure with the options and the caption's children.
\<close>

datatype 'c render_tree =
    RenderNode string string string
  | FigureNode "(string \<times> string) list" "'c render_tree" "'c list"

text \<open>What \<open>build_node\<close> returns: a list with a warning, or a node.\<close>

datatype 'c built = WarningList string | Built "'c render_tree"

definition render_langs :: "string list" where
  "render_langs = map fst render_markup_ext"

definition figure_options :: "render_options \<Rightarrow> (string \<times> string) list" where
  "figure_options opts =
     (case ro_alt opts of None \<Rightarrow> [] | Some a \<Rightarrow> [(''alt'', a)])
     @ (case ro_caption opts of None \<Rightarrow> [] | Some c \<Rightarrow> [(''caption'', c)]) @ ro_others opts"

definition build_node ::
  "string \<Rightarrow> (string \<Rightarrow> 'c list list) \<Rightarrow> render_options \<Rightarrow> string \<Rightarrow> string list \<Rightarrow> 'c built res"
where
  "build_node name nested_parse opts arg content_lines =
     (let srclang = strip_by is_space_text arg;
          code = py_join ''\<newline>'' content_lines
      in if srclang \<notin> set render_langs
         then Inr (WarningList (''Unknow source language \"'' @ srclang @ ''\", use one of: ''
                @ py_join '','' render_langs @ ''.''))
         else if strip_by is_space_text code = []
         then Inr (WarningList (''Ignoring \"'' @ name @ ''\" directive without content.''))
         else
           let node = RenderNode (case ro_alt opts of None \<Rightarrow> [] | Some a \<Rightarrow> a) srclang code in
           case ro_caption opts of
             None \<Rightarrow> Inr (Built node)
           | Some c \<Rightarrow>
               if c = [] then Inr (Built node)
               else (case nested_parse c of
                       [] \<Rightarrow> Inl IndexError
                     | p # ps \<Rightarrow> Inr (Built (FigureNode (figure_options opts) node p))))"

definition render_run ::
  "string \<Rightarrow> (string \<Rightarrow> 'c list list) \<Rightarrow> render_options \<Rightarrow> string \<Rightarrow> string list \<Rightarrow> 'c built list res"
where
  "render_run name nested_parse opts arg content_lines =
     rbind (build_node name nested_parse opts arg content_lines) (\<lambda>r. Inr [r])"

section \<open>Labels of figures\<close>

text \<open>A node of the document: its tag name and its text.\<close>

type_synonym doc_node = "(string \<times> string) tree"

definition tagname :: "doc_node \<Rightarrow> string" where
  "tagname n = fst (kind n)"

fun first_caption :: "doc_node list \<Rightarrow> doc_node option" where
  "first_caption [] = None"
| "first_caption (n # ns) = (if tagname n = ''caption'' then Some n else first_caption ns)"

record doc_names =
  dn_nametypes :: "(string \<times> bool) list"
  dn_nameids :: "string \<rightharpoonup> string option"
  dn_ids :: "string \<rightharpoonup> doc_node"

type_synonym labels = "string \<rightharpoonup> string \<times> string \<times> string"

text \<open>
  One round of the loop. \<open>node.next_node()\<close> is the node after \<open>node\<close> in document order, its first
  child; iterating over it gives that child's children.
\<close>

definition label_step ::
  "(doc_node \<Rightarrow> string) \<Rightarrow> string \<Rightarrow> doc_names \<Rightarrow> string \<times> bool \<Rightarrow> labels \<Rightarrow> labels res"
where
  "label_step clean_astext docname doc entry labels =
     (let (name, explicit) = entry in
      if \<not> explicit then Inr labels
      else case dn_nameids doc name of
             None \<Rightarrow> Inl (KeyError name)
           | Some None \<Rightarrow> Inr labels
           | Some (Some labelid) \<Rightarrow>
               (case dn_ids doc labelid of
                  None \<Rightarrow> Inl (KeyError labelid)
                | Some node \<Rightarrow>
                    if tagname node = ''kernel_figure'' then
                      (case kids node of
                         [] \<Rightarrow> Inl (OtherError ''TypeError'')
                       | fig # rest \<Rightarrow>
                           (case first_caption (kids fig) of
                              None \<Rightarrow> Inr labels
                            | Some cap \<Rightarrow> Inr (labels(name \<mapsto> (docname, labelid, clean_astext cap)))))
                    else Inr labels))"

fun add_labels ::
  "(doc_node \<Rightarrow> string) \<Rightarrow> string \<Rightarrow> doc_names \<Rightarrow> (string \<times> bool) list \<Rightarrow> labels \<Rightarrow> labels res"
where
  "add_labels clean_astext docname doc [] labels = Inr labels"
| "add_labels clean_astext docname doc (e # es) labels =
     rbind (label_step clean_astext docname doc e labels) (add_labels clean_astext docname doc es)"

definition add_kernel_figure_to_std_domain ::
  "(doc_node \<Rightarrow> string) \<Rightarrow> string \<Rightarrow> doc_names \<Rightarrow> labels \<Rightarrow> labels res"
where
  "add_kernel_figure_to_std_domain clean_astext docname doc labels =
     add_labels clean_astext docname doc (dn_nametypes doc) labels"

section \<open>Lemmas\<close>

text \<open>The label a name gets, if its target is a figure with a caption.\<close>

definition figure_label ::
  "(doc_node \<Rightarrow> string) \<Rightarrow> string \<Rightarrow> doc_names \<Rightarrow> string \<Rightarrow> (string \<times> string \<times> string) option"
where
  "figure_label clean_astext docname doc name =
     Option.bind (Option.bind (dn_nameids doc name) id) (\<lambda>labelid.
     Option.bind (dn_ids doc labelid) (\<lambda>node.
       if tagname node = ''kernel_figure'' \<and> kids node \<noteq> []
       then map_option (\<lambda>cap. (docname, labelid, clean_astext cap)) (first_caption (kids (hd (kids node))))
       else None))"

definition consistent :: "doc_names \<Rightarrow> bool" where
  "consistent doc \<longleftrightarrow> (\<forall>(name, explicit) \<in> set (dn_nametypes doc). explicit \<longrightarrow>
     (case dn_nameids doc name of
        None \<Rightarrow> False
      | Some None \<Rightarrow> True
      | Some (Some i) \<Rightarrow>
          (case dn_ids doc i of None \<Rightarrow> False
           | Some n \<Rightarrow> tagname n = ''kernel_figure'' \<longrightarrow> kids n \<noteq> [])))"

lemma label_step_figure:
  assumes "consistent doc" and "(name, explicit) \<in> set (dn_nametypes doc)"
  shows "label_step c docname doc (name, explicit) labels = Inr
     (case (if explicit then figure_label c docname doc name else None) of
        None \<Rightarrow> labels | Some l \<Rightarrow> labels(name \<mapsto> l))"
proof (cases explicit)
  case False
  then show ?thesis by (simp add: label_step_def)
next
  case True
  with assms obtain i where i: "dn_nameids doc name = Some i"
    by (fastforce simp: consistent_def split: option.splits)
  show ?thesis
  proof (cases i)
    case None
    with True i show ?thesis by (simp add: label_step_def figure_label_def)
  next
    case (Some labelid)
    with True i assms obtain n where "dn_ids doc labelid = Some n"
      and "tagname n = ''kernel_figure'' \<longrightarrow> kids n \<noteq> []"
      by (fastforce simp: consistent_def split: option.splits)
    with True i Some show ?thesis
      by (cases "kids n") (auto simp: label_step_def figure_label_def split: option.split)
  qed
qed

lemma add_labels_effect:
  assumes "consistent doc" and "set es \<subseteq> set (dn_nametypes doc)"
  shows "\<exists>labels'. add_labels c docname doc es labels = Inr labels' \<and>
     (\<forall>name. labels' name =
        (if (name, True) \<in> set es \<and> figure_label c docname doc name \<noteq> None
         then figure_label c docname doc name else labels name))"
  using assms(2)
proof (induction es arbitrary: labels)
  case Nil
  then show ?case by simp
next
  case (Cons e es)
  obtain name explicit where e: "e = (name, explicit)" by (cases e)
  let ?l = "case (if explicit then figure_label c docname doc name else None) of
        None \<Rightarrow> labels | Some l \<Rightarrow> labels(name \<mapsto> l)"
  have "label_step c docname doc e labels = Inr ?l"
    using label_step_figure [OF assms(1)] Cons.prems e by simp
  moreover obtain labels' where l: "add_labels c docname doc es ?l = Inr labels'"
    "\<forall>n. labels' n = (if (n, True) \<in> set es \<and> figure_label c docname doc n \<noteq> None
         then figure_label c docname doc n else ?l n)"
    using Cons.IH [of ?l] Cons.prems by auto
  ultimately have "add_labels c docname doc (e # es) labels = Inr labels'" by simp
  moreover have "labels' n = (if (n, True) \<in> set (e # es) \<and> figure_label c docname doc n \<noteq> None
         then figure_label c docname doc n else labels n)" for n
    using l(2) e by (auto split: option.splits)
  ultimately show ?case by blast
qed

text \<open>
  The same without the code's search: a name leads to a figure node whose first child has the caption as its
  first child with that tag.
\<close>

definition captioned :: "doc_names \<Rightarrow> string \<Rightarrow> string \<Rightarrow> doc_node \<Rightarrow> bool" where
  "captioned doc name labelid cap \<longleftrightarrow>
     (\<exists>node fig more before after. dn_nameids doc name = Some (Some labelid) \<and> dn_ids doc labelid = Some node
        \<and> tagname node = ''kernel_figure'' \<and> kids node = fig # more \<and> kids fig = before @ cap # after
        \<and> tagname cap = ''caption'' \<and> (\<forall>n \<in> set before. tagname n \<noteq> ''caption''))"

lemma first_caption_iff:
  "first_caption ns = Some cap \<longleftrightarrow>
     (\<exists>before after. ns = before @ cap # after \<and> tagname cap = ''caption''
        \<and> (\<forall>n \<in> set before. tagname n \<noteq> ''caption''))"
proof (induction ns)
  case (Cons n ns)
  show ?case
  proof (cases "tagname n = ''caption''")
    case True
    then show ?thesis by (auto simp: Cons_eq_append_conv)
  next
    case False
    have "(\<exists>before after. n # ns = before @ cap # after \<and> tagname cap = ''caption''
        \<and> (\<forall>m \<in> set before. tagname m \<noteq> ''caption''))
      \<longleftrightarrow> (\<exists>before after. ns = before @ cap # after \<and> tagname cap = ''caption''
        \<and> (\<forall>m \<in> set before. tagname m \<noteq> ''caption''))" (is "?l \<longleftrightarrow> ?r")
    proof
      assume ?l
      then obtain before after where b: "n # ns = before @ cap # after" "tagname cap = ''caption''"
        "\<forall>m \<in> set before. tagname m \<noteq> ''caption''" by blast
      with False obtain before' where "before = n # before'" by (cases before) auto
      with b show ?r by auto
    next
      assume ?r
      then obtain before after where "ns = before @ cap # after" "tagname cap = ''caption''"
        "\<forall>m \<in> set before. tagname m \<noteq> ''caption''" by blast
      with False show ?l by (intro exI [of _ "n # before"] exI [of _ after]) simp
    qed
    with Cons.IH False show ?thesis by simp
  qed
qed simp

lemma figure_label_captioned:
  "figure_label c docname doc name = Some l \<longleftrightarrow>
     (\<exists>labelid cap. captioned doc name labelid cap \<and> l = (docname, labelid, c cap))"
proof -
  have "figure_label c docname doc name = Some l \<longleftrightarrow>
      (\<exists>labelid node fig more cap. dn_nameids doc name = Some (Some labelid) \<and> dn_ids doc labelid = Some node
        \<and> tagname node = ''kernel_figure'' \<and> kids node = fig # more \<and> first_caption (kids fig) = Some cap
        \<and> l = (docname, labelid, c cap))"
    (is "?l \<longleftrightarrow> ?r")
  proof
    assume ?l
    then show ?r by (auto simp: figure_label_def bind_eq_Some_conv neq_Nil_conv split: if_splits)
  qed (auto simp: figure_label_def)
  also have "\<dots> \<longleftrightarrow> (\<exists>labelid cap. captioned doc name labelid cap \<and> l = (docname, labelid, c cap))"
    by (simp add: captioned_def first_caption_iff) blast
  finally show ?thesis .
qed

section \<open>Properties\<close>

text \<open>
  C21. After a document is read, when every explicit name has its identifier and node: each explicit name of
  a \<open>kernel_figure\<close> whose first child has a child \<open>caption\<close> is a label for that identifier with the text of
  the first such child, and all other labels are as before.
\<close>

theorem kf_labels:
  assumes "consistent doc"
  shows "\<exists>labels'. add_kernel_figure_to_std_domain c docname doc labels = Inr labels' \<and>
     (\<forall>name labelid cap. (name, True) \<in> set (dn_nametypes doc) \<longrightarrow> captioned doc name labelid cap \<longrightarrow>
        labels' name = Some (docname, labelid, c cap))
     \<and> (\<forall>name. (name, True) \<notin> set (dn_nametypes doc) \<or> (\<forall>labelid cap. \<not> captioned doc name labelid cap) \<longrightarrow>
        labels' name = labels name)"
proof -
  obtain labels' where l: "add_kernel_figure_to_std_domain c docname doc labels = Inr labels'"
    "\<forall>name. labels' name =
        (if (name, True) \<in> set (dn_nametypes doc) \<and> figure_label c docname doc name \<noteq> None
         then figure_label c docname doc name else labels name)"
    using add_labels_effect [OF assms order_refl] unfolding add_kernel_figure_to_std_domain_def by blast
  have "labels' name = labels name" if "\<forall>labelid cap. \<not> captioned doc name labelid cap" for name
    using l(2) that figure_label_captioned [of c docname doc name] by auto
  with l figure_label_captioned show ?thesis by (intro exI [of _ labels']) auto
qed

definition doc_example :: doc_names where
  "doc_example = \<lparr>dn_nametypes = [(''fig'', True), (''sec'', False)],
     dn_nameids = [''fig'' \<mapsto> Some ''id1''],
     dn_ids = [''id1'' \<mapsto> Nd (''kernel_figure'', []) [Nd (''figure'', [])
        [Nd (''image'', []) [], Nd (''caption'', ''A figure'') [], Nd (''caption'', ''Another'') []]]]\<rparr>"

theorem kf_labels_witness:
  "\<exists>labels'. add_kernel_figure_to_std_domain (\<lambda>n. snd (kind n)) ''d'' doc_example Map.empty = Inr labels'
     \<and> labels' ''fig'' = Some (''d'', ''id1'', ''A figure'') \<and> labels' ''sec'' = None"
proof -
  have d: "consistent doc_example"
    by (simp add: consistent_def doc_example_def)
  have c: "captioned doc_example ''fig'' ''id1'' (Nd (''caption'', ''A figure'') [])"
    unfolding captioned_def
    by (intro exI [of _ "Nd (''kernel_figure'', []) [Nd (''figure'', [])
          [Nd (''image'', []) [], Nd (''caption'', ''A figure'') [], Nd (''caption'', ''Another'') []]]"]
        exI [of _ "Nd (''figure'', []) [Nd (''image'', []) [], Nd (''caption'', ''A figure'') [], Nd (''caption'', ''Another'') []]"]
        exI [of _ "[]"] exI [of _ "[Nd (''image'', []) []]"] exI [of _ "[Nd (''caption'', ''Another'') []]"])
      (simp add: doc_example_def tagname_def)
  have n: "(''fig'', True) \<in> set (dn_nametypes doc_example)" "(''sec'', True) \<notin> set (dn_nametypes doc_example)"
    by (simp_all add: doc_example_def)
  from kf_labels [OF d, of "\<lambda>n. snd (kind n)" "''d''" Map.empty] c n show ?thesis by fastforce
qed

text \<open>
  C26. \<open>kernel-render\<close> returns a node exactly for a known language and a content that is not blank; in the
  other cases the list it returns holds, instead of the warning, a list with the warning.
\<close>

theorem kf_render_result:
  assumes "\<And>c. c \<noteq> [] \<Longrightarrow> nested_parse c \<noteq> []"
  shows "\<exists>r. render_run name nested_parse opts arg ls = Inr [r] \<and>
     ((\<exists>m. r = WarningList m) \<longleftrightarrow>
        strip_by is_space_text arg \<notin> {''DOT'', ''SVG''} \<or> strip_by is_space_text (py_join ''\<newline>'' ls) = [])
     \<and> (\<forall>n. r = Built n \<longrightarrow>
          (let rn = RenderNode (case ro_alt opts of None \<Rightarrow> [] | Some a \<Rightarrow> a)
                      (strip_by is_space_text arg) (py_join ''\<newline>'' ls)
           in case ro_caption opts of
                Some (c # cs) \<Rightarrow> n = FigureNode (figure_options opts) rn (hd (nested_parse (c # cs)))
              | _ \<Rightarrow> n = rn))"
proof -
  have langs: "set render_langs = {''DOT'', ''SVG''}" by (auto simp: render_langs_def render_markup_ext_def)
  show ?thesis
  proof (cases "ro_caption opts")
    case None
    then show ?thesis by (auto simp: render_run_def build_node_def langs Let_def)
  next
    case (Some c)
    then show ?thesis
      using assms [of c]
      by (cases c; cases "nested_parse c") (auto simp: render_run_def build_node_def langs Let_def)
  qed
qed

theorem kf_render_result_witness:
  "\<exists>m. render_run ''kernel-render'' (\<lambda>c. [[c]]) \<lparr>ro_alt = None, ro_caption = None, ro_others = []\<rparr> ''PNG'' [''x'']
     = Inr [WarningList m]"
proof -
  have s: "strip_by is_space_text ''PNG'' = ''PNG''" by code_simp
  then show ?thesis
    using kf_render_result [of "\<lambda>c. [[c]]" "''kernel-render''" "\<lparr>ro_alt = None, ro_caption = None, ro_others = []\<rparr>"
        "''PNG''" "[''x'']"]
    by auto
qed

end
