(* ===== verification/KFigureRender.thy ===== *)
theory KFigureRender
  imports KFigureSpec KFigureDoc
begin

text \<open>
  Pages with rendered markup: the steps of \<open>KFigureBuild\<close> interleaved with the visits of \<open>kernel-render\<close>
  nodes, which save the markup of a directive under a name made from its language and digest and convert that
  file. A page shows the markup of the directive and the current sources of its images.
\<close>

section \<open>The files of a render node\<close>

text \<open>Whether a node is rendered at all, the file its markup is saved in, its uri, and the file made from it.\<close>

definition rendered :: "kf_tools \<Rightarrow> render_node \<Rightarrow> bool" where
  "rendered tools n \<longleftrightarrow>
     (case map_of render_markup_ext (rn_srclang n) of
        None \<Rightarrow> False
      | Some ext \<Rightarrow> \<not> ((dot_cmd tools = None \<or> dot_cmd tools = Some []) \<and> ext = ''.dot''))"

definition render_name :: "(string \<Rightarrow> string) \<Rightarrow> render_node \<Rightarrow> string" where
  "render_name sha1hex n =
     (rn_srclang n @ ''-'' @ sha1hex (rn_code n)) @ the (map_of render_markup_ext (rn_srclang n))"

definition render_tmp :: "(string \<Rightarrow> string) \<Rightarrow> kf_builder \<Rightarrow> render_node \<Rightarrow> string" where
  "render_tmp sha1hex b n = path_join (path_join (kb_outdir b) (kb_imagedir b)) (render_name sha1hex n)"

definition render_uri :: "(string \<Rightarrow> string) \<Rightarrow> kf_builder \<Rightarrow> render_node \<Rightarrow> string" where
  "render_uri sha1hex b n = path_join (kb_imgpath b) (render_name sha1hex n)"

definition render_dst :: "(string \<Rightarrow> string) \<Rightarrow> kf_tools \<Rightarrow> kf_builder \<Rightarrow> render_node \<Rightarrow> string" where
  "render_dst sha1hex tools b n = dst_of tools b (render_uri sha1hex b n)"

definition render_converted :: "(string \<Rightarrow> string) \<Rightarrow> kf_tools \<Rightarrow> kf_builder \<Rightarrow> render_node \<Rightarrow> bool" where
  "render_converted sha1hex tools b n \<longleftrightarrow> converted tools b (render_uri sha1hex b n)"

definition render_made ::
  "kf_extern \<Rightarrow> (string \<Rightarrow> string) \<Rightarrow> kf_tools \<Rightarrow> kf_builder \<Rightarrow> render_node \<Rightarrow> string \<Rightarrow> string option"
where
  "render_made x sha1hex tools b n =
     made_by x tools (ext_of (render_uri sha1hex b n)) (render_tmp sha1hex b n) (render_dst sha1hex tools b n)"

definition render_files :: "(string \<Rightarrow> string) \<Rightarrow> kf_tools \<Rightarrow> kf_builder \<Rightarrow> render_node \<Rightarrow> string list" where
  "render_files sha1hex tools b n =
     (if \<not> rendered tools n then []
      else render_tmp sha1hex b n # (if render_converted sha1hex tools b n then [render_dst sha1hex tools b n] else []))"

text \<open>The file that shows a node, and what is to be in it.\<close>

definition render_shown ::
  "kf_extern \<Rightarrow> (string \<Rightarrow> string) \<Rightarrow> kf_tools \<Rightarrow> kf_builder \<Rightarrow> render_node \<Rightarrow> string \<times> string option"
where
  "render_shown x sha1hex tools b n =
     (if render_converted sha1hex tools b n
      then (render_dst sha1hex tools b n, render_made x sha1hex tools b n (rn_code n))
      else (render_tmp sha1hex b n, Some (rn_code n)))"

text \<open>
  The layout of a page: all files that are written are different, none is a source and none is on the way to
  another. For two nodes of one language this says that the digests of their markup differ.
\<close>

definition outputs ::
  "(string \<Rightarrow> string) \<Rightarrow> kf_tools \<Rightarrow> kf_builder \<Rightarrow> string list \<Rightarrow> render_node list \<Rightarrow> string list"
where
  "outputs sha1hex tools b us ns =
     List.map (dst_of tools b) (remdups us) @ concat (List.map (render_files sha1hex tools b) (remdups ns))"

definition page_layout ::
  "(string \<Rightarrow> string) \<Rightarrow> kf_tools \<Rightarrow> kf_builder \<Rightarrow> string list \<Rightarrow> render_node list \<Rightarrow> bool"
where
  "page_layout sha1hex tools b us ns \<longleftrightarrow>
     (let fs = outputs sha1hex tools b us ns in
      list_all (converted tools b) us \<and> distinct fs
      \<and> list_all (\<lambda>f. f \<notin> set (List.map (src_of b) us) \<and> list_all (\<lambda>g. \<not> prefix f (dirname g)) fs) fs)"

section \<open>What the directive hands over\<close>

text \<open>The render node in what the directive builds, alone or in a figure.\<close>

fun markup_of :: "'c render_tree \<Rightarrow> render_node" where
  "markup_of (RenderNode alt lang code) = \<lparr>rn_srclang = lang, rn_code = code\<rparr>"
| "markup_of (FigureNode opts node caption) = markup_of node"

text \<open>The visitor's branch for an unknown language is never taken for a node of the directive.\<close>

lemma directive_node:
  assumes "render_run name nested_parse opts arg content_lines = Inr [Built t]"
  shows "rn_code (markup_of t) = py_join ''\<newline>'' content_lines"
    and "rn_srclang (markup_of t) \<in> {''DOT'', ''SVG''}"
    and "rendered tools (markup_of t) \<longleftrightarrow>
      rn_srclang (markup_of t) = ''SVG'' \<or> dot_cmd tools \<noteq> None \<and> dot_cmd tools \<noteq> Some []"
proof -
  have t: "markup_of t = \<lparr>rn_srclang = strip_by is_space_text arg, rn_code = py_join ''\<newline>'' content_lines\<rparr>
      \<and> strip_by is_space_text arg \<in> set render_langs"
    using assms
    by (auto simp: render_run_def build_node_def Let_def rbind_Inr_iff split: if_splits option.splits list.splits)
  then show "rn_code (markup_of t) = py_join ''\<newline>'' content_lines" by simp
  show l: "rn_srclang (markup_of t) \<in> {''DOT'', ''SVG''}"
    using t by (simp add: render_langs_def render_markup_ext_def)
  show "rendered tools (markup_of t) \<longleftrightarrow>
      rn_srclang (markup_of t) = ''SVG'' \<or> dot_cmd tools \<noteq> None \<and> dot_cmd tools \<noteq> Some []"
    using l by (auto simp: rendered_def render_markup_ext_def)
qed

section \<open>Steps of a page\<close>

inductive page_step ::
  "kf_extern \<Rightarrow> (string \<Rightarrow> string) \<Rightarrow> kf_tools \<Rightarrow> kf_builder \<Rightarrow> string list \<Rightarrow> render_node list
   \<Rightarrow> kf_state \<Rightarrow> kf_state \<Rightarrow> bool"
  for x sha1hex tools b us ns where
  image: "kf_step x tools b us st st' \<Longrightarrow> page_step x sha1hex tools b us ns st st'"
| render: "n \<in> set ns \<Longrightarrow> visit_kernel_render x sha1hex tools b st n = (st', r) \<Longrightarrow>
    page_step x sha1hex tools b us ns st st'"

inductive_cases page_stepE: "page_step x sha1hex tools b us ns st st'"

text \<open>
  At the start the files of the nodes are absent, or left by an earlier build: markup that was saved under the
  name of its digest, and an output no newer than it.
\<close>

definition page_fresh ::
  "(string \<Rightarrow> string) \<Rightarrow> kf_tools \<Rightarrow> kf_builder \<Rightarrow> string list \<Rightarrow> render_node list \<Rightarrow> store \<Rightarrow> bool"
where
  "page_fresh sha1hex tools b us ns s \<longleftrightarrow>
     fresh tools b us s \<and>
     list_all (\<lambda>n. rendered tools n \<longrightarrow>
       (fs_exists s (render_tmp sha1hex b n) \<longrightarrow> map_option fst (fs_look s (render_tmp sha1hex b n)) = Some (rn_code n))
       \<and> (render_converted sha1hex tools b n \<longrightarrow> not_newer s (render_dst sha1hex tools b n) (render_tmp sha1hex b n))) ns"

text \<open>The saved markup is the node's, and what was made from it is in order.\<close>

definition render_ok ::
  "kf_extern \<Rightarrow> (string \<Rightarrow> string) \<Rightarrow> kf_tools \<Rightarrow> kf_builder \<Rightarrow> store \<Rightarrow> render_node \<Rightarrow> bool"
where
  "render_ok x sha1hex tools b s n \<longleftrightarrow>
     (fs_exists s (render_tmp sha1hex b n) \<longrightarrow> (\<exists>t. fs_look s (render_tmp sha1hex b n) = Some (rn_code n, t)))
     \<and> (render_converted sha1hex tools b n \<longrightarrow>
          made_ok (render_made x sha1hex tools b n) s (render_tmp sha1hex b n) (render_dst sha1hex tools b n))"

definition render_inv ::
  "kf_extern \<Rightarrow> (string \<Rightarrow> string) \<Rightarrow> kf_tools \<Rightarrow> kf_builder \<Rightarrow> render_node list \<Rightarrow> store \<Rightarrow> bool"
where
  "render_inv x sha1hex tools b ns s \<longleftrightarrow> (\<forall>n \<in> set ns. rendered tools n \<longrightarrow> render_ok x sha1hex tools b s n)"

section \<open>The layout\<close>

lemma concat_map_apart:
  "distinct (concat (List.map h ns)) \<Longrightarrow> n \<in> set ns \<Longrightarrow> m \<in> set ns \<Longrightarrow> n \<noteq> m \<Longrightarrow> set (h n) \<inter> set (h m) = {}"
  by (induction ns) auto

lemma page_layoutD:
  assumes "page_layout sha1hex tools b us ns"
  shows "distinct (outputs sha1hex tools b us ns)"
    and "f \<in> set (outputs sha1hex tools b us ns) \<Longrightarrow> u \<in> set us \<Longrightarrow> f \<noteq> src_of b u"
    and "f \<in> set (outputs sha1hex tools b us ns) \<Longrightarrow> g \<in> set (outputs sha1hex tools b us ns) \<Longrightarrow> \<not> prefix f (dirname g)"
    and "u \<in> set us \<Longrightarrow> converted tools b u"
  using assms by (auto simp: page_layout_def Let_def list_all_iff)

lemma outputs_mem:
  "u \<in> set us \<Longrightarrow> dst_of tools b u \<in> set (outputs sha1hex tools b us ns)"
  "n \<in> set ns \<Longrightarrow> f \<in> set (render_files sha1hex tools b n) \<Longrightarrow> f \<in> set (outputs sha1hex tools b us ns)"
  by (auto simp: outputs_def)

lemma page_layout_ok:
  assumes "page_layout sha1hex tools b us ns"
  shows "layout_ok tools b us"
proof -
  have "inj_on (dst_of tools b) (set us)"
    using page_layoutD(1) [OF assms] by (simp add: outputs_def distinct_map)
  moreover have "src_of b u \<noteq> dst_of tools b v" "\<not> prefix (dst_of tools b u) (dirname (dst_of tools b v))"
    if "u \<in> set us" "v \<in> set us" for u v
    using page_layoutD(2,3) [OF assms outputs_mem(1)] outputs_mem(1) that by metis+
  ultimately show ?thesis
    using page_layoutD(4) [OF assms] by (auto simp: layout_ok_def list_all_iff inj_on_def)
qed

lemma render_files_apart:
  assumes "page_layout sha1hex tools b us ns" and "n \<in> set ns" and "f \<in> set (render_files sha1hex tools b n)"
  shows "u \<in> set us \<Longrightarrow> f \<noteq> dst_of tools b u"
    and "m \<in> set ns \<Longrightarrow> m \<noteq> n \<Longrightarrow> f \<notin> set (render_files sha1hex tools b m)"
  using page_layoutD(1) [OF assms(1)] assms(2,3) concat_map_apart [of "render_files sha1hex tools b" "remdups ns" n m]
  by (auto simp: outputs_def)

lemma render_files_own:
  assumes "page_layout sha1hex tools b us ns" and "n \<in> set ns" and "rendered tools n"
    and "render_converted sha1hex tools b n"
  shows "render_tmp sha1hex b n \<noteq> render_dst sha1hex tools b n"
proof -
  have "distinct (concat (List.map (render_files sha1hex tools b) (remdups ns)))"
    using page_layoutD(1) [OF assms(1)] by (simp add: outputs_def)
  then have "distinct (render_files sha1hex tools b n)" using assms(2) by (auto simp: distinct_concat_iff)
  with assms(3,4) show ?thesis by (simp add: render_files_def)
qed

section \<open>Frames\<close>

lemma render_ok_frame:
  assumes "render_ok x sha1hex tools b s n" and "rendered tools n"
    and "\<And>f. f \<in> set (render_files sha1hex tools b n) \<Longrightarrow> fs_entries s' f = fs_entries s f"
  shows "render_ok x sha1hex tools b s' n"
proof -
  have t: "fs_entries s' (render_tmp sha1hex b n) = fs_entries s (render_tmp sha1hex b n)"
    using assms(2,3) by (simp add: render_files_def)
  have d: "render_converted sha1hex tools b n \<Longrightarrow>
      fs_entries s' (render_dst sha1hex tools b n) = fs_entries s (render_dst sha1hex tools b n)"
    using assms(2,3) by (simp add: render_files_def)
  show ?thesis
    using assms(1) look_entries [OF t] exists_entries [OF t] made_ok_frame [OF _ look_entries [OF t] d]
    by (auto simp: render_ok_def)
qed

text \<open>A step that concerns one node.\<close>

lemma render_inv_step:
  assumes inv: "render_inv x sha1hex tools b ns s" and lay: "page_layout sha1hex tools b us ns" and n: "n \<in> set ns"
    and g: "g \<in> set (render_files sha1hex tools b n)" and own: "render_ok x sha1hex tools b s' n"
    and other: "\<And>f. f \<noteq> g \<Longrightarrow> \<not> prefix f (dirname g) \<Longrightarrow> fs_entries s' f = fs_entries s f"
  shows "render_inv x sha1hex tools b ns s'"
  unfolding render_inv_def
proof (intro ballI impI)
  fix m assume m: "m \<in> set ns" "rendered tools m"
  show "render_ok x sha1hex tools b s' m"
  proof (cases "m = n")
    case False
    have "render_ok x sha1hex tools b s m" using inv m by (simp add: render_inv_def)
    then show ?thesis
    proof (rule render_ok_frame [OF _ m(2)])
      fix f assume f: "f \<in> set (render_files sha1hex tools b m)"
      have "f \<noteq> g" using render_files_apart(2) [OF lay n g m(1) False] f by blast
      moreover have "\<not> prefix f (dirname g)"
        by (rule page_layoutD(3) [OF lay outputs_mem(2) [OF m(1) f] outputs_mem(2) [OF n g]])
      ultimately show "fs_entries s' f = fs_entries s f" by (rule other)
    qed
  qed (simp add: own)
qed

lemma kf_inv_frame:
  assumes "kf_inv x tools b us s" and "fs_valid s'"
    and "\<And>u. u \<in> set us \<Longrightarrow> fs_look s' (src_of b u) = fs_look s (src_of b u)"
    and "\<And>u. u \<in> set us \<Longrightarrow> fs_entries s' (dst_of tools b u) = fs_entries s (dst_of tools b u)"
  shows "kf_inv x tools b us s'"
  using assms made_ok_frame unfolding kf_inv_def fs_isfile_def by metis

lemma kf_step_entries:
  assumes "kf_step x tools b us st st'" and "kf_inv x tools b us (kf_fs st)" and "layout_ok tools b us"
    and "convert_writes x"
    and "\<And>u. u \<in> set us \<Longrightarrow> f \<noteq> src_of b u \<and> f \<noteq> dst_of tools b u \<and> \<not> prefix f (dirname (dst_of tools b u))"
  shows "fs_entries (kf_fs st') f = fs_entries (kf_fs st) f"
  using assms(1)
proof (elim kf_stepE)
  fix u d s assume "st' = st\<lparr>kf_fs := s\<rparr>" "u \<in> set us" "fs_put (src_of b u) d (kf_fs st) = Inr s"
  then show ?thesis using assms(5) by (auto simp: fs_put_Inr)
next
  fix u cand r assume "u \<in> set us" "convert_image x tools b st u cand None = (st', r)"
  then show ?thesis using convert_step(3) [OF assms(2,3) _ assms(4)] assms(5) by blast
qed (simp add: fs_tick_def)

section \<open>A visit\<close>

text \<open>The file of the markup, before it is converted.\<close>

definition save_markup :: "(string \<Rightarrow> string) \<Rightarrow> kf_builder \<Rightarrow> render_node \<Rightarrow> store \<Rightarrow> store res" where
  "save_markup sha1hex b n s =
     (if \<not> fs_isfile s (render_tmp sha1hex b n)
      then rbind (mkdir (dirname (render_tmp sha1hex b n)) s) (fs_put (render_tmp sha1hex b n) (rn_code n))
      else Inr s)"

lemma visit_not_rendered:
  assumes "\<not> rendered tools n" and "visit_kernel_render x sha1hex tools b st n = (st', r)"
  shows "kf_fs st' = kf_fs st" and "r = Inr (LiteralText (rn_code n))"
  using assms by (auto simp: rendered_def visit_kernel_render_def Let_def split: option.splits if_splits)

lemma visit_rendered:
  assumes "rendered tools n" and "visit_kernel_render x sha1hex tools b st n = (st', r)"
  obtains (unsaved) e where "r = Inl e" and "kf_fs st' = kf_fs st"
  | (saved) s1 st1 where "save_markup sha1hex b n (kf_fs st) = Inr s1" and "kf_fs st1 = s1"
      and "convert_image x tools b st1 (render_uri sha1hex b n) (Some (render_uri sha1hex b n))
             (Some (render_tmp sha1hex b n)) = (st', r)"
proof -
  obtain ext where ext: "map_of render_markup_ext (rn_srclang n) = Some ext"
    and dot: "\<not> ((dot_cmd tools = None \<or> dot_cmd tools = Some []) \<and> ext = ''.dot'')"
    using assms(1) by (auto simp: rendered_def split: option.splits)
  define st0 where "st0 = verbose (''visit kernel-render node lang: \"'' @ rn_srclang n @ ''\"'') st"
  have fs: "kf_fs st0 = kf_fs st" by (simp add: st0_def)
  have v: "(case save_markup sha1hex b n (kf_fs st) of
      Inl e \<Rightarrow> (st0, Inl e)
    | Inr s \<Rightarrow> convert_image x tools b (st0\<lparr>kf_fs := s\<rparr>) (render_uri sha1hex b n) (Some (render_uri sha1hex b n))
        (Some (render_tmp sha1hex b n))) = (st', r)"
    using assms(2)
    unfolding visit_kernel_render_def Let_def st0_def [symmetric] ext option.case if_not_P [OF dot] fs
      save_markup_def render_tmp_def render_uri_def render_name_def option.sel append_assoc .
  show thesis
  proof (cases "save_markup sha1hex b n (kf_fs st)")
    case (Inl e)
    with v fs show thesis by (intro unsaved [of e]) auto
  next
    case (Inr s)
    with v show thesis by (intro saved [of s "st0\<lparr>kf_fs := s\<rparr>"]) auto
  qed
qed

lemma save_markup_effect:
  assumes ok: "render_ok x sha1hex tools b s n" and valid: "fs_valid s" and run: "save_markup sha1hex b n s = Inr s1"
    and apart: "render_converted sha1hex tools b n \<Longrightarrow> render_tmp sha1hex b n \<noteq> render_dst sha1hex tools b n
      \<and> \<not> prefix (render_dst sha1hex tools b n) (dirname (render_tmp sha1hex b n))"
  shows "fs_valid s1" and "render_ok x sha1hex tools b s1 n"
    and "\<exists>t. fs_look s1 (render_tmp sha1hex b n) = Some (rn_code n, t)"
    and "f \<noteq> render_tmp sha1hex b n \<Longrightarrow> fs_look s1 f = fs_look s f"
    and "f \<noteq> render_tmp sha1hex b n \<Longrightarrow> \<not> prefix f (dirname (render_tmp sha1hex b n)) \<Longrightarrow> fs_entries s1 f = fs_entries s f"
proof -
  let ?f = "render_tmp sha1hex b n" and ?d = "render_dst sha1hex tools b n"
  have "fs_valid s1 \<and> render_ok x sha1hex tools b s1 n \<and> (\<exists>t. fs_look s1 ?f = Some (rn_code n, t))
    \<and> (\<forall>f. f \<noteq> ?f \<longrightarrow> fs_look s1 f = fs_look s f)
    \<and> (\<forall>f. f \<noteq> ?f \<longrightarrow> \<not> prefix f (dirname ?f) \<longrightarrow> fs_entries s1 f = fs_entries s f)"
  proof (cases "fs_isfile s ?f")
    case True
    then have "fs_exists s ?f" by (auto simp: fs_isfile_def intro: fs_exists_look)
    with True ok valid run show ?thesis by (auto simp: save_markup_def render_ok_def)
  next
    case False
    then obtain s2 where m: "mkdir (dirname ?f) s = Inr s2" and p: "fs_put ?f (rn_code n) s2 = Inr s1"
      using run by (auto simp: save_markup_def rbind_Inr_iff)
    have v: "fs_valid s2" by (rule mkdir_keeps(3) [OF m valid])
    have "made_ok (render_made x sha1hex tools b n) s1 ?f ?d" if c: "render_converted sha1hex tools b n"
    proof (rule made_ok_edit [OF _ v p])
      show "made_ok (render_made x sha1hex tools b n) s2 ?f ?d"
        using ok c made_ok_frame [OF _ mkdir_keeps(1,4) [OF m]] apart [OF c] by (simp add: render_ok_def)
      show "?f \<noteq> ?d" using apart [OF c] by blast
    qed
    then have "render_ok x sha1hex tools b s1 n" by (simp add: render_ok_def fs_look_put [OF p])
    moreover have "fs_entries s1 g = fs_entries s2 g" if "g \<noteq> ?f" for g using p that by (auto simp: fs_put_Inr)
    ultimately show ?thesis
      using fs.valid_put [OF v p] mkdir_keeps(1,4) [OF m] by (auto simp: fs_look_put [OF p])
  qed
  then show "fs_valid s1" "render_ok x sha1hex tools b s1 n" "\<exists>t. fs_look s1 ?f = Some (rn_code n, t)"
    "f \<noteq> ?f \<Longrightarrow> fs_look s1 f = fs_look s f"
    "f \<noteq> ?f \<Longrightarrow> \<not> prefix f (dirname ?f) \<Longrightarrow> fs_entries s1 f = fs_entries s f"
    by blast+
qed

definition page_inv ::
  "kf_extern \<Rightarrow> (string \<Rightarrow> string) \<Rightarrow> kf_tools \<Rightarrow> kf_builder \<Rightarrow> string list \<Rightarrow> render_node list
   \<Rightarrow> store \<Rightarrow> bool"
where
  "page_inv x sha1hex tools b us ns s \<longleftrightarrow> kf_inv x tools b us s \<and> render_inv x sha1hex tools b ns s"

lemma page_inv_write:
  assumes inv: "page_inv x sha1hex tools b us ns s" and lay: "page_layout sha1hex tools b us ns" and n: "n \<in> set ns"
    and g: "g \<in> set (render_files sha1hex tools b n)" and valid: "fs_valid s'" and own: "render_ok x sha1hex tools b s' n"
    and look: "\<And>f. f \<noteq> g \<Longrightarrow> fs_look s' f = fs_look s f"
    and entries: "\<And>f. f \<noteq> g \<Longrightarrow> \<not> prefix f (dirname g) \<Longrightarrow> fs_entries s' f = fs_entries s f"
  shows "page_inv x sha1hex tools b us ns s'"
proof -
  have "kf_inv x tools b us s'"
  proof (rule kf_inv_frame [OF _ valid])
    show "kf_inv x tools b us s" using inv by (simp add: page_inv_def)
    fix u assume u: "u \<in> set us"
    show "fs_look s' (src_of b u) = fs_look s (src_of b u)"
      using look page_layoutD(2) [OF lay outputs_mem(2) [OF n g] u] by metis
    show "fs_entries s' (dst_of tools b u) = fs_entries s (dst_of tools b u)"
      using entries render_files_apart(1) [OF lay n g u]
        page_layoutD(3) [OF lay outputs_mem(1) [OF u] outputs_mem(2) [OF n g]] by metis
  qed
  moreover have "render_inv x sha1hex tools b ns s'"
    by (rule render_inv_step [OF _ lay n g own entries]) (use inv in \<open>simp_all add: page_inv_def\<close>)
  ultimately show ?thesis by (simp add: page_inv_def)
qed

text \<open>Converting the saved markup.\<close>

lemma convert_saved:
  assumes inv: "page_inv x sha1hex tools b us ns (kf_fs st)" and lay: "page_layout sha1hex tools b us ns"
    and n: "n \<in> set ns" "rendered tools n" and writes: "convert_writes x"
    and src: "fs_look (kf_fs st) (render_tmp sha1hex b n) = Some (rn_code n, t)"
    and c: "convert_image x tools b st (render_uri sha1hex b n) cand (Some (render_tmp sha1hex b n)) = (st', r)"
  shows "page_inv x sha1hex tools b us ns (kf_fs st')"
    and "r = Inr (LiteralText d) \<Longrightarrow> d = rn_code n"
    and "r = Inr (Image uri cd) \<Longrightarrow>
      \<exists>c t. fs_look (kf_fs st') (fst (render_shown x sha1hex tools b n)) = Some (c, t)
        \<and> snd (render_shown x sha1hex tools b n) = Some c"
proof -
  let ?u = "render_uri sha1hex b n" and ?f = "render_tmp sha1hex b n" and ?g = "render_dst sha1hex tools b n"
  let ?st = "verbose (''assert best format for: '' @ ?u) st"
  have "page_inv x sha1hex tools b us ns (kf_fs st') \<and> (\<forall>d. r = Inr (LiteralText d) \<longrightarrow> d = rn_code n)
    \<and> (\<forall>uri cd. r = Inr (Image uri cd) \<longrightarrow>
      (\<exists>c t. fs_look (kf_fs st') (fst (render_shown x sha1hex tools b n)) = Some (c, t)
        \<and> snd (render_shown x sha1hex tools b n) = Some c))"
  proof (cases "plan_of tools b ?u")
    case (Raw m)
    then have "kf_fs st' = kf_fs st" "r = file2literal (kf_fs st) ?f"
      using c by (auto simp: convert_image_def plan_of_def ext_of_def split_beta Let_def split: option.splits)
    with inv src show ?thesis by (simp add: file2literal_def)
  next
    case Keep
    then have "kf_fs st' = kf_fs st" "r = Inr (Image ?u cand)" "\<not> render_converted sha1hex tools b n"
      using c by (auto simp: convert_image_def plan_of_def ext_of_def split_beta Let_def render_converted_def converted_def)
    with inv src show ?thesis by (simp add: render_shown_def)
  next
    case (Convert dst uri')
    then have conv: "render_converted sha1hex tools b n" and dst: "dst = ?g"
      by (simp_all add: render_converted_def converted_def render_dst_def dst_of_def)
    have ext: "ext_of ?u = ''.dot'' \<or> ext_of ?u = ''.svg''"
      using convertedE [of tools b ?u] conv by (auto simp: render_converted_def)
    have run: "run_plan x tools b ?st (ext_of ?u) ?f ?g uri' = (st', r)"
      using c Convert dst by (simp add: convert_image_def plan_of_def ext_of_def split_beta Let_def)
    have g: "?g \<in> set (render_files sha1hex tools b n)" using n conv by (simp add: render_files_def)
    have ne: "?f \<noteq> ?g" by (rule render_files_own [OF lay n conv])
    have apart: "\<not> prefix ?g (dirname ?g)" using page_layoutD(3) [OF lay] outputs_mem(2) [OF n(1) g] by blast
    have ok: "fs_valid (kf_fs st)" "made_ok (render_made x sha1hex tools b n) (kf_fs st) ?f ?g"
      using inv n conv by (auto simp: page_inv_def kf_inv_def render_inv_def render_ok_def)
    note der = run_plan_derived [OF run _ ne ext apart, simplified verbose_fs, OF src ok(1)
        writes ok(2) [unfolded render_made_def], folded render_made_def]
    have tmp: "fs_look (kf_fs st') ?f = Some (rn_code n, t)" using der(2) [OF ne] src by simp
    then have "render_ok x sha1hex tools b (kf_fs st') n" using der(1) by (simp add: render_ok_def)
    from page_inv_write [OF inv lay n(1) g _ this der(2,3)] der(1)
    have "page_inv x sha1hex tools b us ns (kf_fs st')" by blast
    with der(4,5) conv show ?thesis by (auto simp: render_shown_def)
  qed
  then show "page_inv x sha1hex tools b us ns (kf_fs st')" "r = Inr (LiteralText d) \<Longrightarrow> d = rn_code n"
    "r = Inr (Image uri cd) \<Longrightarrow>
      \<exists>c t. fs_look (kf_fs st') (fst (render_shown x sha1hex tools b n)) = Some (c, t)
        \<and> snd (render_shown x sha1hex tools b n) = Some c"
    by blast+
qed

lemma visit_step:
  assumes inv: "page_inv x sha1hex tools b us ns (kf_fs st)" and lay: "page_layout sha1hex tools b us ns"
    and n: "n \<in> set ns" and writes: "convert_writes x"
    and v: "visit_kernel_render x sha1hex tools b st n = (st', r)"
  shows "page_inv x sha1hex tools b us ns (kf_fs st')"
    and "r = Inr (LiteralText d) \<Longrightarrow> d = rn_code n"
    and "r = Inr (Image uri cd) \<Longrightarrow>
      \<exists>c t. fs_look (kf_fs st') (fst (render_shown x sha1hex tools b n)) = Some (c, t)
        \<and> snd (render_shown x sha1hex tools b n) = Some c"
proof -
  let ?shown = "\<lambda>s. \<exists>c t. fs_look s (fst (render_shown x sha1hex tools b n)) = Some (c, t)
    \<and> snd (render_shown x sha1hex tools b n) = Some c"
  have "page_inv x sha1hex tools b us ns (kf_fs st') \<and> (\<forall>d. r = Inr (LiteralText d) \<longrightarrow> d = rn_code n)
    \<and> (\<forall>uri cd. r = Inr (Image uri cd) \<longrightarrow> ?shown (kf_fs st'))"
  proof (cases "rendered tools n")
    case False
    from visit_not_rendered [OF False v] inv show ?thesis by simp
  next
    case True
    let ?f = "render_tmp sha1hex b n"
    have f: "?f \<in> set (render_files sha1hex tools b n)" using True by (simp add: render_files_def)
    have apart: "?f \<noteq> render_dst sha1hex tools b n \<and> \<not> prefix (render_dst sha1hex tools b n) (dirname ?f)"
      if c: "render_converted sha1hex tools b n"
    proof -
      have "render_dst sha1hex tools b n \<in> set (render_files sha1hex tools b n)" using True c by (simp add: render_files_def)
      from page_layoutD(3) [OF lay outputs_mem(2) [OF n this] outputs_mem(2) [OF n f]] render_files_own [OF lay n True c]
      show ?thesis by blast
    qed
    have ok: "render_ok x sha1hex tools b (kf_fs st) n" "fs_valid (kf_fs st)"
      using inv n True by (auto simp: page_inv_def kf_inv_def render_inv_def)
    from True v show ?thesis
    proof (cases rule: visit_rendered)
      case unsaved
      with inv show ?thesis by auto
    next
      case (saved s1 st1)
      note eff = save_markup_effect [OF ok saved(1) apart]
      have "page_inv x sha1hex tools b us ns s1" by (rule page_inv_write [OF inv lay n f eff(1,2,4,5)])
      then have inv1: "page_inv x sha1hex tools b us ns (kf_fs st1)" by (simp add: saved(2))
      obtain t where "fs_look (kf_fs st1) ?f = Some (rn_code n, t)" using eff(3) saved(2) by blast
      from convert_saved [OF inv1 lay n True writes this saved(3)] show ?thesis by blast
    qed
  qed
  then show "page_inv x sha1hex tools b us ns (kf_fs st')" "r = Inr (LiteralText d) \<Longrightarrow> d = rn_code n"
    "r = Inr (Image uri cd) \<Longrightarrow> ?shown (kf_fs st')"
    by blast+
qed

section \<open>The invariant\<close>

lemma page_inv_fresh:
  assumes "page_fresh sha1hex tools b us ns s"
  shows "page_inv x sha1hex tools b us ns s"
proof -
  have "render_ok x sha1hex tools b s n" if "n \<in> set ns" "rendered tools n" for n
    using assms that by (auto simp: page_fresh_def list_all_iff render_ok_def not_newer_ok)
  with kf_inv_fresh assms show ?thesis by (simp add: page_inv_def render_inv_def page_fresh_def)
qed

lemma page_step_inv:
  assumes step: "page_step x sha1hex tools b us ns st st'" and inv: "page_inv x sha1hex tools b us ns (kf_fs st)"
    and lay: "page_layout sha1hex tools b us ns" and writes: "convert_writes x"
  shows "page_inv x sha1hex tools b us ns (kf_fs st')"
  using step
proof (elim page_stepE)
  assume image: "kf_step x tools b us st st'"
  have k: "kf_inv x tools b us (kf_fs st)" using inv by (simp add: page_inv_def)
  have "fs_entries (kf_fs st') f = fs_entries (kf_fs st) f"
    if n: "n \<in> set ns" and f: "f \<in> set (render_files sha1hex tools b n)" for n f
  proof (rule kf_step_entries [OF image k page_layout_ok [OF lay] writes])
    fix u assume u: "u \<in> set us"
    show "f \<noteq> src_of b u \<and> f \<noteq> dst_of tools b u \<and> \<not> prefix f (dirname (dst_of tools b u))"
      using page_layoutD(2) [OF lay outputs_mem(2) [OF n f] u] render_files_apart(1) [OF lay n f u]
        page_layoutD(3) [OF lay outputs_mem(2) [OF n f] outputs_mem(1) [OF u]] by blast
  qed
  then have "render_inv x sha1hex tools b ns (kf_fs st')"
    using inv render_ok_frame unfolding page_inv_def render_inv_def by metis
  with kf_step_inv [OF image k page_layout_ok [OF lay] writes] show ?thesis by (simp add: page_inv_def)
next
  fix n r assume "n \<in> set ns" "visit_kernel_render x sha1hex tools b st n = (st', r)"
  then show ?thesis using visit_step(1) [OF inv lay _ writes] by blast
qed

lemma page_reachable_inv:
  assumes "(page_step x sha1hex tools b us ns)\<^sup>*\<^sup>* st0 st" and "page_fresh sha1hex tools b us ns (kf_fs st0)"
    and "page_layout sha1hex tools b us ns" and "convert_writes x"
  shows "page_inv x sha1hex tools b us ns (kf_fs st)"
  using assms(1)
proof (induction rule: rtranclp_induct)
  case base
  show ?case by (rule page_inv_fresh [OF assms(2)])
next
  case (step st st')
  from page_step_inv [OF step(2,3) assms(3,4)] show ?case .
qed

section \<open>Properties\<close>

text \<open>
  C1. Pages with images and rendered markup: however visits of both, edits and waiting follow each other, the
  picture a \<open>kernel-render\<close> node is shown by holds what the tool leaves for the markup of its own directive
  (or that markup, when it needs no conversion), and a text is that markup; the picture of an image holds
  what the tool leaves for what its source holds now, and a text is that source, of a tool that returned another
  code than zero. What the tool leaves is also the output of a \<open>dot\<close> that failed. It is assumed that all files that
  are written are different and none is a source or on the way to another, so that the digests of the markup
  differ; that at the start the sources are there, saved markup is what its name says and no output is newer
  than its source; and that \<open>convert(1)\<close> writes its output when it returns zero.
\<close>

theorem kf_pages_current:
  assumes "page_layout sha1hex tools b us ns" and "convert_writes x"
    and "page_fresh sha1hex tools b us ns (kf_fs st0)" and "(page_step x sha1hex tools b us ns)\<^sup>*\<^sup>* st0 st"
  shows "(\<forall>n \<in> set ns. \<forall>st' node. visit_kernel_render x sha1hex tools b st n = (st', Inr node) \<longrightarrow>
       (case node of
          Image uri cd \<Rightarrow> \<exists>c t. fs_look (kf_fs st') (fst (render_shown x sha1hex tools b n)) = Some (c, t)
            \<and> snd (render_shown x sha1hex tools b n) = Some c
        | LiteralText d \<Rightarrow> d = rn_code n))
   \<and> (\<forall>u \<in> set us. \<forall>cand st' node. convert_image x tools b st u cand None = (st', Inr node) \<longrightarrow>
       (\<exists>d t. fs_look (kf_fs st') (src_of b u) = Some (d, t) \<and>
         (case node of
            Image uri cd \<Rightarrow> \<exists>c t'. fs_look (kf_fs st') (dst_of tools b u) = Some (c, t')
              \<and> made_of x tools b u d = Some c
          | LiteralText c \<Rightarrow> c = d \<and> (\<exists>e out. tool_of x tools b u d = Inr (e, out) \<and> e \<noteq> 0))))"
proof (intro conjI ballI allI impI)
  have inv: "page_inv x sha1hex tools b us ns (kf_fs st)" by (rule page_reachable_inv [OF assms(4,3,1,2)])
  then have kinv: "kf_inv x tools b us (kf_fs st)" by (simp add: page_inv_def)
  fix st' node
  show "case node of
        Image uri cd \<Rightarrow> \<exists>c t. fs_look (kf_fs st') (fst (render_shown x sha1hex tools b n)) = Some (c, t)
          \<and> snd (render_shown x sha1hex tools b n) = Some c
      | LiteralText d \<Rightarrow> d = rn_code n"
    if "n \<in> set ns" "visit_kernel_render x sha1hex tools b st n = (st', Inr node)" for n
    using visit_step(2,3) [OF inv assms(1) that(1) assms(2) that(2)] by (cases node) auto
  show "\<exists>d t. fs_look (kf_fs st') (src_of b u) = Some (d, t) \<and>
     (case node of
        Image uri cd \<Rightarrow> \<exists>c t'. fs_look (kf_fs st') (dst_of tools b u) = Some (c, t') \<and> made_of x tools b u d = Some c
      | LiteralText c \<Rightarrow> c = d \<and> (\<exists>e out. tool_of x tools b u d = Inr (e, out) \<and> e \<noteq> 0))"
    if "u \<in> set us" "convert_image x tools b st u cand None = (st', Inr node)" for u cand
    using convert_step(4,5) [OF kinv page_layout_ok [OF assms(1)] that(1) assms(2) that(2)]
    by (cases node) fastforce+
qed

text \<open>A page with one image and two nodes, under a digest that adds up the characters.\<close>

definition digest0 :: "string \<Rightarrow> string" where
  "digest0 c = hex_nat (sum_list (List.map of_char c))"

definition page_ns :: "render_node list" where
  "page_ns = [\<lparr>rn_srclang = ''DOT'', rn_code = ''h''\<rparr>, \<lparr>rn_srclang = ''SVG'', rn_code = ''h''\<rparr>]"

theorem kf_pages_current_witness:
  "\<exists>st1 st' uri cd t. page_step kf_x0 digest0 kf_t0 kf_b0 [''a.dot''] page_ns kf_st0 st1
     \<and> visit_kernel_render kf_x0 digest0 kf_t0 kf_b0 st1 (hd page_ns) = (st', Inr (Image uri cd))
     \<and> fs_look (kf_fs st') ''/o/i/DOT-68.svg'' = Some (''svg of h'', t)"
proof -
  let ?v = "visit_kernel_render kf_x0 digest0 kf_t0 kf_b0"
  obtain st1 r where b: "convert_image kf_x0 kf_t0 kf_b0 kf_st0 ''a.dot'' None None = (st1, r)" by fastforce
  then have step: "page_step kf_x0 digest0 kf_t0 kf_b0 [''a.dot''] page_ns kf_st0 st1"
    by (intro page_step.image kf_step.build) auto
  have "case snd (?v (fst (convert_image kf_x0 kf_t0 kf_b0 kf_st0 ''a.dot'' None None)) (hd page_ns)) of
      Inr (Image uri cd) \<Rightarrow> True | Inr (LiteralText d) \<Rightarrow> False | Inl e \<Rightarrow> False" by code_simp
  then obtain st' uri cd where c: "?v st1 (hd page_ns) = (st', Inr (Image uri cd))"
    using b by (cases "?v st1 (hd page_ns)") (auto split: sum.splits img_node.splits)
  have lay: "page_layout digest0 kf_t0 kf_b0 [''a.dot''] page_ns" by code_simp
  have "list_all (\<lambda>n. rendered kf_t0 n \<longrightarrow>
      (fs_exists (kf_fs kf_st0) (render_tmp digest0 kf_b0 n) \<longrightarrow>
         map_option fst (fs_look (kf_fs kf_st0) (render_tmp digest0 kf_b0 n)) = Some (rn_code n))
      \<and> (render_converted digest0 kf_t0 kf_b0 n \<longrightarrow>
           not_newer (kf_fs kf_st0) (render_dst digest0 kf_t0 kf_b0 n) (render_tmp digest0 kf_b0 n))) page_ns" by code_simp
  then have fresh: "page_fresh digest0 kf_t0 kf_b0 [''a.dot''] page_ns (kf_fs kf_st0)"
    using kf_start(2) by (simp only: page_fresh_def)
  have hd: "hd page_ns \<in> set page_ns" by (simp add: page_ns_def)
  have shown: "render_shown kf_x0 digest0 kf_t0 kf_b0 (hd page_ns) = (''/o/i/DOT-68.svg'', Some ''svg of h'')" by code_simp
  have "(page_step kf_x0 digest0 kf_t0 kf_b0 [''a.dot''] page_ns)\<^sup>*\<^sup>* kf_st0 st1" using step by blast
  from kf_pages_current [OF lay kf_tools_write(1) fresh this, THEN conjunct1, rule_format, OF hd c]
  have "\<exists>t. fs_look (kf_fs st') ''/o/i/DOT-68.svg'' = Some (''svg of h'', t)" by (simp add: shown)
  with step c show ?thesis by blast
qed

end
