(* ===== verification/FlatTableLoops.thy ===== *)
theory FlatTableLoops
  imports FlatTableGrid "HOL-Library.While_Combinator"
begin

text \<open>
  The two nested \<open>while\<close> loops of \<open>roundOffTableDefinition\<close> as the code writes them: rounds on the positions
  \<open>y\<close>, \<open>x\<close> and the rows, which grow while they are run through. The recursion of \<open>FlatTable\<close> is what the
  rounds compute, and their number is fixed by the rows they leave.
\<close>

section \<open>The rounds\<close>

type_synonym ro_state = "nat \<times> nat \<times> trow list"

definition ro_running :: "ro_state \<Rightarrow> bool" where
  "ro_running s = (case s of (y, x, rs) \<Rightarrow> y < length rs)"

text \<open>A round of the inner loop, or, at the end of a row, the step to the next one.\<close>

definition ro_round :: "ro_state \<Rightarrow> ro_state" where
  "ro_round s =
     (case s of (y, x, rs) \<Rightarrow>
        if x < length (rs ! y) then
          (y, x + 1, case rs ! y ! x of None \<Rightarrow> rs | Some (cspan, rspan, ct) \<Rightarrow> span_cell y x cspan rspan rs)
        else (y + 1, 0, rs))"

section \<open>Counting rounds\<close>

text \<open>\<open>n\<close> rounds are made from one state to another.\<close>

definition rounds :: "nat \<Rightarrow> ro_state \<Rightarrow> ro_state \<Rightarrow> bool" where
  "rounds n s s' \<longleftrightarrow> (ro_round ^^ n) s = s' \<and> (\<forall>m < n. ro_running ((ro_round ^^ m) s))"

lemma rounds_0 [simp]: "rounds 0 s s' \<longleftrightarrow> s' = s"
  by (auto simp: rounds_def)

lemma rounds_Suc:
  assumes "ro_running s" and "rounds n (ro_round s) s'"
  shows "rounds (Suc n) s s'"
  unfolding rounds_def
proof (intro conjI allI impI)
  show "(ro_round ^^ Suc n) s = s'" using assms(2) by (simp add: rounds_def funpow_swap1)
  fix m assume "m < Suc n"
  then show "ro_running ((ro_round ^^ m) s)"
    using assms by (cases m) (simp_all add: rounds_def funpow_swap1)
qed

lemma rounds_add:
  assumes "rounds m s s1" and "rounds n s1 s2"
  shows "rounds (m + n) s s2"
  unfolding rounds_def
proof (intro conjI allI impI)
  have pow: "(ro_round ^^ (m + k)) s = (ro_round ^^ k) s1" for k
    using assms(1) by (simp add: rounds_def add.commute [of m] funpow_add)
  show "(ro_round ^^ (m + n)) s = s2" using assms(2) by (simp add: pow rounds_def)
  fix k assume "k < m + n"
  then show "ro_running ((ro_round ^^ k) s)"
    using assms pow [of "k - m"] by (cases "k < m") (auto simp: rounds_def)
qed

text \<open>The loop as a whole.\<close>

lemma rounds_while:
  assumes "rounds n s s'" and "\<not> ro_running s'"
  shows "while_option ro_running ro_round s = Some s'"
proof -
  have least: "(LEAST k. \<not> ro_running ((ro_round ^^ k) s)) = n"
    using assms by (intro Least_equality) (auto simp: rounds_def not_less [symmetric])
  have "\<exists>k. \<not> ro_running ((ro_round ^^ k) s)" using assms by (auto simp: rounds_def)
  with assms show ?thesis by (auto simp: while_option_def least rounds_def)
qed

section \<open>One row\<close>

lemma ro_row_elsewhere:
  assumes "z < y"
  shows "ro_row y x rs ! z = rs ! z"
proof (cases "y < length rs")
  case False
  then show ?thesis by (simp add: ro_row_end)
next
  case True
  then show ?thesis using assms
  proof (induction y x rs rule: ro_row.induct)
    case (1 y x rs)
    show ?case
    proof (cases "x < length (rs ! y)")
      case x: True
      show ?thesis
      proof (cases "rs ! y ! x")
        case None
        with 1 x show ?thesis by (simp add: ro_row_None)
      next
        case (Some c)
        obtain cspan rspan ct where c: "c = (cspan, rspan, ct)" by (cases c)
        have "span_cell y x cspan rspan rs ! z = rs ! z"
          using 1(3,4) x by (simp add: nth_span_cell below_slots_def)
        with 1 x Some c show ?thesis by (simp add: ro_row_Some cspan_of_def rspan_of_def)
      qed
    qed (simp add: ro_row_end)
  qed
qed

lemma ro_row_rounds:
  assumes "y < length rs" and "x \<le> length (rs ! y)"
  shows "x \<le> length (ro_row y x rs ! y)
    \<and> rounds (length (ro_row y x rs ! y) - x) (y, x, rs) (y, length (ro_row y x rs ! y), ro_row y x rs)"
  using assms
proof (induction y x rs rule: ro_row.induct)
  case (1 y x rs)
  show ?case
  proof (cases "x < length (rs ! y)")
    case False
    with 1(4) show ?thesis by (simp add: ro_row_end)
  next
    case x: True
    define rs' where "rs' = (case rs ! y ! x of None \<Rightarrow> rs | Some (cspan, rspan, ct) \<Rightarrow> span_cell y x cspan rspan rs)"
    have r: "ro_row y x rs = ro_row y (x + 1) rs'"
      using 1(3) x by (subst ro_row.simps) (auto simp: rs'_def split: option.split)
    have l: "y < length rs'" "x + 1 \<le> length (rs' ! y)"
      using 1(3) x by (auto simp: rs'_def nth_span_cell split: option.split)
    have ih: "x + 1 \<le> length (ro_row y (x + 1) rs' ! y)
      \<and> rounds (length (ro_row y (x + 1) rs' ! y) - (x + 1)) (y, x + 1, rs')
          (y, length (ro_row y (x + 1) rs' ! y), ro_row y (x + 1) rs')"
    proof (cases "rs ! y ! x")
      case None
      with l 1(1) 1(3) x show ?thesis by (simp add: rs'_def)
    next
      case (Some c)
      obtain cspan rspan ct where "c = (cspan, rspan, ct)" by (cases c)
      with Some l 1(2) 1(3) x show ?thesis by (simp add: rs'_def)
    qed
    have "ro_round (y, x, rs) = (y, x + 1, rs')" using x by (simp add: ro_round_def rs'_def)
    then have "rounds (Suc (length (ro_row y (x + 1) rs' ! y) - (x + 1))) (y, x, rs)
        (y, length (ro_row y (x + 1) rs' ! y), ro_row y (x + 1) rs')"
      using ih 1(3) by (intro rounds_Suc) (simp_all add: ro_running_def)
    with ih show ?thesis unfolding r by (simp add: Suc_diff_Suc)
  qed
qed

section \<open>All rows\<close>

lemma ro_rows_done: "z < y \<Longrightarrow> ro_rows y rs ! z = rs ! z"
proof (induction y rs rule: ro_rows.induct)
  case (1 y rs)
  show ?case
  proof (cases "y < length rs")
    case True
    with 1 show ?thesis by (simp add: ro_rows_step ro_row_elsewhere)
  qed (simp add: ro_rows_end)
qed

lemma ro_rows_rounds:
  "y \<le> length rs \<Longrightarrow>
   rounds (\<Sum>r\<leftarrow>drop y (ro_rows y rs). length r + 1) (y, 0, rs) (length rs, 0, ro_rows y rs)"
proof (induction y rs rule: ro_rows.induct)
  case (1 y rs)
  show ?case
  proof (cases "y < length rs")
    case False
    with 1(2) show ?thesis by (simp add: ro_rows_end)
  next
    case True
    let ?rs = "ro_row y 0 rs"
    let ?n = "length (?rs ! y)"
    have row: "rounds ?n (y, 0, rs) (y, ?n, ?rs)" using ro_row_rounds [OF True, of 0] by simp
    have "ro_round (y, ?n, ?rs) = (y + 1, 0, ?rs)" by (simp add: ro_round_def)
    moreover have "rounds (\<Sum>r\<leftarrow>drop (y + 1) (ro_rows (y + 1) ?rs). length r + 1) (y + 1, 0, ?rs)
        (length rs, 0, ro_rows (y + 1) ?rs)"
      using 1(1) [OF True] True by simp
    ultimately have "rounds (Suc (\<Sum>r\<leftarrow>drop (y + 1) (ro_rows (y + 1) ?rs). length r + 1)) (y, ?n, ?rs)
        (length rs, 0, ro_rows (y + 1) ?rs)"
      using True by (intro rounds_Suc) (simp_all add: ro_running_def)
    from rounds_add [OF row this] have "rounds (?n + Suc (\<Sum>r\<leftarrow>drop (y + 1) (ro_rows (y + 1) ?rs). length r + 1))
        (y, 0, rs) (length rs, 0, ro_rows y rs)"
      using True by (simp add: ro_rows_step)
    moreover have "drop y (ro_rows y rs) = ?rs ! y # drop (y + 1) (ro_rows (y + 1) ?rs)"
      using True Cons_nth_drop_Suc [of y "ro_rows y rs"] ro_rows_done [of y "y + 1" ?rs]
      by (simp add: ro_rows_step)
    ultimately show ?thesis by simp
  qed
qed

section \<open>Properties\<close>

text \<open>
  C4. The loops of the rounding off end for every table, although they insert into the rows they run
  through: every position of every row as it is left is visited exactly once, so the number of rounds is the
  number of these positions and of the rows, and what is left is the result of the recursion.
\<close>

theorem ft_loops_end:
  "while_option ro_running ro_round (0, 0, rs) = Some (length rs, 0, ro_rows 0 rs)
   \<and> rounds (\<Sum>r\<leftarrow>ro_rows 0 rs. length r + 1) (0, 0, rs) (length rs, 0, ro_rows 0 rs)"
proof -
  have r: "rounds (\<Sum>r\<leftarrow>ro_rows 0 rs. length r + 1) (0, 0, rs) (length rs, 0, ro_rows 0 rs)"
    using ro_rows_rounds [of 0 rs] by simp
  have "\<not> ro_running (length rs, 0, ro_rows 0 rs)" by (simp add: ro_running_def)
  with rounds_while [OF r] r show ?thesis by blast
qed

end
