(* ===== verification/PyRepr.thy ===== *)
theory PyRepr
  imports PyNumbers
begin

text \<open>
  Python's \<open>repr\<close> of byte strings and of lists of them, and \<open>%r\<close> in format strings.
\<close>

text \<open>Control characters, the quote and the backslash are escaped, and the double quote is taken for a string with
  single ones only.\<close>

definition hex_byte :: "nat \<Rightarrow> string" where
  "hex_byte n = [digit_char (n div 16), digit_char (n mod 16)]"

definition escape :: "char \<Rightarrow> char \<Rightarrow> string" where
  "escape q c =
     (if c = q \<or> c = CHR 0x5C then [CHR 0x5C, c]
      else if c = CHR 0x09 then [CHR 0x5C, CHR ''t'']
      else if c = CHR 0x0A then [CHR 0x5C, CHR ''n'']
      else if c = CHR 0x0D then [CHR 0x5C, CHR ''r'']
      else if of_char c < (32 :: nat) \<or> (127 :: nat) \<le> of_char c then [CHR 0x5C, CHR ''x''] @ hex_byte (of_char c)
      else [c])"

definition quote_for :: "string \<Rightarrow> char" where
  "quote_for s = (if CHR 0x27 \<in> set s \<and> CHR 0x22 \<notin> set s then CHR 0x22 else CHR 0x27)"

definition str_repr :: "string \<Rightarrow> string" where
  "str_repr s = quote_for s # concat (List.map (escape (quote_for s)) s) @ [quote_for s]"

definition list_repr :: "string list \<Rightarrow> string" where
  "list_repr ss = ''['' @ py_join '', '' (List.map str_repr ss) @ '']''"

section \<open>Lemmas\<close>

text \<open>A representation is one line of printable characters.\<close>

definition printable :: "char \<Rightarrow> bool" where
  "printable c \<longleftrightarrow> 32 \<le> (of_char c :: nat) \<and> (of_char c :: nat) < 127"

lemma digit_char_printable: "d < 16 \<Longrightarrow> printable (digit_char d)"
  by (simp add: numeral_eq_Suc less_Suc_eq) (auto simp: printable_def digit_char_def)

lemma escape_printable:
  assumes "printable q"
  shows "list_all printable (escape q c)"
proof -
  have "(of_char c :: nat) < 256" by (metis of_char_mod_256 mod_less_divisor zero_less_numeral)
  then have "of_char c div 16 < (16 :: nat)" by (intro less_mult_imp_div_less) simp
  then have "list_all printable (hex_byte (of_char c))" by (simp add: hex_byte_def digit_char_printable)
  moreover have "printable c" if "\<not> (of_char c < (32 :: nat) \<or> (127 :: nat) \<le> of_char c)"
    using that by (simp add: printable_def)
  moreover have "printable (CHR 0x5C)" "printable (CHR ''t'')" "printable (CHR ''n'')" "printable (CHR ''r'')"
    "printable (CHR ''x'')" by (simp_all add: printable_def)
  ultimately show ?thesis using assms by (simp add: escape_def)
qed

lemma str_repr_printable: "list_all printable (str_repr s)"
proof -
  have "printable (quote_for s)" by (simp add: quote_for_def printable_def)
  then show ?thesis
    by (simp add: str_repr_def list_all_iff)
      (metis escape_printable list_all_iff)
qed

lemma list_repr_printable: "list_all printable (list_repr ss)"
proof -
  have punctuation: "printable (CHR '','')" "printable (CHR '' '')" "printable (CHR ''['')" "printable (CHR '']'')"
    by (simp_all add: printable_def)
  have "list_all printable (py_join '', '' (List.map str_repr ss))"
  proof (induction ss)
    case (Cons s ss)
    then show ?case using str_repr_printable [of s]
      by (cases ss) (simp_all add: punctuation)
  qed simp
  then show ?thesis by (simp add: list_repr_def punctuation)
qed

end
