(* ===== verification/FlatTablePrint.thy ===== *)
theory FlatTablePrint
  imports FlatTable PyRepr
begin

text \<open>
  The debugging printer of \<open>rstFlatTable.py\<close>, \<open>ListTableBuilder.pprint\<close>, as Python 2 runs it: the text of a
  node (\<open>astext\<close>) is a parameter and a unicode string. The printer looks at the first node of every cell, and
  the cells that the rounding off appends have none.
\<close>

section \<open>The printer\<close>

definition unicode_repr :: "string \<Rightarrow> string" where
  "unicode_repr s = CHR ''u'' # str_repr s"

definition cut_two :: "string \<Rightarrow> string" where
  "cut_two s = py_slice None (Some (- 2)) s"

definition cell_excerpt :: "string \<Rightarrow> string" where
  "cell_excerpt t = (if 30 < length t then py_slice None (Some 30) t @ ''...'' else t)"

fun pprint_cell :: "(tnode \<Rightarrow> string) \<Rightarrow> cell option \<Rightarrow> string res" where
  "pprint_cell astext None = Inr (''None'' @ CHR 0x0A # ''    , '')"
| "pprint_cell astext (Some (cspan, rspan, ct)) =
     (case content_items ct of
        [] \<Rightarrow> Inl IndexError
      | n # ns \<Rightarrow>
          Inr (''(cspan='' @ str_int cspan @ '', rspan='' @ str_int rspan @ '', ''
               @ unicode_repr (cell_excerpt (astext n)) @ '')'' @ '']'' @ CHR 0x0A # ''    , ''))"

fun pprint_cols :: "(tnode \<Rightarrow> string) \<Rightarrow> string \<Rightarrow> trow \<Rightarrow> string res" where
  "pprint_cols astext retVal [] = Inr retVal"
| "pprint_cols astext retVal (col # row) =
     rbind (pprint_cell astext col) (\<lambda>s. pprint_cols astext (retVal @ s) row)"

fun pprint_rows :: "(tnode \<Rightarrow> string) \<Rightarrow> string \<Rightarrow> trow list \<Rightarrow> string res" where
  "pprint_rows astext retVal [] = Inr retVal"
| "pprint_rows astext retVal (row # rs) =
     rbind (pprint_cols astext (retVal @ ''[ '') row) (\<lambda>r.
     pprint_rows astext (cut_two r @ '']'' @ CHR 0x0A # ''  , '') rs)"

definition pprint :: "(tnode \<Rightarrow> string) \<Rightarrow> trow list \<Rightarrow> string res" where
  "pprint astext rs = rbind (pprint_rows astext ''[   '' rs) (\<lambda>r. Inr (cut_two r @ '']''))"

section \<open>When it fails\<close>

definition empty_cell :: "cell option \<Rightarrow> bool" where
  "empty_cell col \<longleftrightarrow> (case col of None \<Rightarrow> False | Some (cspan, rspan, ct) \<Rightarrow> content_items ct = [])"

lemma pprint_cell_Inl_iff: "pprint_cell astext col = Inl e \<longleftrightarrow> e = IndexError \<and> empty_cell col"
  by (cases "(astext, col)" rule: pprint_cell.cases) (auto simp: empty_cell_def split: list.split)

lemma pprint_cols_Inl_iff:
  "pprint_cols astext retVal row = Inl e \<longleftrightarrow> e = IndexError \<and> (\<exists>col \<in> set row. empty_cell col)"
proof (induction row arbitrary: retVal)
  case (Cons col row)
  then show ?case using pprint_cell_Inl_iff [of astext col]
    by (cases "pprint_cell astext col") auto
qed simp

lemma pprint_rows_Inl_iff:
  "pprint_rows astext retVal rs = Inl e \<longleftrightarrow> e = IndexError \<and> (\<exists>row \<in> set rs. \<exists>col \<in> set row. empty_cell col)"
proof (induction rs arbitrary: retVal)
  case (Cons row rs)
  then show ?case using pprint_cols_Inl_iff [of astext "retVal @ ''[ ''" row]
    by (cases "pprint_cols astext (retVal @ ''[ '') row") auto
qed simp

lemma pprint_Inl_iff:
  "pprint astext rs = Inl e \<longleftrightarrow> e = IndexError \<and> (\<exists>row \<in> set rs. \<exists>col \<in> set row. empty_cell col)"
  using pprint_rows_Inl_iff [of astext "''[   ''" rs]
  by (cases "pprint_rows astext ''[   '' rs") (auto simp: pprint_def)

text \<open>A row that \<open>fill_row\<close> lengthens ends in a cell the printer fails on.\<close>

lemma fill_row_appends_empty:
  assumes "fill_row fill mcols row = Inr row'" and "length row < length row'"
  shows "\<exists>col \<in> set row'. empty_cell col"
proof -
  from assms consider (span) x where "row' = row @ [Some (x, 0, Elements [])]"
    | (fill) n where "row' = row @ replicate n (Some (0, 0, ANode (Nd KComment [])))"
    by (auto simp: fill_row_def Let_def split: if_splits option.splits prod.splits)
  then show ?thesis using assms(2) by cases (auto simp: empty_cell_def)
qed

lemma pprint_fails_after_round_off:
  assumes "roundOffTableDefinition fill b = Inr b'" and "y < length (rows b')"
    and "length (ro_rows 0 (rows b) ! y) < length (rows b' ! y)"
  shows "pprint astext (rows b') = Inl IndexError"
proof -
  let ?m = "count_max_cols (max_cols b) (ro_rows 0 (rows b))"
  have "list_all2 (\<lambda>r r'. fill_row fill ?m r = Inr r') (ro_rows 0 (rows b)) (rows b')"
    using assms(1) by (auto simp: roundOffTableDefinition_def Let_def rbind_Inr_iff rmap_list_Inr_iff)
  then have "fill_row fill ?m (ro_rows 0 (rows b) ! y) = Inr (rows b' ! y)"
    using assms(2) by (simp add: list_all2_conv_all_nth)
  from fill_row_appends_empty [OF this assms(3)] show ?thesis
    using assms(2) by (auto simp: pprint_Inl_iff)
qed

end
