(* ===== verification/TcmText.thy ===== *)
theory TcmText
  imports PyPrelude
begin

text \<open>
  The texts that \<open>Documentation/target/tcm_mod_builder.py\<close> writes: the files of a new fabric module
  for a module name \<open>n\<close> and, after the base header is written, the name \<open>p\<close> of the target port that
  header declares. Each definition lists the pieces the script appends to its buffer, in order; a file
  is their concatenation.
\<close>

section \<open>Case conversion\<close>

definition upper :: "string \<Rightarrow> string" where
  "upper s = List.map (\<lambda>c. if 97 \<le> (of_char c :: nat) \<and> (of_char c :: nat) \<le> 122
     then char_of ((of_char c :: nat) - 32) else c) s"

definition lower :: "string \<Rightarrow> string" where
  "lower s = List.map (\<lambda>c. if 65 \<le> (of_char c :: nat) \<and> (of_char c :: nat) \<le> 90
     then char_of ((of_char c :: nat) + 32) else c) s"

section \<open>The base header\<close>

definition fc_base :: "string \<Rightarrow> string list" where
  "fc_base n =
     [''#define '' @ upper n @ ''_VERSION	\"v0.1\"\<newline>'',
      ''#define '' @ upper n @ ''_NAMELEN	32\<newline>'',
      ''\<newline>'',
      ''struct '' @ n @ ''_tpg {\<newline>'',
      ''	/* FC lport target portal group tag for TCM */\<newline>'',
      ''	u16 lport_tpgt;\<newline>'',
      ''	/* Pointer back to '' @ n @ ''_lport */\<newline>'',
      ''	struct '' @ n @ ''_lport *lport;\<newline>'',
      ''	/* Returned by '' @ n @ ''_make_tpg() */\<newline>'',
      ''	struct se_portal_group se_tpg;\<newline>'',
      ''};\<newline>'',
      ''\<newline>'',
      ''struct '' @ n @ ''_lport {\<newline>'',
      ''	/* Binary World Wide unique Port Name for FC Target Lport */\<newline>'',
      ''	u64 lport_wwpn;\<newline>'',
      ''	/* ASCII formatted WWPN for FC Target Lport */\<newline>'',
      ''	char lport_name['' @ upper n @ ''_NAMELEN];\<newline>'',
      ''	/* Returned by '' @ n @ ''_make_lport() */\<newline>'',
      ''	struct se_wwn lport_wwn;\<newline>'',
      ''};\<newline>'']"

definition sas_base :: "string \<Rightarrow> string list" where
  "sas_base n =
     [''#define '' @ upper n @ ''_VERSION  \"v0.1\"\<newline>'',
      ''#define '' @ upper n @ ''_NAMELEN 32\<newline>'',
      ''\<newline>'',
      ''struct '' @ n @ ''_tpg {\<newline>'',
      ''	/* SAS port target portal group tag for TCM */\<newline>'',
      ''	u16 tport_tpgt;\<newline>'',
      ''	/* Pointer back to '' @ n @ ''_tport */\<newline>'',
      ''	struct '' @ n @ ''_tport *tport;\<newline>'',
      ''	/* Returned by '' @ n @ ''_make_tpg() */\<newline>'',
      ''	struct se_portal_group se_tpg;\<newline>'',
      ''};\<newline>\<newline>'',
      ''struct '' @ n @ ''_tport {\<newline>'',
      ''	/* Binary World Wide unique Port Name for SAS Target port */\<newline>'',
      ''	u64 tport_wwpn;\<newline>'',
      ''	/* ASCII formatted WWPN for SAS Target port */\<newline>'',
      ''	char tport_name['' @ upper n @ ''_NAMELEN];\<newline>'',
      ''	/* Returned by '' @ n @ ''_make_tport() */\<newline>'',
      ''	struct se_wwn tport_wwn;\<newline>'',
      ''};\<newline>'']"

definition iscsi_base :: "string \<Rightarrow> string list" where
  "iscsi_base n =
     [''#define '' @ upper n @ ''_VERSION  \"v0.1\"\<newline>'',
      ''#define '' @ upper n @ ''_NAMELEN 32\<newline>'',
      ''\<newline>'',
      ''struct '' @ n @ ''_tpg {\<newline>'',
      ''	/* iSCSI target portal group tag for TCM */\<newline>'',
      ''	u16 tport_tpgt;\<newline>'',
      ''	/* Pointer back to '' @ n @ ''_tport */\<newline>'',
      ''	struct '' @ n @ ''_tport *tport;\<newline>'',
      ''	/* Returned by '' @ n @ ''_make_tpg() */\<newline>'',
      ''	struct se_portal_group se_tpg;\<newline>'',
      ''};\<newline>\<newline>'',
      ''struct '' @ n @ ''_tport {\<newline>'',
      ''	/* ASCII formatted TargetName for IQN */\<newline>'',
      ''	char tport_name['' @ upper n @ ''_NAMELEN];\<newline>'',
      ''	/* Returned by '' @ n @ ''_make_tport() */\<newline>'',
      ''	struct se_wwn tport_wwn;\<newline>'',
      ''};\<newline>'']"

section \<open>The configuration file system part\<close>

text \<open>\<open>configfs_text\<close> is the file for a protocol; three places depend on the protocol.\<close>

definition configfs_head :: "string \<Rightarrow> string \<Rightarrow> string list" where
  "configfs_head n p =
     [''#include <linux/module.h>\<newline>'',
      ''#include <linux/moduleparam.h>\<newline>'',
      ''#include <linux/version.h>\<newline>'',
      ''#include <generated/utsrelease.h>\<newline>'',
      ''#include <linux/utsname.h>\<newline>'',
      ''#include <linux/init.h>\<newline>'',
      ''#include <linux/slab.h>\<newline>'',
      ''#include <linux/kthread.h>\<newline>'',
      ''#include <linux/types.h>\<newline>'',
      ''#include <linux/string.h>\<newline>'',
      ''#include <linux/configfs.h>\<newline>'',
      ''#include <linux/ctype.h>\<newline>'',
      ''#include <asm/unaligned.h>\<newline>'',
      ''#include <scsi/scsi_proto.h>\<newline>\<newline>'',
      ''#include <target/target_core_base.h>\<newline>'',
      ''#include <target/target_core_fabric.h>\<newline>'',
      ''#include \"'' @ n @ ''_base.h\"\<newline>'',
      ''#include \"'' @ n @ ''_fabric.h\"\<newline>\<newline>'',
      ''static const struct target_core_fabric_ops '' @ n @ ''_ops;\<newline>\<newline>'',
      ''static struct se_portal_group *'' @ n @ ''_make_tpg(\<newline>'',
      ''	struct se_wwn *wwn,\<newline>'',
      ''	struct config_group *group,\<newline>'',
      ''	const char *name)\<newline>'',
      ''{\<newline>'',
      ''	struct '' @ n @ ''_'' @ p @ ''*'' @ p @ '' = container_of(wwn,\<newline>'',
      ''			struct '' @ n @ ''_'' @ p @ '', '' @ p @ ''_wwn);\<newline>\<newline>'',
      ''	struct '' @ n @ ''_tpg *tpg;\<newline>'',
      ''	unsigned long tpgt;\<newline>'',
      ''	int ret;\<newline>\<newline>'',
      ''	if (strstr(name, \"tpgt_\") != name)\<newline>'',
      ''		return ERR_PTR(-EINVAL);\<newline>'',
      ''	if (kstrtoul(name + 5, 10, &tpgt) || tpgt > UINT_MAX)\<newline>'',
      ''		return ERR_PTR(-EINVAL);\<newline>\<newline>'',
      ''	tpg = kzalloc(sizeof(struct '' @ n @ ''_tpg), GFP_KERNEL);\<newline>'',
      ''	if (!tpg) {\<newline>'',
      ''		printk(KERN_ERR \"Unable to allocate struct '' @ n @ ''_tpg\");\<newline>'',
      ''		return ERR_PTR(-ENOMEM);\<newline>'',
      ''	}\<newline>'',
      ''	tpg->'' @ p @ '' = '' @ p @ '';\<newline>'',
      ''	tpg->'' @ p @ ''_tpgt = tpgt;\<newline>\<newline>'']"

definition configfs_register :: "string \<Rightarrow> string list" where
  "configfs_register proto_ident =
     (if proto_ident = ''FC'' then [''	ret = core_tpg_register(wwn, &tpg->se_tpg, SCSI_PROTOCOL_FCP);\<newline>'']
      else if proto_ident = ''SAS'' then [''	ret = core_tpg_register(wwn, &tpg->se_tpg, SCSI_PROTOCOL_SAS);\<newline>'']
      else if proto_ident = ''iSCSI'' then [''	ret = core_tpg_register(wwn, &tpg->se_tpg, SCSI_PROTOCOL_ISCSI);\<newline>'']
      else [])"

definition configfs_tpg :: "string \<Rightarrow> string \<Rightarrow> string list" where
  "configfs_tpg n p =
     [''	if (ret < 0) {\<newline>'',
      ''		kfree(tpg);\<newline>'',
      ''		return NULL;\<newline>'',
      ''	}\<newline>'',
      ''	return &tpg->se_tpg;\<newline>'',
      ''}\<newline>\<newline>'',
      ''static void '' @ n @ ''_drop_tpg(struct se_portal_group *se_tpg)\<newline>'',
      ''{\<newline>'',
      ''	struct '' @ n @ ''_tpg *tpg = container_of(se_tpg,\<newline>'',
      ''				struct '' @ n @ ''_tpg, se_tpg);\<newline>\<newline>'',
      ''	core_tpg_deregister(se_tpg);\<newline>'',
      ''	kfree(tpg);\<newline>'',
      ''}\<newline>\<newline>'',
      ''static struct se_wwn *'' @ n @ ''_make_'' @ p @ ''(\<newline>'',
      ''	struct target_fabric_configfs *tf,\<newline>'',
      ''	struct config_group *group,\<newline>'',
      ''	const char *name)\<newline>'',
      ''{\<newline>'',
      ''	struct '' @ n @ ''_'' @ p @ '' *'' @ p @ '';\<newline>'']"

definition configfs_wwn :: "string \<Rightarrow> string \<Rightarrow> string list" where
  "configfs_wwn n p =
     [''	/* if ('' @ n @ ''_parse_wwn(name, &wwpn, 1) < 0)\<newline>'',
      ''		return ERR_PTR(-EINVAL); */\<newline>\<newline>'',
      ''	'' @ p @ '' = kzalloc(sizeof(struct '' @ n @ ''_'' @ p @ ''), GFP_KERNEL);\<newline>'',
      ''	if (!'' @ p @ '') {\<newline>'',
      ''		printk(KERN_ERR \"Unable to allocate struct '' @ n @ ''_'' @ p @ ''\");\<newline>'',
      ''		return ERR_PTR(-ENOMEM);\<newline>'',
      ''	}\<newline>'']"

definition configfs_drop :: "string \<Rightarrow> string \<Rightarrow> string list" where
  "configfs_drop n p =
     [''	/* '' @ n @ ''_format_wwn(&'' @ p @ ''->'' @ p @ ''_name[0], '' @ upper n @ ''_NAMELEN, wwpn); */\<newline>\<newline>'',
      ''	return &'' @ p @ ''->'' @ p @ ''_wwn;\<newline>'',
      ''}\<newline>\<newline>'',
      ''static void '' @ n @ ''_drop_'' @ p @ ''(struct se_wwn *wwn)\<newline>'',
      ''{\<newline>'',
      ''	struct '' @ n @ ''_'' @ p @ '' *'' @ p @ '' = container_of(wwn,\<newline>'',
      ''				struct '' @ n @ ''_'' @ p @ '', '' @ p @ ''_wwn);\<newline>'',
      ''	kfree('' @ p @ '');\<newline>'',
      ''}\<newline>\<newline>'']"

definition configfs_ops :: "string \<Rightarrow> string \<Rightarrow> string list" where
  "configfs_ops n p =
     [''static const struct target_core_fabric_ops '' @ n @ ''_ops = {\<newline>'',
      ''	.module				= THIS_MODULE,\<newline>'',
      ''	.name				= \"'' @ n @ ''\",\<newline>'',
      ''	.get_fabric_name		= '' @ n @ ''_get_fabric_name,\<newline>'',
      ''	.tpg_get_wwn			= '' @ n @ ''_get_fabric_wwn,\<newline>'',
      ''	.tpg_get_tag			= '' @ n @ ''_get_tag,\<newline>'',
      ''	.tpg_check_demo_mode		= '' @ n @ ''_check_false,\<newline>'',
      ''	.tpg_check_demo_mode_cache	= '' @ n @ ''_check_true,\<newline>'',
      ''	.tpg_check_demo_mode_write_protect = '' @ n @ ''_check_true,\<newline>'',
      ''	.tpg_check_prod_mode_write_protect = '' @ n @ ''_check_false,\<newline>'',
      ''	.tpg_get_inst_index		= '' @ n @ ''_tpg_get_inst_index,\<newline>'',
      ''	.release_cmd			= '' @ n @ ''_release_cmd,\<newline>'',
      ''	.sess_get_index			= '' @ n @ ''_sess_get_index,\<newline>'',
      ''	.sess_get_initiator_sid		= NULL,\<newline>'',
      ''	.write_pending			= '' @ n @ ''_write_pending,\<newline>'',
      ''	.write_pending_status		= '' @ n @ ''_write_pending_status,\<newline>'',
      ''	.set_default_node_attributes	= '' @ n @ ''_set_default_node_attrs,\<newline>'',
      ''	.get_cmd_state			= '' @ n @ ''_get_cmd_state,\<newline>'',
      ''	.queue_data_in			= '' @ n @ ''_queue_data_in,\<newline>'',
      ''	.queue_status			= '' @ n @ ''_queue_status,\<newline>'',
      ''	.queue_tm_rsp			= '' @ n @ ''_queue_tm_rsp,\<newline>'',
      ''	.aborted_task			= '' @ n @ ''_aborted_task,\<newline>'',
      ''	/*\<newline>'',
      ''	 * Setup function pointers for generic logic in target_core_fabric_configfs.c\<newline>'',
      ''	 */\<newline>'',
      ''	.fabric_make_wwn		= '' @ n @ ''_make_'' @ p @ '',\<newline>'',
      ''	.fabric_drop_wwn		= '' @ n @ ''_drop_'' @ p @ '',\<newline>'',
      ''	.fabric_make_tpg		= '' @ n @ ''_make_tpg,\<newline>'',
      ''	.fabric_drop_tpg		= '' @ n @ ''_drop_tpg,\<newline>'',
      ''};\<newline>\<newline>'']"

definition configfs_module :: "string \<Rightarrow> string list" where
  "configfs_module n =
     [''static int __init '' @ n @ ''_init(void)\<newline>'',
      ''{\<newline>'',
      ''	return target_register_template(&'' @ n @ ''_ops);\<newline>'',
      ''};\<newline>\<newline>'',
      ''static void __exit '' @ n @ ''_exit(void)\<newline>'',
      ''{\<newline>'',
      ''	target_unregister_template(&'' @ n @ ''_ops);\<newline>'',
      ''};\<newline>\<newline>'',
      ''MODULE_DESCRIPTION(\"'' @ upper n @ '' series fabric driver\");\<newline>'',
      ''MODULE_LICENSE(\"GPL\");\<newline>'',
      ''module_init('' @ n @ ''_init);\<newline>'',
      ''module_exit('' @ n @ ''_exit);\<newline>'']"

definition configfs_text :: "string \<Rightarrow> string \<Rightarrow> string \<Rightarrow> string list" where
  "configfs_text proto_ident n p =
     configfs_head n p @ configfs_register proto_ident @ configfs_tpg n p
     @ (if proto_ident = ''FC'' \<or> proto_ident = ''SAS'' then [''	u64 wwpn = 0;\<newline>\<newline>''] else [])
     @ configfs_wwn n p
     @ (if proto_ident = ''FC'' \<or> proto_ident = ''SAS''
        then [''	'' @ p @ ''->'' @ p @ ''_wwpn = wwpn;\<newline>''] else [])
     @ configfs_drop n p @ configfs_ops n p @ configfs_module n"

section \<open>The fabric operations\<close>

text \<open>The lines before the operations, for the file and for its header.\<close>

definition fabric_head :: "string \<Rightarrow> string list" where
  "fabric_head n =
     [''#include <linux/slab.h>\<newline>'',
      ''#include <linux/kthread.h>\<newline>'',
      ''#include <linux/types.h>\<newline>'',
      ''#include <linux/list.h>\<newline>'',
      ''#include <linux/types.h>\<newline>'',
      ''#include <linux/string.h>\<newline>'',
      ''#include <linux/ctype.h>\<newline>'',
      ''#include <asm/unaligned.h>\<newline>'',
      ''#include <scsi/scsi_common.h>\<newline>'',
      ''#include <scsi/scsi_proto.h>\<newline>'',
      ''#include <target/target_core_base.h>\<newline>'',
      ''#include <target/target_core_fabric.h>\<newline>'',
      ''#include \"'' @ n @ ''_base.h\"\<newline>'',
      ''#include \"'' @ n @ ''_fabric.h\"\<newline>\<newline>'',
      ''int '' @ n @ ''_check_true(struct se_portal_group *se_tpg)\<newline>'',
      ''{\<newline>'',
      ''	return 1;\<newline>'',
      ''}\<newline>\<newline>'',
      ''int '' @ n @ ''_check_false(struct se_portal_group *se_tpg)\<newline>'',
      ''{\<newline>'',
      ''	return 0;\<newline>'',
      ''}\<newline>\<newline>'']"

definition fabric_head_decls :: "string \<Rightarrow> string list" where
  "fabric_head_decls n =
     [''int '' @ n @ ''_check_true(struct se_portal_group *);\<newline>'',
      ''int '' @ n @ ''_check_false(struct se_portal_group *);\<newline>'']"

text \<open>
  The operation that ends the round of its line, and the table of the others: the text searched in a
  line of the structure, the lines of the function and its declaration.
\<close>

definition name_op :: "string \<Rightarrow> string \<times> string list \<times> string" where
  "name_op n =
     (''get_fabric_name'', [''char *'' @ n @ ''_get_fabric_name(void)\<newline>'',
      ''{\<newline>'',
      ''	return \"'' @ n @ ''\";\<newline>'',
      ''}\<newline>\<newline>''],
      ''char *'' @ n @ ''_get_fabric_name(void);\<newline>'')"

definition op_table :: "string \<Rightarrow> string \<Rightarrow> (string \<times> string list \<times> string) list" where
  "op_table n p =
     [(''get_wwn'',
       [''char *'' @ n @ ''_get_fabric_wwn(struct se_portal_group *se_tpg)\<newline>'',
        ''{\<newline>'',
        ''	struct '' @ n @ ''_tpg *tpg = container_of(se_tpg,\<newline>'',
        ''				struct '' @ n @ ''_tpg, se_tpg);\<newline>'',
        ''	struct '' @ n @ ''_'' @ p @ '' *'' @ p @ '' = tpg->'' @ p @ '';\<newline>\<newline>'',
        ''	return &'' @ p @ ''->'' @ p @ ''_name[0];\<newline>'',
        ''}\<newline>\<newline>''],
       ''char *'' @ n @ ''_get_fabric_wwn(struct se_portal_group *);\<newline>''),
      (''get_tag'',
       [''u16 '' @ n @ ''_get_tag(struct se_portal_group *se_tpg)\<newline>'',
        ''{\<newline>'',
        ''	struct '' @ n @ ''_tpg *tpg = container_of(se_tpg,\<newline>'',
        ''				struct '' @ n @ ''_tpg, se_tpg);\<newline>'',
        ''	return tpg->'' @ p @ ''_tpgt;\<newline>'',
        ''}\<newline>\<newline>''],
       ''u16 '' @ n @ ''_get_tag(struct se_portal_group *);\<newline>''),
      (''tpg_get_inst_index)('',
       [''u32 '' @ n @ ''_tpg_get_inst_index(struct se_portal_group *se_tpg)\<newline>'',
        ''{\<newline>'',
        ''	return 1;\<newline>'',
        ''}\<newline>\<newline>''],
       ''u32 '' @ n @ ''_tpg_get_inst_index(struct se_portal_group *);\<newline>''),
      (''*release_cmd)('',
       [''void '' @ n @ ''_release_cmd(struct se_cmd *se_cmd)\<newline>'',
        ''{\<newline>'',
        ''	return;\<newline>'',
        ''}\<newline>\<newline>''],
       ''void '' @ n @ ''_release_cmd(struct se_cmd *);\<newline>''),
      (''sess_get_index)('',
       [''u32 '' @ n @ ''_sess_get_index(struct se_session *se_sess)\<newline>'',
        ''{\<newline>'',
        ''	return 0;\<newline>'',
        ''}\<newline>\<newline>''],
       ''u32 '' @ n @ ''_sess_get_index(struct se_session *);\<newline>''),
      (''write_pending)('',
       [''int '' @ n @ ''_write_pending(struct se_cmd *se_cmd)\<newline>'',
        ''{\<newline>'',
        ''	return 0;\<newline>'',
        ''}\<newline>\<newline>''],
       ''int '' @ n @ ''_write_pending(struct se_cmd *);\<newline>''),
      (''write_pending_status)('',
       [''int '' @ n @ ''_write_pending_status(struct se_cmd *se_cmd)\<newline>'',
        ''{\<newline>'',
        ''	return 0;\<newline>'',
        ''}\<newline>\<newline>''],
       ''int '' @ n @ ''_write_pending_status(struct se_cmd *);\<newline>''),
      (''set_default_node_attributes)('',
       [''void '' @ n @ ''_set_default_node_attrs(struct se_node_acl *nacl)\<newline>'',
        ''{\<newline>'',
        ''	return;\<newline>'',
        ''}\<newline>\<newline>''],
       ''void '' @ n @ ''_set_default_node_attrs(struct se_node_acl *);\<newline>''),
      (''get_cmd_state)('',
       [''int '' @ n @ ''_get_cmd_state(struct se_cmd *se_cmd)\<newline>'',
        ''{\<newline>'',
        ''	return 0;\<newline>'',
        ''}\<newline>\<newline>''],
       ''int '' @ n @ ''_get_cmd_state(struct se_cmd *);\<newline>''),
      (''queue_data_in)('',
       [''int '' @ n @ ''_queue_data_in(struct se_cmd *se_cmd)\<newline>'',
        ''{\<newline>'',
        ''	return 0;\<newline>'',
        ''}\<newline>\<newline>''],
       ''int '' @ n @ ''_queue_data_in(struct se_cmd *);\<newline>''),
      (''queue_status)('',
       [''int '' @ n @ ''_queue_status(struct se_cmd *se_cmd)\<newline>'',
        ''{\<newline>'',
        ''	return 0;\<newline>'',
        ''}\<newline>\<newline>''],
       ''int '' @ n @ ''_queue_status(struct se_cmd *);\<newline>''),
      (''queue_tm_rsp)('',
       [''void '' @ n @ ''_queue_tm_rsp(struct se_cmd *se_cmd)\<newline>'',
        ''{\<newline>'',
        ''	return;\<newline>'',
        ''}\<newline>\<newline>''],
       ''void '' @ n @ ''_queue_tm_rsp(struct se_cmd *);\<newline>''),
      (''aborted_task)('',
       [''void '' @ n @ ''_aborted_task(struct se_cmd *se_cmd)\<newline>'',
        ''{\<newline>'',
        ''	return;\<newline>'',
        ''}\<newline>\<newline>''],
       ''void '' @ n @ ''_aborted_task(struct se_cmd *);\<newline>'')]"

section \<open>The build files\<close>

definition makefile_text :: "string \<Rightarrow> string list" where
  "makefile_text n =
     [n @ ''-objs			:= '' @ n @ ''_fabric.o '' @ [CHR 0x5C] @ ''\<newline>'',
      ''					   '' @ n @ ''_configfs.o\<newline>'',
      ''obj-$(CONFIG_'' @ upper n @ '')		+= '' @ n @ ''.o\<newline>'']"

definition kconfig_text :: "string \<Rightarrow> string list" where
  "kconfig_text n =
     [''config '' @ upper n @ ''\<newline>'',
      ''	tristate \"'' @ upper n @ '' fabric module\"\<newline>'',
      ''	depends on TARGET_CORE && CONFIGFS_FS\<newline>'',
      ''	default n\<newline>'',
      ''	---help---\<newline>'',
      ''	Say Y here to enable the '' @ upper n @ '' fabric module\<newline>'']"

definition makefile_entry :: "string \<Rightarrow> string" where
  "makefile_entry n =
     ''obj-$(CONFIG_'' @ upper n @ '')	+= '' @ lower n @ ''/\<newline>''"

definition kconfig_entry :: "string \<Rightarrow> string" where
  "kconfig_entry n =
     ''source \"drivers/target/'' @ lower n @ ''/Kconfig\"\<newline>''"

end
