(* ===== verification/TcmBuild.thy ===== *)
theory TcmBuild
  imports TcmText FileStore
begin

text \<open>
  \<open>Documentation/target/tcm_mod_builder.py\<close>: the generator of a fabric module, as operations on a state of
  the files, the global variables, the printed lines and the answers still to be read. An operation
  returns the new state and either nothing or what ended the script. The texts are in \<open>TcmText\<close>.
\<close>

section \<open>State and sequencing\<close>

record tcm_state =
  tm_fs :: store
  tm_fabric_ops :: "string list"
  tm_port :: string
  tm_init_port :: string
  tm_out :: "string list"
  tm_answers :: "string list"

type_synonym tcm_op = "tcm_state \<Rightarrow> tcm_state \<times> unit res"

definition andthen :: "tcm_op \<Rightarrow> tcm_op \<Rightarrow> tcm_op" where
  "andthen f g st = (case f st of (st', Inl e) \<Rightarrow> (st', Inl e) | (st', Inr u) \<Rightarrow> g st')"

definition out_line :: "string \<Rightarrow> tcm_op" where
  "out_line s st = (st\<lparr>tm_out := tm_out st @ [s]\<rparr>, Inr ())"

text \<open>\<open>sys.exit(1)\<close>\<close>

definition exit_1 :: exn where
  "exit_1 = OtherError ''SystemExit: 1''"

definition stop :: tcm_op where
  "stop st = (st, Inl exit_1)"

text \<open>An operation on the files, and the assignment of the two port names.\<close>

definition on_files :: "(store \<Rightarrow> store res) \<Rightarrow> tcm_op" where
  "on_files f st = (case f (tm_fs st) of Inl e \<Rightarrow> (st, Inl e) | Inr s \<Rightarrow> (st\<lparr>tm_fs := s\<rparr>, Inr ()))"

definition set_ports :: "string \<Rightarrow> string \<Rightarrow> tcm_op" where
  "set_ports port init_port st = (st\<lparr>tm_port := port, tm_init_port := init_port\<rparr>, Inr ())"

text \<open>
  The common frame of the generating functions: print the name, open the file (which truncates it) and
  write the buffer.
\<close>

definition write_file :: "string \<Rightarrow> (tcm_state \<Rightarrow> string list) \<Rightarrow> tcm_op" where
  "write_file f lines =
     andthen (out_line (''Writing file: '' @ f))
       (andthen (on_files (fs_put f []))
         (\<lambda>st. on_files (fs_put f (concat (lines st))) st))"

section \<open>The parts of the generator\<close>

text \<open>\<open>True\<close> when the directory is already there.\<close>

definition tcm_mod_create_module_subdir :: "string \<Rightarrow> tcm_state \<Rightarrow> tcm_state \<times> bool res" where
  "tcm_mod_create_module_subdir dir st =
     (if fs_isdir (tm_fs st) dir then (st, Inr True)
      else
        let st1 = fst (out_line (''Creating fabric_mod_dir: '' @ dir) st) in
        if dirname dir \<noteq> [] \<and> \<not> fs_isdir (tm_fs st1) (dirname dir)
        then (st1, Inl (IOError ''No such file or directory''))
        else case fs_mkdir dir (tm_fs st1) of
               Inl e \<Rightarrow> (st1, Inl e)
             | Inr s \<Rightarrow> (st1\<lparr>tm_fs := s\<rparr>, Inr False))"

definition base_file :: "string \<Rightarrow> string \<Rightarrow> string" where
  "base_file dir n = dir @ ''/'' @ n @ ''_base.h''"

definition tcm_mod_build_FC_include :: "string \<Rightarrow> string \<Rightarrow> tcm_op" where
  "tcm_mod_build_FC_include dir n =
     andthen (write_file (base_file dir n) (\<lambda>st. fc_base n)) (set_ports ''lport'' ''nport'')"

definition tcm_mod_build_SAS_include :: "string \<Rightarrow> string \<Rightarrow> tcm_op" where
  "tcm_mod_build_SAS_include dir n =
     andthen (write_file (base_file dir n) (\<lambda>st. sas_base n)) (set_ports ''tport'' ''iport'')"

definition tcm_mod_build_iSCSI_include :: "string \<Rightarrow> string \<Rightarrow> tcm_op" where
  "tcm_mod_build_iSCSI_include dir n =
     andthen (write_file (base_file dir n) (\<lambda>st. iscsi_base n)) (set_ports ''tport'' ''iport'')"

definition tcm_mod_build_base_includes :: "string \<Rightarrow> string \<Rightarrow> string \<Rightarrow> tcm_op" where
  "tcm_mod_build_base_includes proto_ident dir n =
     (if proto_ident = ''FC'' then tcm_mod_build_FC_include dir n
      else if proto_ident = ''SAS'' then tcm_mod_build_SAS_include dir n
      else if proto_ident = ''iSCSI'' then tcm_mod_build_iSCSI_include dir n
      else andthen (out_line (''Unsupported proto_ident: '' @ proto_ident)) stop)"

definition tcm_mod_build_configfs :: "string \<Rightarrow> string \<Rightarrow> string \<Rightarrow> tcm_op" where
  "tcm_mod_build_configfs proto_ident dir n =
     write_file (dir @ ''/'' @ n @ ''_configfs.c'') (\<lambda>st. configfs_text proto_ident n (tm_port st))"

subsection \<open>Scanning the header of the fabric operations\<close>

definition contains :: "string \<Rightarrow> string \<Rightarrow> bool" where
  "contains p s \<longleftrightarrow> py_find p s \<noteq> None"

definition is_struct_line :: "string \<Rightarrow> bool" where
  "is_struct_line line \<longleftrightarrow> contains ''struct target_core_fabric_ops {'' line"

definition is_pointer_line :: "string \<Rightarrow> bool" where
  "is_pointer_line line \<longleftrightarrow> contains [CHR ''('', CHR ''*''] line"

text \<open>The line read next is kept when it holds a function pointer; at the end there is none.\<close>

definition collect :: "string list \<Rightarrow> string list \<Rightarrow> string list" where
  "collect ops rest =
     (case rest of
        [] \<Rightarrow> ops
      | line # ls \<Rightarrow> if is_pointer_line line then ops @ [rstrip_by is_space line] else ops)"

text \<open>The loop over the current line and the rest, with the flag \<open>process_fo\<close>.\<close>

fun scan_loop :: "bool \<Rightarrow> string list \<Rightarrow> string list \<Rightarrow> string list" where
  "scan_loop process_fo ops [] = ops"
| "scan_loop False ops (line # rest) =
     (if is_struct_line line then scan_loop False ops rest
      else scan_loop True (collect ops rest) rest)"
| "scan_loop True ops (line # rest) = scan_loop True (collect ops rest) rest"

definition tcm_mod_scan_fabric_ops :: "string \<Rightarrow> tcm_op" where
  "tcm_mod_scan_fabric_ops tcm_dir =
     (let api = tcm_dir @ ''include/target/target_core_fabric.h'' in
      andthen (out_line (''Using tcm_mod_scan_fabric_ops: '' @ api))
        (\<lambda>st. case fs_look (tm_fs st) api of
                None \<Rightarrow> (st, Inl (IOError api))
              | Some (d, t) \<Rightarrow>
                  (st\<lparr>tm_fabric_ops := scan_loop False (tm_fabric_ops st) (file_lines d)\<rparr>, Inr ())))"

subsection \<open>Writing the operations\<close>

text \<open>One round of the loop: the lines appended to the file and to its header for a scanned line.\<close>

definition fabric_op :: "string \<Rightarrow> string \<Rightarrow> string \<Rightarrow> string list \<times> string list" where
  "fabric_op n p fo =
     (let (pat, c, h) = name_op n in
      if contains pat fo then (c, [h])
      else let hits = List.filter (\<lambda>(pat, c, h). contains pat fo) (op_table n p) in
           (concat (List.map (\<lambda>(pat, c, h). c) hits), List.map (\<lambda>(pat, c, h). h) hits))"

definition fabric_c :: "string \<Rightarrow> string \<Rightarrow> string list \<Rightarrow> string list" where
  "fabric_c n p ops = fabric_head n @ concat (List.map (\<lambda>fo. fst (fabric_op n p fo)) ops)"

definition fabric_h :: "string \<Rightarrow> string \<Rightarrow> string list \<Rightarrow> string list" where
  "fabric_h n p ops = fabric_head_decls n @ concat (List.map (\<lambda>fo. snd (fabric_op n p fo)) ops)"

definition tcm_mod_dump_fabric_ops :: "string \<Rightarrow> string \<Rightarrow> tcm_op" where
  "tcm_mod_dump_fabric_ops dir n =
     (let f = dir @ ''/'' @ n @ ''_fabric.c''; fi = dir @ ''/'' @ n @ ''_fabric.h'' in
      andthen (out_line (''Writing file: '' @ f))
     (andthen (on_files (fs_put f []))
     (andthen (out_line (''Writing file: '' @ fi))
     (andthen (on_files (fs_put fi []))
     (andthen (\<lambda>st. on_files (fs_put f (concat (fabric_c n (tm_port st) (tm_fabric_ops st)))) st)
              (\<lambda>st. on_files (fs_put fi (concat (fabric_h n (tm_port st) (tm_fabric_ops st)))) st))))))"

subsection \<open>Build files\<close>

definition tcm_mod_build_kbuild :: "string \<Rightarrow> string \<Rightarrow> tcm_op" where
  "tcm_mod_build_kbuild dir n = write_file (dir @ ''/Makefile'') (\<lambda>st. makefile_text n)"

definition tcm_mod_build_kconfig :: "string \<Rightarrow> string \<Rightarrow> tcm_op" where
  "tcm_mod_build_kconfig dir n = write_file (dir @ ''/Kconfig'') (\<lambda>st. kconfig_text n)"

text \<open>\<open>open(f, 'a')\<close> and a write.\<close>

definition append_file :: "string \<Rightarrow> string \<Rightarrow> tcm_op" where
  "append_file f text =
     on_files (\<lambda>s. fs_put f ((case fs_look s f of Some (d, t) \<Rightarrow> d | None \<Rightarrow> []) @ text) s)"

definition tcm_mod_add_kbuild :: "string \<Rightarrow> string \<Rightarrow> tcm_op" where
  "tcm_mod_add_kbuild tcm_dir n = append_file (tcm_dir @ ''/drivers/target/Makefile'') (makefile_entry n)"

definition tcm_mod_add_kconfig :: "string \<Rightarrow> string \<Rightarrow> tcm_op" where
  "tcm_mod_add_kconfig tcm_dir n = append_file (tcm_dir @ ''/drivers/target/Kconfig'') (kconfig_entry n)"

section \<open>The script\<close>

text \<open>A question, and what is done when it is answered with yes.\<close>

definition ask :: "string \<Rightarrow> tcm_op \<Rightarrow> tcm_op" where
  "ask prompt yes st =
     (let st1 = st\<lparr>tm_out := tm_out st @ [prompt]\<rparr> in
      case tm_answers st1 of
        [] \<Rightarrow> (st1, Inl (OtherError ''EOFError''))
      | a # as \<Rightarrow>
          let st2 = st1\<lparr>tm_answers := as\<rparr> in
          if a = ''yes'' \<or> a = ''y'' then yes st2 else (st2, Inr ()))"

definition module_dir :: "string \<Rightarrow> string \<Rightarrow> string" where
  "module_dir tcm_dir n = tcm_dir @ ''drivers/target/'' @ n"

definition ask_build_files :: "string \<Rightarrow> string \<Rightarrow> tcm_op" where
  "ask_build_files tcm_dir n =
     andthen (ask (''Would you like to add '' @ n @ '' to drivers/target/Makefile..? [yes,no]: '')
               (tcm_mod_add_kbuild tcm_dir n))
             (ask (''Would you like to add '' @ n @ '' to drivers/target/Kconfig..? [yes,no]: '')
               (tcm_mod_add_kconfig tcm_dir n))"

definition generate :: "string \<Rightarrow> string \<Rightarrow> string \<Rightarrow> tcm_op" where
  "generate tcm_dir n proto_ident =
     (let dir = module_dir tcm_dir n in
      andthen (tcm_mod_build_base_includes proto_ident dir n)
     (andthen (tcm_mod_scan_fabric_ops tcm_dir)
     (andthen (tcm_mod_dump_fabric_ops dir n)
     (andthen (tcm_mod_build_configfs proto_ident dir n)
     (andthen (tcm_mod_build_kbuild dir n)
     (andthen (tcm_mod_build_kconfig dir n)
              (ask_build_files tcm_dir n)))))))"

definition tcm_main :: "string \<Rightarrow> string \<Rightarrow> string \<Rightarrow> tcm_op" where
  "tcm_main cwd modname proto_ident =
     (let tcm_dir = cwd @ ''/../../''; n = modname; dir = module_dir tcm_dir n in
      andthen (out_line (''tcm_dir: '' @ tcm_dir))
     (andthen (out_line (''Set fabric_mod_name: '' @ n))
     (andthen (out_line (''Set fabric_mod_dir: '' @ dir))
     (andthen (out_line (''Using proto_ident: '' @ proto_ident))
     (if proto_ident \<noteq> ''FC'' \<and> proto_ident \<noteq> ''SAS'' \<and> proto_ident \<noteq> ''iSCSI''
      then andthen (out_line (''Unsupported proto_ident: '' @ proto_ident)) stop
      else (\<lambda>st.
        case tcm_mod_create_module_subdir dir st of
          (st1, Inl e) \<Rightarrow> (st1, Inl e)
        | (st1, Inr True) \<Rightarrow>
            andthen (out_line ''tcm_mod_create_module_subdir() failed because module already exists!'') stop st1
        | (st1, Inr False) \<Rightarrow> generate tcm_dir n proto_ident st1))))))"

text \<open>
  The script from its options: both are required and must not be empty. At the first that is missing it
  prints the message, which ends in a line break of its own, and the help of the parser, a text of the
  library \<open>optparse\<close> (\<open>usage\<close>, without its last line break), and exits.
\<close>

definition tcm_script :: "string \<Rightarrow> string \<Rightarrow> string option \<Rightarrow> string option \<Rightarrow> tcm_op" where
  "tcm_script usage cwd modname protoident =
     (if modname = None \<or> modname = Some [] \<or> protoident = None \<or> protoident = Some []
      then andthen (out_line ''mandatory option is missing\<newline>'')
        (andthen (out_line usage) (\<lambda>st. (st, Inl (OtherError ''SystemExit: -1''))))
      else tcm_main cwd (the modname) (the protoident))"

end
