(* ===== verification/TcmProps.thy ===== *)
theory TcmProps
  imports TcmBuild
begin

text \<open>
  Properties of the module generator: what the scan of the header keeps, what a run leaves in the files,
  and that the generated files fit together.
\<close>

section \<open>Sequencing\<close>

definition file_content :: "store \<Rightarrow> string \<Rightarrow> string option" where
  "file_content s f = map_option fst (fs_look s f)"

lemma andthen_Inr:
  "andthen f g st = (st', Inr u) \<longleftrightarrow> (\<exists>st1. f st = (st1, Inr ()) \<and> g st1 = (st', Inr u))"
  by (auto simp: andthen_def split: prod.splits sum.splits)

lemma on_files_Inr:
  "on_files f st = (st', Inr u) \<longleftrightarrow> (\<exists>s. f (tm_fs st) = Inr s \<and> st' = st\<lparr>tm_fs := s\<rparr>)"
  by (auto simp: on_files_def split: sum.splits)

lemma file_content_put:
  assumes "fs_put f d s = Inr s'"
  shows "file_content s' = (file_content s)(f \<mapsto> d)"
  using fs_look_put [OF assms] by (auto simp: file_content_def)

lemma out_line_Inr: "out_line m st = (st', Inr u) \<longleftrightarrow> st' = st\<lparr>tm_out := tm_out st @ [m]\<rparr>"
  by (auto simp: out_line_def)

lemma set_ports_Inr: "set_ports p i st = (st', Inr u) \<longleftrightarrow> st' = st\<lparr>tm_port := p, tm_init_port := i\<rparr>"
  by (auto simp: set_ports_def)

text \<open>What an operation may change beside the files: nothing but the printed lines.\<close>

abbreviation same_globals :: "tcm_state \<Rightarrow> tcm_state \<Rightarrow> bool" where
  "same_globals st st' \<equiv> tm_fabric_ops st' = tm_fabric_ops st \<and> tm_port st' = tm_port st
     \<and> tm_init_port st' = tm_init_port st \<and> tm_answers st' = tm_answers st"

lemma put_step:
  assumes "on_files (fs_put f d) st = (st', Inr ())"
  shows "file_content (tm_fs st') = (file_content (tm_fs st))(f \<mapsto> d)" and "same_globals st st'"
  using assms by (auto simp: on_files_Inr file_content_put)

lemma write_file_step:
  assumes "write_file f lines st = (st', Inr ())"
    and "\<And>s o'. lines (st\<lparr>tm_out := o', tm_fs := s\<rparr>) = lines st"
  shows "file_content (tm_fs st') = (file_content (tm_fs st))(f \<mapsto> concat (lines st))"
    and "same_globals st st'"
proof -
  let ?o = "tm_out st @ [''Writing file: '' @ f]"
  obtain s1 s2 where "fs_put f [] (tm_fs st) = Inr s1" "st' = st\<lparr>tm_out := ?o, tm_fs := s2\<rparr>"
    and "fs_put f (concat (lines (st\<lparr>tm_out := ?o, tm_fs := s1\<rparr>))) s1 = Inr s2"
    using assms(1) by (auto simp: write_file_def andthen_Inr out_line_Inr on_files_Inr)
  then show "file_content (tm_fs st') = (file_content (tm_fs st))(f \<mapsto> concat (lines st))"
    and "same_globals st st'"
    by (simp_all add: assms(2) file_content_put)
qed

lemma dump_step:
  assumes "tcm_mod_dump_fabric_ops dir n st = (st', Inr ())"
  shows "file_content (tm_fs st') = (file_content (tm_fs st))
      (dir @ ''/'' @ n @ ''_fabric.c'' \<mapsto> concat (fabric_c n (tm_port st) (tm_fabric_ops st)),
       dir @ ''/'' @ n @ ''_fabric.h'' \<mapsto> concat (fabric_h n (tm_port st) (tm_fabric_ops st)))"
    and "same_globals st st'"
proof -
  let ?f = "dir @ ''/'' @ n @ ''_fabric.c''" and ?fi = "dir @ ''/'' @ n @ ''_fabric.h''"
  have ne: "?f \<noteq> ?fi" by simp
  have "\<exists>s1 s2 s3 s4. fs_put ?f [] (tm_fs st) = Inr s1 \<and> fs_put ?fi [] s1 = Inr s2
      \<and> fs_put ?f (concat (fabric_c n (tm_port st) (tm_fabric_ops st))) s2 = Inr s3
      \<and> fs_put ?fi (concat (fabric_h n (tm_port st) (tm_fabric_ops st))) s3 = Inr s4
      \<and> tm_fs st' = s4 \<and> same_globals st st'"
    using assms unfolding tcm_mod_dump_fabric_ops_def Let_def
    by (auto simp: andthen_Inr out_line_Inr on_files_Inr)
  then obtain s1 s2 s3 s4 where p: "fs_put ?f [] (tm_fs st) = Inr s1" "fs_put ?fi [] s1 = Inr s2"
    "fs_put ?f (concat (fabric_c n (tm_port st) (tm_fabric_ops st))) s2 = Inr s3"
    "fs_put ?fi (concat (fabric_h n (tm_port st) (tm_fabric_ops st))) s3 = Inr s4"
    and st': "tm_fs st' = s4" "same_globals st st'" by blast
  show "same_globals st st'" by (rule st'(2))
  show "file_content (tm_fs st') = (file_content (tm_fs st))
      (?f \<mapsto> concat (fabric_c n (tm_port st) (tm_fabric_ops st)),
       ?fi \<mapsto> concat (fabric_h n (tm_port st) (tm_fabric_ops st)))"
    using ne by (simp add: st'(1) file_content_put [OF p(1)] file_content_put [OF p(2)]
        file_content_put [OF p(3)] file_content_put [OF p(4)] fun_upd_twist)
qed

lemma configfs_step:
  assumes "tcm_mod_build_configfs proto dir n st = (st', Inr ())"
  shows "file_content (tm_fs st') = (file_content (tm_fs st))
      (dir @ ''/'' @ n @ ''_configfs.c'' \<mapsto> concat (configfs_text proto n (tm_port st)))"
    and "same_globals st st'"
  using write_file_step [OF assms [unfolded tcm_mod_build_configfs_def]] by simp_all

lemma kbuild_step:
  assumes "tcm_mod_build_kbuild dir n st = (st', Inr ())"
  shows "file_content (tm_fs st') = (file_content (tm_fs st))(dir @ ''/Makefile'' \<mapsto> concat (makefile_text n))"
    and "same_globals st st'"
  using write_file_step [OF assms [unfolded tcm_mod_build_kbuild_def]] by simp_all

lemma kconfig_step:
  assumes "tcm_mod_build_kconfig dir n st = (st', Inr ())"
  shows "file_content (tm_fs st') = (file_content (tm_fs st))(dir @ ''/Kconfig'' \<mapsto> concat (kconfig_text n))"
    and "same_globals st st'"
  using write_file_step [OF assms [unfolded tcm_mod_build_kconfig_def]] by simp_all

section \<open>The base header\<close>

definition base_lines :: "string \<Rightarrow> string \<Rightarrow> string list" where
  "base_lines proto_ident n =
     (if proto_ident = ''FC'' then fc_base n else if proto_ident = ''SAS'' then sas_base n else iscsi_base n)"

definition port_of :: "string \<Rightarrow> string" where
  "port_of proto_ident = (if proto_ident = ''FC'' then ''lport'' else ''tport'')"

lemma base_step:
  assumes "tcm_mod_build_base_includes proto_ident dir n st = (st', Inr ())"
  shows "file_content (tm_fs st') = (file_content (tm_fs st))(base_file dir n \<mapsto> concat (base_lines proto_ident n))"
    and "tm_port st' = port_of proto_ident" and "tm_fabric_ops st' = tm_fabric_ops st"
    and "tm_answers st' = tm_answers st" and "proto_ident \<in> {''FC'', ''SAS'', ''iSCSI''}"
proof -
  show ok: "proto_ident \<in> {''FC'', ''SAS'', ''iSCSI''}"
    using assms by (auto simp: tcm_mod_build_base_includes_def andthen_Inr stop_def split: if_splits)
  obtain st1 where w: "write_file (base_file dir n) (\<lambda>st. base_lines proto_ident n) st = (st1, Inr ())"
    and st': "\<exists>i. st' = st1\<lparr>tm_port := port_of proto_ident, tm_init_port := i\<rparr>"
    using assms ok
    by (auto simp: tcm_mod_build_base_includes_def tcm_mod_build_FC_include_def
        tcm_mod_build_SAS_include_def tcm_mod_build_iSCSI_include_def andthen_Inr set_ports_Inr
        base_lines_def port_of_def split: if_splits)
  show "file_content (tm_fs st') = (file_content (tm_fs st))(base_file dir n \<mapsto> concat (base_lines proto_ident n))"
    and "tm_port st' = port_of proto_ident" and "tm_fabric_ops st' = tm_fabric_ops st"
    and "tm_answers st' = tm_answers st"
    using write_file_step [OF w] st' by auto
qed

section \<open>The scan\<close>

lemma scan_loop_True:
  "scan_loop True ops (line # rest) =
     ops @ List.map (rstrip_by is_space) (List.filter is_pointer_line rest)"
proof (induction rest arbitrary: ops line)
  case Nil
  then show ?case by (simp add: collect_def)
next
  case (Cons l rest)
  then show ?case by (auto simp: collect_def)
qed

lemma scan_loop_False:
  "scan_loop False ops lines =
     ops @ List.map (rstrip_by is_space) (List.filter is_pointer_line (drop 1 (dropWhile is_struct_line lines)))"
proof (induction lines arbitrary: ops)
  case Nil
  then show ?case by simp
next
  case (Cons l rest)
  show ?case
  proof (cases "is_struct_line l")
    case True
    with Cons show ?thesis by simp
  next
    case False
    then have "scan_loop False ops (l # rest) = scan_loop True ops (l # rest)" by simp
    with False scan_loop_True [of ops l rest] show ?thesis by (simp del: scan_loop.simps)
  qed
qed

definition scanned :: "string \<Rightarrow> string list" where
  "scanned header = List.map (rstrip_by is_space)
     (List.filter is_pointer_line (drop 1 (dropWhile is_struct_line (file_lines header))))"

lemma scan_step:
  assumes "tcm_mod_scan_fabric_ops tcm_dir st = (st', Inr ())"
  shows "\<exists>header. file_content (tm_fs st) (tcm_dir @ ''include/target/target_core_fabric.h'') = Some header
     \<and> tm_fabric_ops st' = tm_fabric_ops st @ scanned header"
    and "tm_fs st' = tm_fs st" and "tm_port st' = tm_port st" and "tm_answers st' = tm_answers st"
  using assms
  by (auto simp: tcm_mod_scan_fabric_ops_def Let_def andthen_Inr out_line_Inr file_content_def scanned_def
      scan_loop_False split: option.splits)

section \<open>The questions\<close>

text \<open>The effect of an answer on a build file of the tree.\<close>

definition answered :: "string \<Rightarrow> string \<Rightarrow> string \<Rightarrow> (string \<rightharpoonup> string) \<Rightarrow> (string \<rightharpoonup> string)" where
  "answered a f text m =
     (if a = ''yes'' \<or> a = ''y'' then m(f \<mapsto> (case m f of Some d \<Rightarrow> d | None \<Rightarrow> []) @ text) else m)"

lemma ask_append_step:
  assumes "ask prompt (append_file f text) st = (st', Inr ())"
  shows "\<exists>a as. tm_answers st = a # as \<and> tm_answers st' = as \<and> tm_port st' = tm_port st
      \<and> tm_fabric_ops st' = tm_fabric_ops st
      \<and> file_content (tm_fs st') = answered a f text (file_content (tm_fs st))"
proof (cases "tm_answers st")
  case Nil
  with assms show ?thesis by (simp add: ask_def)
next
  case (Cons a as)
  have c: "(case fs_look s f of Some (d, t) \<Rightarrow> d | None \<Rightarrow> [])
      = (case file_content s f of Some d \<Rightarrow> d | None \<Rightarrow> [])" for s
    by (auto simp: file_content_def split: option.splits)
  from Cons assms show ?thesis
    by (auto simp: ask_def append_file_def on_files_Inr c file_content_put answered_def split: if_splits)
qed

section \<open>A whole run\<close>

text \<open>The files of a generated module, added to a content map.\<close>

definition module_files ::
  "string \<Rightarrow> string \<Rightarrow> string \<Rightarrow> string list \<Rightarrow> (string \<rightharpoonup> string) \<Rightarrow> (string \<rightharpoonup> string)"
where
  "module_files dir n proto ops m = m
     (base_file dir n \<mapsto> concat (base_lines proto n),
      dir @ ''/'' @ n @ ''_fabric.c'' \<mapsto> concat (fabric_c n (port_of proto) ops),
      dir @ ''/'' @ n @ ''_fabric.h'' \<mapsto> concat (fabric_h n (port_of proto) ops),
      dir @ ''/'' @ n @ ''_configfs.c'' \<mapsto> concat (configfs_text proto n (port_of proto)),
      dir @ ''/Makefile'' \<mapsto> concat (makefile_text n),
      dir @ ''/Kconfig'' \<mapsto> concat (kconfig_text n))"

lemma base_file_api:
  "base_file (module_dir tcm_dir n) n \<noteq> tcm_dir @ ''include/target/target_core_fabric.h''"
  by (simp add: base_file_def module_dir_def)

lemma generate_step:
  assumes g: "generate tcm_dir n proto st = (st', Inr ())" and ops: "tm_fabric_ops st = []"
  shows "\<exists>header a1 a2 rest. proto \<in> {''FC'', ''SAS'', ''iSCSI''}
     \<and> file_content (tm_fs st) (tcm_dir @ ''include/target/target_core_fabric.h'') = Some header
     \<and> tm_answers st = a1 # a2 # rest
     \<and> file_content (tm_fs st') =
        answered a2 (tcm_dir @ ''/drivers/target/Kconfig'') (kconfig_entry n)
          (answered a1 (tcm_dir @ ''/drivers/target/Makefile'') (makefile_entry n)
            (module_files (module_dir tcm_dir n) n proto (scanned header) (file_content (tm_fs st))))"
proof -
  let ?dir = "module_dir tcm_dir n"
  from g obtain s1 s2 s3 s4 s5 s6 s7 where
    b: "tcm_mod_build_base_includes proto ?dir n st = (s1, Inr ())" and
    sc: "tcm_mod_scan_fabric_ops tcm_dir s1 = (s2, Inr ())" and
    du: "tcm_mod_dump_fabric_ops ?dir n s2 = (s3, Inr ())" and
    cf: "tcm_mod_build_configfs proto ?dir n s3 = (s4, Inr ())" and
    kb: "tcm_mod_build_kbuild ?dir n s4 = (s5, Inr ())" and
    kc: "tcm_mod_build_kconfig ?dir n s5 = (s6, Inr ())" and
    q1: "ask (''Would you like to add '' @ n @ '' to drivers/target/Makefile..? [yes,no]: '')
           (tcm_mod_add_kbuild tcm_dir n) s6 = (s7, Inr ())" and
    q2: "ask (''Would you like to add '' @ n @ '' to drivers/target/Kconfig..? [yes,no]: '')
           (tcm_mod_add_kconfig tcm_dir n) s7 = (st', Inr ())"
    unfolding generate_def ask_build_files_def Let_def andthen_Inr by blast
  note b = base_step [OF b] and sc = scan_step [OF sc] and du = dump_step [OF du]
  note cf = configfs_step [OF cf] and kb = kbuild_step [OF kb] and kc = kconfig_step [OF kc]
  note q1 = ask_append_step [OF q1 [unfolded tcm_mod_add_kbuild_def]]
  note q2 = ask_append_step [OF q2 [unfolded tcm_mod_add_kconfig_def]]
  from sc(1) b(1) base_file_api obtain header where
    h: "file_content (tm_fs st) (tcm_dir @ ''include/target/target_core_fabric.h'') = Some header"
    and o2: "tm_fabric_ops s2 = scanned header"
    using b(3) ops by (auto simp: base_file_api [symmetric])
  have p: "tm_port s2 = port_of proto" "tm_port s3 = port_of proto" using sc(3) b(2) du(2) by auto
  have m6: "file_content (tm_fs s6) = module_files ?dir n proto (scanned header) (file_content (tm_fs st))"
    unfolding module_files_def kc(1) kb(1) cf(1) du(1) sc(2) b(1) o2 p by (rule refl)
  from q1 obtain a1 as1 where a1: "tm_answers s6 = a1 # as1" "tm_answers s7 = as1"
    and f7: "file_content (tm_fs s7) = answered a1 (tcm_dir @ ''/drivers/target/Makefile'') (makefile_entry n)
        (file_content (tm_fs s6))"
    by blast
  from q2 obtain a2 rest where a2: "tm_answers s7 = a2 # rest"
    and f8: "file_content (tm_fs st') = answered a2 (tcm_dir @ ''/drivers/target/Kconfig'') (kconfig_entry n)
        (file_content (tm_fs s7))"
    by blast
  have a: "tm_answers st = a1 # a2 # rest" using a1 a2 b(4) sc(4) du(2) cf(2) kb(2) kc(2) by simp
  have f: "file_content (tm_fs st') =
      answered a2 (tcm_dir @ ''/drivers/target/Kconfig'') (kconfig_entry n)
        (answered a1 (tcm_dir @ ''/drivers/target/Makefile'') (makefile_entry n)
          (module_files ?dir n proto (scanned header) (file_content (tm_fs st))))"
    unfolding f8 f7 m6 by (rule refl)
  show ?thesis
  proof (rule exI [of _ header], rule exI [of _ a1], rule exI [of _ a2], rule exI [of _ rest], intro conjI)
    show "proto \<in> {''FC'', ''SAS'', ''iSCSI''}" by (rule b(5))
  qed (rule h, rule a, rule f)
qed

lemma create_dir_cases:
  assumes "tcm_mod_create_module_subdir dir st = (st', r)"
  obtains (present) "fs_isdir (tm_fs st) dir" and "st' = st" and "r = Inr True"
  | (failed) e where "r = Inl e" and "tm_fs st' = tm_fs st"
  | (created) "r = Inr False" and "\<not> fs_isdir (tm_fs st) dir"
      and "file_content (tm_fs st') = file_content (tm_fs st)"
      and "tm_answers st' = tm_answers st" and "tm_fabric_ops st' = tm_fabric_ops st"
proof (cases "fs_isdir (tm_fs st) dir")
  case True
  then have "(st', r) = (st, Inr True)" using assms by (simp add: tcm_mod_create_module_subdir_def)
  then show thesis by (intro present [OF True]) simp_all
next
  case False
  have keep: "file_content s = file_content (tm_fs st)" if "fs_mkdir dir (tm_fs st) = Inr s" for s
    using fs_mkdir_keeps(1) [OF that] by (auto simp: file_content_def)
  from assms False have "(\<exists>e. r = Inl e \<and> tm_fs st' = tm_fs st) \<or>
      (\<exists>s. r = Inr False \<and> fs_mkdir dir (tm_fs st) = Inr s \<and> tm_fs st' = s
        \<and> tm_answers st' = tm_answers st \<and> tm_fabric_ops st' = tm_fabric_ops st)"
    by (auto simp: tcm_mod_create_module_subdir_def out_line_def Let_def split: if_splits sum.splits)
  then show thesis
  proof (elim disjE exE conjE)
    fix e assume "r = Inl e" "tm_fs st' = tm_fs st"
    then show thesis by (rule failed)
  next
    fix s assume r: "r = Inr False" and s: "fs_mkdir dir (tm_fs st) = Inr s" "tm_fs st' = s"
      and k: "tm_answers st' = tm_answers st" "tm_fabric_ops st' = tm_fabric_ops st"
    show thesis using keep [OF s(1)] s(2) by (intro created [OF r False _ k]) simp
  qed
qed

lemma tcm_main_cases:
  assumes "tcm_main cwd n proto st = (st', r)"
  obtains (bad_proto) "proto \<notin> {''FC'', ''SAS'', ''iSCSI''}" and "r = Inl exit_1" and "tm_fs st' = tm_fs st"
  | (bad_dir) e where "r = Inl e" and "tm_fs st' = tm_fs st" and "proto \<in> {''FC'', ''SAS'', ''iSCSI''}"
      and "fs_isdir (tm_fs st) (module_dir (cwd @ ''/../../'') n) \<longrightarrow> e = exit_1"
  | (go) s1 where "proto \<in> {''FC'', ''SAS'', ''iSCSI''}"
      and "\<not> fs_isdir (tm_fs st) (module_dir (cwd @ ''/../../'') n)"
      and "file_content (tm_fs s1) = file_content (tm_fs st)" and "tm_answers s1 = tm_answers st"
      and "tm_fabric_ops s1 = tm_fabric_ops st" and "generate (cwd @ ''/../../'') n proto s1 = (st', r)"
proof (cases "proto \<in> {''FC'', ''SAS'', ''iSCSI''}")
  case False
  with assms have "r = Inl exit_1" "tm_fs st' = tm_fs st"
    by (auto simp: tcm_main_def Let_def andthen_def out_line_def stop_def)
  with False bad_proto show thesis by blast
next
  case True
  let ?dir = "module_dir (cwd @ ''/../../'') n"
  define s0 where "s0 = st\<lparr>tm_out := tm_out st @ [''tcm_dir: '' @ cwd @ ''/../../'', ''Set fabric_mod_name: '' @ n,
     ''Set fabric_mod_dir: '' @ ?dir, ''Using proto_ident: '' @ proto]\<rparr>"
  have keep: "tm_fs s0 = tm_fs st" "tm_answers s0 = tm_answers st" "tm_fabric_ops s0 = tm_fabric_ops st"
    by (simp_all add: s0_def)
  obtain s1 c where c: "tcm_mod_create_module_subdir ?dir s0 = (s1, c)" by fastforce
  have main: "(st', r) = (case c of Inl e \<Rightarrow> (s1, Inl e)
      | Inr True \<Rightarrow> andthen (out_line ''tcm_mod_create_module_subdir() failed because module already exists!'') stop s1
      | Inr False \<Rightarrow> generate (cwd @ ''/../../'') n proto s1)"
    using assms True c unfolding tcm_main_def Let_def andthen_def out_line_def s0_def
    by (auto split: sum.splits bool.splits)
  from c show thesis
  proof (cases rule: create_dir_cases)
    case present
    then show thesis
      using main True keep by (intro bad_dir [of exit_1]) (auto simp: andthen_def out_line_def stop_def)
  next
    case (failed e)
    then show thesis
      using main True keep c by (intro bad_dir [of e])
        (auto simp: tcm_mod_create_module_subdir_def)
  next
    case created
    then show thesis using main True keep by (intro go [of s1]) auto
  qed
qed

section \<open>Runs that end normally\<close>

text \<open>A file can be written; writing files makes and removes no directory.\<close>

definition writable :: "store \<Rightarrow> string \<Rightarrow> bool" where
  "writable s f \<longleftrightarrow> \<not> fs_isdir s f \<and> fs_isdir s (dirname f)"

lemma put_ok:
  assumes "writable s f"
  shows "\<exists>s'. fs_put f d s = Inr s' \<and> fs_isdir s' = fs_isdir s"
  using assms by (auto simp: fs_put_def writable_def fs_isdir_def fun_eq_iff)

lemma writable_cong: "fs_isdir s' = fs_isdir s \<Longrightarrow> writable s' = writable s"
  by (simp add: writable_def fun_eq_iff)

text \<open>An operation ends normally and leaves the directories as they are.\<close>

definition ends :: "tcm_op \<Rightarrow> tcm_state \<Rightarrow> bool" where
  "ends f st \<longleftrightarrow> (\<exists>st'. f st = (st', Inr ()) \<and> fs_isdir (tm_fs st') = fs_isdir (tm_fs st))"

named_theorems op_ends \<open>operations that end normally\<close>

lemma ends_andthen:
  assumes "ends f st" and "\<And>st'. f st = (st', Inr ()) \<Longrightarrow> fs_isdir (tm_fs st') = fs_isdir (tm_fs st) \<Longrightarrow> ends g st'"
  shows "ends (andthen f g) st"
  using assms by (fastforce simp: ends_def andthen_def)

lemma ends_out_line [op_ends]: "ends (out_line m) st"
  by (simp add: ends_def out_line_def)

lemma ends_set_ports [op_ends]: "ends (set_ports p i) st"
  by (simp add: ends_def set_ports_def)

lemma ends_put [op_ends]: "writable (tm_fs st) f \<Longrightarrow> ends (on_files (fs_put f d)) st"
  using put_ok [of "tm_fs st" f d] by (auto simp: ends_def on_files_def)

lemma ends_write_file [op_ends]:
  assumes w: "writable (tm_fs st) f"
  shows "ends (write_file f L) st"
  unfolding write_file_def
proof (intro ends_andthen ends_out_line)
  fix st1 :: tcm_state assume 1: "fs_isdir (tm_fs st1) = fs_isdir (tm_fs st)"
  show "ends (on_files (fs_put f [])) st1" using w writable_cong [OF 1] by (intro ends_put) simp
  fix st2 :: tcm_state assume "fs_isdir (tm_fs st2) = fs_isdir (tm_fs st1)"
  with 1 have "writable (tm_fs st2) f" using w writable_cong [of "tm_fs st2" "tm_fs st"] by simp
  then show "ends (\<lambda>st. on_files (fs_put f (concat (L st))) st) st2"
    using put_ok [of "tm_fs st2" f "concat (L st2)"] by (auto simp: ends_def on_files_def)
qed

lemma ends_append_file [op_ends]:
  assumes "writable (tm_fs st) f"
  shows "ends (append_file f t) st"
proof -
  let ?d = "(case fs_look (tm_fs st) f of Some (d, t) \<Rightarrow> d | None \<Rightarrow> []) @ t"
  obtain s where "fs_put f ?d (tm_fs st) = Inr s" "fs_isdir s = fs_isdir (tm_fs st)"
    using put_ok [OF assms, of ?d] by blast
  then show ?thesis by (simp add: ends_def on_files_def append_file_def)
qed

lemma ends_ask [op_ends]:
  assumes "tm_answers st = a # as" and "writable (tm_fs st) f"
  shows "ends (ask m (append_file f t)) st"
proof -
  let ?st = "st\<lparr>tm_out := tm_out st @ [m], tm_answers := as\<rparr>"
  have "ends (append_file f t) ?st" using assms(2) by (intro ends_append_file) simp
  then show ?thesis using assms(1) by (cases "a = ''yes'' \<or> a = ''y''") (auto simp: ends_def ask_def Let_def)
qed

text \<open>The parts of the generator.\<close>

lemma ends_base [op_ends]:
  assumes "proto \<in> {''FC'', ''SAS'', ''iSCSI''}" and "writable (tm_fs st) (base_file dir n)"
  shows "ends (tcm_mod_build_base_includes proto dir n) st"
  using assms ends_write_file [OF assms(2)]
  by (auto simp: tcm_mod_build_base_includes_def tcm_mod_build_FC_include_def tcm_mod_build_SAS_include_def
      tcm_mod_build_iSCSI_include_def intro!: ends_andthen ends_set_ports)

lemma ends_scan [op_ends]:
  assumes "file_content (tm_fs st) (tcm_dir @ ''include/target/target_core_fabric.h'') = Some header"
  shows "ends (tcm_mod_scan_fabric_ops tcm_dir) st"
  using assms by (auto simp: ends_def tcm_mod_scan_fabric_ops_def Let_def andthen_def out_line_def file_content_def)

lemma ends_dump [op_ends]:
  assumes w: "writable (tm_fs st) (dir @ ''/'' @ n @ ''_fabric.c'')" "writable (tm_fs st) (dir @ ''/'' @ n @ ''_fabric.h'')"
  shows "ends (tcm_mod_dump_fabric_ops dir n) st"
  unfolding tcm_mod_dump_fabric_ops_def Let_def
proof (intro ends_andthen ends_out_line)
  let ?f = "dir @ ''/'' @ n @ ''_fabric.c''" and ?fi = "dir @ ''/'' @ n @ ''_fabric.h''"
  let ?same = "\<lambda>st' :: tcm_state. fs_isdir (tm_fs st') = fs_isdir (tm_fs st)"
  have put: "ends (\<lambda>st. on_files (fs_put f (L st)) st) st'"
    if "?same st'" "f \<in> {?f, ?fi}" for f L and st' :: tcm_state
  proof -
    have "writable (tm_fs st') f" using w that(2) writable_cong [OF that(1)] by auto
    then show ?thesis using put_ok [of "tm_fs st'" f "L st'"] by (auto simp: ends_def on_files_def)
  qed
  fix s1 :: tcm_state assume 1: "?same s1"
  show "ends (on_files (fs_put ?f [])) s1" using put [OF 1, of ?f "\<lambda>st. []"] by simp
  fix s2 :: tcm_state assume "fs_isdir (tm_fs s2) = fs_isdir (tm_fs s1)"
  with 1 have 2: "?same s2" by simp
  fix s3 :: tcm_state assume "fs_isdir (tm_fs s3) = fs_isdir (tm_fs s2)"
  with 2 have 3: "?same s3" by simp
  show "ends (on_files (fs_put ?fi [])) s3" using put [OF 3, of ?fi "\<lambda>st. []"] by simp
  fix s4 :: tcm_state assume "fs_isdir (tm_fs s4) = fs_isdir (tm_fs s3)"
  with 3 have 4: "?same s4" by simp
  show "ends (\<lambda>st. on_files (fs_put ?f (concat (fabric_c n (tm_port st) (tm_fabric_ops st)))) st) s4"
    using put [OF 4] by simp
  fix s5 :: tcm_state assume "fs_isdir (tm_fs s5) = fs_isdir (tm_fs s4)"
  with 4 have 5: "?same s5" by simp
  show "ends (\<lambda>st. on_files (fs_put ?fi (concat (fabric_h n (tm_port st) (tm_fabric_ops st)))) st) s5"
    using put [OF 5] by simp
qed

section \<open>A run on a kernel tree\<close>

lemma dirname_file:
  assumes "slash \<notin> set b" and "d \<noteq> []" and "last d \<noteq> slash"
  shows "dirname (d @ ''/'' @ b) = d"
proof -
  have b: "basename (d @ slash # b) = b" using assms(1) by (rule basename_append)
  have h: "path_head (d @ ''/'' @ b) = d @ ''/''" using b by (simp add: path_head_def)
  have "\<exists>c \<in> set d. c \<noteq> slash" using assms(2,3) last_in_set by blast
  then have "\<not> list_all (\<lambda>c. c = slash) (d @ ''/'')" by (auto simp: list_all_iff)
  moreover have "rstrip_by (\<lambda>c. c = slash) (d @ ''/'') = d"
    using assms(2,3) by (cases d rule: rev_cases) (auto simp: rstrip_by_def)
  ultimately show ?thesis unfolding dirname_def Let_def h by simp
qed

text \<open>
  The directory of the targets is there, the one of the module and its entries are not, the build files
  can be written, and the header of the operations can be read.
\<close>

definition module_paths :: "string \<Rightarrow> string \<Rightarrow> string list" where
  "module_paths dir n = [base_file dir n, dir @ ''/'' @ n @ ''_fabric.c'', dir @ ''/'' @ n @ ''_fabric.h'',
     dir @ ''/'' @ n @ ''_configfs.c'', dir @ ''/Makefile'', dir @ ''/Kconfig'']"

definition tree_ready :: "store \<Rightarrow> string \<Rightarrow> string \<Rightarrow> string \<Rightarrow> bool" where
  "tree_ready s tcm_dir n header \<longleftrightarrow>
     n \<noteq> [] \<and> slash \<notin> set n
     \<and> fs_isdir s (tcm_dir @ ''drivers/target'') \<and> \<not> fs_exists s (module_dir tcm_dir n)
     \<and> list_all (\<lambda>f. \<not> fs_exists s f) (module_paths (module_dir tcm_dir n) n)
     \<and> writable s (tcm_dir @ ''/drivers/target/Makefile'') \<and> writable s (tcm_dir @ ''/drivers/target/Kconfig'')
     \<and> file_content s (tcm_dir @ ''include/target/target_core_fabric.h'') = Some header"

lemma dirname_module:
  assumes "n \<noteq> []" and "slash \<notin> set n"
  shows "dirname (module_dir tcm_dir n) = tcm_dir @ ''drivers/target''"
    and "f \<in> set (module_paths (module_dir tcm_dir n) n) \<Longrightarrow> dirname f = module_dir tcm_dir n"
proof -
  show "dirname (module_dir tcm_dir n) = tcm_dir @ ''drivers/target''"
    using dirname_file [of n "tcm_dir @ ''drivers/target''"] assms by (simp add: module_dir_def)
  have "last n \<noteq> slash" using assms last_in_set [of n] by metis
  with assms have l: "last (module_dir tcm_dir n) \<noteq> slash" "module_dir tcm_dir n \<noteq> []"
    by (simp_all add: module_dir_def)
  assume "f \<in> set (module_paths (module_dir tcm_dir n) n)"
  then obtain b where "f = module_dir tcm_dir n @ ''/'' @ b"
    and "b \<in> {n @ ''_base.h'', n @ ''_fabric.c'', n @ ''_fabric.h'', n @ ''_configfs.c'', ''Makefile'', ''Kconfig''}"
    by (auto simp: module_paths_def base_file_def)
  moreover from this(2) assms have "slash \<notin> set b" by auto
  ultimately show "dirname f = module_dir tcm_dir n" using dirname_file [OF _ l(2,1)] by simp
qed

text \<open>The state once the directory of the module has been made.\<close>

definition dir_made :: "store \<Rightarrow> string \<Rightarrow> string \<Rightarrow> string \<Rightarrow> bool" where
  "dir_made s tcm_dir n header \<longleftrightarrow>
     list_all (writable s) (module_paths (module_dir tcm_dir n) n)
     \<and> writable s (tcm_dir @ ''/drivers/target/Makefile'') \<and> writable s (tcm_dir @ ''/drivers/target/Kconfig'')
     \<and> file_content s (tcm_dir @ ''include/target/target_core_fabric.h'') = Some header"

lemma fs_isdir_exists: "fs_isdir s p \<Longrightarrow> fs_exists s p"
  by (auto simp: fs_isdir_def fs_exists_def split: option.splits)

lemma writable_mkdir:
  assumes "fs_mkdir d s = Inr s'" and "f \<noteq> d" and "\<not> fs_isdir s f" and "dirname f = d \<or> fs_isdir s (dirname f)"
  shows "writable s' f"
  using assms by (auto simp: fs_mkdir_def writable_def fs_isdir_def split: if_splits)

lemma ready_dir_made:
  assumes r: "tree_ready s tcm_dir n header"
  shows "\<exists>s'. fs_mkdir (module_dir tcm_dir n) s = Inr s' \<and> dir_made s' tcm_dir n header"
proof -
  let ?dir = "module_dir tcm_dir n"
  from r obtain s' where m: "fs_mkdir ?dir s = Inr s'" by (auto simp: tree_ready_def fs_mkdir_def)
  have "writable s' f" if "f \<in> set (module_paths ?dir n)" for f
  proof (rule writable_mkdir [OF m])
    show "f \<noteq> ?dir" using that by (auto simp: module_paths_def base_file_def)
    show "\<not> fs_isdir s f" using that r fs_isdir_exists by (auto simp: tree_ready_def list_all_iff)
    show "dirname f = ?dir \<or> fs_isdir s (dirname f)"
      using that r dirname_module(2) by (simp add: tree_ready_def)
  qed
  moreover have "writable s' f"
    if "f \<in> {tcm_dir @ ''/drivers/target/Makefile'', tcm_dir @ ''/drivers/target/Kconfig''}" for f
    using that r by (intro writable_mkdir [OF m]) (auto simp: tree_ready_def module_dir_def writable_def)
  moreover have "file_content s' = file_content s"
    using fs_mkdir_keeps(1) [OF m] by (auto simp: file_content_def)
  ultimately have "dir_made s' tcm_dir n header"
    using r by (simp add: dir_made_def tree_ready_def list_all_iff)
  with m show ?thesis by blast
qed

lemma ends_asks:
  assumes a: "tm_answers st = a1 # a2 # rest" and w: "writable (tm_fs st) f1" "writable (tm_fs st) f2"
  shows "ends (andthen (ask m1 (append_file f1 t1)) (ask m2 (append_file f2 t2))) st"
proof (rule ends_andthen)
  show "ends (ask m1 (append_file f1 t1)) st" using a w(1) by (rule ends_ask)
  fix st' :: tcm_state
  assume q: "ask m1 (append_file f1 t1) st = (st', Inr ())" and s: "fs_isdir (tm_fs st') = fs_isdir (tm_fs st)"
  have "tm_answers st' = a2 # rest" using ask_append_step [OF q] a by auto
  moreover have "writable (tm_fs st') f2" using w(2) writable_cong [OF s] by simp
  ultimately show "ends (ask m2 (append_file f2 t2)) st'" by (rule ends_ask)
qed

lemma ends_generate:
  assumes d: "dir_made (tm_fs st) tcm_dir n header" and proto: "proto \<in> {''FC'', ''SAS'', ''iSCSI''}"
    and a: "tm_answers st = a1 # a2 # rest"
  shows "ends (generate tcm_dir n proto) st"
proof -
  let ?dir = "module_dir tcm_dir n"
  let ?same = "\<lambda>st' :: tcm_state. fs_isdir (tm_fs st') = fs_isdir (tm_fs st)"
  have w: "writable (tm_fs st') f"
    if "?same st'" "f \<in> set (module_paths ?dir n) \<union>
      {tcm_dir @ ''/drivers/target/Makefile'', tcm_dir @ ''/drivers/target/Kconfig''}" for st' :: tcm_state and f
    using d that(2) writable_cong [OF that(1)] by (auto simp: dir_made_def list_all_iff)
  note paths = module_paths_def base_file_def
  show ?thesis
    unfolding generate_def Let_def tcm_mod_build_configfs_def tcm_mod_build_kbuild_def tcm_mod_build_kconfig_def
  proof (intro ends_andthen)
    show "ends (tcm_mod_build_base_includes proto ?dir n) st"
      by (rule ends_base [OF proto]) (rule w, simp_all add: paths)
    fix s1 assume b: "tcm_mod_build_base_includes proto ?dir n st = (s1, Inr ())" and 1: "?same s1"
    have "file_content (tm_fs s1) (tcm_dir @ ''include/target/target_core_fabric.h'') = Some header"
      using d base_step(1) [OF b] base_file_api [of tcm_dir n] by (simp add: dir_made_def)
    then show "ends (tcm_mod_scan_fabric_ops tcm_dir) s1" by (rule ends_scan)
    have a1: "tm_answers s1 = a1 # a2 # rest" using a base_step(4) [OF b] by simp
    fix s2 assume s: "tcm_mod_scan_fabric_ops tcm_dir s1 = (s2, Inr ())"
      and "fs_isdir (tm_fs s2) = fs_isdir (tm_fs s1)"
    with 1 have 2: "?same s2" by simp
    show "ends (tcm_mod_dump_fabric_ops ?dir n) s2"
      by (rule ends_dump) (rule w [OF 2], simp add: paths)+
    have a2: "tm_answers s2 = a1 # a2 # rest" using a1 scan_step(4) [OF s] by simp
    fix s3 assume du: "tcm_mod_dump_fabric_ops ?dir n s2 = (s3, Inr ())"
      and "fs_isdir (tm_fs s3) = fs_isdir (tm_fs s2)"
    with 2 have 3: "?same s3" by simp
    show "ends (write_file (?dir @ ''/'' @ n @ ''_configfs.c'') (\<lambda>st. configfs_text proto n (tm_port st))) s3"
      by (rule ends_write_file) (rule w [OF 3], simp add: paths)
    have a3: "tm_answers s3 = a1 # a2 # rest" using a2 dump_step(2) [OF du] by simp
    fix s4 assume cf: "write_file (?dir @ ''/'' @ n @ ''_configfs.c'') (\<lambda>st. configfs_text proto n (tm_port st)) s3
        = (s4, Inr ())"
      and "fs_isdir (tm_fs s4) = fs_isdir (tm_fs s3)"
    with 3 have 4: "?same s4" by simp
    show "ends (write_file (?dir @ ''/Makefile'') (\<lambda>st. makefile_text n)) s4"
      by (rule ends_write_file) (rule w [OF 4], simp add: paths)
    have a4: "tm_answers s4 = a1 # a2 # rest" using a3 write_file_step(2) [OF cf] by simp
    fix s5 assume kb: "write_file (?dir @ ''/Makefile'') (\<lambda>st. makefile_text n) s4 = (s5, Inr ())"
      and "fs_isdir (tm_fs s5) = fs_isdir (tm_fs s4)"
    with 4 have 5: "?same s5" by simp
    show "ends (write_file (?dir @ ''/Kconfig'') (\<lambda>st. kconfig_text n)) s5"
      by (rule ends_write_file) (rule w [OF 5], simp add: paths)
    have a5: "tm_answers s5 = a1 # a2 # rest" using a4 write_file_step(2) [OF kb] by simp
    fix s6 assume kc: "write_file (?dir @ ''/Kconfig'') (\<lambda>st. kconfig_text n) s5 = (s6, Inr ())"
      and "fs_isdir (tm_fs s6) = fs_isdir (tm_fs s5)"
    with 5 have 6: "?same s6" by simp
    have a6: "tm_answers s6 = a1 # a2 # rest" using a5 write_file_step(2) [OF kc] by simp
    show "ends (ask_build_files tcm_dir n) s6"
      unfolding ask_build_files_def tcm_mod_add_kbuild_def tcm_mod_add_kconfig_def
      by (rule ends_asks [OF a6]) (rule w [OF 6], simp)+
  qed
qed

text \<open>A run on a kernel tree ends normally, and makes the directory of the module and no other.\<close>

lemma main_ends:
  assumes r: "tree_ready (tm_fs st) (cwd @ ''/../../'') n header" and proto: "proto \<in> {''FC'', ''SAS'', ''iSCSI''}"
    and a: "tm_answers st = a1 # a2 # rest"
  shows "\<exists>st'. tcm_main cwd n proto st = (st', Inr ())
    \<and> fs_isdir (tm_fs st') = (fs_isdir (tm_fs st))(module_dir (cwd @ ''/../../'') n := True)"
proof -
  let ?tcm = "cwd @ ''/../../''"
  obtain s' where m: "fs_mkdir (module_dir ?tcm n) (tm_fs st) = Inr s'" and d: "dir_made s' ?tcm n header"
    using ready_dir_made [OF r] by blast
  define out where "out = tm_out st @ [''tcm_dir: '' @ ?tcm, ''Set fabric_mod_name: '' @ n,
     ''Set fabric_mod_dir: '' @ module_dir ?tcm n, ''Using proto_ident: '' @ proto]"
  define s1 where "s1 = st\<lparr>tm_out := out @ [''Creating fabric_mod_dir: '' @ module_dir ?tcm n], tm_fs := s'\<rparr>"
  have dn: "dirname (module_dir ?tcm n) = ?tcm @ ''drivers/target''"
    using r dirname_module(1) by (simp add: tree_ready_def)
  have "\<not> fs_isdir (tm_fs st) (module_dir ?tcm n)" "fs_isdir (tm_fs st) (?tcm @ ''drivers/target'')"
    using r fs_isdir_exists by (auto simp: tree_ready_def)
  then have c: "tcm_mod_create_module_subdir (module_dir ?tcm n) (st\<lparr>tm_out := out\<rparr>) = (s1, Inr False)"
    using m dn by (simp add: tcm_mod_create_module_subdir_def out_line_def Let_def s1_def)
  have "ends (generate ?tcm n proto) s1"
    using d proto a by (intro ends_generate) (simp_all add: s1_def)
  then obtain st' where "generate ?tcm n proto s1 = (st', Inr ())" and "fs_isdir (tm_fs st') = fs_isdir s'"
    by (auto simp: ends_def s1_def)
  moreover have "fs_isdir s' = (fs_isdir (tm_fs st))(module_dir ?tcm n := True)"
    using m by (auto simp: fs_mkdir_def fs_isdir_def fun_eq_iff split: if_splits)
  moreover have "tcm_main cwd n proto st = generate ?tcm n proto s1"
    using proto c unfolding tcm_main_def Let_def andthen_def out_line_def out_def by auto
  ultimately show ?thesis by simp
qed

text \<open>What it leaves in the files.\<close>

definition run_files :: "string \<Rightarrow> string \<Rightarrow> string \<times> string \<times> string \<times> string \<Rightarrow> (string \<rightharpoonup> string) \<Rightarrow> (string \<rightharpoonup> string)" where
  "run_files tcm_dir header r m =
     (case r of (n, proto, a1, a2) \<Rightarrow>
        answered a2 (tcm_dir @ ''/drivers/target/Kconfig'') (kconfig_entry n)
          (answered a1 (tcm_dir @ ''/drivers/target/Makefile'') (makefile_entry n)
            (module_files (module_dir tcm_dir n) n proto (scanned header) m)))"

lemma main_result:
  assumes "tree_ready (tm_fs st) (cwd @ ''/../../'') n header" and "proto \<in> {''FC'', ''SAS'', ''iSCSI''}"
    and "tm_answers st = a1 # a2 # rest" and "tm_fabric_ops st = []"
  shows "\<exists>st'. tcm_main cwd n proto st = (st', Inr ())
     \<and> fs_isdir (tm_fs st') = (fs_isdir (tm_fs st))(module_dir (cwd @ ''/../../'') n := True)
     \<and> file_content (tm_fs st') = run_files (cwd @ ''/../../'') header (n, proto, a1, a2) (file_content (tm_fs st))"
proof -
  obtain st' where run: "tcm_main cwd n proto st = (st', Inr ())"
    and d: "fs_isdir (tm_fs st') = (fs_isdir (tm_fs st))(module_dir (cwd @ ''/../../'') n := True)"
    using main_ends [OF assms(1-3)] by blast
  have h: "file_content (tm_fs st) ((cwd @ ''/../../'') @ ''include/target/target_core_fabric.h'') = Some header"
    using assms(1) by (simp add: tree_ready_def)
  from run show ?thesis
  proof (cases rule: tcm_main_cases)
    case (go s1)
    with assms(4) have "tm_fabric_ops s1 = []" by simp
    from generate_step [OF go(6) this] h go(3,4) assms(3) run d show ?thesis by (auto simp: run_files_def)
  qed auto
qed

end
