(* ===== verification/TcmLink.thy ===== *)
theory TcmLink
  imports TcmProps
begin

text \<open>
  How the files of a generated module fit together: the functions the operations structure of
  \<open>_configfs.c\<close> names, and their definitions and declarations in \<open>_fabric.c\<close>, \<open>_fabric.h\<close> and
  \<open>_configfs.c\<close> itself. The last section states the properties of the generator.
\<close>

section \<open>Definitions and declarations in C text\<close>

text \<open>
  The text defines a function of a return type, a name and parameters, or declares it with parameter types:
  at the start of a line, the parameters without parentheses, the definition followed by a body.
\<close>

definition line_start :: "string \<Rightarrow> bool" where
  "line_start us \<longleftrightarrow> us = [] \<or> (\<exists>k. us = k @ ''\<newline>'')"

definition plain_params :: "string \<Rightarrow> bool" where
  "plain_params args \<longleftrightarrow> CHR ''('' \<notin> set args \<and> CHR '')'' \<notin> set args"

definition c_defines :: "string \<Rightarrow> string \<Rightarrow> string \<Rightarrow> string \<Rightarrow> bool" where
  "c_defines txt ret g args \<longleftrightarrow> plain_params args \<and>
     (\<exists>us vs. txt = us @ ret @ g @ ''('' @ args @ '')\<newline>{\<newline>'' @ vs \<and> line_start us)"

definition c_declares :: "string \<Rightarrow> string \<Rightarrow> string \<Rightarrow> string \<Rightarrow> bool" where
  "c_declares txt ret g args \<longleftrightarrow> plain_params args \<and>
     (\<exists>us vs. txt = us @ ret @ g @ ''('' @ args @ '');\<newline>'' @ vs \<and> line_start us)"

text \<open>A file made of complete lines.\<close>

definition lines_end :: "string list \<Rightarrow> bool" where
  "lines_end ls \<longleftrightarrow> list_all (\<lambda>l. l \<noteq> [] \<and> last l = CHR 0x0A) ls"

lemma lines_end_append: "lines_end (ls @ ms) \<longleftrightarrow> lines_end ls \<and> lines_end ms"
  by (simp add: lines_end_def)

lemma lines_end_concat: "list_all lines_end lss \<Longrightarrow> lines_end (concat lss)"
  by (induction lss) (auto simp: lines_end_def)

lemma line_start_lines: "lines_end ls \<Longrightarrow> line_start (concat ls)"
proof (induction ls rule: rev_induct)
  case (snoc l ls)
  then have "l \<noteq> []" "last l = CHR 0x0A" by (simp_all add: lines_end_def)
  then have "l = butlast l @ ''\<newline>''" by (metis append_butlast_last_id)
  then have "concat (ls @ [l]) = (concat ls @ butlast l) @ ''\<newline>''" by (metis append_assoc concat.simps concat_append append_Nil2)
  then show ?case unfolding line_start_def by blast
qed (simp add: line_start_def)

lemma block_start:
  assumes "lines_end ls" and "sublist bs ls"
  shows "\<exists>us vs. concat ls = us @ concat bs @ vs \<and> line_start us"
proof -
  obtain us vs where ls: "ls = us @ bs @ vs" using assms(2) by (auto simp: sublist_def)
  then have "concat ls = concat us @ concat bs @ concat vs" by simp
  moreover have "line_start (concat us)" using assms(1) ls by (intro line_start_lines) (simp add: lines_end_append)
  ultimately show ?thesis by blast
qed

lemma c_definesI:
  assumes "lines_end ls" and "sublist bs ls" and "plain_params args"
    and "concat bs = ret @ g @ ''('' @ args @ '')\<newline>{\<newline>''"
  shows "c_defines (concat ls) ret g args"
  using block_start [OF assms(1,2)] assms(3) unfolding assms(4) c_defines_def append_assoc by blast

lemma c_declaresI:
  assumes "lines_end ls" and "h \<in> set ls" and "plain_params args" and "h = ret @ g @ ''('' @ args @ '');\<newline>''"
  shows "c_declares (concat ls) ret g args"
proof -
  have "sublist [h] ls" using split_list [OF assms(2)] by (auto simp: sublist_def)
  from block_start [OF assms(1) this] have "\<exists>us vs. concat ls = us @ h @ vs \<and> line_start us" by simp
  then show ?thesis using assms(3) unfolding assms(4) c_declares_def append_assoc by blast
qed

lemma sublist_within: "sublist xs ys \<Longrightarrow> sublist xs (us @ ys @ vs)"
  unfolding sublist_def by (metis append_assoc)

lemma sublist_concat: "x \<in> set xs \<Longrightarrow> sublist x (concat xs)"
  by (auto simp: sublist_def dest!: split_list) blast

section \<open>Functions used, defined and declared\<close>

text \<open>
  The fields of the operations structure with the function each names, in the order of the structure, and
  its lines that name no function.
\<close>

definition ops_first :: "(string \<times> string) list" where
  "ops_first =
     [(''	.get_fabric_name		'', ''get_fabric_name''),
      (''	.tpg_get_wwn			'', ''get_fabric_wwn''),
      (''	.tpg_get_tag			'', ''get_tag''),
      (''	.tpg_check_demo_mode		'', ''check_false''),
      (''	.tpg_check_demo_mode_cache	'', ''check_true''),
      (''	.tpg_check_demo_mode_write_protect '', ''check_true''),
      (''	.tpg_check_prod_mode_write_protect '', ''check_false''),
      (''	.tpg_get_inst_index		'', ''tpg_get_inst_index''),
      (''	.release_cmd			'', ''release_cmd''),
      (''	.sess_get_index			'', ''sess_get_index'')]"

definition ops_second :: "(string \<times> string) list" where
  "ops_second =
     [(''	.write_pending			'', ''write_pending''),
      (''	.write_pending_status		'', ''write_pending_status''),
      (''	.set_default_node_attributes	'', ''set_default_node_attrs''),
      (''	.get_cmd_state			'', ''get_cmd_state''),
      (''	.queue_data_in			'', ''queue_data_in''),
      (''	.queue_status			'', ''queue_status''),
      (''	.queue_tm_rsp			'', ''queue_tm_rsp''),
      (''	.aborted_task			'', ''aborted_task'')]"

definition ops_generic :: "string \<Rightarrow> (string \<times> string) list" where
  "ops_generic p =
     [(''	.fabric_make_wwn		'', ''make_'' @ p),
      (''	.fabric_drop_wwn		'', ''drop_'' @ p),
      (''	.fabric_make_tpg		'', ''make_tpg''),
      (''	.fabric_drop_tpg		'', ''drop_tpg'')]"

definition no_function :: "string \<Rightarrow> string list" where
  "no_function n =
     [''static const struct target_core_fabric_ops '' @ n @ ''_ops = {\<newline>'',
      ''	.module				= THIS_MODULE,\<newline>'',
      ''	.name				= \"'' @ n @ ''\",\<newline>'',
      ''	.sess_get_initiator_sid		= NULL,\<newline>'',
      ''	/*\<newline>'',
      ''	 * Setup function pointers for generic logic in target_core_fabric_configfs.c\<newline>'',
      ''	 */\<newline>'',
      ''};\<newline>\<newline>'']"

text \<open>
  The generated functions in the order of the table: the text searched for, the return type, the name
  and the type and name of the parameter.
\<close>

definition op_decls :: "(string \<times> string \<times> string \<times> string \<times> string) list" where
  "op_decls =
     [(''get_wwn'', ''char *'', ''get_fabric_wwn'', ''struct se_portal_group'', ''se_tpg''),
      (''get_tag'', ''u16 '', ''get_tag'', ''struct se_portal_group'', ''se_tpg''),
      (''tpg_get_inst_index)('', ''u32 '', ''tpg_get_inst_index'', ''struct se_portal_group'', ''se_tpg''),
      (''*release_cmd)('', ''void '', ''release_cmd'', ''struct se_cmd'', ''se_cmd''),
      (''sess_get_index)('', ''u32 '', ''sess_get_index'', ''struct se_session'', ''se_sess''),
      (''write_pending)('', ''int '', ''write_pending'', ''struct se_cmd'', ''se_cmd''),
      (''write_pending_status)('', ''int '', ''write_pending_status'', ''struct se_cmd'', ''se_cmd''),
      (''set_default_node_attributes)('', ''void '', ''set_default_node_attrs'', ''struct se_node_acl'', ''nacl''),
      (''get_cmd_state)('', ''int '', ''get_cmd_state'', ''struct se_cmd'', ''se_cmd''),
      (''queue_data_in)('', ''int '', ''queue_data_in'', ''struct se_cmd'', ''se_cmd''),
      (''queue_status)('', ''int '', ''queue_status'', ''struct se_cmd'', ''se_cmd''),
      (''queue_tm_rsp)('', ''void '', ''queue_tm_rsp'', ''struct se_cmd'', ''se_cmd''),
      (''aborted_task)('', ''void '', ''aborted_task'', ''struct se_cmd'', ''se_cmd'')]"

text \<open>A line of the structure for a field and the function it names; the lines of a definition and a declaration.\<close>

definition op_line :: "string \<Rightarrow> string \<times> string \<Rightarrow> string" where
  "op_line n = (\<lambda>(pre, f). pre @ ''= '' @ n @ ''_'' @ f @ '',\<newline>'')"

definition op_call :: "string \<Rightarrow> string \<Rightarrow> string" where
  "op_call n f = n @ ''_'' @ f @ ''(''"

definition op_def_line :: "string \<Rightarrow> string \<Rightarrow> string \<Rightarrow> string \<Rightarrow> string \<Rightarrow> string" where
  "op_def_line n ret f ty var = ret @ op_call n f @ ty @ '' *'' @ var @ '')\<newline>''"

definition op_decl_line :: "string \<Rightarrow> string \<Rightarrow> string \<Rightarrow> string \<Rightarrow> string" where
  "op_decl_line n ret f ty = ret @ op_call n f @ ty @ '' *);\<newline>''"

text \<open>The structure, line by line.\<close>

lemma configfs_ops_lines:
  "configfs_ops n p =
     take 3 (no_function n) @ List.map (op_line n) ops_first @ [no_function n ! 3]
     @ List.map (op_line n) ops_second @ take 3 (drop 4 (no_function n)) @ List.map (op_line n) (ops_generic p)
     @ [no_function n ! 7]"
  by (simp add: configfs_ops_def no_function_def ops_first_def ops_second_def ops_generic_def op_line_def)

lemma configfs_ops_line:
  assumes "line \<in> set (configfs_ops n p)" and "line \<notin> set (no_function n)"
  shows "line \<in> op_line n ` set (ops_first @ ops_second @ ops_generic p)"
proof -
  have "no_function n ! 3 \<in> set (no_function n)" "no_function n ! 7 \<in> set (no_function n)"
    by (intro nth_mem, simp add: no_function_def)+
  with assms show ?thesis unfolding configfs_ops_lines
    by (auto dest: in_set_takeD in_set_dropD)
qed

lemma ops_plain_fields:
  "list_all (\<lambda>x. CHR ''='' \<notin> set (fst x)) (ops_first @ ops_second @ ops_generic p)"
  by (simp add: ops_first_def ops_second_def ops_generic_def)

lemma op_table_decls:
  "List.map (\<lambda>(pat, c, h). (pat, hd c, h)) (op_table n p) =
     List.map (\<lambda>(pat, ret, f, ty, var). (pat, op_def_line n ret f ty var, op_decl_line n ret f ty)) op_decls"
  by (simp add: op_table_def op_decls_def op_def_line_def op_decl_line_def op_call_def)

lemma op_table_shape: "list_all (\<lambda>(pat, c, h). 1 < length c \<and> c ! 1 = ''{\<newline>'') (op_table n p)"
  by (simp add: op_table_def)

lemma op_table_lines: "list_all (\<lambda>(pat, c, h). lines_end c \<and> lines_end [h]) (op_table n p)"
  by (simp add: op_table_def lines_end_def)

lemma op_table_entry:
  assumes "(pat, ret, f, ty, var) \<in> set op_decls"
  shows "\<exists>c. (pat, op_def_line n ret f ty var # ''{\<newline>'' # c, op_decl_line n ret f ty) \<in> set (op_table n p)"
proof -
  have "(pat, op_def_line n ret f ty var, op_decl_line n ret f ty)
      \<in> set (List.map (\<lambda>(pat, c, h). (pat, hd c, h)) (op_table n p))"
    unfolding op_table_decls using assms by force
  then obtain c h where c: "(pat, c, h) \<in> set (op_table n p)" "hd c = op_def_line n ret f ty var"
    "h = op_decl_line n ret f ty" by auto
  then have "1 < length c \<and> c ! 1 = ''{\<newline>''" using op_table_shape [of n p] by (auto simp: list_all_iff)
  then obtain d where "c = hd c # ''{\<newline>'' # d" by (cases c; cases "List.tl c") auto
  with c show ?thesis by metis
qed

text \<open>The files are made of complete lines.\<close>

lemma fabric_op_lines: "lines_end (fst (fabric_op n p fo)) \<and> lines_end (snd (fabric_op n p fo))"
proof (cases "contains ''get_fabric_name'' fo")
  case True
  then show ?thesis by (simp add: fabric_op_def name_op_def lines_end_def)
next
  case False
  let ?hits = "List.filter (\<lambda>(pat, c, h). contains pat fo) (op_table n p)"
  have "list_all lines_end (List.map (\<lambda>(pat, c, h). c) ?hits)"
    "list_all (\<lambda>h. lines_end [h]) (List.map (\<lambda>(pat, c, h). h) ?hits)"
    using op_table_lines [of n p] by (auto simp: list_all_iff)
  with False show ?thesis using lines_end_concat [of "List.map (\<lambda>(pat, c, h). c) ?hits"]
    by (auto simp: fabric_op_def name_op_def Let_def lines_end_def list_all_iff)
qed

lemma fabric_lines: "lines_end (fabric_c n p ops)" "lines_end (fabric_h n p ops)"
proof -
  have "lines_end (fabric_head n)" "lines_end (fabric_head_decls n)"
    by (simp_all add: fabric_head_def fabric_head_decls_def lines_end_def)
  moreover have "lines_end (concat (List.map (\<lambda>fo. fst (fabric_op n p fo)) ops))"
    "lines_end (concat (List.map (\<lambda>fo. snd (fabric_op n p fo)) ops))"
    by (intro lines_end_concat; simp add: list_all_iff fabric_op_lines)+
  ultimately show "lines_end (fabric_c n p ops)" "lines_end (fabric_h n p ops)"
    by (simp_all add: fabric_c_def fabric_h_def lines_end_append)
qed

text \<open>A scanned line brings the functions it matches into both files.\<close>

lemma fabric_op_in:
  assumes "fo \<in> set ops"
  shows "sublist (fst (fabric_op n p fo)) (fabric_c n p ops)" and "set (snd (fabric_op n p fo)) \<subseteq> set (fabric_h n p ops)"
proof -
  have "sublist (fst (fabric_op n p fo)) (concat (List.map (\<lambda>fo. fst (fabric_op n p fo)) ops))"
    using assms by (intro sublist_concat) simp
  then show "sublist (fst (fabric_op n p fo)) (fabric_c n p ops)"
    using sublist_within [of _ _ _ "[]"] by (simp add: fabric_c_def)
  show "set (snd (fabric_op n p fo)) \<subseteq> set (fabric_h n p ops)" using assms by (auto simp: fabric_h_def)
qed

lemma fabric_op_hit:
  assumes "fo \<in> set ops" and "contains pat fo" and "\<not> contains ''get_fabric_name'' fo"
    and "(pat, c, h) \<in> set (op_table n p)"
  shows "sublist c (fabric_c n p ops)" and "h \<in> set (fabric_h n p ops)"
proof -
  let ?hits = "List.filter (\<lambda>(pat, c, h). contains pat fo) (op_table n p)"
  have "(pat, c, h) \<in> set ?hits" using assms(2,4) by simp
  then have "c \<in> set (List.map (\<lambda>(pat, c, h). c) ?hits)" "h \<in> set (List.map (\<lambda>(pat, c, h). h) ?hits)"
    by (force, force)
  then have "sublist c (fst (fabric_op n p fo))" "h \<in> set (snd (fabric_op n p fo))"
    using assms(3) sublist_concat [of c] by (simp_all add: fabric_op_def name_op_def Let_def)
  with fabric_op_in [OF assms(1), of n p] show "sublist c (fabric_c n p ops)" "h \<in> set (fabric_h n p ops)"
    using sublist_order.order.trans by blast+
qed

lemma fabric_name_hit:
  assumes "fo \<in> set ops" and "contains ''get_fabric_name'' fo"
  shows "sublist (fst (snd (name_op n))) (fabric_c n p ops)" and "snd (snd (name_op n)) \<in> set (fabric_h n p ops)"
  using fabric_op_in [OF assms(1), of n p] assms(2) by (simp_all add: fabric_op_def name_op_def)

lemma fabric_checks:
  assumes "f \<in> {''check_true'', ''check_false''}"
  shows "sublist [''int '' @ op_call n f @ ''struct se_portal_group *se_tpg)\<newline>'', ''{\<newline>''] (fabric_c n p ops)"
    and "''int '' @ op_call n f @ ''struct se_portal_group *);\<newline>'' \<in> set (fabric_h n p ops)"
proof -
  have "sublist (take 2 (drop 14 (fabric_head n))) (fabric_head n)" "sublist (take 2 (drop 18 (fabric_head n))) (fabric_head n)"
    using sublist_order.order.trans [OF sublist_take sublist_drop] by blast+
  then have "sublist [''int '' @ op_call n f @ ''struct se_portal_group *se_tpg)\<newline>'', ''{\<newline>''] (fabric_head n)"
    if "take 2 (drop i (fabric_head n)) = [''int '' @ op_call n f @ ''struct se_portal_group *se_tpg)\<newline>'', ''{\<newline>'']"
      "i = 14 \<or> i = 18" for i using that by metis
  moreover have "take 2 (drop (if f = ''check_true'' then 14 else 18) (fabric_head n))
      = [''int '' @ op_call n f @ ''struct se_portal_group *se_tpg)\<newline>'', ''{\<newline>'']"
    using assms by (elim insertE emptyE) (simp_all add: fabric_head_def op_call_def)
  ultimately have "sublist [''int '' @ op_call n f @ ''struct se_portal_group *se_tpg)\<newline>'', ''{\<newline>''] (fabric_head n)"
    by presburger
  then show "sublist [''int '' @ op_call n f @ ''struct se_portal_group *se_tpg)\<newline>'', ''{\<newline>''] (fabric_c n p ops)"
    using sublist_within [of _ _ "[]"] by (simp add: fabric_c_def)
  show "''int '' @ op_call n f @ ''struct se_portal_group *);\<newline>'' \<in> set (fabric_h n p ops)"
    using assms by (auto simp: fabric_h_def fabric_head_decls_def op_call_def)
qed

text \<open>Every text that is searched for occurs in a scanned line.\<close>

definition all_found :: "string list \<Rightarrow> bool" where
  "all_found ops \<longleftrightarrow>
     list_ex (contains ''get_fabric_name'') ops \<and>
     list_all (\<lambda>(pat, rest). list_ex (\<lambda>fo. contains pat fo \<and> \<not> contains ''get_fabric_name'' fo) ops) op_decls"

lemma ops_cover:
  "list_all (\<lambda>x. snd x = ''check_true'' \<or> snd x = ''check_false'' \<or> snd x = ''get_fabric_name''
     \<or> snd x \<in> set (List.map (\<lambda>(pat, ret, f, ty, var). f) op_decls)) (ops_first @ ops_second)"
  by code_simp

text \<open>The types returned.\<close>

definition c_types :: "string list" where
  "c_types = [''char *'', ''u16 '', ''u32 '', ''int '', ''void '']"

definition static_types :: "string list" where
  "static_types = [''struct se_portal_group *'', ''struct se_wwn *'', ''void '']"

lemma op_decls_plain:
  "list_all (\<lambda>(pat, ret, f, ty, var). ret \<in> set c_types \<and> plain_params (ty @ '' *'' @ var)) op_decls"
  by code_simp

text \<open>A function of the first kind: defined in \<open>_fabric.c\<close> and declared in \<open>_fabric.h\<close> with the same types.\<close>

definition in_fabric :: "string \<Rightarrow> string \<Rightarrow> string list \<Rightarrow> string \<Rightarrow> bool" where
  "in_fabric n p ops f \<longleftrightarrow>
     (\<exists>ret args var. ret \<in> set c_types
        \<and> c_defines (concat (fabric_c n p ops)) ret (n @ ''_'' @ f) (args @ var)
        \<and> c_declares (concat (fabric_h n p ops)) ret (n @ ''_'' @ f) args)"

lemma in_fabricI:
  assumes "sublist bs (fabric_c n p ops)" and "h \<in> set (fabric_h n p ops)"
    and "concat bs = ret @ op_call n f @ (args @ var) @ '')\<newline>{\<newline>''" and "h = ret @ op_call n f @ args @ '');\<newline>''"
    and "ret \<in> set c_types" and "plain_params (args @ var)"
  shows "in_fabric n p ops f"
proof -
  have "c_defines (concat (fabric_c n p ops)) ret (n @ ''_'' @ f) (args @ var)"
    using assms(3) by (intro c_definesI [OF fabric_lines(1) assms(1,6)]) (simp add: op_call_def)
  moreover have "plain_params args" using assms(6) by (simp add: plain_params_def)
  then have "c_declares (concat (fabric_h n p ops)) ret (n @ ''_'' @ f) args"
    using assms(4) by (intro c_declaresI [OF fabric_lines(2) assms(2)]) (simp_all add: op_call_def)
  ultimately show ?thesis using assms(5) unfolding in_fabric_def by blast
qed

lemma in_fabric_check:
  assumes "f \<in> {''check_true'', ''check_false''}"
  shows "in_fabric n p ops f"
  by (rule in_fabricI [OF fabric_checks [OF assms], where ret = "''int ''" and args = "''struct se_portal_group *''" and var = "''se_tpg''"]) (simp_all add: c_types_def plain_params_def)

lemma in_fabric_name:
  assumes "fo \<in> set ops" and "contains ''get_fabric_name'' fo"
  shows "in_fabric n p ops ''get_fabric_name''"
proof (rule in_fabricI [where ret = "''char *''" and args = "''void''" and var = "[]"])
  have "sublist (take 2 (fst (snd (name_op n)))) (fst (snd (name_op n)))" by (rule sublist_take)
  with fabric_name_hit(1) [OF assms] show "sublist (take 2 (fst (snd (name_op n)))) (fabric_c n p ops)"
    using sublist_order.order.trans by blast
  show "snd (snd (name_op n)) \<in> set (fabric_h n p ops)" by (rule fabric_name_hit(2) [OF assms])
qed (simp_all add: name_op_def op_call_def c_types_def plain_params_def)

lemma in_fabric_op:
  assumes "all_found ops" and d: "(pat, ret, f, ty, var) \<in> set op_decls"
  shows "in_fabric n p ops f"
proof -
  from assms obtain fo where fo: "fo \<in> set ops" "contains pat fo" "\<not> contains ''get_fabric_name'' fo"
    by (fastforce simp: all_found_def list_all_iff list_ex_iff)
  obtain c where c: "(pat, op_def_line n ret f ty var # ''{\<newline>'' # c, op_decl_line n ret f ty) \<in> set (op_table n p)"
    using op_table_entry [OF d] by blast
  note hit = fabric_op_hit [OF fo c]
  have "sublist [op_def_line n ret f ty var, ''{\<newline>''] (op_def_line n ret f ty var # ''{\<newline>'' # c)"
    using sublist_append_rightI [of "[op_def_line n ret f ty var, ''{\<newline>'']" c] by simp
  with hit(1) have s: "sublist [op_def_line n ret f ty var, ''{\<newline>''] (fabric_c n p ops)"
    using sublist_order.order.trans by blast
  have "ret \<in> set c_types" "plain_params ((ty @ '' *'') @ var)" using op_decls_plain d by (auto simp: list_all_iff)
  with s hit(2) show ?thesis
    by (intro in_fabricI [where bs = "[op_def_line n ret f ty var, ''{\<newline>'']" and ret = ret and args = "ty @ '' *''" and var = var]) (simp_all add: op_def_line_def op_decl_line_def)
qed

lemma in_fabric_all:
  assumes "all_found ops" and "x \<in> set (ops_first @ ops_second)"
  shows "in_fabric n p ops (snd x)"
proof -
  have "snd x = ''check_true'' \<or> snd x = ''check_false'' \<or> snd x = ''get_fabric_name''
      \<or> snd x \<in> set (List.map (\<lambda>(pat, ret, f, ty, var). f) op_decls)"
    using ops_cover assms(2) unfolding list_all_iff by blast
  then consider "snd x \<in> {''check_true'', ''check_false''}" | "snd x = ''get_fabric_name''"
    | pat ret ty var where "(pat, ret, snd x, ty, var) \<in> set op_decls"
    unfolding set_map by (elim disjE imageE) (auto split: prod.splits)
  then show ?thesis
  proof cases
    case 2
    from assms(1) obtain fo where "fo \<in> set ops" "contains ''get_fabric_name'' fo"
      by (auto simp: all_found_def list_ex_iff)
    from in_fabric_name [OF this] 2 show ?thesis by simp
  next
    case 1
    then show ?thesis by (rule in_fabric_check)
  next
    case 3
    then show ?thesis by (rule in_fabric_op [OF assms(1)])
  qed
qed

text \<open>The part of \<open>_configfs.c\<close> before the structure, and the functions it defines.\<close>

definition configfs_before :: "string \<Rightarrow> string \<Rightarrow> string \<Rightarrow> string list" where
  "configfs_before proto n p = take (length (configfs_text proto n p)
     - length (configfs_ops n p @ configfs_module n)) (configfs_text proto n p)"

lemma configfs_split:
  "configfs_text proto n p = configfs_before proto n p @ configfs_ops n p @ configfs_module n"
  by (simp add: configfs_before_def configfs_text_def)

lemma configfs_before_parts:
  obtains ls ms ks where "configfs_before proto n p
    = configfs_head n p @ ls @ configfs_tpg n p @ ms @ configfs_wwn n p @ ks @ configfs_drop n p"
    and "lines_end ls" "lines_end ms" "lines_end ks"
proof
  show "configfs_before proto n p = configfs_head n p @ configfs_register proto @ configfs_tpg n p
     @ (if proto = ''FC'' \<or> proto = ''SAS'' then [''	u64 wwpn = 0;\<newline>\<newline>''] else [])
     @ configfs_wwn n p
     @ (if proto = ''FC'' \<or> proto = ''SAS'' then [''	'' @ p @ ''->'' @ p @ ''_wwpn = wwpn;\<newline>''] else [])
     @ configfs_drop n p"
    by (simp add: configfs_before_def configfs_text_def)
qed (simp_all add: configfs_register_def lines_end_def)

lemma configfs_lines: "lines_end (configfs_before proto n p)"
proof -
  have "lines_end (configfs_head n p)" "lines_end (configfs_tpg n p)" "lines_end (configfs_wwn n p)"
    "lines_end (configfs_drop n p)"
    by (simp_all add: configfs_head_def configfs_tpg_def configfs_wwn_def configfs_drop_def lines_end_def)
  then show ?thesis by (rule_tac configfs_before_parts [of proto n p]) (simp add: lines_end_append)
qed

definition in_configfs :: "string \<Rightarrow> string \<Rightarrow> string \<Rightarrow> string \<Rightarrow> bool" where
  "in_configfs proto n p f \<longleftrightarrow>
     (\<exists>ret args. ret \<in> set static_types
        \<and> c_defines (concat (configfs_before proto n p)) (''static '' @ ret) (n @ ''_'' @ f) args)"

lemma in_configfsI:
  "c_defines (concat (configfs_before proto n p)) (''static '' @ ret) (n @ ''_'' @ f) args \<Longrightarrow>
   ret \<in> set static_types \<Longrightarrow> in_configfs proto n p f"
  unfolding in_configfs_def by blast

lemma in_configfs_all:
  assumes "f \<in> snd ` set (ops_generic p)"
  shows "in_configfs proto n p f"
proof -
  obtain ls ms ks where b: "configfs_before proto n p
    = configfs_head n p @ ls @ configfs_tpg n p @ ms @ configfs_wwn n p @ ks @ configfs_drop n p"
    by (rule configfs_before_parts)
  have s: "sublist (take k (drop j xs)) (configfs_before proto n p)"
    if "xs = configfs_head n p \<or> xs = configfs_tpg n p \<or> xs = configfs_drop n p" for xs j k
  proof -
    have "sublist (take k (drop j xs)) xs" using sublist_order.order.trans [OF sublist_take sublist_drop] by blast
    moreover have "sublist xs (configfs_before proto n p)"
      using that sublist_within [of xs xs "[]"] sublist_within [of xs xs "configfs_head n p @ ls"]
        sublist_appendI [of xs] unfolding b by (elim disjE) (simp_all, metis append_assoc sublist_append_leftI)
    ultimately show ?thesis using sublist_order.order.trans by blast
  qed
  have found: "c_defines (concat (configfs_before proto n p)) ret g args"
    if "xs = configfs_head n p \<or> xs = configfs_tpg n p \<or> xs = configfs_drop n p" "plain_params args"
      "concat (take k (drop j xs)) = ret @ g @ ''('' @ args @ '')\<newline>{\<newline>''" for xs j k ret g args
    by (rule c_definesI [OF configfs_lines s [OF that(1)] that(2,3)])
  from assms consider "f = ''make_tpg''" | "f = ''drop_tpg''" | "f = ''make_'' @ p" | "f = ''drop_'' @ p"
    by (auto simp: ops_generic_def)
  then show ?thesis
  proof cases
    case 1
    have "c_defines (concat (configfs_before proto n p)) (''static '' @ ''struct se_portal_group *'') (n @ ''_'' @ f)
        ''\<newline>	struct se_wwn *wwn,\<newline>	struct config_group *group,\<newline>	const char *name''"
      by (rule found [where xs = "configfs_head n p" and j = 19 and k = 5])
        (simp_all add: 1 configfs_head_def plain_params_def)
    then show ?thesis by (rule in_configfsI) (simp add: static_types_def)
  next
    case 2
    have "c_defines (concat (configfs_before proto n p)) (''static '' @ ''void '') (n @ ''_'' @ f)
        ''struct se_portal_group *se_tpg''"
      by (rule found [where xs = "configfs_tpg n p" and j = 6 and k = 2])
        (simp_all add: 2 configfs_tpg_def plain_params_def)
    then show ?thesis by (rule in_configfsI) (simp add: static_types_def)
  next
    case 3
    have "c_defines (concat (configfs_before proto n p)) (''static '' @ ''struct se_wwn *'') (n @ ''_'' @ f)
        ''\<newline>	struct target_fabric_configfs *tf,\<newline>	struct config_group *group,\<newline>	const char *name''"
      by (rule found [where xs = "configfs_tpg n p" and j = 13 and k = 5])
        (simp_all add: 3 configfs_tpg_def plain_params_def)
    then show ?thesis by (rule in_configfsI) (simp add: static_types_def)
  next
    case 4
    have "c_defines (concat (configfs_before proto n p)) (''static '' @ ''void '') (n @ ''_'' @ f) ''struct se_wwn *wwn''"
      by (rule found [where xs = "configfs_drop n p" and j = 3 and k = 2])
        (simp_all add: 4 configfs_drop_def plain_params_def)
    then show ?thesis by (rule in_configfsI) (simp add: static_types_def)
  qed
qed

section \<open>Properties\<close>

text \<open>
  C12. A module has its operations: the operations structure stands in \<open>_configfs.c\<close>, and each of its lines
  is one of the eight that name no function (the opening, the module, the name, the pointer left null, the
  three lines of the comment, the end) or names a function for a field. When each of the fourteen scanned
  operations is found in some scanned line of the header, that function is defined in \<open>_fabric.c\<close>, from the
  start of a line and with a body, and declared in \<open>_fabric.h\<close>, which \<open>_configfs.c\<close> includes, with the same
  return type and parameter types; or it is defined as a static function of \<open>_configfs.c\<close> before the structure.
\<close>

theorem tcm_operations_defined:
  assumes "all_found ops"
  shows "\<exists>before. configfs_text proto n p = before @ configfs_ops n p @ configfs_module n
     \<and> ''#include \"'' @ n @ ''_fabric.h\"\<newline>\<newline>'' \<in> set before
     \<and> (\<forall>line \<in> set (configfs_ops n p) - set (no_function n).
          \<exists>field f. line = field @ ''= '' @ n @ ''_'' @ f @ '',\<newline>'' \<and> CHR ''='' \<notin> set field
            \<and> ((\<exists>ret args var. ret \<in> set c_types
                  \<and> c_defines (concat (fabric_c n p ops)) ret (n @ ''_'' @ f) (args @ var)
                  \<and> c_declares (concat (fabric_h n p ops)) ret (n @ ''_'' @ f) args)
               \<or> (\<exists>ret args. ret \<in> set static_types
                  \<and> c_defines (concat before) (''static '' @ ret) (n @ ''_'' @ f) args)))"
proof -
  have "\<exists>field f. line = field @ ''= '' @ n @ ''_'' @ f @ '',\<newline>'' \<and> CHR ''='' \<notin> set field
      \<and> (in_fabric n p ops f \<or> in_configfs proto n p f)"
    if l: "line \<in> set (configfs_ops n p) - set (no_function n)" for line
  proof -
    from l configfs_ops_line [of line n p] obtain x where
      x: "line = op_line n x" "x \<in> set (ops_first @ ops_second @ ops_generic p)" by blast
    then have "CHR ''='' \<notin> set (fst x)" using ops_plain_fields [of p] unfolding list_all_iff by blast
    moreover have "in_fabric n p ops (snd x) \<or> in_configfs proto n p (snd x)"
      using x(2) in_fabric_all [OF assms, of x n p] in_configfs_all [of "snd x" p proto n] by auto
    moreover have "line = fst x @ ''= '' @ n @ ''_'' @ snd x @ '',\<newline>''" unfolding x(1) op_line_def by (simp split: prod.splits)
    ultimately show ?thesis by blast
  qed
  moreover have "''#include \"'' @ n @ ''_fabric.h\"\<newline>\<newline>'' \<in> set (configfs_before proto n p)"
    by (rule configfs_before_parts [of proto n p]) (simp add: configfs_head_def)
  ultimately show ?thesis using configfs_split unfolding in_fabric_def in_configfs_def by blast
qed

text \<open>The lines of the header of the kernel tree that hold the fourteen pointers.\<close>

definition ops_example :: "string list" where
  "ops_example =
     [''	char *(*get_fabric_name)(void);'', ''	char *(*tpg_get_wwn)(struct se_portal_group *);'',
      ''	u16 (*tpg_get_tag)(struct se_portal_group *);'', ''	u32 (*tpg_get_inst_index)(struct se_portal_group *);'',
      ''	void (*release_cmd)(struct se_cmd *);'', ''	u32 (*sess_get_index)(struct se_session *);'',
      ''	int (*write_pending)(struct se_cmd *);'', ''	int (*write_pending_status)(struct se_cmd *);'',
      ''	void (*set_default_node_attributes)(struct se_node_acl *);'', ''	int (*get_cmd_state)(struct se_cmd *);'',
      ''	int (*queue_data_in)(struct se_cmd *);'', ''	int (*queue_status)(struct se_cmd *);'',
      ''	void (*queue_tm_rsp)(struct se_cmd *);'', ''	void (*aborted_task)(struct se_cmd *);'']"

theorem tcm_operations_defined_witness:
  "\<exists>field f. ''	.queue_status			= tcm_new_queue_status,\<newline>'' = field @ ''= tcm_new_'' @ f @ '',\<newline>'' \<and> CHR ''='' \<notin> set field
     \<and> ((\<exists>ret args var. ret \<in> set c_types
           \<and> c_defines (concat (fabric_c ''tcm_new'' ''tport'' ops_example)) ret (''tcm_new_'' @ f) (args @ var)
           \<and> c_declares (concat (fabric_h ''tcm_new'' ''tport'' ops_example)) ret (''tcm_new_'' @ f) args)
        \<or> (\<exists>before ret args. ret \<in> set static_types \<and> c_defines (concat before) (''static '' @ ret) (''tcm_new_'' @ f) args))"
proof -
  let ?line = "''	.queue_status			= tcm_new_queue_status,\<newline>''"
  have "all_found ops_example" by code_simp
  from tcm_operations_defined [OF this, of "''SAS''" "''tcm_new''" "''tport''"]
  obtain before where b: "\<forall>line \<in> set (configfs_ops ''tcm_new'' ''tport'') - set (no_function ''tcm_new'').
          \<exists>field f. line = field @ ''= '' @ ''tcm_new'' @ ''_'' @ f @ '',\<newline>'' \<and> CHR ''='' \<notin> set field
            \<and> ((\<exists>ret args var. ret \<in> set c_types
                  \<and> c_defines (concat (fabric_c ''tcm_new'' ''tport'' ops_example)) ret (''tcm_new'' @ ''_'' @ f) (args @ var)
                  \<and> c_declares (concat (fabric_h ''tcm_new'' ''tport'' ops_example)) ret (''tcm_new'' @ ''_'' @ f) args)
               \<or> (\<exists>ret args. ret \<in> set static_types
                  \<and> c_defines (concat before) (''static '' @ ret) (''tcm_new'' @ ''_'' @ f) args))"
    by blast
  have "?line \<in> set (configfs_ops ''tcm_new'' ''tport'') - set (no_function ''tcm_new'')" by code_simp
  from bspec [OF b this] show ?thesis unfolding append.simps by blast
qed

text \<open>
  Definitions and declarations agree: each entry of the table starts with a function of the return type,
  name and parameter type its declaration gives, and the names are pairwise different.
\<close>

theorem tcm_declared_as_defined:
  "list_all (\<lambda>(pat, c, h). \<exists>ret f ty var. hd c = op_def_line n ret f ty var \<and> h = op_decl_line n ret f ty
       \<and> (pat, ret, f, ty, var) \<in> set op_decls) (op_table n p)
   \<and> distinct (List.map (\<lambda>(pat, ret, f, ty, var). f) op_decls)"
proof -
  have "\<exists>ret f ty var. hd c = op_def_line n ret f ty var \<and> h = op_decl_line n ret f ty
      \<and> (pat, ret, f, ty, var) \<in> set op_decls" if "(pat, c, h) \<in> set (op_table n p)" for pat c h
  proof -
    have "(pat, hd c, h) \<in> set (List.map (\<lambda>(pat, c, h). (pat, hd c, h)) (op_table n p))"
      using that by force
    then show ?thesis unfolding op_table_decls by auto
  qed
  moreover have "distinct (List.map (\<lambda>(pat, ret, f, ty, var). f) op_decls)" by code_simp
  ultimately show ?thesis by (auto simp: list_all_iff)
qed

text \<open>
  C10. A run on a kernel tree for one of the three protocols ends normally, and has written the six files of
  the module and nothing else but, for each question answered with yes, the lines at the end of a build file.
\<close>

theorem tcm_run_files:
  assumes "tree_ready (tm_fs st) (cwd @ ''/../../'') n header" and "proto \<in> {''FC'', ''SAS'', ''iSCSI''}"
    and "tm_answers st = a1 # a2 # rest" and "tm_fabric_ops st = []"
  shows "\<exists>st'. tcm_main cwd n proto st = (st', Inr ())
     \<and> file_content (tm_fs st') =
        answered a2 (cwd @ ''/../../'' @ ''/drivers/target/Kconfig'') (kconfig_entry n)
          (answered a1 (cwd @ ''/../../'' @ ''/drivers/target/Makefile'') (makefile_entry n)
            (module_files (module_dir (cwd @ ''/../../'') n) n proto (scanned header) (file_content (tm_fs st))))"
  using main_result [OF assms] by (auto simp: run_files_def)

text \<open>A kernel tree with the header, and a user who answers yes and no.\<close>

definition tcm_header :: string where
  "tcm_header = ''x'' @ [CHR 0x0A] @ py_join [CHR 0x0A] ops_example"

definition tcm_tree :: tcm_state where
  "tcm_tree = \<lparr>tm_fs = \<lparr>fs_entries = [''/k/../../drivers/target'' \<mapsto> Dir 0, ''/k/../..//drivers/target'' \<mapsto> Dir 0,
       ''/k/../../include/target/target_core_fabric.h'' \<mapsto> File tcm_header 0],
       fs_clock = 1\<rparr>,
     tm_fabric_ops = [], tm_port = [], tm_init_port = [], tm_out = [], tm_answers = [''yes'', ''no'']\<rparr>"

lemma tcm_tree_ready: "tree_ready (tm_fs tcm_tree) (''/k'' @ ''/../../'') ''tcm_new'' tcm_header"
  by code_simp

theorem tcm_run_files_witness:
  "\<exists>st'. tcm_main ''/k'' ''tcm_new'' ''FC'' tcm_tree = (st', Inr ())
     \<and> file_content (tm_fs st') ''/k/../..//drivers/target/Makefile'' = Some (makefile_entry ''tcm_new'')"
proof -
  have a: "tm_answers tcm_tree = ''yes'' # ''no'' # []" and o: "tm_fabric_ops tcm_tree = []"
    by (simp_all add: tcm_tree_def)
  obtain st' where run: "tcm_main ''/k'' ''tcm_new'' ''FC'' tcm_tree = (st', Inr ())"
    and f: "file_content (tm_fs st') =
        answered ''no'' (''/k'' @ ''/../../'' @ ''/drivers/target/Kconfig'') (kconfig_entry ''tcm_new'')
          (answered ''yes'' (''/k'' @ ''/../../'' @ ''/drivers/target/Makefile'') (makefile_entry ''tcm_new'')
            (module_files (module_dir (''/k'' @ ''/../../'') ''tcm_new'') ''tcm_new'' ''FC'' (scanned tcm_header)
              (file_content (tm_fs tcm_tree))))"
    using tcm_run_files [OF tcm_tree_ready _ a o, of "''FC''"] by blast
  have "file_content (tm_fs tcm_tree) ''/k/../..//drivers/target/Makefile'' = None"
    by (simp add: tcm_tree_def file_content_def fs_look_def)
  then have "file_content (tm_fs st') ''/k/../..//drivers/target/Makefile'' = Some (makefile_entry ''tcm_new'')"
    unfolding f by (simp add: answered_def module_files_def base_file_def module_dir_def)
  with run show ?thesis by blast
qed

text \<open>
  C28. A run for another protocol, or for a module whose directory is there, ends with status one and has
  changed no file.
\<close>

theorem tcm_rejected_untouched:
  assumes "proto \<notin> {''FC'', ''SAS'', ''iSCSI''} \<or> fs_isdir (tm_fs st) (module_dir (cwd @ ''/../../'') n)"
    and "tcm_main cwd n proto st = (st', r)"
  shows "r = Inl exit_1 \<and> tm_fs st' = tm_fs st"
  using assms(2)
proof (cases rule: tcm_main_cases)
  case bad_proto
  then show ?thesis by simp
next
  case (bad_dir e)
  with assms(1) show ?thesis by auto
next
  case (go s1)
  with assms(1) show ?thesis by simp
qed

theorem tcm_rejected_untouched_witness:
  "snd (tcm_main ''/k'' ''tcm_new'' ''SRP'' tcm_tree) = Inl exit_1
   \<and> tm_fs (fst (tcm_main ''/k'' ''tcm_new'' ''SRP'' tcm_tree)) = tm_fs tcm_tree"
  using tcm_rejected_untouched [of "''SRP''" tcm_tree "''/k''" "''tcm_new''"
      "fst (tcm_main ''/k'' ''tcm_new'' ''SRP'' tcm_tree)" "snd (tcm_main ''/k'' ''tcm_new'' ''SRP'' tcm_tree)"]
  by simp

end
