(* ===== verification/TcmSession.thy ===== *)
theory TcmSession
  imports TcmLink
begin

text \<open>
  Several runs of \<open>tcm_mod_builder.py\<close> on one kernel tree, each a process of its own that finds the files the
  earlier ones left: what the tree holds in the end, compared with the runs taken one by one.
\<close>

section \<open>Sessions\<close>

text \<open>A request: the options of a run and the answers to its two questions.\<close>

type_synonym request = "string \<times> string \<times> string \<times> string"

text \<open>The global variables as the script sets them, over the files.\<close>

definition script_start :: "store \<Rightarrow> string list \<Rightarrow> tcm_state" where
  "script_start s answers =
     \<lparr>tm_fs = s, tm_fabric_ops = [], tm_port = [], tm_init_port = [], tm_out = [], tm_answers = answers\<rparr>"

text \<open>The runs in order, with the help of the parser; \<open>None\<close> when one of them does not end normally.\<close>

fun session :: "string \<Rightarrow> string \<Rightarrow> request list \<Rightarrow> store \<Rightarrow> store option" where
  "session usage cwd [] s = Some s"
| "session usage cwd ((n, proto, a1, a2) # rs) s =
     (case tcm_script usage cwd (Some n) (Some proto) (script_start s [a1, a2]) of
        (st, Inr u) \<Rightarrow> session usage cwd rs (tm_fs st)
      | (st, Inl e) \<Rightarrow> None)"

text \<open>The lines the requests add to the two build files of the drivers.\<close>

definition registered :: "request list \<Rightarrow> string" where
  "registered rs =
     concat (List.map (\<lambda>(n, proto, a1, a2). if a1 = ''yes'' \<or> a1 = ''y'' then makefile_entry n else []) rs)"

definition configured :: "request list \<Rightarrow> string" where
  "configured rs =
     concat (List.map (\<lambda>(n, proto, a1, a2). if a2 = ''yes'' \<or> a2 = ''y'' then kconfig_entry n else []) rs)"

definition text_of :: "string option \<Rightarrow> string" where
  "text_of c = (case c of Some d \<Rightarrow> d | None \<Rightarrow> [])"

section \<open>Paths\<close>

lemma slash_split:
  "slash \<notin> set m \<Longrightarrow> slash \<notin> set n \<Longrightarrow> m @ slash # b = n @ slash # c \<longleftrightarrow> m = n \<and> b = c"
proof (induction m arbitrary: n)
  case Nil
  then show ?case by (cases n) auto
next
  case (Cons x m)
  then show ?case by (cases n) auto
qed

definition touched :: "string \<Rightarrow> string \<Rightarrow> string set" where
  "touched tcm_dir n =
     set (module_paths (module_dir tcm_dir n) n)
     \<union> {tcm_dir @ ''/drivers/target/Makefile'', tcm_dir @ ''/drivers/target/Kconfig''}"

lemma module_pathE:
  assumes "f \<in> set (module_paths (module_dir tcm_dir n) n)"
  obtains (inside) b where "f = tcm_dir @ ''drivers/target/'' @ n @ slash # b"
  using assms by (auto simp: module_paths_def base_file_def module_dir_def)

lemma module_paths_apart:
  assumes "slash \<notin> set m" and "slash \<notin> set n" and "m \<noteq> n" and "f \<in> set (module_paths (module_dir tcm_dir m) m)"
  shows "f \<notin> touched tcm_dir n" and "f \<noteq> module_dir tcm_dir n"
proof -
  obtain b where f: "f = tcm_dir @ ''drivers/target/'' @ m @ slash # b" using module_pathE [OF assms(4)] .
  have "f \<notin> set (module_paths (module_dir tcm_dir n) n)"
  proof
    assume "f \<in> set (module_paths (module_dir tcm_dir n) n)"
    from module_pathE [OF this] obtain c where "f = tcm_dir @ ''drivers/target/'' @ n @ slash # c" .
    with f assms show False by (simp add: slash_split)
  qed
  with f show "f \<notin> touched tcm_dir n" by (simp add: touched_def)
  show "f \<noteq> module_dir tcm_dir n" using f assms(2) by (auto simp: module_dir_def)
qed

lemma module_dir_apart:
  assumes "slash \<notin> set m" and "slash \<notin> set n"
  shows "module_dir tcm_dir m \<notin> touched tcm_dir n" and "module_dir tcm_dir m = module_dir tcm_dir n \<longleftrightarrow> m = n"
proof -
  have "module_dir tcm_dir m \<notin> set (module_paths (module_dir tcm_dir n) n)"
  proof
    assume "module_dir tcm_dir m \<in> set (module_paths (module_dir tcm_dir n) n)"
    from module_pathE [OF this] obtain b where "m = n @ slash # b" by (auto simp: module_dir_def)
    with assms(1) show False by simp
  qed
  then show "module_dir tcm_dir m \<notin> touched tcm_dir n" by (simp add: touched_def module_dir_def)
qed (simp add: module_dir_def)

lemma header_apart: "tcm_dir @ ''include/target/target_core_fabric.h'' \<notin> touched tcm_dir n"
  by (auto simp: touched_def elim: module_pathE)

section \<open>What a run leaves alone\<close>

lemma answered_other: "f \<noteq> g \<Longrightarrow> answered a g text m f = m f"
  by (simp add: answered_def)

lemma run_files_other: "f \<notin> touched tcm_dir n \<Longrightarrow> run_files tcm_dir header (n, proto, a1, a2) m f = m f"
  by (auto simp: run_files_def touched_def answered_other module_files_def module_paths_def)

lemma exists_iff: "fs_exists s f \<longleftrightarrow> f = ''/'' \<or> fs_isdir s f \<or> file_content s f \<noteq> None"
  by (auto simp: fs_exists_def fs_isdir_def file_content_def fs_look_def split: option.splits entry.splits)

lemma tree_ready_after:
  assumes r: "tree_ready s tcm_dir m header" and n: "slash \<notin> set n" "m \<noteq> n"
    and d: "fs_isdir s' = (fs_isdir s)(module_dir tcm_dir n := True)"
    and c: "\<And>f. f \<notin> touched tcm_dir n \<Longrightarrow> file_content s' f = file_content s f"
  shows "tree_ready s' tcm_dir m header"
proof -
  have m: "slash \<notin> set m" using r by (simp add: tree_ready_def)
  have dir: "fs_isdir s' f \<longleftrightarrow> fs_isdir s f" if "f \<noteq> module_dir tcm_dir n" for f using d that by simp
  have same: "fs_exists s' f \<longleftrightarrow> fs_exists s f" if "f \<notin> touched tcm_dir n" "f \<noteq> module_dir tcm_dir n" for f
    using c [OF that(1)] dir [OF that(2)] by (simp add: exists_iff)
  have "writable s' f"
    if "f \<in> {tcm_dir @ ''/drivers/target/Makefile'', tcm_dir @ ''/drivers/target/Kconfig''}" for f
  proof -
    have "writable s f" using r that by (auto simp: tree_ready_def)
    moreover have "f \<noteq> module_dir tcm_dir n" using that by (auto simp: module_dir_def)
    ultimately show ?thesis using d by (simp add: writable_def)
  qed
  moreover have "fs_isdir s' (tcm_dir @ ''drivers/target'')" using r d by (simp add: tree_ready_def)
  moreover have "\<not> fs_exists s' (module_dir tcm_dir m)"
    using same module_dir_apart [OF m n(1)] n(2) r by (simp add: tree_ready_def)
  moreover have "list_all (\<lambda>f. \<not> fs_exists s' f) (module_paths (module_dir tcm_dir m) m)"
    using same module_paths_apart [OF m n] r by (auto simp: tree_ready_def list_all_iff)
  ultimately show ?thesis using r c [OF header_apart] by (simp add: tree_ready_def)
qed

lemma script_result:
  assumes "tree_ready s (cwd @ ''/../../'') n header" and "proto \<in> {''FC'', ''SAS'', ''iSCSI''}"
  shows "\<exists>st. tcm_script usage cwd (Some n) (Some proto) (script_start s [a1, a2]) = (st, Inr ())
    \<and> fs_isdir (tm_fs st) = (fs_isdir s)(module_dir (cwd @ ''/../../'') n := True)
    \<and> file_content (tm_fs st) = run_files (cwd @ ''/../../'') header (n, proto, a1, a2) (file_content s)"
proof -
  have "n \<noteq> []" "proto \<noteq> []" using assms by (auto simp: tree_ready_def)
  with main_result [of "script_start s [a1, a2]" cwd n header proto a1 a2 "[]"] assms show ?thesis
    by (simp add: tcm_script_def script_start_def)
qed

section \<open>A session\<close>

lemma session_result:
  assumes "distinct (List.map fst rs)"
    and "\<forall>(n, proto, a1, a2) \<in> set rs. tree_ready s (cwd @ ''/../../'') n header \<and> proto \<in> {''FC'', ''SAS'', ''iSCSI''}"
  shows "\<exists>s'. session usage cwd rs s = Some s'
    \<and> file_content s' = fold (run_files (cwd @ ''/../../'') header) rs (file_content s)
    \<and> (\<forall>n \<in> fst ` set rs. fs_isdir s' (module_dir (cwd @ ''/../../'') n))
    \<and> (\<forall>p. fs_isdir s p \<longrightarrow> fs_isdir s' p)"
  using assms
proof (induction rs arbitrary: s)
  case (Cons r rs)
  obtain n proto a1 a2 where r: "r = (n, proto, a1, a2)" by (cases r)
  let ?tcm = "cwd @ ''/../../''"
  have ready: "tree_ready s ?tcm n header" "proto \<in> {''FC'', ''SAS'', ''iSCSI''}" using Cons.prems(2) r by auto
  from script_result [OF this] obtain st where
    run: "tcm_script usage cwd (Some n) (Some proto) (script_start s [a1, a2]) = (st, Inr ())"
    and d: "fs_isdir (tm_fs st) = (fs_isdir s)(module_dir ?tcm n := True)"
    and f: "file_content (tm_fs st) = run_files ?tcm header (n, proto, a1, a2) (file_content s)"
    by blast
  have "slash \<notin> set n" using ready(1) by (simp add: tree_ready_def)
  moreover have "m \<noteq> n" if "(m, x) \<in> set rs" for m x using Cons.prems(1) r that by force
  ultimately have "tree_ready (tm_fs st) ?tcm m header" if "(m, x) \<in> set rs" for m x
    using tree_ready_after [OF _ _ _ d] run_files_other [of _ ?tcm n] f Cons.prems(2) that by (cases x) fastforce
  then obtain s' where s': "session usage cwd rs (tm_fs st) = Some s'"
    and c: "file_content s' = fold (run_files ?tcm header) rs (file_content (tm_fs st))"
    and k: "\<forall>n \<in> fst ` set rs. fs_isdir s' (module_dir ?tcm n)" "\<forall>p. fs_isdir (tm_fs st) p \<longrightarrow> fs_isdir s' p"
    using Cons.IH [of "tm_fs st"] Cons.prems by fastforce
  have "session usage cwd (r # rs) s = Some s'" using run s' r by simp
  moreover have "file_content s' = fold (run_files ?tcm header) (r # rs) (file_content s)" by (simp add: c f r)
  ultimately show ?case using k d r by auto
qed simp

text \<open>The files after the runs.\<close>

lemma run_files_build:
  "text_of (run_files tcm_dir header (n, proto, a1, a2) m (tcm_dir @ ''/drivers/target/Makefile''))
     = text_of (m (tcm_dir @ ''/drivers/target/Makefile'')) @ registered [(n, proto, a1, a2)]"
  "text_of (run_files tcm_dir header (n, proto, a1, a2) m (tcm_dir @ ''/drivers/target/Kconfig''))
     = text_of (m (tcm_dir @ ''/drivers/target/Kconfig'')) @ configured [(n, proto, a1, a2)]"
  by (simp_all add: run_files_def answered_def module_files_def base_file_def module_dir_def registered_def
      configured_def text_of_def)

lemma fold_build:
  "text_of (fold (run_files tcm_dir header) rs m (tcm_dir @ ''/drivers/target/Makefile''))
     = text_of (m (tcm_dir @ ''/drivers/target/Makefile'')) @ registered rs"
  "text_of (fold (run_files tcm_dir header) rs m (tcm_dir @ ''/drivers/target/Kconfig''))
     = text_of (m (tcm_dir @ ''/drivers/target/Kconfig'')) @ configured rs"
proof (induction rs arbitrary: m)
  case (Cons r rs)
  {
    case 1
    show ?case using Cons(1) run_files_build(1) by (cases r) (simp add: registered_def)
  next
    case 2
    show ?case using Cons(2) run_files_build(2) by (cases r) (simp add: configured_def)
  }
qed (simp_all add: registered_def configured_def)

lemma run_files_own:
  "f \<in> set (module_paths (module_dir tcm_dir n) n) \<Longrightarrow>
   run_files tcm_dir header (n, proto, a1, a2) m f = module_files (module_dir tcm_dir n) n proto (scanned header) Map.empty f"
  by (auto simp: run_files_def answered_def module_files_def module_paths_def base_file_def module_dir_def)

lemma fold_other:
  "\<forall>n \<in> fst ` set rs. f \<notin> touched tcm_dir n \<Longrightarrow> fold (run_files tcm_dir header) rs m f = m f"
proof (induction rs arbitrary: m)
  case (Cons r rs)
  then show ?case by (cases r) (simp add: run_files_other)
qed simp

lemma fold_own:
  assumes "distinct (List.map fst rs)" and "\<forall>n \<in> fst ` set rs. slash \<notin> set n" and "(n, proto, a1, a2) \<in> set rs"
    and f: "f \<in> set (module_paths (module_dir tcm_dir n) n)"
  shows "fold (run_files tcm_dir header) rs m f = module_files (module_dir tcm_dir n) n proto (scanned header) Map.empty f"
  using assms(1-3)
proof (induction rs arbitrary: m)
  case (Cons r rs)
  show ?case
  proof (cases "r = (n, proto, a1, a2)")
    case True
    have "\<forall>k \<in> fst ` set rs. f \<notin> touched tcm_dir k"
    proof
      fix k assume k: "k \<in> fst ` set rs"
      then have "n \<noteq> k" "slash \<notin> set n" "slash \<notin> set k" using Cons.prems True by auto
      then show "f \<notin> touched tcm_dir k" using module_paths_apart(1) f by blast
    qed
    with True f show ?thesis by (simp add: fold_other run_files_own)
  next
    case False
    with Cons show ?thesis by simp
  qed
qed simp

lemma run_again_fails:
  assumes "fs_isdir s (module_dir (cwd @ ''/../../'') n)"
  shows "session usage cwd [(n, proto, a1, a2)] s = None"
proof -
  obtain st r where run: "tcm_main cwd n proto (script_start s [a1, a2]) = (st, r)" by fastforce
  then have "\<exists>e. r = Inl e" using assms by (cases rule: tcm_main_cases) (auto simp: script_start_def)
  with run show ?thesis by (auto simp: tcm_script_def andthen_def out_line_def)
qed

section \<open>Properties\<close>

text \<open>
  C11. Modules generated one after another: every run of a session ends normally; in the end each module has
  the files its run alone would have written, both build files end with the entries asked for, in the order of
  the runs, no other file has changed, and no module of the session can be generated again.
\<close>

theorem tcm_session:
  assumes "distinct (List.map fst rs)"
    and "\<forall>(n, proto, a1, a2) \<in> set rs. tree_ready s (cwd @ ''/../../'') n header \<and> proto \<in> {''FC'', ''SAS'', ''iSCSI''}"
  shows "\<exists>s'. session usage cwd rs s = Some s'
    \<and> (\<forall>(n, proto, a1, a2) \<in> set rs. \<forall>f \<in> set (module_paths (module_dir (cwd @ ''/../../'') n) n).
         file_content s' f = module_files (module_dir (cwd @ ''/../../'') n) n proto (scanned header) Map.empty f)
    \<and> text_of (file_content s' (cwd @ ''/../..//drivers/target/Makefile''))
        = text_of (file_content s (cwd @ ''/../..//drivers/target/Makefile'')) @ registered rs
    \<and> text_of (file_content s' (cwd @ ''/../..//drivers/target/Kconfig''))
        = text_of (file_content s (cwd @ ''/../..//drivers/target/Kconfig'')) @ configured rs
    \<and> (\<forall>f. (\<forall>n \<in> fst ` set rs. f \<notin> touched (cwd @ ''/../../'') n) \<longrightarrow> file_content s' f = file_content s f)
    \<and> (\<forall>n \<in> fst ` set rs. \<forall>proto a1 a2. session usage cwd [(n, proto, a1, a2)] s' = None)"
proof -
  let ?tcm = "cwd @ ''/../../''"
  obtain s' where s': "session usage cwd rs s = Some s'" and c: "file_content s' = fold (run_files ?tcm header) rs (file_content s)"
    and d: "\<forall>n \<in> fst ` set rs. fs_isdir s' (module_dir ?tcm n)"
    using session_result [OF assms] by blast
  have "\<forall>n \<in> fst ` set rs. slash \<notin> set n" using assms(2) by (auto simp: tree_ready_def)
  then have own: "\<forall>(n, proto, a1, a2) \<in> set rs. \<forall>f \<in> set (module_paths (module_dir ?tcm n) n).
      file_content s' f = module_files (module_dir ?tcm n) n proto (scanned header) Map.empty f"
    using fold_own [OF assms(1)] c by fastforce
  show ?thesis
    using s' own fold_build [of ?tcm header rs "file_content s"] fold_other [of rs _ ?tcm header "file_content s"] d
      run_again_fails [where s = s' and cwd = cwd and usage = usage] c
    by (intro exI [of _ s']) simp
qed

text \<open>The first line of the help.\<close>

definition tcm_help :: string where
  "tcm_help = ''Usage: tcm_mod_builder.py [options]''"

definition two_requests :: "request list" where
  "two_requests = [(''tcm_a'', ''FC'', ''yes'', ''no''), (''tcm_b'', ''SAS'', ''y'', ''yes'')]"

theorem tcm_session_witness:
  "\<exists>s'. session tcm_help ''/k'' two_requests (tm_fs tcm_tree) = Some s'
     \<and> text_of (file_content s' ''/k/../..//drivers/target/Makefile'') = makefile_entry ''tcm_a'' @ makefile_entry ''tcm_b''
     \<and> text_of (file_content s' ''/k/../..//drivers/target/Kconfig'') = kconfig_entry ''tcm_b''
     \<and> session tcm_help ''/k'' [(''tcm_a'', ''iSCSI'', ''no'', ''no'')] s' = None"
proof -
  have d: "distinct (List.map fst two_requests)" by code_simp
  have "tree_ready (tm_fs tcm_tree) (''/k'' @ ''/../../'') ''tcm_a'' tcm_header"
    "tree_ready (tm_fs tcm_tree) (''/k'' @ ''/../../'') ''tcm_b'' tcm_header" by code_simp+
  then have r: "\<forall>(n, proto, a1, a2) \<in> set two_requests.
      tree_ready (tm_fs tcm_tree) (''/k'' @ ''/../../'') n tcm_header \<and> proto \<in> {''FC'', ''SAS'', ''iSCSI''}"
    by (simp add: two_requests_def)
  have e: "file_content (tm_fs tcm_tree) (''/k'' @ ''/../..//drivers/target/Makefile'') = None"
    "file_content (tm_fs tcm_tree) (''/k'' @ ''/../..//drivers/target/Kconfig'') = None"
    by (simp_all add: tcm_tree_def file_content_def fs_look_def)
  have a: "registered two_requests = makefile_entry ''tcm_a'' @ makefile_entry ''tcm_b''"
    "configured two_requests = kconfig_entry ''tcm_b''"
    by (simp_all add: two_requests_def registered_def configured_def)
  have m: "''tcm_a'' \<in> fst ` set two_requests" by (simp add: two_requests_def)
  from tcm_session [OF d r, of tcm_help] obtain s' where "session tcm_help ''/k'' two_requests (tm_fs tcm_tree) = Some s'"
    "text_of (file_content s' (''/k'' @ ''/../..//drivers/target/Makefile'')) = registered two_requests"
    "text_of (file_content s' (''/k'' @ ''/../..//drivers/target/Kconfig'')) = configured two_requests"
    "session tcm_help ''/k'' [(''tcm_a'', ''iSCSI'', ''no'', ''no'')] s' = None"
    using m unfolding e by (auto simp: text_of_def)
  with a show ?thesis by auto
qed

end
