(* ===== verification/TcmScan.thy ===== *)
theory TcmScan
  imports TcmProps "HOL-Library.While_Combinator"
begin

text \<open>
  The \<open>while\<close> loop of \<open>tcm_mod_scan_fabric_ops\<close> as the code writes it, over the open file, the line read last
  and the flag \<open>process_fo\<close>. The recursion of \<open>TcmBuild\<close> is what it computes.
\<close>

section \<open>The loop\<close>

record scan_state =
  sc_process_fo :: bool
  sc_line :: string
  sc_file :: "string list"
  sc_ops :: "string list"

text \<open>\<open>line = p.readline()\<close>: the empty string at the end.\<close>

definition read_next :: "scan_state \<Rightarrow> scan_state" where
  "read_next s =
     (case sc_file s of
        [] \<Rightarrow> s\<lparr>sc_line := []\<rparr>
      | line # rest \<Rightarrow> s\<lparr>sc_line := line, sc_file := rest\<rparr>)"

text \<open>The search for a function pointer in the line just read.\<close>

definition keep_pointer :: "scan_state \<Rightarrow> scan_state" where
  "keep_pointer s =
     (if \<not> is_pointer_line (sc_line s) then s
      else s\<lparr>sc_ops := sc_ops s @ [rstrip_by is_space (sc_line s)]\<rparr>)"

definition scan_body :: "scan_state \<Rightarrow> scan_state" where
  "scan_body s =
     (if \<not> sc_process_fo s \<and> is_struct_line (sc_line s) then read_next s
      else if \<not> sc_process_fo s then keep_pointer (read_next (s\<lparr>sc_process_fo := True\<rparr>))
      else keep_pointer (read_next s))"

definition scan_more :: "scan_state \<Rightarrow> bool" where
  "scan_more s \<longleftrightarrow> sc_line s \<noteq> []"

definition scan_start :: "string list \<Rightarrow> string \<Rightarrow> scan_state" where
  "scan_start ops text =
     read_next \<lparr>sc_process_fo = False, sc_line = [], sc_file = file_lines text, sc_ops = ops\<rparr>"

section \<open>Lemmas\<close>

lemma file_lines_nonempty: "[] \<notin> set (file_lines s)"
  by (auto simp: file_lines_def Let_def)

lemma not_pointer_Nil: "\<not> is_pointer_line []"
  by (simp add: is_pointer_line_def contains_def)

text \<open>One round keeps what the recursion keeps.\<close>

lemma keep_read_next:
  assumes "sc_line s \<noteq> []"
  shows "sc_ops (keep_pointer (read_next s)) = collect (sc_ops s) (sc_file s)"
    and "sc_process_fo (keep_pointer (read_next s)) = sc_process_fo s"
    and "sc_line (keep_pointer (read_next s)) = (case sc_file s of [] \<Rightarrow> [] | l # ls \<Rightarrow> l)"
    and "sc_file (keep_pointer (read_next s)) = (case sc_file s of [] \<Rightarrow> [] | l # ls \<Rightarrow> ls)"
  by (auto simp: keep_pointer_def read_next_def collect_def not_pointer_Nil split: list.split)

lemma scan_body_step:
  assumes "sc_line s \<noteq> []"
  shows "scan_loop (sc_process_fo s) (sc_ops s) (sc_line s # sc_file s) =
     (if sc_line (scan_body s) = [] then sc_ops (scan_body s)
      else scan_loop (sc_process_fo (scan_body s)) (sc_ops (scan_body s)) (sc_line (scan_body s) # sc_file (scan_body s)))
    \<or> [] \<in> set (sc_file s)"
  using assms keep_read_next [of s] keep_read_next [of "s\<lparr>sc_process_fo := True\<rparr>"]
  by (cases "sc_process_fo s"; cases "sc_file s")
    (auto simp: scan_body_def read_next_def keep_pointer_def collect_def not_pointer_Nil)

lemma scan_body_file:
  assumes "sc_line s \<noteq> []"
  shows "sc_line (scan_body s) = (case sc_file s of [] \<Rightarrow> [] | l # ls \<Rightarrow> l)"
    and "sc_file (scan_body s) = (case sc_file s of [] \<Rightarrow> [] | l # ls \<Rightarrow> ls)"
  using assms by (auto simp: scan_body_def read_next_def keep_pointer_def split: list.split)

lemma scan_while:
  assumes "sc_line s \<noteq> []" and "[] \<notin> set (sc_file s)"
  shows "\<exists>s'. while_option scan_more scan_body s = Some s'
    \<and> sc_ops s' = scan_loop (sc_process_fo s) (sc_ops s) (sc_line s # sc_file s)"
  using assms
proof (induction "sc_file s" arbitrary: s)
  case Nil
  have "scan_more s" "\<not> scan_more (scan_body s)" using scan_body_file [of s] Nil by (simp_all add: scan_more_def)
  moreover have "sc_ops (scan_body s) = scan_loop (sc_process_fo s) (sc_ops s) (sc_line s # sc_file s)"
    using scan_body_step [of s] scan_body_file [of s] Nil by auto
  ultimately show ?case
    using while_option_unfold [of scan_more scan_body s] while_option_unfold [of scan_more scan_body "scan_body s"]
    by simp
next
  case (Cons l ls)
  let ?s = "scan_body s"
  have f: "sc_line ?s = l" "sc_file ?s = ls" using scan_body_file [of s] Cons by (auto split: list.splits)
  have "l \<noteq> []" "[] \<notin> set ls" using Cons(4) Cons(2) [symmetric] by auto
  with Cons(1) [of ?s] f obtain s' where "while_option scan_more scan_body ?s = Some s'"
    "sc_ops s' = scan_loop (sc_process_fo ?s) (sc_ops ?s) (sc_line ?s # sc_file ?s)" by auto
  moreover have "scan_loop (sc_process_fo s) (sc_ops s) (sc_line s # sc_file s) =
      scan_loop (sc_process_fo ?s) (sc_ops ?s) (sc_line ?s # sc_file ?s)"
    using scan_body_step [of s] Cons(3,4) f \<open>l \<noteq> []\<close> by simp
  moreover have "scan_more s" using Cons(3) by (simp add: scan_more_def)
  ultimately show ?case using while_option_unfold [of scan_more scan_body s] by simp
qed

section \<open>Properties\<close>

text \<open>
  C27. The loop over the header ends for every file, and keeps, after what was there: past the lines that open
  the structure at the start and one more line, every line with a function pointer, stripped at its end,
  wherever in the header it stands.
\<close>

theorem tcm_scan_ends:
  "\<exists>s. while_option scan_more scan_body (scan_start ops text) = Some s
    \<and> sc_ops s = scan_loop False ops (file_lines text)
    \<and> sc_ops s = ops @ List.map (rstrip_by is_space)
        (List.filter is_pointer_line (drop 1 (dropWhile is_struct_line (file_lines text))))"
proof (cases "file_lines text")
  case Nil
  then have "\<not> scan_more (scan_start ops text)" "sc_ops (scan_start ops text) = ops"
    by (simp_all add: scan_start_def read_next_def scan_more_def)
  with Nil show ?thesis using while_option_unfold [of scan_more scan_body "scan_start ops text"] by simp
next
  case (Cons l ls)
  let ?s = "scan_start ops text"
  have s: "sc_line ?s = l" "sc_file ?s = ls" "sc_ops ?s = ops" "\<not> sc_process_fo ?s"
    using Cons by (simp_all add: scan_start_def read_next_def)
  moreover have "l \<noteq> []" "[] \<notin> set ls" using Cons file_lines_nonempty [of "text"] by auto
  ultimately obtain s' where "while_option scan_more scan_body ?s = Some s'"
    "sc_ops s' = scan_loop False ops (l # ls)" using scan_while [of ?s] by auto
  then show ?thesis using Cons scan_loop_False [of ops "l # ls"] by (simp del: scan_loop.simps)
qed

end
