(* ===== verification/ConfText.thy ===== *)
theory ConfText
  imports PyPrelude
begin

text \<open>
  The texts of \<open>Documentation/conf.py\<close> that go into the preamble of the LaTeX files, line by line, and the
  references \<open>Documentation/media/conf_nitpick.py\<close> lists, with the kind of each.
\<close>

section \<open>The preamble\<close>

text \<open>A backslash.\<close>

abbreviation backslash :: string where
  "backslash \<equiv> [CHR 0x5C]"

definition preamble_fonts :: string where
  "preamble_fonts = concat
     [''\<newline>'',
      ''	% Use some font with UTF-8 support with XeLaTeX\<newline>'',
      ''        '' @ backslash @ ''usepackage{fontspec}\<newline>'',
      ''        '' @ backslash @ ''setsansfont{DejaVu Serif}\<newline>'',
      ''        '' @ backslash @ ''setromanfont{DejaVu Sans}\<newline>'',
      ''        '' @ backslash @ ''setmonofont{DejaVu Sans Mono}\<newline>'',
      ''\<newline>'',
      ''     '']"

definition preamble_verbatim :: string where
  "preamble_verbatim = concat
     [backslash @ ''fvset{fontsize=auto}\<newline>'']"

definition preamble_role :: string where
  "preamble_role = concat
     [backslash @ ''renewcommand*{'' @ backslash @ ''DUrole}[2]{ #2 }\<newline>'']"

definition preamble_geometry :: string where
  "preamble_geometry = concat
     [backslash @ ''usepackage[margin=0.5in, top=1in, bottom=1in]{geometry}'']"

definition preamble_notices :: string where
  "preamble_notices = concat
     [''\<newline>'',
      ''        '' @ backslash @ ''usepackage{ifthen}\<newline>'',
      ''\<newline>'',
      ''        % Put notes in color and let them be inside a table\<newline>'',
      ''	'' @ backslash @ ''definecolor{NoteColor}{RGB}{204,255,255}\<newline>'',
      ''	'' @ backslash @ ''definecolor{WarningColor}{RGB}{255,204,204}\<newline>'',
      ''	'' @ backslash @ ''definecolor{AttentionColor}{RGB}{255,255,204}\<newline>'',
      ''	'' @ backslash @ ''definecolor{ImportantColor}{RGB}{192,255,204}\<newline>'',
      ''	'' @ backslash @ ''definecolor{OtherColor}{RGB}{204,204,204}\<newline>'',
      ''        '' @ backslash @ ''newlength{'' @ backslash @ ''mynoticelength}\<newline>'',
      ''        '' @ backslash @ ''makeatletter'' @ backslash @ ''newenvironment{coloredbox}[1]{%\<newline>'',
      ''	   '' @ backslash @ ''setlength{'' @ backslash @ ''fboxrule}{1pt}\<newline>'',
      ''	   '' @ backslash @ ''setlength{'' @ backslash @ ''fboxsep}{7pt}\<newline>'',
      ''	   '' @ backslash @ ''setlength{'' @ backslash @ ''mynoticelength}{'' @ backslash @ ''linewidth}\<newline>'',
      ''	   '' @ backslash @ ''addtolength{'' @ backslash @ ''mynoticelength}{-2'' @ backslash @ ''fboxsep}\<newline>'',
      ''	   '' @ backslash @ ''addtolength{'' @ backslash @ ''mynoticelength}{-2'' @ backslash @ ''fboxrule}\<newline>'',
      ''           '' @ backslash @ ''begin{lrbox}{'' @ backslash @ ''@tempboxa}'' @ backslash @ ''begin{minipage}{'' @ backslash @ ''mynoticelength}}{'' @ backslash @ ''end{minipage}'' @ backslash @ ''end{lrbox}%\<newline>'',
      ''	   '' @ backslash @ ''ifthenelse%\<newline>'',
      ''	      {'' @ backslash @ ''equal{'' @ backslash @ ''py@noticetype}{note}}%\<newline>'',
      ''	      {'' @ backslash @ ''colorbox{NoteColor}{'' @ backslash @ ''usebox{'' @ backslash @ ''@tempboxa}}}%\<newline>'',
      ''	      {%\<newline>'',
      ''	         '' @ backslash @ ''ifthenelse%\<newline>'',
      ''	         {'' @ backslash @ ''equal{'' @ backslash @ ''py@noticetype}{warning}}%\<newline>'',
      ''	         {'' @ backslash @ ''colorbox{WarningColor}{'' @ backslash @ ''usebox{'' @ backslash @ ''@tempboxa}}}%\<newline>'',
      ''		 {%\<newline>'',
      ''	            '' @ backslash @ ''ifthenelse%\<newline>'',
      ''	            {'' @ backslash @ ''equal{'' @ backslash @ ''py@noticetype}{attention}}%\<newline>'',
      ''	            {'' @ backslash @ ''colorbox{AttentionColor}{'' @ backslash @ ''usebox{'' @ backslash @ ''@tempboxa}}}%\<newline>'',
      ''		    {%\<newline>'',
      ''	               '' @ backslash @ ''ifthenelse%\<newline>'',
      ''	               {'' @ backslash @ ''equal{'' @ backslash @ ''py@noticetype}{important}}%\<newline>'',
      ''	               {'' @ backslash @ ''colorbox{ImportantColor}{'' @ backslash @ ''usebox{'' @ backslash @ ''@tempboxa}}}%\<newline>'',
      ''	               {'' @ backslash @ ''colorbox{OtherColor}{'' @ backslash @ ''usebox{'' @ backslash @ ''@tempboxa}}}%\<newline>'',
      ''		    }%\<newline>'',
      ''		 }%\<newline>'',
      ''	      }%\<newline>'',
      ''        }'' @ backslash @ ''makeatother\<newline>'',
      ''\<newline>'',
      ''        '' @ backslash @ ''makeatletter\<newline>'',
      ''        '' @ backslash @ ''renewenvironment{notice}[2]{%\<newline>'',
      ''          '' @ backslash @ ''def'' @ backslash @ ''py@noticetype{#1}\<newline>'',
      ''          '' @ backslash @ ''begin{coloredbox}{#1}\<newline>'',
      ''          '' @ backslash @ ''bf'' @ backslash @ ''it\<newline>'',
      ''          '' @ backslash @ ''par'' @ backslash @ ''strong{#2}\<newline>'',
      ''          '' @ backslash @ ''csname py@noticestart@#1'' @ backslash @ ''endcsname\<newline>'',
      ''        }\<newline>'',
      ''	{\<newline>'',
      ''          '' @ backslash @ ''csname py@noticeend@'' @ backslash @ ''py@noticetype'' @ backslash @ ''endcsname\<newline>'',
      ''          '' @ backslash @ ''end{coloredbox}\<newline>'',
      ''        }\<newline>'',
      ''	'' @ backslash @ ''makeatother\<newline>'',
      ''\<newline>'',
      ''     '']"

section \<open>References that may be missing\<close>

definition ignored_functions :: "string list" where
  "ignored_functions =
     [''clock_gettime'', ''close'', ''container_of'', ''copy_from_user'', ''copy_to_user'',
      ''determine_valid_ioctls'', ''ERR_PTR'', ''i2c_new_device'', ''ioctl'', ''IS_ERR'',
      ''KERNEL_VERSION'', ''mmap'', ''open'', ''pci_name'', ''poll'', ''PTR_ERR'', ''read'',
      ''release'', ''set'', ''struct fd_set'', ''struct pollfd'', ''usb_make_path'', ''wait_finish'',
      ''wait_prepare'', ''write'']"

definition ignored_types :: "string list" where
  "ignored_types =
     [''atomic_t'', ''bool'', ''boolean'', ''buf_queue'', ''device'', ''device_driver'',
      ''device_node'', ''enum'', ''fd'', ''fd_set'', ''file'', ''i2c_adapter'', ''i2c_board_info'',
      ''i2c_client'', ''int16_t'', ''ktime_t'', ''led_classdev_flash'', ''list_head'',
      ''lock_class_key'', ''module'', ''mutex'', ''NULL'', ''off_t'', ''pci_dev'', ''pdvbdev'',
      ''poll_table'', ''platform_device'', ''pollfd'', ''poll_table_struct'', ''s32'', ''s64'',
      ''sd'', ''size_t'', ''spi_board_info'', ''spi_device'', ''spi_master'', ''ssize_t'',
      ''fb_fix_screeninfo'', ''pollfd'', ''timeval'', ''video_capability'', ''timeval'', ''__u16'',
      ''u16'', ''__u32'', ''u32'', ''__u64'', ''u64'', ''u8'', ''uint16_t'', ''uint32_t'', ''union'',
      ''__user'', ''usb_device'', ''usb_interface'', ''v4l2_std_id'', ''video_system_t'',
      ''vm_area_struct'', ''v4l2_m2m_dev'']"

end
