(* ===== verification/ConfPy.thy ===== *)
theory ConfPy
  imports ConfText LoadConfig "HOL-Library.Product_Lexorder"
begin

text \<open>
  \<open>Documentation/conf.py\<close>: the name space of configuration values it builds for a version of Sphinx, the
  kernel version it reads from the \<open>Makefile\<close>, and the call of \<open>loadConfig\<close> at its end (\<open>LoadConfig\<close>). The
  names of imported modules and of the loop's variables are left out of the name space; the arguments are
  the text of the \<open>Makefile\<close>, the path of the theme when it is installed, and what \<open>load_config\<close> needs.
\<close>

section \<open>Values\<close>

text \<open>The values the configuration uses; \<open>CExt\<close> is an object the caller has put into the name space.\<close>

datatype 'x cval =
    CStr string
  | CNone
  | CBool bool
  | CInt int
  | CList "'x cval list"
  | CTuple "'x cval list"
  | CDict "(string \<times> 'x cval) list"
  | CExt 'x

type_synonym 'x conf_space = "'x cval namespace"

text \<open>A value as \<open>load_config\<close> sees it.\<close>

fun conf_value :: "'x cval \<Rightarrow> 'x cval pyval" where
  "conf_value (CStr s) = PyStr s"
| "conf_value v = PyObj v"

text \<open>A sequence of assignments.\<close>

fun assign_all :: "(string \<times> 'x cval) list \<Rightarrow> 'x conf_space \<Rightarrow> 'x conf_space" where
  "assign_all [] ns = ns"
| "assign_all ((k, v) # as) ns = assign_all as (ns(k \<mapsto> conf_value v))"

abbreviation strings :: "string list \<Rightarrow> 'x cval" where
  "strings xs \<equiv> CList (List.map CStr xs)"

section \<open>The version of the kernel\<close>

text \<open>\<open>s.split(c, n)\<close>: at most \<open>n\<close> cuts.\<close>

fun py_split_max :: "nat \<Rightarrow> char \<Rightarrow> string \<Rightarrow> string list" where
  "py_split_max 0 c s = [s]"
| "py_split_max (Suc n) c s =
     (case dropWhile (\<lambda>x. x \<noteq> c) s of
        [] \<Rightarrow> [s]
      | x # xs \<Rightarrow> takeWhile (\<lambda>x. x \<noteq> c) s # py_split_max n c xs)"

text \<open>\<open>makefile_version\<close> and \<open>makefile_patchlevel\<close>\<close>

type_synonym version_parts = "string option \<times> string option"

text \<open>The truth value of a string or \<open>None\<close>\<close>

definition truthy :: "string option \<Rightarrow> bool" where
  "truthy v \<longleftrightarrow> v \<noteq> None \<and> v \<noteq> Some []"

definition both_known :: "version_parts \<Rightarrow> bool" where
  "both_known vp \<longleftrightarrow> truthy (fst vp) \<and> truthy (snd vp)"

definition set_part :: "string \<Rightarrow> string \<Rightarrow> version_parts \<Rightarrow> version_parts" where
  "set_part key val vp =
     (if key = ''VERSION'' then (Some val, snd vp)
      else if key = ''PATCHLEVEL'' then (fst vp, Some val)
      else vp)"

text \<open>
  The loop over the lines. A line that does not give two parts raises in the assignment of \<open>key\<close> and
  \<open>val\<close>, which ends the loop and is caught.
\<close>

fun read_version :: "version_parts \<Rightarrow> string list \<Rightarrow> version_parts" where
  "read_version vp [] = vp"
| "read_version vp (line # lines) =
     (case List.map (strip_by is_space) (py_split_max 2 (CHR ''='') line) of
        [key, val] \<Rightarrow>
          let vp' = set_part key val vp in
          if both_known vp' then vp' else read_version vp' lines
      | _ \<Rightarrow> vp)"

definition unknown_version :: string where
  "unknown_version = ''unknown version''"

definition version_warning :: string where
  "version_warning = ''Warning: Could not extract kernel version\<newline>''"

text \<open>The parts, the value of \<open>version\<close> and \<open>release\<close>, and what is written to standard error.\<close>

definition makefile_parts :: "string option \<Rightarrow> version_parts" where
  "makefile_parts makefile =
     (case makefile of None \<Rightarrow> (None, None) | Some text \<Rightarrow> read_version (None, None) (file_lines text))"

definition kernel_version :: "string option \<Rightarrow> string \<times> string" where
  "kernel_version makefile =
     (let vp = makefile_parts makefile in
      if both_known vp then (the (fst vp) @ ''.'' @ the (snd vp), [])
      else (unknown_version, version_warning))"

section \<open>The assignments\<close>

type_synonym sphinx_version = "nat \<times> nat \<times> nat"

definition math_extension :: "sphinx_version \<Rightarrow> string" where
  "math_extension v =
     (case v of (major, minor, patch) \<Rightarrow>
        if major = 1 \<and> minor > 3 then ''sphinx.ext.imgmath'' else ''sphinx.ext.pngmath'')"

definition version_values :: "sphinx_version \<Rightarrow> (string \<times> 'x cval) list" where
  "version_values v =
     (case v of (major, minor, patch) \<Rightarrow>
        [(''major'', CInt (int major)), (''minor'', CInt (int minor)), (''patch'', CInt (int patch))])"

definition general_values :: "sphinx_version \<Rightarrow> (string \<times> 'x cval) list" where
  "general_values v =
     [(''needs_sphinx'', CStr ''1.3''),
      (''extensions'', strings ([''kerneldoc'', ''rstFlatTable'', ''kernel_include'', ''cdomain'', ''kfigure'']
         @ [math_extension v])),
      (''templates_path'', strings [''_templates'']),
      (''source_suffix'', CStr ''.rst''),
      (''master_doc'', CStr ''index''),
      (''project'', CStr ''The Linux Kernel''),
      (''copyright'', CStr ''The kernel development community''),
      (''author'', CStr ''The kernel development community'')]"

definition part_value :: "string option \<Rightarrow> 'x cval" where
  "part_value p = (case p of None \<Rightarrow> CNone | Some s \<Rightarrow> CStr s)"

definition kernel_values :: "string option \<Rightarrow> (string \<times> 'x cval) list" where
  "kernel_values makefile =
     (let vp = makefile_parts makefile; version = fst (kernel_version makefile) in
      [(''makefile_version'', part_value (fst vp)), (''makefile_patchlevel'', part_value (snd vp)),
       (''version'', CStr version), (''release'', CStr version)])"

definition language_values :: "(string \<times> 'x cval) list" where
  "language_values =
     [(''language'', CNone),
      (''exclude_patterns'', strings [''output'']),
      (''pygments_style'', CStr ''sphinx''),
      (''todo_include_todos'', CBool False),
      (''primary_domain'', CStr ''c''),
      (''highlight_language'', CStr ''none'')]"

definition theme_warning :: string where
  "theme_warning = ''Warning: The Sphinx 'sphinx_rtd_theme' HTML theme was not found. Make sure you have the theme installed to produce pretty HTML output. Falling back to the default theme.\<newline>''"

definition theme_values :: "'x cval option \<Rightarrow> (string \<times> 'x cval) list \<times> string" where
  "theme_values rtd_path =
     (case rtd_path of
        Some p \<Rightarrow> ([(''html_theme'', CStr ''sphinx_rtd_theme''), (''html_theme_path'', CList [p])], [])
      | None \<Rightarrow> ([], theme_warning))"

definition html_values :: "(string \<times> 'x cval) list" where
  "html_values =
     [(''html_static_path'', strings [''sphinx-static'']),
      (''html_context'', CDict [(''css_files'', strings [''_static/theme_overrides.css''])]),
      (''htmlhelp_basename'', CStr ''TheLinuxKerneldoc'')]"

text \<open>The preamble, and the further key, by the version of Sphinx.\<close>

definition latex_preamble :: "sphinx_version \<Rightarrow> string" where
  "latex_preamble v =
     (case v of (major, minor, patch) \<Rightarrow>
        preamble_fonts
        @ (if major = 1 \<and> minor > 3 then preamble_role else [])
        @ (if major = 1 \<and> minor \<le> 4 then preamble_geometry
           else if major = 1 \<and> (minor > 5 \<or> (minor = 5 \<and> patch \<ge> 3)) then preamble_verbatim else [])
        @ (if major = 1 \<and> minor < 6 then preamble_notices else []))"

definition sphinx_setup :: "sphinx_version \<Rightarrow> (string \<times> string) list" where
  "sphinx_setup v =
     (case v of (major, minor, patch) \<Rightarrow>
        if major = 1 \<and> minor \<le> 4 then []
        else if major = 1 \<and> (minor > 5 \<or> (minor = 5 \<and> patch \<ge> 3))
             then [(''sphinxsetup'', ''hmargin=0.5in, vmargin=1in'')]
             else [])"

definition latex_elements :: "sphinx_version \<Rightarrow> (string \<times> string) list" where
  "latex_elements v =
     [(''papersize'', ''a4paper''), (''pointsize'', ''8pt''), (''inputenc'', []), (''utf8extra'', []),
      (''preamble'', latex_preamble v)] @ sphinx_setup v"

text \<open>A document: its start file, target and title; author and class are always the same.\<close>

definition document :: "string \<Rightarrow> string \<Rightarrow> string \<Rightarrow> 'x cval" where
  "document start target title =
     CTuple (List.map CStr [start, target, title, ''The kernel development community'', ''manual''])"

definition master_documents :: "(string \<times> string \<times> string) list" where
  "master_documents =
     [(''admin-guide/index'', ''linux-user.tex'', ''Linux Kernel User Documentation''),
      (''core-api/index'', ''core-api.tex'', ''The kernel core API manual''),
      (''crypto/index'', ''crypto-api.tex'', ''Linux Kernel Crypto API manual''),
      (''dev-tools/index'', ''dev-tools.tex'', ''Development tools for the Kernel''),
      (''doc-guide/index'', ''kernel-doc-guide.tex'', ''Linux Kernel Documentation Guide''),
      (''driver-api/index'', ''driver-api.tex'', ''The kernel driver API manual''),
      (''filesystems/index'', ''filesystems.tex'', ''Linux Filesystems API''),
      (''gpu/index'', ''gpu.tex'', ''Linux GPU Driver Developer's Guide''),
      (''input/index'', ''linux-input.tex'', ''The Linux input driver subsystem''),
      (''kernel-hacking/index'', ''kernel-hacking.tex'', ''Unreliable Guide To Hacking The Linux Kernel''),
      (''media/index'', ''media.tex'', ''Linux Media Subsystem Documentation''),
      (''networking/index'', ''networking.tex'', ''Linux Networking Documentation''),
      (''process/index'', ''development-process.tex'', ''Linux Kernel Development Documentation''),
      (''security/index'', ''security.tex'', ''The kernel security subsystem manual''),
      (''sh/index'', ''sh.tex'', ''SuperH architecture implementation manual''),
      (''sound/index'', ''sound.tex'', ''Linux Sound Subsystem Documentation''),
      (''userspace-api/index'', ''userspace-api.tex'', ''The Linux kernel user-space API guide'')]"

definition latex_values :: "sphinx_version \<Rightarrow> (string \<times> 'x cval) list" where
  "latex_values v =
     [(''latex_elements'', CDict (List.map (\<lambda>(k, s). (k, CStr s)) (latex_elements v))),
      (''latex_documents'', CList (List.map (\<lambda>(start, target, title). document start target title) master_documents))]"

definition other_formats :: "(string \<times> 'x cval) list" where
  "other_formats =
     (let master_doc = ''index''; author = ''The kernel development community'' in
      [(''man_pages'', CList [CTuple [CStr master_doc, CStr ''thelinuxkernel'',
          CStr ''The Linux Kernel Documentation'', strings [author], CInt 1]]),
       (''texinfo_documents'', CList [CTuple (List.map CStr [master_doc, ''TheLinuxKernel'',
          ''The Linux Kernel Documentation'', author, ''TheLinuxKernel'', ''One line description of project.'',
          ''Miscellaneous''])])])"

definition epub_values :: "(string \<times> 'x cval) list" where
  "epub_values =
     [(''epub_title'', CStr ''The Linux Kernel''), (''epub_author'', CStr ''The kernel development community''),
      (''epub_publisher'', CStr ''The kernel development community''),
      (''epub_copyright'', CStr ''The kernel development community''),
      (''epub_exclude_files'', strings [''search.html''])]"

definition kerneldoc_values :: "(string \<times> 'x cval) list" where
  "kerneldoc_values =
     [(''pdf_documents'', CList [CTuple (List.map CStr [''kernel-documentation'', ''Kernel'', ''Kernel'', ''J. Random Bozo''])]),
      (''kerneldoc_bin'', CStr ''../scripts/kernel-doc''),
      (''kerneldoc_srctree'', CStr ''..'')]"

definition conf_values :: "sphinx_version \<Rightarrow> string option \<Rightarrow> 'x cval option \<Rightarrow> (string \<times> 'x cval) list" where
  "conf_values v makefile rtd_path =
     version_values v @ general_values v @ kernel_values makefile @ language_values
     @ fst (theme_values rtd_path) @ html_values @ latex_values v @ other_formats @ epub_values @ kerneldoc_values"

section \<open>The whole file\<close>

definition conf_py ::
  "sphinx_version \<Rightarrow> string option \<Rightarrow> 'x cval option \<Rightarrow> string option \<Rightarrow> string \<Rightarrow> (string \<Rightarrow> bool)
   \<Rightarrow> (string \<Rightarrow> 'x conf_space \<Rightarrow> 'x conf_space res) \<Rightarrow> 'x conf_space \<Rightarrow> 'x cval load_result"
where
  "conf_py v makefile rtd_path sphinx_conf cwd isfile execfile ns =
     (let r = load_config sphinx_conf cwd isfile execfile (assign_all (conf_values v makefile rtd_path) ns) in
      r\<lparr>lc_err := snd (kernel_version makefile) @ snd (theme_values rtd_path) @ lc_err r\<rparr>)"

end
