(* ===== verification/ConfProps.thy ===== *)
theory ConfProps
  imports ConfPy
begin

text \<open>
  The version of the kernel as \<open>conf.py\<close> reads it from the \<open>Makefile\<close>, against a specification on the
  assignments of the file.
\<close>

section \<open>The specification\<close>

text \<open>
  The assignments before the first line that has not exactly one equals sign, and the values a sequence of
  assignments leaves in the two parts.
\<close>

definition one_equals :: "string \<Rightarrow> bool" where
  "one_equals line \<longleftrightarrow> count_list line (CHR ''='') = 1"

definition assigned :: "string \<Rightarrow> string \<times> string" where
  "assigned line =
     (strip_by is_space (takeWhile (\<lambda>c. c \<noteq> CHR ''='') line),
      strip_by is_space (List.tl (dropWhile (\<lambda>c. c \<noteq> CHR ''='') line)))"

definition assignments :: "string list \<Rightarrow> (string \<times> string) list" where
  "assignments lines = List.map assigned (takeWhile one_equals lines)"

definition parts_of :: "(string \<times> string) list \<Rightarrow> version_parts" where
  "parts_of as = (map_of (rev as) ''VERSION'', map_of (rev as) ''PATCHLEVEL'')"

text \<open>The shortest sequence of leading assignments after which both parts are known.\<close>

definition first_known :: "(string \<times> string) list \<Rightarrow> (string \<times> string) list option" where
  "first_known as = List.find (\<lambda>as'. both_known (parts_of as')) (prefixes as)"

section \<open>The loop\<close>

lemma split_max_2:
  "py_split_max 2 c s =
     (case dropWhile (\<lambda>x. x \<noteq> c) s of
        [] \<Rightarrow> [s]
      | x # xs \<Rightarrow> takeWhile (\<lambda>x. x \<noteq> c) s #
          (case dropWhile (\<lambda>x. x \<noteq> c) xs of [] \<Rightarrow> [xs] | y # ys \<Rightarrow> [takeWhile (\<lambda>x. x \<noteq> c) xs, ys]))"
  unfolding numeral_2_eq_2 py_split_max.simps by (rule refl)

lemma count_dropWhile: "count_list s c = count_list (dropWhile (\<lambda>x. x \<noteq> c) s) c"
  by (induction s) auto

lemma count_cut:
  assumes "dropWhile (\<lambda>x. x \<noteq> c) s = x # xs"
  shows "count_list s c = Suc (count_list xs c)"
proof -
  have "x = c" using assms hd_dropWhile [of "\<lambda>x. x \<noteq> c" s] by simp
  then show ?thesis using count_dropWhile [of s c] assms by simp
qed

lemma count_no_cut: "dropWhile (\<lambda>x. x \<noteq> c) s = [] \<longleftrightarrow> count_list s c = 0"
  by (auto simp: count_list_0_iff)

lemma split_one_equals:
  assumes "one_equals line"
  shows "List.map (strip_by is_space) (py_split_max 2 (CHR ''='') line) = [fst (assigned line), snd (assigned line)]"
proof (cases "dropWhile (\<lambda>c. c \<noteq> CHR ''='') line")
  case Nil
  with assms show ?thesis unfolding count_no_cut one_equals_def by simp
next
  case (Cons x xs)
  with assms have d: "dropWhile (\<lambda>c. c \<noteq> CHR ''='') xs = []"
    unfolding count_no_cut one_equals_def by (simp add: count_cut)
  show ?thesis
    by (simp only: split_max_2 assigned_def Cons d list.case list.map fst_conv snd_conv list.sel)
qed

lemma split_not_one:
  assumes "\<not> one_equals line"
  shows "length (py_split_max 2 (CHR ''='') line) \<noteq> 2"
proof (cases "dropWhile (\<lambda>c. c \<noteq> CHR ''='') line")
  case Nil
  then show ?thesis by (simp only: split_max_2) simp
next
  case (Cons x xs)
  then have "dropWhile (\<lambda>c. c \<noteq> CHR ''='') xs \<noteq> []"
    using assms unfolding count_no_cut one_equals_def by (simp add: count_cut)
  then obtain y ys where "dropWhile (\<lambda>c. c \<noteq> CHR ''='') xs = y # ys" by (meson neq_Nil_conv)
  with Cons show ?thesis by (simp only: split_max_2) simp
qed

text \<open>The loop, on the assignments.\<close>

lemma read_version_Cons:
  "read_version vp (line # lines) =
     (if one_equals line
      then let vp' = set_part (fst (assigned line)) (snd (assigned line)) vp in
           if both_known vp' then vp' else read_version vp' lines
      else vp)"
proof (cases "one_equals line")
  case True
  then show ?thesis by (simp add: split_one_equals)
next
  case False
  from split_not_one [OF this] have "length (List.map (strip_by is_space) (py_split_max 2 (CHR ''='') line)) \<noteq> 2"
    by simp
  with False show ?thesis by (auto split: list.splits)
qed

declare read_version.simps(2) [simp del]

lemma parts_of_snoc: "parts_of (pre @ [(k, v)]) = set_part k v (parts_of pre)"
  by (simp add: parts_of_def set_part_def)

lemma find_map: "List.find P (List.map f xs) = map_option f (List.find (P \<circ> f) xs)"
  by (induction xs) auto

lemma find_cong_set: "(\<And>x. x \<in> set xs \<Longrightarrow> P x = Q x) \<Longrightarrow> List.find P xs = List.find Q xs"
  by (induction xs) auto

lemma read_version_from:
  assumes "\<not> both_known (parts_of pre)"
  shows "read_version (parts_of pre) lines =
    (case List.find (\<lambda>q. both_known (parts_of (pre @ q))) (prefixes (assignments lines)) of
       Some q \<Rightarrow> parts_of (pre @ q) | None \<Rightarrow> parts_of (pre @ assignments lines))"
  using assms
proof (induction lines arbitrary: pre)
  case Nil
  then show ?case by (simp add: assignments_def)
next
  case (Cons line lines)
  show ?case
  proof (cases "one_equals line")
    case False
    with Cons.prems show ?thesis by (simp add: read_version_Cons assignments_def)
  next
    case True
    let ?pre = "pre @ [assigned line]"
    have step: "set_part (fst (assigned line)) (snd (assigned line)) (parts_of pre) = parts_of ?pre"
      using parts_of_snoc [of pre "fst (assigned line)" "snd (assigned line)"] by simp
    have as: "assignments (line # lines) = assigned line # assignments lines"
      using True by (simp add: assignments_def)
    have eq: "(\<lambda>q. both_known (parts_of (pre @ q))) \<circ> (#) (assigned line) = (\<lambda>q. both_known (parts_of (?pre @ q)))"
      by (simp add: fun_eq_iff)
    show ?thesis
    proof (cases "both_known (parts_of ?pre)")
      case known: True
      then have "List.find (\<lambda>q. both_known (parts_of (?pre @ q))) (prefixes (assignments lines)) = Some []"
        by (cases "assignments lines") auto
      with known True Cons.prems show ?thesis
        by (simp add: read_version_Cons step as find_map eq Let_def)
    next
      case unknown: False
      with Cons.IH [OF unknown] True Cons.prems show ?thesis
        by (simp add: read_version_Cons step as find_map eq Let_def option.case_eq_if option.map_sel)
    qed
  qed
qed

lemma makefile_parts_spec:
  "makefile_parts (Some text) =
    (case first_known (assignments (file_lines text)) of
       Some as \<Rightarrow> parts_of as | None \<Rightarrow> parts_of (assignments (file_lines text)))"
proof -
  have "parts_of [] = (None, None)" by (simp add: parts_of_def)
  moreover have "\<not> both_known (parts_of [])" by (simp add: parts_of_def both_known_def truthy_def)
  ultimately show ?thesis
    using read_version_from [of "[]" "file_lines text"] by (auto simp: makefile_parts_def first_known_def split: option.split)
qed

section \<open>Properties\<close>

text \<open>
  C29. The version read from a \<open>Makefile\<close> is the one of the shortest run of leading assignments that
  give both parts a value, where a line without exactly one equals sign ends the run; when there is none,
  the version is unknown and a warning is written.
\<close>

theorem conf_version_read:
  "kernel_version (Some text) =
    (case first_known (assignments (file_lines text)) of
       Some as \<Rightarrow> (the (map_of (rev as) ''VERSION'') @ ''.'' @ the (map_of (rev as) ''PATCHLEVEL''), [])
     | None \<Rightarrow> (unknown_version, version_warning))"
proof (cases "first_known (assignments (file_lines text))")
  case None
  then have "\<not> both_known (parts_of (assignments (file_lines text)))"
    by (auto simp: first_known_def find_None_iff)
  with None show ?thesis by (simp add: kernel_version_def makefile_parts_spec)
next
  case (Some q)
  then have "both_known (parts_of q)" by (auto simp: first_known_def find_Some_iff)
  with Some show ?thesis by (simp add: kernel_version_def makefile_parts_spec parts_of_def)
qed

end
