(* ===== verification/ConfBooks.thy ===== *)
theory ConfBooks
  imports ConfPy
begin

text \<open>
  The configuration files of the books, \<open>Documentation/<book>/conf.py\<close> and
  \<open>Documentation/media/conf_nitpick.py\<close>, which \<open>conf.py\<close> loads when the build is for one book, and the
  properties of the configuration.
\<close>

section \<open>The files of the books\<close>

record book =
  bk_project :: string
  bk_target :: string
  bk_title :: string

definition book_admin_guide :: book where
  "book_admin_guide =
     \<lparr>bk_project = ''Linux Kernel User Documentation'', bk_target = ''linux-user.tex'',
      bk_title = ''Linux Kernel User Documentation''\<rparr>"

definition book_core_api :: book where
  "book_core_api =
     (let project = ''Core-API Documentation''
      in \<lparr>bk_project = project, bk_target = ''core-api.tex'', bk_title = project\<rparr>)"

definition book_crypto :: book where
  "book_crypto =
     \<lparr>bk_project = ''Linux Kernel Crypto API'', bk_target = ''crypto-api.tex'',
      bk_title = ''Linux Kernel Crypto API manual''\<rparr>"

definition book_dev_tools :: book where
  "book_dev_tools =
     (let project = ''Development tools for the kernel''
      in \<lparr>bk_project = project, bk_target = ''dev-tools.tex'', bk_title = project\<rparr>)"

definition book_doc_guide :: book where
  "book_doc_guide =
     \<lparr>bk_project = ''Linux Kernel Documentation Guide'', bk_target = ''kernel-doc-guide.tex'',
      bk_title = ''Linux Kernel Documentation Guide''\<rparr>"

definition book_driver_api_80211 :: book where
  "book_driver_api_80211 =
     (let project = ''Linux 802.11 Driver Developer's Guide''
      in \<lparr>bk_project = project, bk_target = ''80211.tex'', bk_title = project\<rparr>)"

definition book_driver_api :: book where
  "book_driver_api =
     (let project = ''The Linux driver implementer's API guide''
      in \<lparr>bk_project = project, bk_target = ''driver-api.tex'', bk_title = project\<rparr>)"

definition book_driver_api_pm :: book where
  "book_driver_api_pm =
     (let project = ''Device Power Management''
      in \<lparr>bk_project = project, bk_target = ''pm.tex'', bk_title = project\<rparr>)"

definition book_filesystems :: book where
  "book_filesystems =
     (let project = ''Linux Filesystems API''
      in \<lparr>bk_project = project, bk_target = ''filesystems.tex'', bk_title = project\<rparr>)"

definition book_gpu :: book where
  "book_gpu =
     (let project = ''Linux GPU Driver Developer's Guide''
      in \<lparr>bk_project = project, bk_target = ''gpu.tex'', bk_title = project\<rparr>)"

definition book_input :: book where
  "book_input =
     (let project = ''The Linux input driver subsystem''
      in \<lparr>bk_project = project, bk_target = ''linux-input.tex'', bk_title = project\<rparr>)"

definition book_kernel_hacking :: book where
  "book_kernel_hacking =
     (let project = ''Kernel Hacking Guides''
      in \<lparr>bk_project = project, bk_target = ''kernel-hacking.tex'', bk_title = project\<rparr>)"

definition book_media :: book where
  "book_media =
     \<lparr>bk_project = ''Linux Media Subsystem Documentation'', bk_target = ''media.tex'',
      bk_title = ''Linux Media Subsystem Documentation''\<rparr>"

definition book_networking :: book where
  "book_networking =
     (let project = ''Linux Networking Documentation''
      in \<lparr>bk_project = project, bk_target = ''networking.tex'', bk_title = project\<rparr>)"

definition book_process :: book where
  "book_process =
     \<lparr>bk_project = ''Linux Kernel Development Documentation'', bk_target = ''process.tex'',
      bk_title = ''Linux Kernel Development Documentation''\<rparr>"

definition book_sh :: book where
  "book_sh =
     (let project = ''SuperH architecture implementation manual''
      in \<lparr>bk_project = project, bk_target = ''sh.tex'', bk_title = project\<rparr>)"

definition book_sound :: book where
  "book_sound =
     (let project = ''Linux Sound Subsystem Documentation''
      in \<lparr>bk_project = project, bk_target = ''sound.tex'', bk_title = project\<rparr>)"

definition book_userspace_api :: book where
  "book_userspace_api =
     (let project = ''The Linux kernel user-space API guide''
      in \<lparr>bk_project = project, bk_target = ''userspace-api.tex'', bk_title = project\<rparr>)"

definition books :: "(string \<times> book) list" where
  "books =
     [(''admin-guide'', book_admin_guide),
      (''core-api'', book_core_api),
      (''crypto'', book_crypto),
      (''dev-tools'', book_dev_tools),
      (''doc-guide'', book_doc_guide),
      (''driver-api/80211'', book_driver_api_80211),
      (''driver-api'', book_driver_api),
      (''driver-api/pm'', book_driver_api_pm),
      (''filesystems'', book_filesystems),
      (''gpu'', book_gpu),
      (''input'', book_input),
      (''kernel-hacking'', book_kernel_hacking),
      (''media'', book_media),
      (''networking'', book_networking),
      (''process'', book_process),
      (''sh'', book_sh),
      (''sound'', book_sound),
      (''userspace-api'', book_userspace_api)]"

text \<open>
  A file of a book: its name is assigned, the set of tags is told of the book and the documents are replaced
  by the one of the book. The set of tags is an object of Sphinx, put into the name space by it; \<open>add_tag\<close>
  is its method \<open>add\<close>.
\<close>

definition run_book ::
  "(string \<Rightarrow> 'x cval pyval \<Rightarrow> 'x cval pyval res) \<Rightarrow> book \<Rightarrow> 'x conf_space \<Rightarrow> 'x conf_space res"
where
  "run_book add_tag b ns =
     (let ns1 = ns(''project'' \<mapsto> PyStr (bk_project b)) in
      case ns1 ''tags'' of
        None \<Rightarrow> Inl (OtherError ''NameError'')
      | Some t \<Rightarrow> rbind (add_tag ''subproject'' t) (\<lambda>t'.
          Inr (ns1(''tags'' \<mapsto> t',
            ''latex_documents'' \<mapsto> PyObj (CList [document ''index'' (bk_target b) (bk_title b)])))))"

definition nitpick_values :: "(string \<times> 'x cval) list" where
  "nitpick_values =
     [(''project'', CStr ''Linux Media Subsystem Documentation''),
      (''nitpicky'', CBool True),
      (''intersphinx_mapping'', CDict []),
      (''nitpick_ignore'', CList (List.map (\<lambda>s. CTuple [CStr ''c:func'', CStr s]) ignored_functions
         @ List.map (\<lambda>s. CTuple [CStr ''c:type'', CStr s]) ignored_types))]"

text \<open>Executing a file below the documentation's directory; other files are an argument.\<close>

definition exec_conf ::
  "(string \<Rightarrow> 'x cval pyval \<Rightarrow> 'x cval pyval res) \<Rightarrow> (string \<Rightarrow> 'x conf_space \<Rightarrow> 'x conf_space res)
   \<Rightarrow> string \<Rightarrow> string \<Rightarrow> 'x conf_space \<Rightarrow> 'x conf_space res"
where
  "exec_conf add_tag other docs path ns =
     (if path = docs @ ''/media/conf_nitpick.py'' then Inr (assign_all nitpick_values ns)
      else case List.find (\<lambda>(d, b). path = docs @ ''/'' @ d @ ''/conf.py'') books of
             Some (d, b) \<Rightarrow> run_book add_tag b ns
           | None \<Rightarrow> other path ns)"

section \<open>Lemmas on assignments\<close>

lemma assign_all_other: "k \<notin> fst ` set as \<Longrightarrow> assign_all as ns k = ns k"
  by (induction as ns rule: assign_all.induct) auto

lemma assign_all_append: "assign_all (as @ bs) ns = assign_all bs (assign_all as ns)"
  by (induction as ns rule: assign_all.induct) (simp_all del: fun_upd_apply)

lemma assign_all_over:
  "assign_all as ns k = (case assign_all as Map.empty k of None \<Rightarrow> ns k | Some v \<Rightarrow> Some v)"
proof (induction as rule: rev_induct)
  case (snoc a as)
  have "assign_all [a] m = m(fst a \<mapsto> conf_value (snd a))" for m :: "'a conf_space" by (cases a) simp
  with snoc show ?case by (simp add: assign_all_append)
qed simp

lemma conf_names:
  "k \<in> fst ` set (conf_values v makefile rtd) \<Longrightarrow> k \<noteq> file_key \<and> k \<noteq> ''tags''"
  by (auto simp: conf_values_def version_values_def general_values_def kernel_values_def language_values_def
      theme_values_def html_values_def latex_values_def other_formats_def epub_values_def kerneldoc_values_def
      Let_def file_key_def split: option.splits prod.splits)

lemma conf_values_keep:
  "assign_all (conf_values v makefile rtd) ns file_key = ns file_key"
  "assign_all (conf_values v makefile rtd) ns ''tags'' = ns ''tags''"
  using conf_names by (metis assign_all_other)+

lemma find_book:
  assumes "(d, b) \<in> set books"
  shows "List.find (\<lambda>(d', b). docs @ ''/'' @ d @ ''/conf.py'' = docs @ ''/'' @ d' @ ''/conf.py'') books = Some (d, b)"
proof -
  have "distinct (List.map fst books)" by code_simp
  have *: "List.find (\<lambda>(d', b). d = d') xs = Some (d, b)"
    if "distinct (List.map fst xs)" "(d, b) \<in> set xs" for xs :: "(string \<times> book) list"
    using that by (induction xs) force+
  from * [OF \<open>distinct (List.map fst books)\<close> assms] show ?thesis by simp
qed

lemma merge_overwrites:
  assumes "execfile cf (ns(file_key \<mapsto> PyStr cf)) = Inr (ns(file_key \<mapsto> PyStr cf) ++ m)" and "file_key \<notin> dom m"
  shows "merge_config execfile cf ns = Inr (ns ++ m)"
proof -
  have "ns ++ (ns(file_key \<mapsto> PyStr cf) ++ m)(file_key := None) = ns ++ m"
    using assms(2) by (auto simp: fun_eq_iff map_add_def split: option.splits)
  moreover have "(ns(file_key \<mapsto> PyStr cf) ++ m) file_key \<noteq> None" by (simp add: map_add_def split: option.splits)
  ultimately show ?thesis using assms(1) unfolding merge_config_def by simp
qed

section \<open>Properties\<close>

text \<open>
  C13. Building one book: with \<open>SPHINX_CONF\<close> naming the file of a book, the configuration is the one of
  \<open>conf.py\<close> with the project name, the documents and the tags of the book, and nothing else changed.
\<close>

theorem conf_book_build:
  assumes b: "(d, b) \<in> set books" and path: "abspath cwd cf = docs @ ''/'' @ d @ ''/conf.py''"
    and isf: "isfile (abspath cwd cf)" and own: "ns file_key = Some (PyStr f)" "normpath f \<noteq> normpath cf"
    and tags: "ns ''tags'' = Some t" "add_tag ''subproject'' t = Inr t'"
  shows "lc_ns (conf_py v makefile rtd (Some cf) cwd isfile (exec_conf add_tag other docs) ns) =
     Inr ((assign_all (conf_values v makefile rtd) ns)
       (''project'' \<mapsto> PyStr (bk_project b), ''tags'' \<mapsto> t',
        ''latex_documents'' \<mapsto> PyObj (CList [document ''index'' (bk_target b) (bk_title b)])))"
proof -
  define ns0 where "ns0 = assign_all (conf_values v makefile rtd) ns"
  let ?m = "[''project'' \<mapsto> PyStr (bk_project b), ''tags'' \<mapsto> t',
        ''latex_documents'' \<mapsto> PyObj (CList [document ''index'' (bk_target b) (bk_title b)])]"
  let ?cf = "docs @ ''/'' @ d @ ''/conf.py''"
  have keep: "ns0 file_key = Some (PyStr f)" "ns0 ''tags'' = Some t"
    using own(1) tags(1) by (simp_all add: ns0_def conf_values_keep)
  have "?cf \<noteq> docs @ ''/media/conf_nitpick.py''"
    by (auto simp: append_eq_append_conv2 Cons_eq_append_conv)
  then have "exec_conf add_tag other docs ?cf (ns0(file_key \<mapsto> PyStr ?cf)) = run_book add_tag b (ns0(file_key \<mapsto> PyStr ?cf))"
    using find_book [OF b, of docs] by (simp add: exec_conf_def)
  also have "\<dots> = Inr (ns0(file_key \<mapsto> PyStr ?cf) ++ ?m)"
    using keep(2) tags(2) by (simp add: run_book_def file_key_def)
  finally have "merge_config (exec_conf add_tag other docs) ?cf ns0 = Inr (ns0 ++ ?m)"
    by (rule merge_overwrites) (auto simp: file_key_def)
  then have "lc_ns (load_config (Some cf) cwd isfile (exec_conf add_tag other docs) ns0) = Inr (ns0 ++ ?m)"
    using isf keep(1) own(2) path by (simp add: load_config_def)
  then show ?thesis unfolding conf_py_def ns0_def [symmetric] Let_def by simp
qed

definition tag_example :: "string \<Rightarrow> nat cval pyval \<Rightarrow> nat cval pyval res" where
  "tag_example s t = (case t of PyObj (CExt k) \<Rightarrow> Inr (PyObj (CExt (k + 1))) | _ \<Rightarrow> Inl AttributeError)"

definition conf_example :: "nat conf_space" where
  "conf_example = [file_key \<mapsto> PyStr ''/doc/conf.py'', ''tags'' \<mapsto> PyObj (CExt 0)]"

theorem conf_book_build_witness:
  "\<exists>ns'. lc_ns (conf_py (1, 6, 3) None None (Some ''/doc/media/conf.py'') ''/doc'' (\<lambda>f. True)
        (exec_conf tag_example (\<lambda>f. Inr) ''/doc'') conf_example) = Inr ns'
     \<and> ns' ''project'' = Some (PyStr ''Linux Media Subsystem Documentation'') \<and> ns' ''tags'' = Some (PyObj (CExt 1))"
proof -
  have b: "(''media'', book_media) \<in> set books" by (simp add: books_def)
  have p: "abspath ''/doc'' ''/doc/media/conf.py'' = ''/doc'' @ ''/'' @ ''media'' @ ''/conf.py''" by code_simp
  have n: "normpath ''/doc/conf.py'' \<noteq> normpath ''/doc/media/conf.py''" by code_simp
  have f: "conf_example file_key = Some (PyStr ''/doc/conf.py'')"
    and t: "conf_example ''tags'' = Some (PyObj (CExt 0))"
    by (simp_all add: conf_example_def file_key_def)
  have a: "tag_example ''subproject'' (PyObj (CExt 0)) = Inr (PyObj (CExt 1))" by (simp add: tag_example_def)
  show ?thesis
    using conf_book_build [where isfile = "\<lambda>f. True" and add_tag = tag_example and v = "(1, 6, 3)"
        and makefile = None and rtd = None and other = "\<lambda>f. Inr", OF b p _ f n t a]
    by (simp add: book_media_def)
qed

text \<open>
  The files of the books repeat what \<open>conf.py\<close> says of their documents, with seven exceptions: four
  titles differ, the book \<open>process\<close> has another target, and the two books below \<open>driver-api\<close> are not in
  \<open>conf.py\<close>; the book \<open>security\<close> of \<open>conf.py\<close> has no file.
\<close>

theorem conf_books_agree:
  "List.map fst (List.filter (\<lambda>(d, b). (d @ ''/index'', bk_target b, bk_title b) \<notin> set master_documents) books) =
     [''core-api'', ''dev-tools'', ''driver-api/80211'', ''driver-api'', ''driver-api/pm'', ''kernel-hacking'', ''process'']
   \<and> List.filter (\<lambda>(start, target, title). \<not> list_ex (\<lambda>(d, b). start = d @ ''/index'') books) master_documents =
     [(''security/index'', ''security.tex'', ''The kernel security subsystem manual'')]
   \<and> List.map fst (List.filter (\<lambda>(d, b). \<not> list_ex (\<lambda>(start, target, title). target = bk_target b) master_documents) books)
     = [''driver-api/80211'', ''driver-api/pm'', ''process'']"
  by code_simp

end
