(* ===== verification/ConfTypes.thy ===== *)
theory ConfTypes
  imports ConfBooks
begin

text \<open>
  The shapes of the configuration values: the files of the books, which are loaded over \<open>conf.py\<close>, give every
  value they replace the shape \<open>conf.py\<close> gave it, and the documents of the LaTeX output are in order in
  every build; the files of the books meet the contract of \<open>LoadConfig\<close> for it.
\<close>

section \<open>Shapes\<close>

text \<open>
  A value has the shape of another one: the same kind, tuples of the same length and components, lists and
  dictionaries whose elements have the shape of an element there.
\<close>

fun same_shape :: "'x cval \<Rightarrow> 'x cval \<Rightarrow> bool" where
  "same_shape (CStr s) (CStr t) \<longleftrightarrow> True"
| "same_shape CNone CNone \<longleftrightarrow> True"
| "same_shape (CBool a) (CBool b) \<longleftrightarrow> True"
| "same_shape (CInt i) (CInt j) \<longleftrightarrow> True"
| "same_shape (CList vs) (CList ws) \<longleftrightarrow> (\<forall>w \<in> set ws. \<exists>v \<in> set vs. same_shape v w)"
| "same_shape (CTuple vs) (CTuple ws) \<longleftrightarrow> list_all2 same_shape vs ws"
| "same_shape (CDict vs) (CDict ws) \<longleftrightarrow> (\<forall>w \<in> set (List.map snd ws). \<exists>v \<in> set (List.map snd vs). same_shape v w)"
| "same_shape (CExt x) (CExt y) \<longleftrightarrow> True"
| "same_shape _ _ \<longleftrightarrow> False"

fun py_shape :: "'x cval pyval \<Rightarrow> 'x cval pyval \<Rightarrow> bool" where
  "py_shape (PyStr s) (PyStr t) \<longleftrightarrow> True"
| "py_shape (PyObj v) (PyObj w) \<longleftrightarrow> same_shape v w"
| "py_shape _ _ \<longleftrightarrow> False"

lemma same_shape_refl: "same_shape v v"
proof (induction v rule: cval.induct)
  case (CTuple vs)
  then show ?case by (simp add: list_all2_same)
next
  case (CDict kvs)
  have "same_shape (snd kv) (snd kv)" if "kv \<in> set kvs" for kv
    using CDict [OF that, of "snd kv"] by (cases kv) simp
  then show ?case by auto
qed auto

lemma py_shape_refl: "py_shape v v"
  by (cases v) (simp_all add: same_shape_refl)

text \<open>
  The documents of the LaTeX output: tuples of a start file, a target, a title, an author and the class
  \<open>manual\<close>, each from an index page to a TeX file of its own.
\<close>

fun document_parts :: "'x cval \<Rightarrow> (string \<times> string \<times> string) option" where
  "document_parts (CTuple [CStr start, CStr target, CStr title, CStr author, CStr k]) =
     (if k = ''manual'' then Some (start, target, title) else None)"
| "document_parts _ = None"

definition good_documents :: "'x cval pyval \<Rightarrow> bool" where
  "good_documents v \<longleftrightarrow>
     (case v of
        PyObj (CList vs) \<Rightarrow>
          vs \<noteq> [] \<and>
          (case those (List.map document_parts vs) of
             None \<Rightarrow> False
           | Some ds \<Rightarrow> distinct (List.map (fst \<circ> snd) ds)
               \<and> list_all (\<lambda>(start, target, title).
                    endswith start ''index'' \<and> endswith target ''.tex'' \<and> title \<noteq> []) ds)
      | _ \<Rightarrow> False)"

text \<open>What a value may be, for the values \<open>conf.py\<close> itself gives.\<close>

definition conf_ok ::
  "sphinx_version \<Rightarrow> string option \<Rightarrow> 'x cval option \<Rightarrow> string \<Rightarrow> 'x cval pyval \<Rightarrow> bool"
where
  "conf_ok v makefile rtd k w \<longleftrightarrow>
     (case assign_all (conf_values v makefile rtd) Map.empty k of None \<Rightarrow> True | Some u \<Rightarrow> py_shape u w)
     \<and> (k = ''latex_documents'' \<longrightarrow> good_documents w)"

section \<open>The values of \<open>conf.py\<close>\<close>

lemma conf_latex_documents:
  "assign_all (conf_values v makefile rtd) ns ''latex_documents''
     = Some (PyObj (CList (List.map (\<lambda>(start, target, title). document start target title) master_documents)))"
proof -
  have rest: "assign_all (other_formats @ epub_values @ kerneldoc_values) m ''latex_documents'' = m ''latex_documents''"
    for m :: "'a conf_space"
    by (rule assign_all_other) (auto simp: other_formats_def epub_values_def kerneldoc_values_def Let_def)
  define before :: "(string \<times> 'a cval) list" where
    "before = version_values v @ general_values v @ kernel_values makefile @ language_values
     @ fst (theme_values rtd) @ html_values"
  have "conf_values v makefile rtd = before @ latex_values v @ (other_formats @ epub_values @ kerneldoc_values)"
    by (simp add: conf_values_def before_def)
  then have "assign_all (conf_values v makefile rtd) ns ''latex_documents''
      = assign_all (other_formats @ epub_values @ kerneldoc_values)
          (assign_all (latex_values v) (assign_all before ns)) ''latex_documents''"
    by (simp only: assign_all_append)
  also have "\<dots> = assign_all (latex_values v) (assign_all before ns) ''latex_documents''" by (rule rest)
  finally show ?thesis by (simp add: latex_values_def)
qed

lemma conf_project: "assign_all (conf_values v makefile rtd) ns ''project'' = Some (PyStr ''The Linux Kernel'')"
proof -
  have rest: "assign_all (kernel_values makefile @ language_values @ fst (theme_values rtd) @ html_values @ latex_values v
      @ other_formats @ epub_values @ kerneldoc_values) m ''project'' = m ''project''" for m :: "'a conf_space"
    by (rule assign_all_other)
      (auto simp: kernel_values_def language_values_def theme_values_def html_values_def latex_values_def
        other_formats_def epub_values_def kerneldoc_values_def Let_def split: option.splits)
  show ?thesis
    by (simp add: conf_values_def assign_all_append [of "version_values v"] assign_all_append [of "general_values v"] rest)
      (simp add: general_values_def)
qed

lemma parts_of_document [simp]: "document_parts (document start target title) = Some (start, target, title)"
  by (simp add: document_def)

lemma parts_of_documents:
  "those (List.map document_parts (List.map (\<lambda>(start, target, title). document start target title) ds)) = Some ds"
  by (induction ds) auto

lemma master_documents_good:
  "good_documents (PyObj (CList (List.map (\<lambda>(start, target, title). document start target title) master_documents)))"
proof -
  have "distinct (List.map (fst \<circ> snd) master_documents)" "master_documents \<noteq> []"
    "list_all (\<lambda>(start, target, title). endswith start ''index'' \<and> endswith target ''.tex'' \<and> title \<noteq> [])
       master_documents" by code_simp+
  then show ?thesis by (simp add: good_documents_def parts_of_documents del: List.map_map)
qed

lemma books_good:
  "list_all (\<lambda>(d, b). endswith (bk_target b) ''.tex'' \<and> bk_title b \<noteq> []) books"
  by code_simp

lemma book_documents:
  assumes "b \<in> snd ` set books"
  shows "conf_ok v makefile rtd ''latex_documents'' (PyObj (CList [document ''index'' (bk_target b) (bk_title b)]))"
proof -
  have b: "endswith (bk_target b) ''.tex''" "bk_title b \<noteq> []" using books_good assms by (auto simp: list_all_iff)
  have i: "endswith ''index'' ''index''" by code_simp
  have "good_documents (PyObj (CList [document ''index'' (bk_target b) (bk_title b)]))"
    using b i by (simp add: good_documents_def)
  moreover have "same_shape (document s t ti) (document s' t' ti')" for s t ti s' t' ti'
    by (simp add: document_def)
  then have "py_shape (PyObj (CList (List.map (\<lambda>(start, target, title). document start target title) master_documents)))
      (PyObj (CList [document ''index'' (bk_target b) (bk_title b)]))"
    by (auto simp: master_documents_def)
  ultimately show ?thesis by (simp add: conf_ok_def conf_latex_documents)
qed

text \<open>After \<open>conf.py\<close> has run, whatever the name space was before.\<close>

lemma conf_values_ok: "typed_space (conf_ok v makefile rtd) (assign_all (conf_values v makefile rtd) ns)"
proof -
  have "conf_ok v makefile rtd k w" if "assign_all (conf_values v makefile rtd) ns k = Some w" for k w
  proof -
    have "case assign_all (conf_values v makefile rtd) Map.empty k of None \<Rightarrow> True | Some u \<Rightarrow> py_shape u w"
      using that assign_all_over [of "conf_values v makefile rtd" ns k] by (auto simp: py_shape_refl split: option.splits)
    moreover have "good_documents w" if "k = ''latex_documents''"
    proof -
      have "w = PyObj (CList (List.map (\<lambda>(start, target, title). document start target title) master_documents))"
        using \<open>assign_all (conf_values v makefile rtd) ns k = Some w\<close>
        unfolding that conf_latex_documents option.inject by (rule sym)
      with master_documents_good show ?thesis by (simp only:)
    qed
    ultimately show ?thesis by (simp add: conf_ok_def)
  qed
  then show ?thesis by (simp add: typed_space_def)
qed

text \<open>Names \<open>conf.py\<close> does not set may hold anything.\<close>

lemma conf_ok_free:
  assumes "k \<notin> fst ` set (conf_values v makefile rtd)" and "k \<noteq> ''latex_documents''"
  shows "conf_ok v makefile rtd k w"
  using assms by (simp add: conf_ok_def assign_all_other)

lemma conf_ok_free_names:
  assumes "k \<in> {''tags'', ''nitpicky'', ''intersphinx_mapping'', ''nitpick_ignore'', file_key}"
  shows "conf_ok v makefile rtd k w"
proof -
  have "k \<notin> fst ` set (conf_values v makefile rtd)"
    using assms by (auto simp: conf_values_def version_values_def general_values_def kernel_values_def language_values_def
      theme_values_def html_values_def latex_values_def other_formats_def epub_values_def kerneldoc_values_def
      Let_def file_key_def split: option.splits prod.splits)
  with assms show ?thesis by (intro conf_ok_free) (auto simp: file_key_def)
qed

lemma project_ok: "conf_ok v makefile rtd ''project'' (PyStr p)"
  by (simp add: conf_ok_def conf_project)

section \<open>The files of the repository meet the contract\<close>

text \<open>A path that is none of the files raises.\<close>

definition no_file :: "string \<Rightarrow> 'x conf_space \<Rightarrow> 'x conf_space res" where
  "no_file path ns = Inl (IOError path)"

definition book_names :: "string list" where
  "book_names = [''project'', ''tags'', ''latex_documents'', ''nitpicky'', ''intersphinx_mapping'', ''nitpick_ignore'']"

lemma run_book_Inr:
  "run_book add_tag b ns = Inr ns' \<longleftrightarrow> (\<exists>t t'. ns ''tags'' = Some t \<and> add_tag ''subproject'' t = Inr t'
     \<and> ns' = ns(''project'' \<mapsto> PyStr (bk_project b), ''tags'' \<mapsto> t',
         ''latex_documents'' \<mapsto> PyObj (CList [document ''index'' (bk_target b) (bk_title b)])))"
  by (auto simp: run_book_def rbind_Inr_iff split: option.splits)

lemma exec_conf_cases:
  assumes "exec_conf add_tag no_file docs path ns = Inr ns'"
  obtains (ignores) "ns' = assign_all nitpick_values ns"
  | (book) b where "run_book add_tag b ns = Inr ns'" and "b \<in> snd ` set books"
proof (cases "path = docs @ ''/media/conf_nitpick.py''")
  case True
  with assms have "ns' = assign_all nitpick_values ns" unfolding exec_conf_def by simp
  then show thesis by (rule ignores)
next
  case False
  let ?find = "List.find (\<lambda>(d, b). path = docs @ ''/'' @ d @ ''/conf.py'') books"
  have e: "exec_conf add_tag no_file docs path ns =
      (case ?find of Some (d, b) \<Rightarrow> run_book add_tag b ns | None \<Rightarrow> no_file path ns)"
    using False unfolding exec_conf_def by (rule if_not_P)
  show thesis
  proof (cases ?find)
    case None
    with e assms show thesis by (simp only: no_file_def option.case sum.distinct)
  next
    case (Some db)
    then have "run_book add_tag (snd db) ns = Inr ns'"
      using e assms by (simp only: option.case case_prod_beta)
    moreover have "db \<in> set books" using Some unfolding find_Some_iff by (metis nth_mem)
    ultimately show thesis using book [of "snd db"] by blast
  qed
qed

lemma nitpick_keeps:
  assumes "typed_space (conf_ok v makefile rtd) ns"
  shows "typed_space (conf_ok v makefile rtd) (assign_all nitpick_values ns)"
  using assms unfolding nitpick_values_def
  by (simp del: fun_upd_apply) (intro typed_space_upd; simp add: project_ok conf_ok_free_names)

interpretation book_reader: typed_reader "exec_conf add_tag no_file docs" book_names "conf_ok v makefile rtd"
  for add_tag :: "string \<Rightarrow> 'x cval pyval \<Rightarrow> 'x cval pyval res" and docs v makefile and rtd :: "'x cval option"
proof (unfold_locales, goal_cases)
  case (1 f ns ns' k)
  from 1(1) show ?case
  proof (cases rule: exec_conf_cases)
    case ignores
    with 1(2) show ?thesis by (simp add: nitpick_values_def book_names_def)
  next
    case (book b)
    with 1(2) show ?thesis by (auto simp: run_book_Inr book_names_def)
  qed
next
  case (2 ns f ns')
  from 2(2) show ?case
  proof (cases rule: exec_conf_cases)
    case ignores
    with 2(1) nitpick_keeps show ?thesis by blast
  next
    case (book b)
    then obtain t' where ns': "ns' = ns(''project'' \<mapsto> PyStr (bk_project b), ''tags'' \<mapsto> t',
         ''latex_documents'' \<mapsto> PyObj (CList [document ''index'' (bk_target b) (bk_title b)]))"
      by (auto simp: run_book_Inr)
    have "conf_ok v makefile rtd ''tags'' t'" by (rule conf_ok_free_names) simp
    then show ?thesis unfolding ns'
      using 2(1) project_ok book_documents [OF book(2)] typed_space_upd by metis
  qed
next
  case (3 f)
  show ?case by (rule conf_ok_free_names) simp
qed

section \<open>Properties\<close>

text \<open>
  C14. Whatever the version of Sphinx, the \<open>Makefile\<close>, the theme and the file of a book or of \<open>conf_nitpick.py\<close>
  that is loaded: every value \<open>conf.py\<close> gives is there with its shape (a string where there was a string, a list of
  such elements where there was a list), and the documents of the LaTeX output are tuples of start file, target,
  title, author and the class \<open>manual\<close> that lead from index pages to different TeX files.
\<close>

theorem conf_shapes_kept:
  assumes "lc_ns (conf_py v makefile rtd sphinx_conf cwd isfile (exec_conf add_tag no_file docs) ns) = Inr ns'"
  shows "(\<forall>k u. assign_all (conf_values v makefile rtd) Map.empty k = Some u \<longrightarrow>
       (case ns' k of Some w \<Rightarrow> py_shape u w | None \<Rightarrow> False))
    \<and> (case ns' ''latex_documents'' of Some w \<Rightarrow> good_documents w | None \<Rightarrow> False)"
proof -
  let ?m = "assign_all (conf_values v makefile rtd) ns"
  have l: "lc_ns (load_config sphinx_conf cwd isfile (exec_conf add_tag no_file docs) ?m) = Inr ns'"
    using assms by (simp add: conf_py_def Let_def)
  have t: "conf_ok v makefile rtd k w" if "ns' k = Some w" for k w
    using book_reader.load_keeps_types [OF l conf_values_ok] that by (simp add: typed_space_def)
  have there: "\<exists>w. ns' k = Some w" if "?m k = Some u" for k u
    using load_keeps_names [OF l] that by blast
  have "case ns' k of Some w \<Rightarrow> py_shape u w | None \<Rightarrow> False"
    if u: "assign_all (conf_values v makefile rtd) Map.empty k = Some u" for k u
  proof -
    have "?m k = Some u" using u assign_all_over [of "conf_values v makefile rtd" ns k] by simp
    from there [OF this] obtain w where w: "ns' k = Some w" by blast
    from t [OF w] u show ?thesis by (simp add: w conf_ok_def)
  qed
  moreover obtain w where w: "ns' ''latex_documents'' = Some w" using there conf_latex_documents by blast
  moreover from t [OF w] have "good_documents w" by (simp add: conf_ok_def)
  ultimately show ?thesis by simp
qed

theorem conf_shapes_kept_witness:
  "\<exists>ns'. lc_ns (conf_py (1, 6, 3) None None (Some ''/doc/media/conf.py'') ''/doc'' (\<lambda>f. True)
        (exec_conf tag_example no_file ''/doc'') conf_example) = Inr ns'
     \<and> (case ns' ''latex_documents'' of Some w \<Rightarrow> good_documents w | None \<Rightarrow> False)"
proof -
  have "case lc_ns (conf_py (1, 6, 3) None None (Some ''/doc/media/conf.py'') ''/doc'' (\<lambda>f. True)
        (exec_conf tag_example no_file ''/doc'') conf_example) of Inr m \<Rightarrow> True | Inl e \<Rightarrow> False"
    by code_simp
  then obtain ns' where r: "lc_ns (conf_py (1, 6, 3) None None (Some ''/doc/media/conf.py'') ''/doc'' (\<lambda>f. True)
        (exec_conf tag_example no_file ''/doc'') conf_example) = Inr ns'"
    by (auto split: sum.splits)
  with conf_shapes_kept [OF r] show ?thesis by blast
qed

end
