(* ===== verification/Extensions.thy ===== *)
theory Extensions
  imports ConfTypes KernelDoc CDomain
begin

text \<open>
  The registration of the extensions in \<open>Documentation/sphinx\<close>: what the function \<open>setup\<close> of each of
  \<open>kerneldoc.py\<close>, \<open>rstFlatTable.py\<close>, \<open>kernel_include.py\<close>, \<open>cdomain.py\<close> and \<open>kfigure.py\<close> tells Sphinx, as the
  sequence of its calls, and how the configuration of \<open>conf.py\<close> reaches the extensions it loads.
\<close>

section \<open>The setup functions\<close>

datatype default_value = NoDefault | IntDefault int

text \<open>The visitors of a node: the builder format, and the functions for entering and leaving it.\<close>

type_synonym visitors = "(string \<times> string \<times> string) list"

datatype setup_call =
    AddConfigValue string default_value string
  | AddDirective string string
  | AddRole string string
  | AddNode string visitors
  | ConnectEvent string string
  | OverrideDomain string

record ext_meta =
  em_version :: string
  em_parallel_read :: bool
  em_parallel_write :: bool

type_synonym extension = "setup_call list \<times> ext_meta"

definition safe_meta :: "string \<Rightarrow> ext_meta" where
  "safe_meta version = \<lparr>em_version = version, em_parallel_read = True, em_parallel_write = True\<rparr>"

definition kerneldoc_setup :: extension where
  "kerneldoc_setup =
     ([AddConfigValue ''kerneldoc_bin'' NoDefault ''env'',
       AddConfigValue ''kerneldoc_srctree'' NoDefault ''env'',
       AddConfigValue ''kerneldoc_verbosity'' (IntDefault 1) ''env'',
       AddDirective ''kernel-doc'' ''KernelDocDirective''],
      safe_meta ''1.0'')"

definition rstFlatTable_setup :: extension where
  "rstFlatTable_setup =
     ([AddDirective ''flat-table'' ''FlatTable'', AddRole ''cspan'' ''c_span'', AddRole ''rspan'' ''r_span''],
      safe_meta ''1.0'')"

definition kernel_include_setup :: extension where
  "kernel_include_setup = ([AddDirective ''kernel-include'' ''KernelInclude''], safe_meta ''1.0'')"

definition cdomain_setup :: extension where
  "cdomain_setup = ([OverrideDomain ''CDomain''], safe_meta ''1.0'')"

text \<open>The same visitor for each of the five formats.\<close>

definition all_formats :: "string \<Rightarrow> visitors" where
  "all_formats visit =
     List.map (\<lambda>format. (format, visit, ''pass_handle'')) [''html'', ''latex'', ''texinfo'', ''text'', ''man'']"

definition kfigure_setup :: extension where
  "kfigure_setup =
     ([ConnectEvent ''builder-inited'' ''setupTools'',
       AddDirective ''kernel-image'' ''KernelImage'',
       AddNode ''kernel_image'' (all_formats ''visit_kernel_image''),
       AddDirective ''kernel-figure'' ''KernelFigure'',
       AddNode ''kernel_figure'' (all_formats ''visit_kernel_figure''),
       AddDirective ''kernel-render'' ''KernelRender'',
       AddNode ''kernel_render'' (all_formats ''visit_kernel_render''),
       ConnectEvent ''doctree-read'' ''add_kernel_figure_to_std_domain''],
      safe_meta ''1.0.0'')"

text \<open>The class \<open>KernelFigure\<close> extends, by the version of Sphinx.\<close>

definition figure_base :: "nat \<times> nat \<times> nat \<Rightarrow> string" where
  "figure_base v =
     (case v of (major, minor, patch) \<Rightarrow>
        if major = 1 \<and> 3 < minor then ''sphinx.directives.patches.Figure''
        else ''docutils.parsers.rst.directives.images.Figure'')"

text \<open>The C domain: its name, label and directives, and the option of \<open>CObject\<close>.\<close>

record c_domain =
  dom_name :: string
  dom_label :: string
  dom_directives :: "(string \<times> string) list"

definition c_domain_data :: c_domain where
  "c_domain_data =
     \<lparr>dom_name = ''c'', dom_label = ''C'',
      dom_directives = List.map (\<lambda>d. (d, ''CObject'')) [''function'', ''member'', ''macro'', ''type'', ''var'']\<rparr>"

definition cobject_options :: "string list" where
  "cobject_options = [''name'']"

text \<open>The options the \<open>kernel-doc\<close> directive accepts; an option that is not listed is an error in docutils.\<close>

definition kerneldoc_options :: "string list" where
  "kerneldoc_options = [''doc'', ''functions'', ''export'', ''internal'']"

section \<open>Loading\<close>

text \<open>The extensions of the repository by module name; \<open>other\<close> gives the calls of any other one.\<close>

definition ext_modules :: "(string \<times> extension) list" where
  "ext_modules =
     [(''kerneldoc'', kerneldoc_setup), (''rstFlatTable'', rstFlatTable_setup),
      (''kernel_include'', kernel_include_setup), (''cdomain'', cdomain_setup), (''kfigure'', kfigure_setup)]"

definition setup_calls :: "(string \<Rightarrow> setup_call list) \<Rightarrow> string list \<Rightarrow> setup_call list" where
  "setup_calls other names =
     concat (List.map (\<lambda>m. case map_of ext_modules m of Some e \<Rightarrow> fst e | None \<Rightarrow> other m) names)"

text \<open>The extensions a configuration names.\<close>

fun string_of :: "'x cval \<Rightarrow> string option" where
  "string_of (CStr s) = Some s"
| "string_of _ = None"

definition extension_names :: "'x conf_space \<Rightarrow> string list" where
  "extension_names ns =
     (case ns ''extensions'' of
        Some (PyObj (CList vs)) \<Rightarrow> List.map_filter string_of vs
      | _ \<Rightarrow> [])"

text \<open>
  A value an extension reads from \<open>env.config\<close>, when it is registered: the one given on the command line with
  the option \<open>-D\<close>, which Sphinx documents to override the configuration file, or else the one of the configuration,
  or else the default it was registered with.
\<close>

fun registers :: "string \<Rightarrow> setup_call \<Rightarrow> bool" where
  "registers name (AddConfigValue n d r) \<longleftrightarrow> n = name"
| "registers name _ \<longleftrightarrow> False"

fun default_of :: "setup_call \<Rightarrow> 'x cval pyval option" where
  "default_of (AddConfigValue n (IntDefault i) r) = Some (PyObj (CInt i))"
| "default_of (AddConfigValue n NoDefault r) = Some (PyObj CNone)"
| "default_of _ = None"

text \<open>
  What the \<open>Makefile\<close> of the documentation puts on the command line for the directive, with the root of the
  source tree: \<open>KERNELDOC_CONF\<close>, which \<open>ALLSPHINXOPTS\<close> hands to every build of a book.
\<close>

definition kerneldoc_conf :: "string \<Rightarrow> string \<rightharpoonup> 'x cval pyval" where
  "kerneldoc_conf srctree =
     [''kerneldoc_srctree'' \<mapsto> PyStr srctree, ''kerneldoc_bin'' \<mapsto> PyStr (srctree @ ''/scripts/kernel-doc'')]"

definition config_value ::
  "setup_call list \<Rightarrow> (string \<rightharpoonup> 'x cval pyval) \<Rightarrow> 'x conf_space \<Rightarrow> string \<Rightarrow> 'x cval pyval option"
where
  "config_value calls cmdline ns name =
     (case List.find (registers name) calls of
        None \<Rightarrow> None
      | Some c \<Rightarrow>
          (case cmdline name of
             Some v \<Rightarrow> Some v
           | None \<Rightarrow> (case ns name of Some v \<Rightarrow> Some v | None \<Rightarrow> default_of c)))"

text \<open>The configuration of the \<open>kernel-doc\<close> directive; the width of a tab and the directory are not of \<open>conf.py\<close>.\<close>

definition kd_config_of ::
  "setup_call list \<Rightarrow> (string \<rightharpoonup> 'x cval pyval) \<Rightarrow> 'x conf_space \<Rightarrow> int \<Rightarrow> string \<Rightarrow> kd_config option"
where
  "kd_config_of calls cmdline ns tab_width cwd =
     (case (config_value calls cmdline ns ''kerneldoc_bin'', config_value calls cmdline ns ''kerneldoc_srctree'',
            config_value calls cmdline ns ''kerneldoc_verbosity'') of
        (Some (PyStr bin), Some (PyStr srctree), Some (PyObj (CInt verbosity))) \<Rightarrow>
          Some \<lparr>kc_bin = bin, kc_srctree = srctree, kc_verbosity = verbosity, kc_tab_width = tab_width, kc_cwd = cwd\<rparr>
      | _ \<Rightarrow> None)"

text \<open>\<open>nitpicky\<close> and \<open>nitpick_ignore\<close>, which are Sphinx' own, off and empty by default.\<close>

fun pair_of :: "'x cval \<Rightarrow> (string \<times> string) option" where
  "pair_of (CTuple [CStr a, CStr b]) = Some (a, b)"
| "pair_of _ = None"

definition nitpicky_of :: "'x conf_space \<Rightarrow> bool" where
  "nitpicky_of ns = (case ns ''nitpicky'' of Some (PyObj (CBool b)) \<Rightarrow> b | _ \<Rightarrow> False)"

definition nitpick_ignore_of :: "'x conf_space \<Rightarrow> (string \<times> string) list" where
  "nitpick_ignore_of ns =
     (case ns ''nitpick_ignore'' of Some (PyObj (CList vs)) \<Rightarrow> List.map_filter pair_of vs | _ \<Rightarrow> [])"

section \<open>Lemmas\<close>

lemma setup_calls_Cons:
  "setup_calls other (m # ms) =
     (case map_of ext_modules m of Some e \<Rightarrow> fst e | None \<Rightarrow> other m) @ setup_calls other ms"
  by (simp add: setup_calls_def)

text \<open>The values of \<open>conf.py\<close> the extensions are concerned with.\<close>

lemma conf_extensions:
  "assign_all (conf_values v makefile rtd) ns ''extensions'' =
     Some (PyObj (strings ([''kerneldoc'', ''rstFlatTable'', ''kernel_include'', ''cdomain'', ''kfigure''] @ [math_extension v])))"
proof -
  have "assign_all (kernel_values makefile @ language_values @ fst (theme_values rtd) @ html_values @ latex_values v
      @ other_formats @ epub_values @ kerneldoc_values) m ''extensions'' = m ''extensions''" for m :: "'a conf_space"
    by (rule assign_all_other)
      (auto simp: kernel_values_def language_values_def theme_values_def html_values_def latex_values_def
        other_formats_def epub_values_def kerneldoc_values_def Let_def split: option.splits)
  then show ?thesis
    by (simp add: conf_values_def assign_all_append [of "version_values v"] assign_all_append [of "general_values v"])
      (simp add: general_values_def)
qed

lemma conf_kerneldoc:
  "assign_all (conf_values v makefile rtd) ns ''kerneldoc_bin'' = Some (PyStr ''../scripts/kernel-doc'')"
  "assign_all (conf_values v makefile rtd) ns ''kerneldoc_srctree'' = Some (PyStr ''..'')"
proof -
  have "conf_values v makefile rtd = (version_values v @ general_values v @ kernel_values makefile @ language_values
     @ fst (theme_values rtd) @ html_values @ latex_values v @ other_formats @ epub_values) @ kerneldoc_values"
    by (simp add: conf_values_def)
  then show "assign_all (conf_values v makefile rtd) ns ''kerneldoc_bin'' = Some (PyStr ''../scripts/kernel-doc'')"
    "assign_all (conf_values v makefile rtd) ns ''kerneldoc_srctree'' = Some (PyStr ''..'')"
    by (simp_all only: assign_all_append) (simp_all add: kerneldoc_values_def)
qed

lemma conf_verbosity:
  "assign_all (conf_values v makefile rtd) ns ''kerneldoc_verbosity'' = ns ''kerneldoc_verbosity''"
  by (rule assign_all_other)
    (auto simp: conf_values_def version_values_def general_values_def kernel_values_def language_values_def
      theme_values_def html_values_def latex_values_def other_formats_def epub_values_def kerneldoc_values_def
      Let_def split: option.splits prod.splits)

lemma extension_names_strings:
  "ns ''extensions'' = Some (PyObj (strings xs)) \<Longrightarrow> extension_names ns = xs"
  by (simp add: extension_names_def map_filter_def comp_def filter_True)

text \<open>A build of the repository leaves what \<open>conf.py\<close> sets, but for the names the books assign.\<close>

lemma built_value:
  assumes "lc_ns (conf_py v makefile rtd sphinx_conf cwd isfile (exec_conf add_tag no_file docs) ns) = Inr ns'"
    and "k \<notin> set book_names" and "k \<noteq> file_key"
  shows "ns' k = assign_all (conf_values v makefile rtd) ns k"
proof -
  have "lc_ns (load_config sphinx_conf cwd isfile (exec_conf add_tag no_file docs)
      (assign_all (conf_values v makefile rtd) ns)) = Inr ns'"
    using assms(1) by (simp add: conf_py_def Let_def)
  from book_reader.load_leaves [OF this assms(2,3)] show ?thesis .
qed

lemma built_extensions:
  assumes "lc_ns (conf_py v makefile rtd sphinx_conf cwd isfile (exec_conf add_tag no_file docs) ns) = Inr ns'"
  shows "extension_names ns' = [''kerneldoc'', ''rstFlatTable'', ''kernel_include'', ''cdomain'', ''kfigure''] @ [math_extension v]"
proof -
  have "ns' ''extensions'' = assign_all (conf_values v makefile rtd) ns ''extensions''"
    by (rule built_value [OF assms]) (simp_all add: book_names_def file_key_def)
  then show ?thesis by (intro extension_names_strings) (simp only: conf_extensions)
qed

section \<open>Properties\<close>

text \<open>
  C8. The \<open>kernel-doc\<close> directive in a build: whatever book is built, the extensions \<open>conf.py\<close> names register
  the values the directive reads. In a build by the \<open>Makefile\<close>, whose command line gives the source tree, the
  directive runs the script of that tree on the file below that tree; in a build by Sphinx alone, without these
  options, it does so with the values of \<open>conf.py\<close> for the parent directory. In both the patterns of the export files
  are below the same tree, the document depends on exactly the file and the export files the command names, and
  the verbosity is one, when neither the command line nor the name space sets it.
\<close>

theorem ext_kernel_doc_build:
  assumes "lc_ns (conf_py v makefile rtd sphinx_conf cwd isfile (exec_conf add_tag no_file docs) ns) = Inr ns'"
    and "ns ''kerneldoc_verbosity'' = None" and "cmdline ''kerneldoc_verbosity'' = None"
    and "\<forall>k \<in> {''kerneldoc_bin'', ''kerneldoc_srctree''}.
      cmdline k = (case made of Some srctree \<Rightarrow> kerneldoc_conf srctree k | None \<Rightarrow> None)"
  shows "\<exists>cfg tree files. kd_config_of (setup_calls other (extension_names ns')) cmdline ns' tab_width here = Some cfg
    \<and> kc_verbosity cfg = 1 \<and> kc_tab_width cfg = tab_width
    \<and> tree = (case made of Some srctree \<Rightarrow> srctree | None \<Rightarrow> ''..'')
    \<and> files = concat (List.map (\<lambda>p. kx_glob x (tree @ ''/'' @ p)) (snd (kd_select opts)))
    \<and> kd_command x cfg opts arg =
         [tree @ ''/scripts/kernel-doc'', ''-rst'', ''-enable-lineno''] @ fst (kd_select opts)
         @ concat (List.map (\<lambda>f. [''-export-file'', f]) files) @ [tree @ ''/'' @ arg]
    \<and> kd_dependencies x cfg opts arg = List.map (\<lambda>f. NoteDependency (abspath here f)) ((tree @ ''/'' @ arg) # files)"
proof -
  have find: "List.find (registers n) (setup_calls other (extension_names ns')) = Some c"
    if "List.find (registers n) (fst kerneldoc_setup) = Some c" for n c
    using that by (auto simp: built_extensions [OF assms(1)] setup_calls_Cons ext_modules_def kerneldoc_setup_def
        split: if_splits)
  have v: "ns' ''kerneldoc_bin'' = Some (PyStr ''../scripts/kernel-doc'')"
    "ns' ''kerneldoc_srctree'' = Some (PyStr ''..'')" "ns' ''kerneldoc_verbosity'' = None"
    using built_value [OF assms(1), of "''kerneldoc_bin''"] built_value [OF assms(1), of "''kerneldoc_srctree''"]
      built_value [OF assms(1), of "''kerneldoc_verbosity''"] assms(2)
    by (simp_all add: book_names_def file_key_def conf_kerneldoc conf_verbosity)
  let ?calls = "setup_calls other (extension_names ns')"
  define tree where "tree = (case made of Some srctree \<Rightarrow> srctree | None \<Rightarrow> ''..'')"
  let ?cfg = "\<lparr>kc_bin = tree @ ''/scripts/kernel-doc'', kc_srctree = tree, kc_verbosity = 1,
    kc_tab_width = tab_width, kc_cwd = here\<rparr>"
  have c: "cmdline ''kerneldoc_bin'' = (case made of Some srctree \<Rightarrow> Some (PyStr (srctree @ ''/scripts/kernel-doc'')) | None \<Rightarrow> None)"
    "cmdline ''kerneldoc_srctree'' = (case made of Some srctree \<Rightarrow> Some (PyStr srctree) | None \<Rightarrow> None)"
    using assms(4) by (simp_all add: kerneldoc_conf_def split: option.split)
  have "config_value ?calls cmdline ns' ''kerneldoc_bin'' = Some (PyStr (tree @ ''/scripts/kernel-doc''))"
    "config_value ?calls cmdline ns' ''kerneldoc_srctree'' = Some (PyStr tree)"
    "config_value ?calls cmdline ns' ''kerneldoc_verbosity'' = Some (PyObj (CInt 1))"
    by (cases made; simp add: config_value_def find kerneldoc_setup_def v c assms(3) tree_def)+
  then have "kd_config_of ?calls cmdline ns' tab_width here = Some ?cfg" by (simp add: kd_config_of_def)
  moreover have "kd_filename ?cfg arg = tree @ ''/'' @ arg" by (simp add: kd_filename_def)
  moreover have "export_paths x ?cfg ps = concat (List.map (\<lambda>p. kx_glob x (tree @ ''/'' @ p)) ps)" for ps
    by (simp add: export_paths_def)
  ultimately show ?thesis
    by (intro exI [of _ ?cfg] exI [of _ tree]) (simp add: kd_command_def kd_dependencies_def tree_def split_beta)
qed

theorem ext_kernel_doc_build_witness:
  "\<exists>ns' cfg. lc_ns (conf_py (1, 6, 3) None None (Some ''/doc/media/conf.py'') ''/doc'' (\<lambda>f. True)
        (exec_conf tag_example no_file ''/doc'') conf_example) = Inr ns'
     \<and> kd_config_of (setup_calls (\<lambda>m. []) (extension_names ns')) (kerneldoc_conf ''/src'') ns' 8 ''/doc'' = Some cfg
     \<and> kc_verbosity cfg = 1
     \<and> kd_command kd_x0 cfg kd_opts0 ''lib/a.c'' = [''/src/scripts/kernel-doc'', ''-rst'', ''-enable-lineno'', ''-export'',
          ''-export-file'', ''/src/drivers/*.c'', ''-export-file'', ''/src/lib/*.c'', ''/src/lib/a.c'']"
proof -
  have "case lc_ns (conf_py (1, 6, 3) None None (Some ''/doc/media/conf.py'') ''/doc'' (\<lambda>f. True)
        (exec_conf tag_example no_file ''/doc'') conf_example) of Inr m \<Rightarrow> True | Inl e \<Rightarrow> False"
    by code_simp
  then obtain ns' where r: "lc_ns (conf_py (1, 6, 3) None None (Some ''/doc/media/conf.py'') ''/doc'' (\<lambda>f. True)
        (exec_conf tag_example no_file ''/doc'') conf_example) = Inr ns'"
    by (auto split: sum.splits)
  have n: "conf_example ''kerneldoc_verbosity'' = None" by (simp add: conf_example_def file_key_def)
  have m: "(kerneldoc_conf ''/src'' :: string \<rightharpoonup> nat cval pyval) ''kerneldoc_verbosity'' = None"
    by (simp add: kerneldoc_conf_def)
  have k: "\<forall>k \<in> {''kerneldoc_bin'', ''kerneldoc_srctree''}. (kerneldoc_conf ''/src'' :: string \<rightharpoonup> nat cval pyval) k
      = (case Some ''/src'' of Some srctree \<Rightarrow> kerneldoc_conf srctree k | None \<Rightarrow> None)" by simp
  have s: "kd_select kd_opts0 = ([''-export''], [''drivers/*.c'', ''lib/*.c''])" by code_simp
  from ext_kernel_doc_build [OF r n m k, of "\<lambda>m. []" 8 "''/doc''" kd_x0 kd_opts0 "''lib/a.c''"] r
  show ?thesis by (auto simp: s kd_x0_def)
qed

text \<open>The context of the C domain in a build.\<close>

definition in_build :: "'x conf_space \<Rightarrow> cd_context \<Rightarrow> cd_context" where
  "in_build ns cx = cx\<lparr>cx_nitpicky := nitpicky_of ns, cx_nitpick_ignore := nitpick_ignore_of ns\<rparr>"

lemma nitpick_build_values:
  assumes "lc_ns (conf_py v makefile rtd (Some cf) cwd isfile (exec_conf add_tag no_file docs) ns) = Inr ns'"
    and "abspath cwd cf = docs @ ''/media/conf_nitpick.py''" and "isfile (abspath cwd cf)"
    and "ns file_key = Some (PyStr f)" and "normpath f \<noteq> normpath cf"
    and "k \<in> {''nitpicky'', ''nitpick_ignore''}"
  shows "ns' k = assign_all nitpick_values ns k"
proof -
  define ns0 where "ns0 = assign_all (conf_values v makefile rtd) ns"
  have "ns0 file_key = Some (PyStr f)" using assms(4) by (simp add: ns0_def conf_values_keep)
  then have m: "merge_config (exec_conf add_tag no_file docs) (abspath cwd cf) ns0 = Inr ns'"
    using assms(1,3,5) by (simp add: conf_py_def Let_def ns0_def [symmetric] load_config_def)
  have e: "exec_conf add_tag no_file docs (abspath cwd cf) m = Inr (assign_all nitpick_values m)" for m
    by (simp add: exec_conf_def assms(2))
  have "k \<noteq> file_key" using assms(6) by (auto simp: file_key_def)
  with merge_config_lookup [OF m, of k] e
  have "ns' k = (case assign_all nitpick_values (ns0(file_key \<mapsto> PyStr (abspath cwd cf))) k of None \<Rightarrow> ns0 k | Some v \<Rightarrow> Some v)"
    by (auto simp del: fun_upd_apply)
  moreover have "assign_all nitpick_values m k = assign_all nitpick_values ns k" and "assign_all nitpick_values m k \<noteq> None"
    for m :: "'a conf_space" and ns
    using assms(6) by (auto simp: nitpick_values_def)
  ultimately show ?thesis by (metis option.case_eq_if option.collapse)
qed

lemma nitpick_values_read:
  assumes "ns' ''nitpicky'' = assign_all nitpick_values ns ''nitpicky''"
    and "ns' ''nitpick_ignore'' = assign_all nitpick_values ns ''nitpick_ignore''"
  shows "nitpicky_of ns'" and "set (nitpick_ignore_of ns') = Pair ''c:func'' ` set ignored_functions \<union> Pair ''c:type'' ` set ignored_types"
proof -
  show "nitpicky_of ns'" using assms(1) by (simp add: nitpicky_of_def nitpick_values_def)
  have m: "List.map_filter pair_of (List.map (\<lambda>s. CTuple [CStr k, CStr s]) xs) = List.map (Pair k) xs" for k xs
    by (simp add: List.map_filter_def comp_def)
  have p: "List.map_filter pair_of (xs @ ys) = List.map_filter pair_of xs @ List.map_filter pair_of ys" for xs ys
    by (simp add: List.map_filter_def)
  show "set (nitpick_ignore_of ns') = Pair ''c:func'' ` set ignored_functions \<union> Pair ''c:type'' ` set ignored_types"
    using assms(2) by (simp add: nitpick_ignore_of_def nitpick_values_def m p)
qed

text \<open>
  C16. The nitpicky build of the media book: reported is exactly the first description in a document, under a target
  that was free, of a function which the inventory already holds from elsewhere and \<open>conf_nitpick.py\<close> does not list as a
  function; a later description in the same document is never reported, nor an object of another type.
\<close>

theorem conf_nitpick_duplicates:
  assumes "lc_ns (conf_py v makefile rtd (Some cf) cwd isfile (exec_conf add_tag no_file docs) ns) = Inr ns'"
    and "abspath cwd cf = docs @ ''/media/conf_nitpick.py''" and "isfile (abspath cwd cf)"
    and "ns file_key = Some (PyStr f)" and "normpath f \<noteq> normpath cf" and "notes_targets cx"
  shows "cd_warnings (describe_all (in_build ns' cx) ds st) = cd_warnings st @
     List.map (\<lambda>(t, name). duplicate_msg cx name (fst (the (cd_objects st name))))
       (List.filter (\<lambda>(t, name). t = ''function'' \<and> cd_objects st name \<noteq> None \<and> name \<notin> set ignored_functions)
         (firsts (cd_ids st) ds))"
proof -
  note v = nitpick_build_values [OF assms(1-5)]
  have n: "nitpicky_of ns'"
    "set (nitpick_ignore_of ns') = Pair ''c:func'' ` set ignored_functions \<union> Pair ''c:type'' ` set ignored_types"
    using nitpick_values_read [of ns' ns] v by blast+
  have t: "notes_targets (in_build ns' cx)" using assms(6) by (simp add: in_build_def notes_targets_def)
  have w: "warns_duplicate (in_build ns' cx) objs t name
      \<longleftrightarrow> t = ''function'' \<and> objs name \<noteq> None \<and> name \<notin> set ignored_functions" for objs t name
    using n by (auto simp: warns_duplicate_def in_build_def)
  have d: "duplicate_msg (in_build ns' cx) = duplicate_msg cx"
    by (simp add: duplicate_msg_def in_build_def fun_eq_iff)
  show ?thesis using describe_all_effect [OF t, of ds st] by (simp add: dup_warnings_def w d)
qed

definition nitpick_objects :: cd_state where
  "nitpick_objects = \<lparr>cd_ids = {}, cd_objects = [''open'' \<mapsto> (''a'', ''function''), ''v4l2_open'' \<mapsto> (''a'', ''function'')],
     cd_warnings = [], cd_entries = []\<rparr>"

theorem conf_nitpick_duplicates_witness:
  "\<exists>ns'. lc_ns (conf_py (1, 6, 3) None None (Some ''/doc/media/conf_nitpick.py'') ''/doc'' (\<lambda>f. True)
        (exec_conf tag_example no_file ''/doc'') conf_example) = Inr ns'
     \<and> cd_warnings (describe_all (in_build ns' cd_cx0) [(''function'', ''open''), (''function'', ''v4l2_open'')] nitpick_objects)
        = [duplicate_msg cd_cx0 ''v4l2_open'' ''a'']"
proof -
  have p: "abspath ''/doc'' ''/doc/media/conf_nitpick.py'' = ''/doc'' @ ''/media/conf_nitpick.py''" by code_simp
  have n: "normpath ''/doc/conf.py'' \<noteq> normpath ''/doc/media/conf_nitpick.py''" by code_simp
  have f: "conf_example file_key = Some (PyStr ''/doc/conf.py'')" by (simp add: conf_example_def file_key_def)
  have t: "notes_targets cd_cx0" by (simp add: notes_targets_def cd_cx0_def)
  have "case lc_ns (conf_py (1, 6, 3) None None (Some ''/doc/media/conf_nitpick.py'') ''/doc'' (\<lambda>f. True)
        (exec_conf tag_example no_file ''/doc'') conf_example) of Inr m \<Rightarrow> True | Inl e \<Rightarrow> False"
    by code_simp
  then obtain ns' where r: "lc_ns (conf_py (1, 6, 3) None None (Some ''/doc/media/conf_nitpick.py'') ''/doc'' (\<lambda>f. True)
        (exec_conf tag_example no_file ''/doc'') conf_example) = Inr ns'"
    by (auto split: sum.splits)
  have i: "''open'' \<in> set ignored_functions" "''v4l2_open'' \<notin> set ignored_functions" by code_simp+
  from conf_nitpick_duplicates [OF r p _ f n t, of "[(''function'', ''open''), (''function'', ''v4l2_open'')]" nitpick_objects]
  show ?thesis using r i by (simp add: nitpick_objects_def)
qed

end
