(* ===== verification/ShellTools.thy ===== *)
theory ShellTools
  imports PyRepr
begin

text \<open>
  The two scripts of \<open>src/language/python\<close> that run a command and print its output, \<open>demanling/demangle.py\<close>
  and \<open>execute_shell_command/execute_shell_command.py\<close>. The shell is a parameter \<open>sh\<close>: from a command to what
  the command writes to its standard output. What is theirs is the command they build, the lines they take of
  the output, and the text Python 2 prints.
\<close>

section \<open>The print statement\<close>

text \<open>
  \<open>print a, b, ...\<close>: a blank comes before an item unless the text before it ends in white space other than a
  blank, and the statement ends in a line break.
\<close>

fun print_items :: "string list \<Rightarrow> string" where
  "print_items [] = [CHR 0x0A]"
| "print_items [s] = s @ [CHR 0x0A]"
| "print_items (s # t # ss) = s @ (if blank_after s then [CHR '' ''] else []) @ print_items (t # ss)"

section \<open>The scripts\<close>

definition demangle :: "(string \<Rightarrow> string) \<Rightarrow> string \<Rightarrow> string" where
  "demangle sh name =
     (let demangled = hd (py_split (CHR 0x0A) (sh (''echo '' @ name @ '' | c++filt''))) in
      print_items [''mangled symbol: '', name] @ print_items [''demangled symbol: '', demangled])"

definition demangle_script :: "(string \<Rightarrow> string) \<Rightarrow> string" where
  "demangle_script sh = demangle sh ''_Z3bari''"

definition execute_shell_command :: "(string \<Rightarrow> string) \<Rightarrow> string list \<Rightarrow> string res" where
  "execute_shell_command sh argv =
     (if length argv = 1 then Inr (print_items [''Usage:''] @ print_items [''$ python '', argv ! 0, '' COMMAND''])
      else if length argv = 0 then Inl IndexError
      else Inr (print_items [list_repr (py_split (CHR 0x0A) (sh (argv ! 1)))]))"

section \<open>Lemmas\<close>

text \<open>The first line of the output, whatever follows it.\<close>

lemma hd_py_split: "hd (py_split c s) = takeWhile (\<lambda>x. x \<noteq> c) s"
proof (induction s)
  case (Cons x s)
  then show ?case using py_split_nonempty [of c s] by (cases "py_split c s") auto
qed simp

lemma demangle_two_lines:
  assumes "CHR 0x0A \<notin> set name"
  shows "py_split (CHR 0x0A) (demangle sh name) =
    [''mangled symbol:  '' @ name,
     ''demangled symbol:  '' @ takeWhile (\<lambda>x. x \<noteq> CHR 0x0A) (sh (''echo '' @ name @ '' | c++filt'')), []]"
proof -
  have split: "py_split (CHR 0x0A) ((w @ [CHR 0x0A]) @ (v @ [CHR 0x0A])) = [w, v, []]"
    if "CHR 0x0A \<notin> set w" "CHR 0x0A \<notin> set v" for w v
    using that py_split_append [OF that(1)] py_split_append [OF that(2), of "[]"] by simp
  let ?d = "takeWhile (\<lambda>x. x \<noteq> CHR 0x0A) (sh (''echo '' @ name @ '' | c++filt''))"
  have "CHR 0x0A \<notin> set ?d" by (auto dest: set_takeWhileD)
  then show ?thesis
    using assms split [of "''mangled symbol:  '' @ name" "''demangled symbol:  '' @ ?d"]
    by (simp add: demangle_def hd_py_split blank_after_def)
qed

text \<open>The output is printed as one line of printable characters.\<close>

lemma command_output_one_line:
  "\<exists>s. execute_shell_command sh (p # command # rest) = Inr (s @ [CHR 0x0A]) \<and> list_all printable s"
  by (auto simp: execute_shell_command_def list_repr_printable)

end
