(* ===== verification/Spec2Isabelle.thy ===== *)
theory Spec2Isabelle
  imports FlatTableProps CxacruCf DecodeMsr LoadConfig KernelInclude KernelDoc CDomain KFigureTools KFigureRender
    FlatTableLoops FlatTablePrint TcmSession TcmScan ConfProps Extensions ShellTools
begin

text \<open>
  The Python programs of the kernel documentation under \<open>src/translate/kerneldoc/Documentation\<close> (the paths
  below are relative to it), modelled from their sources, and the theorems that state what they do.

  \<^bold>\<open>The program.\<close> A documentation build runs Sphinx with \<open>conf.py\<close>, which assembles the configuration
  and at its end lets \<open>sphinx/load_config.py\<close> load the file of one book over it. Sphinx then reads the
  documents, in which five extensions are used: \<open>sphinx/rstFlatTable.py\<close> (tables written as two-level
  lists), \<open>sphinx/kernel_include.py\<close> (inclusion of files), \<open>sphinx/kerneldoc.py\<close> (comments extracted by a
  script), \<open>sphinx/cdomain.py\<close> (descriptions of C objects) and \<open>sphinx/kfigure.py\<close> (figures converted for the
  output format). Three scripts stand beside it: \<open>target/tcm_mod_builder.py\<close> (writes the sources of a fabric
  module), \<open>networking/cxacru-cf.py\<close> and \<open>trace/postprocess/decode_msr.py\<close> (filters). Apart from them, \<open>src/language/python\<close> has two scripts that run a command.

  \<^bold>\<open>The shared theories.\<close> \<open>PyPrelude\<close> holds exceptions as values (\<open>res\<close>, the sum of an exception and a
  result), strings and lists as Python has them (slices, \<open>find\<close>, \<open>split\<close>, \<open>strip\<close>, \<open>replace\<close>) and their
  laws; \<open>PyNumbers\<close> numerals, through the locale \<open>positional\<close>; \<open>PyRepr\<close> the representation of strings;
  \<open>PosixPath\<close> the path functions of the
  standard library; \<open>DocTree\<close> the trees of docutils nodes; \<open>FileStore\<close> the files with change times and a
  clock, through the locale \<open>file_store\<close>.

  \<^bold>\<open>The components.\<close>
  \<^item> \<open>FlatTable\<close> models \<open>rstFlatTable.py\<close>: the span roles, the parser (\<open>parseFlatTableNode\<close> and the row and
    cell items), \<open>roundOffTableDefinition\<close> over rows of reserved and filled slots (the locale
    \<open>slot_inserter\<close> is what it needs of \<open>list.insert\<close>), and \<open>buildTableNode\<close>. \<open>FlatTableGrid\<close> counts columns
    and shows what the rounding off guarantees, \<open>FlatTableParse\<close> what the parser accepts; the properties are
    in \<open>FlatTableProps\<close>: how far the rows of the output fill the columns (exactly, unless a last cell was widened
    over a row span), no cell is lost, which inputs are rejected, and where the code fails (adjacent span roles,
    automatic spans over row spans). \<open>FlatTableLoops\<close> has the two nested
    \<open>while\<close> loops of the rounding off as they are written and shows that they end and compute the recursion;
    \<open>FlatTablePrint\<close> is the debugging printer and when it fails.
  \<^item> \<open>KernelInclude\<close> models \<open>KernelInclude.run\<close> and \<open>_run\<close>: a resolved, checked and canonical path is the only one
    recorded, inserted or opened, but a line break in the argument hides a prohibited path from the check; the
    selected text; which errors are messages and which are passed on as they were raised.
  \<^item> \<open>KernelDoc\<close> models \<open>KernelDocDirective.run\<close>: the command built from the options, the lines numbered by
    the announcements in the output, the nested parse with the parser's memo restored, the outcome of each
    run, and the one exception that leaves the directive (\<open>str()\<close> of an option, in Python 2).
  \<^item> \<open>CDomain\<close> models \<open>handle_func_like_macro\<close>, \<open>handle_signature\<close>, \<open>add_target_and_index\<close> and
    \<open>get_index_text\<close>'s use: the inventory after a document, the warnings for duplicates, the signatures of
    macros.
  \<^item> \<open>KFigure\<close> models the conversion in \<open>kfigure.py\<close> (\<open>setupTools\<close>, \<open>isNewer\<close>, \<open>dot2format\<close>, \<open>svg2pdf\<close>,
    \<open>convert_image\<close> and the visitors) on the store; \<open>KFigureBuild\<close> makes it a step relation with edits and
    the passing of time and proves the invariant that an output newer than its source was made from it, with
    the two ways the code breaks what is assumed (a failed \<open>dot\<close>, images of one name); \<open>KFigureSpec\<close> states
    the promise without outputs and times as an abstract machine, proves that every trace of the builds is
    one of it, and that a build settles. Of the tools only one thing is assumed, and only where it is stated:
    that \<open>convert\<close> has written the output when it returns zero. \<open>dot\<close> and \<open>convert\<close> may fail on any content, leave
    an output or none, or not be executable, for which the visit of the figure ends with an exception. \<open>KFigureDoc\<close> models the three directives and the labels of figures.
    \<open>KFigureTools\<close> compares the check of the toolchain with a search of the path and shows what a build does
    without a tool. \<open>KFigureRender\<close> interleaves the builds with the visits of \<open>kernel-render\<close> nodes, which save
    their markup in files of their own, and extends the invariant to pages with both.
  \<^item> \<open>TcmText\<close>, \<open>TcmBuild\<close> model \<open>tcm_mod_builder.py\<close>: the generated texts, literal by literal, and each
    function as an operation on the files, the global variables, the printed lines and the answers to come.
    \<open>TcmProps\<close> has one lemma per operation for what it writes and one for when it ends normally; \<open>TcmLink\<close>
    the properties: a run on a kernel tree ends and leaves exactly the described files, rejected runs change
    none, and every function the generated operations structure names is defined and declared, line by line. \<open>TcmSession\<close> runs the
    script for several modules on one tree and shows that the runs do not disturb each other. \<open>TcmScan\<close> has the \<open>while\<close> loop
    of the scan over the open file, its end and what it keeps.
  \<^item> \<open>ConfText\<close>, \<open>ConfPy\<close> model \<open>conf.py\<close>: every assignment for a version of Sphinx, the reading of the
    \<open>Makefile\<close>, and the call of \<open>load_config\<close> (\<open>LoadConfig\<close>). \<open>ConfBooks\<close> has the files of the books and
    \<open>media/conf_nitpick.py\<close> and the composition: the configuration of a build for one book. \<open>ConfProps\<close>
    compares the version read with a specification on assignments. \<open>ConfTypes\<close> shows that the file of a book
    leaves every value \<open>conf.py\<close> sets in its shape and that the documents listed are tuples of the length the
    builders take, through the locales \<open>conf_reader\<close> and \<open>typed_reader\<close> of \<open>LoadConfig\<close>, which say what a loaded
    file may do and are interpreted on the books.
  \<^item> \<open>Extensions\<close> models the \<open>setup\<close> functions as the calls they make, and composes the configuration with the
    extensions that read it: the \<open>kernel-doc\<close> directive as a build of any book configures it, by \<open>Documentation/Makefile\<close>,
    whose command line overrides two values, or by Sphinx alone, and the warnings of the C domain in the nitpicky build of the media book.
  \<^item> \<open>CxacruCf\<close> and \<open>DecodeMsr\<close> model the two filters as functions from their input to their output:
    the values read back as the documentation says (in hexadecimal) exactly where they are below ten, every input
    converted, no character of a trace lost. \<open>ShellTools\<close> models the two
    scripts that run a command.

  \<^bold>\<open>Bounds and termination.\<close> No fuel is used. Loops are structural recursions over the lines, bytes or nodes
  they consume, or have a measure (\<open>py_replace\<close>, \<open>expandvars\<close>, \<open>fs_makedirs\<close>, \<open>ro_row\<close>); the \<open>while\<close>
  loops whose end is not apparent, over rows that grow and over a file, are also stated with \<open>while_option\<close> and
  shown to return; machine integers occur in
  \<open>cxacru-cf.py\<close> only, as 32-bit words. Characters are bytes, as in the Python 2 strings of the sources.

  \<^bold>\<open>Parameters.\<close> Code that is not in the repository is an argument: docutils' and Sphinx' parsers, base
  classes and objects, the programs that are run, the resolving of links, the decoding of bytes. Paths of a
  store are compared as they are written, so a path with a doubled slash or with dots is a file of its own;
  the statements on \<open>tcm_mod_builder.py\<close> speak of the paths the script writes. In \<open>load_config.py\<close> objects
  shared by the copy of the name space are values; no modelled file changes one in place, but for the tags,
  whose new value is what the name space holds in the end.

  \<^bold>\<open>Not modelled.\<close> What Sphinx and docutils do with the classes, roles and events they are handed, and the
  imports that differ between versions of Python and Sphinx, but for the base class of \<open>KernelFigure\<close>. The
  parsing of the command lines is the library's (\<open>optparse\<close>). The calls of \<open>tcm_mod_err\<close> in
  \<open>tcm_mod_builder.py\<close> test results that are never true, so they do not occur in the model. The rest of the
  repository is not Python: texts, C and shell examples.
\<close>

end
